(* ===== verification/Prelude.thy ===== *)
theory Prelude
  imports Main "HOL-Library.Word" "HOL-Library.Sublist"
begin

text \<open>
  What every component shares: Go's machine integers and byte strings, the error values of the
  program (as one datatype, with their messages, \<^verbatim>\<open>errors.Is\<close> and unwrapping), the string
  functions of the standard library the source calls (\<^verbatim>\<open>strings.Contains\<close>, \<^verbatim>\<open>strings.Join\<close>,
  \<^verbatim>\<open>strconv.Itoa\<close>, \<^verbatim>\<open>strconv.ParseUint\<close>, \<^verbatim>\<open>encoding/hex\<close>), and the generic lemmas on
  lists and words the component proofs use. A Go function that returns \<open>(T, error)\<close> is a
  function into \<open>go_error + T\<close>; an operation that changes state returns the new state beside
  its result.
\<close>

named_theorems go_simps \<open>equations that evaluate the library functions\<close>

subsection \<open>Machine integers\<close>

type_synonym byte = "8 word"
type_synonym bytes = "byte list"
type_synonym uint32 = "32 word"
type_synonym uint64 = "64 word"

text \<open>
  Go's \<^verbatim>\<open>int\<close> and \<^verbatim>\<open>int64\<close> (64 bits) are values of type \<open>int\<close>; wherever the source
  computes with them the result is brought back into range by \<open>wrap_int\<close>.
\<close>

definition wrap_int :: "int \<Rightarrow> int" where
  "wrap_int x = (x + 2 ^ 63) mod 2 ^ 64 - 2 ^ 63"

definition int_range :: "int \<Rightarrow> bool" where
  "int_range x \<longleftrightarrow> - (2 ^ 63) \<le> x \<and> x < 2 ^ 63"

definition max_int :: int where
  "max_int = 2 ^ 63 - 1"

text \<open>The conversions \<^verbatim>\<open>int(x)\<close> of an \<^verbatim>\<open>uint64\<close> and \<^verbatim>\<open>uint64(x)\<close> of an \<^verbatim>\<open>int\<close>.\<close>

definition int_of_u64 :: "uint64 \<Rightarrow> int" where
  "int_of_u64 w = (if uint w < 2 ^ 63 then uint w else uint w - 2 ^ 64)"

definition u64_of_int :: "int \<Rightarrow> uint64" where
  "u64_of_int x = word_of_int x"

lemma wrap_int_id [simp]: "int_range x \<Longrightarrow> wrap_int x = x"
  by (simp add: wrap_int_def int_range_def)

lemma wrap_int_range [simp]: "int_range (wrap_int x)"
  using pos_mod_bound [of "2 ^ 64" "x + 2 ^ 63"] pos_mod_sign [of "2 ^ 64" "x + 2 ^ 63"]
  by (simp add: wrap_int_def int_range_def)

lemma uint_u64_of_int: "0 \<le> x \<Longrightarrow> x < 2 ^ 64 \<Longrightarrow> uint (u64_of_int x) = x"
  by (simp add: u64_of_int_def uint_word_of_int)

lemma int_of_u64_small: "uint w < 2 ^ 63 \<Longrightarrow> int_of_u64 w = uint w"
  by (simp add: int_of_u64_def)

lemma int_of_u64_range: "int_range (int_of_u64 w)"
  using uint_lt2p [of w] uint_ge_0 [of w] unfolding int_of_u64_def int_range_def by (auto; linarith)

lemma int_of_u64_sub_small:
  fixes a b :: uint64
  assumes "b \<le> a" and "uint a - uint b < 2 ^ 63"
  shows "int_of_u64 (a - b) = uint a - uint b"
proof -
  have "uint (a - b) = uint a - uint b"
    using assms(1) by (simp add: uint_minus_simple_alt word_le_def)
  then show ?thesis using assms(2) by (simp add: int_of_u64_def)
qed

lemma int_of_u64_sub_neg:
  fixes a b :: uint64
  assumes "a < b" and "uint b - uint a \<le> 2 ^ 63"
  shows "int_of_u64 (a - b) = uint a - uint b"
proof -
  have ab: "uint a < uint b" using assms(1) by (simp add: word_less_def)
  have "uint (a - b) = (uint a - uint b) mod 2 ^ 64"
    by (simp add: uint_word_ariths)
  also have "\<dots> = (uint a - uint b + 2 ^ 64) mod 2 ^ 64" by simp
  also have "\<dots> = uint a - uint b + 2 ^ 64"
    using ab uint_lt2p [of b] uint_ge_0 [of a] by (intro mod_pos_pos_trivial; simp; linarith)
  finally show ?thesis using assms(2) ab by (simp add: int_of_u64_def)
qed

subsection \<open>Errors\<close>

text \<open>
  An error value: a message made on the spot, a package-level error variable (identified by its
  text), an error wrapped with a message, two errors joined by \<^verbatim>\<open>%w: %w\<close>, the marker of the
  retry library, the sequence error of \<^verbatim>\<open>chain/client.go\<close>, and the two errors of the context
  package.
\<close>

datatype go_error =
    Msg string
  | Sentinel string
  | Wrap string go_error
  | Joined go_error go_error
  | Unrecoverable go_error
  | SequenceError uint64 string
  | Canceled
  | DeadlineExceeded

fun error_text :: "go_error \<Rightarrow> string" where
  "error_text (Msg s) = s"
| "error_text (Sentinel s) = s"
| "error_text (Wrap s e) = s @ '': '' @ error_text e"
| "error_text (Joined a b) = error_text a @ '': '' @ error_text b"
| "error_text (Unrecoverable e) = error_text e"
| "error_text (SequenceError n s) = s"
| "error_text Canceled = ''context canceled''"
| "error_text DeadlineExceeded = ''context deadline exceeded''"

text \<open>\<^verbatim>\<open>errors.Is\<close>: the error or one it wraps is the given one.\<close>

fun errors_is :: "go_error \<Rightarrow> go_error \<Rightarrow> bool" where
  "errors_is (Wrap s e) t \<longleftrightarrow> Wrap s e = t \<or> errors_is e t"
| "errors_is (Joined a b) t \<longleftrightarrow> Joined a b = t \<or> errors_is a t \<or> errors_is b t"
| "errors_is (Unrecoverable e) t \<longleftrightarrow> Unrecoverable e = t \<or> errors_is e t"
| "errors_is e t \<longleftrightarrow> e = t"

type_synonym 'a go = "go_error + 'a"

definition wrap_err :: "string \<Rightarrow> 'a go \<Rightarrow> 'a go" where
  "wrap_err s r = (case r of Inl e \<Rightarrow> Inl (Wrap s e) | Inr x \<Rightarrow> Inr x)"

lemma wrap_err_simps [simp]:
  "wrap_err s (Inl e) = Inl (Wrap s e)" "wrap_err s (Inr x) = Inr x"
  by (simp_all add: wrap_err_def)

lemma wrap_err_eq_Inr [simp]: "wrap_err s r = Inr x \<longleftrightarrow> r = Inr x"
  by (cases r) auto

text \<open>
  A function that may panic: \<^verbatim>\<open>orPanic\<close> turns an error into a panic, which nothing in the
  program recovers (the \<^verbatim>\<open>catcher\<close> of the workers logs it and ends the process).
\<close>

datatype 'a res = Ret 'a | Panic go_error

definition orPanic :: "'a go \<Rightarrow> 'a res" where
  "orPanic r = (case r of Inl e \<Rightarrow> Panic e | Inr x \<Rightarrow> Ret x)"

definition index_panic :: "'a res" where
  "index_panic = Panic (Msg ''runtime error: index out of range'')"

fun res_bind :: "'a res \<Rightarrow> ('a \<Rightarrow> 'b res) \<Rightarrow> 'b res" where
  "res_bind (Ret x) f = f x"
| "res_bind (Panic e) f = Panic e"

fun go_bind :: "'a go \<Rightarrow> ('a \<Rightarrow> 'b go) \<Rightarrow> 'b go" where
  "go_bind (Inr x) f = f x"
| "go_bind (Inl e) f = Inl e"

lemma orPanic_simps [simp]: "orPanic (Inl e) = Panic e" "orPanic (Inr x) = Ret x"
  by (simp_all add: orPanic_def)

lemma orPanic_eq_Ret [simp]: "orPanic r = Ret x \<longleftrightarrow> r = Inr x"
  by (cases r) auto

lemma res_bind_eq_Ret [simp]: "res_bind r f = Ret y \<longleftrightarrow> (\<exists>x. r = Ret x \<and> f x = Ret y)"
  by (cases r) auto

text \<open>The shape of every checked call, \<^verbatim>\<open>if err != nil { return err }\<close>, seen from a success.\<close>

lemma case_go_Inr [simp]:
  "(case r of Inl e \<Rightarrow> Inl (f e) | Inr x \<Rightarrow> g x) = Inr t \<longleftrightarrow> (\<exists>x. r = Inr x \<and> g x = Inr t)"
  by (cases r) auto

lemma case_go_Ret_Inr [simp]:
  "(case r of Inl e \<Rightarrow> Ret (Inl (f e)) | Inr x \<Rightarrow> g x) = Ret (Inr t) \<longleftrightarrow> (\<exists>x. r = Inr x \<and> g x = Ret (Inr t))"
  by (cases r) auto

lemma go_bind_eq_Inr [simp]: "go_bind r f = Inr y \<longleftrightarrow> (\<exists>x. r = Inr x \<and> f x = Inr y)"
  by (cases r) auto

lemma go_bind_eq_Inl: "go_bind r f = Inl e \<longleftrightarrow> r = Inl e \<or> (\<exists>x. r = Inr x \<and> f x = Inl e)"
  by (cases r) auto

text \<open>
  Marks of the messages: the cross mark and the warning sign of the source, in UTF-8.
\<close>

definition cross_mark :: string where
  "cross_mark = [CHR 0xE2, CHR 0x9D, CHR 0x8C, CHR '' '']"

definition warning_sign :: string where
  "warning_sign = [CHR 0xE2, CHR 0x9A, CHR 0xA0, CHR 0xEF, CHR 0xB8, CHR 0x8F, CHR '' '']"

subsection \<open>Strings\<close>

text \<open>\<^verbatim>\<open>strings.Contains\<close>, \<^verbatim>\<open>strings.HasPrefix\<close>, \<^verbatim>\<open>strings.TrimPrefix\<close>, \<^verbatim>\<open>strings.Join\<close>.\<close>

fun strip_prefix :: "'a list \<Rightarrow> 'a list \<Rightarrow> 'a list option" where
  "strip_prefix [] ys = Some ys"
| "strip_prefix (x # xs) [] = None"
| "strip_prefix (x # xs) (y # ys) = (if x = y then strip_prefix xs ys else None)"

fun str_contains :: "string \<Rightarrow> string \<Rightarrow> bool" where
  "str_contains [] p \<longleftrightarrow> p = []"
| "str_contains (c # s) p \<longleftrightarrow> strip_prefix p (c # s) \<noteq> None \<or> str_contains s p"

fun str_join :: "string \<Rightarrow> string list \<Rightarrow> string" where
  "str_join sep [] = []"
| "str_join sep [x] = x"
| "str_join sep (x # y # xs) = x @ sep @ str_join sep (y # xs)"

lemma strip_prefix_eq_Some: "strip_prefix p s = Some r \<longleftrightarrow> s = p @ r"
  by (induction p s rule: strip_prefix.induct) auto

lemma strip_prefix_append [simp]: "strip_prefix p (p @ r) = Some r"
  by (simp add: strip_prefix_eq_Some)

lemma strip_prefix_neq_None: "strip_prefix p s \<noteq> None \<longleftrightarrow> prefix p s"
  by (auto simp: strip_prefix_eq_Some prefix_def)

lemma str_contains_iff: "str_contains s p \<longleftrightarrow> sublist p s"
proof (induction s)
  case (Cons c s)
  then show ?case
    by (auto simp: strip_prefix_neq_None [unfolded not_None_eq] sublist_Cons_right)
qed (auto)

lemma str_contains_append [intro]:
  "str_contains s p \<Longrightarrow> str_contains (s @ t) p" "str_contains s p \<Longrightarrow> str_contains (t @ s) p"
  by (auto simp: str_contains_iff sublist_def) (metis append.assoc)+

subsection \<open>Decimal numbers\<close>

text \<open>\<^verbatim>\<open>strconv.Itoa\<close> (and \<^verbatim>\<open>%d\<close>) and \<^verbatim>\<open>strconv.ParseUint(s, 10, 64)\<close>.\<close>

definition digit_char :: "nat \<Rightarrow> char" where
  "digit_char d = char_of (48 + d)"

definition is_digit :: "char \<Rightarrow> bool" where
  "is_digit c \<longleftrightarrow> 48 \<le> (of_char c :: nat) \<and> (of_char c :: nat) \<le> 57"

definition digit_val :: "char \<Rightarrow> nat" where
  "digit_val c = of_char c - 48"

fun show_nat :: "nat \<Rightarrow> string" where
  "show_nat n = (if n < 10 then [digit_char n] else show_nat (n div 10) @ [digit_char (n mod 10)])"

declare show_nat.simps [simp del]

definition itoa :: "int \<Rightarrow> string" where
  "itoa i = (if i < 0 then CHR ''-'' # show_nat (nat (- i)) else show_nat (nat i))"

definition digits_val :: "string \<Rightarrow> nat" where
  "digits_val s = foldl (\<lambda>a c. 10 * a + digit_val c) 0 s"

definition parse_uint :: "string \<Rightarrow> uint64 go" where
  "parse_uint s =
     (if s = [] \<or> \<not> list_all is_digit s
      then Inl (Msg (''strconv.ParseUint: parsing '' @ s @ '': invalid syntax''))
      else if 2 ^ 64 \<le> digits_val s
      then Inl (Msg (''strconv.ParseUint: parsing '' @ s @ '': value out of range''))
      else Inr (of_nat (digits_val s)))"

lemma digit_char_props [simp]:
  assumes "d < 10"
  shows "is_digit (digit_char d)" and "digit_val (digit_char d) = d"
  using assms by (simp_all add: is_digit_def digit_val_def digit_char_def)

lemma digit_char_simps [go_simps]:
  "digit_char 0 = CHR ''0''" "digit_char (Suc 0) = CHR ''1''" "digit_char 1 = CHR ''1''" "digit_char 2 = CHR ''2''"
  "digit_char 3 = CHR ''3''" "digit_char 4 = CHR ''4''" "digit_char 5 = CHR ''5''"
  "digit_char 6 = CHR ''6''" "digit_char 7 = CHR ''7''" "digit_char 8 = CHR ''8''"
  "digit_char 9 = CHR ''9''"
  by (code_simp)+

declare show_nat.simps [go_simps]

lemma show_nat_nonempty [simp]: "show_nat n \<noteq> []"
  by (subst show_nat.simps) simp

lemma show_nat_digits [simp]: "list_all is_digit (show_nat n)"
proof (induction n rule: show_nat.induct)
  case (1 n)
  then show ?case by (subst show_nat.simps) simp
qed

lemma digits_val_snoc [simp]: "digits_val (s @ [c]) = 10 * digits_val s + digit_val c"
  by (simp add: digits_val_def)

lemma digits_val_show_nat [simp]: "digits_val (show_nat n) = n"
proof (induction n rule: show_nat.induct)
  case (1 n)
  show ?case
  proof (cases "n < 10")
    case True
    then show ?thesis by (subst show_nat.simps) (simp add: digits_val_def)
  next
    case False
    with 1 show ?thesis by (subst show_nat.simps) simp
  qed
qed

lemma parse_uint_show_nat: "n < 2 ^ 64 \<Longrightarrow> parse_uint (show_nat n) = Inr (of_nat n)"
  by (simp add: parse_uint_def)

lemma show_nat_inj: "show_nat m = show_nat n \<longleftrightarrow> m = n"
  by (metis digits_val_show_nat)

lemma show_nat_free: "\<not> is_digit c \<Longrightarrow> c \<notin> set (show_nat n)"
  using show_nat_digits [of n] by (auto simp: list_all_iff)

lemma itoa_inj: "itoa i = itoa j \<longleftrightarrow> i = j"
proof -
  have "show_nat n \<noteq> CHR ''-'' # r" for n r
    using show_nat_free [of "CHR ''-''" n] by (auto simp: is_digit_def)
  then show ?thesis by (auto simp: itoa_def show_nat_inj eq_commute [of "CHR ''-'' # _"])
qed

lemma itoa_nonneg: "0 \<le> i \<Longrightarrow> itoa i = show_nat (nat i)"
  by (simp add: itoa_def)

text \<open>The longest prefix of digits, as \<^verbatim>\<open>\\d+\<close> of the regular expressions matches it.\<close>

definition span_digits :: "string \<Rightarrow> string \<times> string" where
  "span_digits s = (takeWhile is_digit s, dropWhile is_digit s)"

lemma span_digits_show_nat:
  assumes "r = [] \<or> \<not> is_digit (hd r)"
  shows "span_digits (show_nat n @ r) = (show_nat n, r)"
proof -
  have all: "\<And>c. c \<in> set (show_nat n) \<Longrightarrow> is_digit c"
    using show_nat_digits [of n] by (simp add: list_all_iff)
  have "takeWhile is_digit r = []" "dropWhile is_digit r = r"
    using assms by (cases r; simp)+
  then show ?thesis using all by (simp add: span_digits_def takeWhile_append2 dropWhile_append2)
qed

subsection \<open>Hexadecimal\<close>

text \<open>\<^verbatim>\<open>hex.EncodeToString\<close> and \<^verbatim>\<open>hex.DecodeString\<close> (lower and upper case digits).\<close>

definition hex_digit :: "nat \<Rightarrow> char" where
  "hex_digit d = (if d < 10 then char_of (48 + d) else char_of (87 + d))"

definition hex_val :: "char \<Rightarrow> nat option" where
  "hex_val c = (let n = (of_char c :: nat) in
     if 48 \<le> n \<and> n \<le> 57 then Some (n - 48)
     else if 97 \<le> n \<and> n \<le> 102 then Some (n - 87)
     else if 65 \<le> n \<and> n \<le> 70 then Some (n - 55) else None)"

definition hex_byte :: "byte \<Rightarrow> string" where
  "hex_byte b = [hex_digit (unat b div 16), hex_digit (unat b mod 16)]"

definition hex_encode :: "bytes \<Rightarrow> string" where
  "hex_encode bs = concat (map hex_byte bs)"

fun hex_decode :: "string \<Rightarrow> bytes go" where
  "hex_decode [] = Inr []"
| "hex_decode [c] = (case hex_val c of
     None \<Rightarrow> Inl (Msg (''encoding/hex: invalid byte: '' @ [c]))
   | Some _ \<Rightarrow> Inl (Sentinel ''encoding/hex: odd length hex string''))"
| "hex_decode (c # d # s) = (case hex_val c of
     None \<Rightarrow> Inl (Msg (''encoding/hex: invalid byte: '' @ [c]))
   | Some h \<Rightarrow> (case hex_val d of
       None \<Rightarrow> Inl (Msg (''encoding/hex: invalid byte: '' @ [d]))
     | Some l \<Rightarrow> (case hex_decode s of
         Inl e \<Rightarrow> Inl e
       | Inr bs \<Rightarrow> Inr (of_nat (16 * h + l) # bs))))"

lemma hex_val_digit [simp]: "d < 16 \<Longrightarrow> hex_val (hex_digit d) = Some d"
  by (auto simp: hex_val_def hex_digit_def Let_def)

lemma hex_decode_byte: "hex_decode (hex_byte b @ s) = map_sum id ((#) b) (hex_decode s)"
proof -
  have "unat b < 2 ^ LENGTH(8)" by (rule unsigned_less)
  then have "unat b div 16 < 16" by simp
  moreover have "(of_nat (16 * (unat b div 16) + unat b mod 16) :: byte) = b"
    by (simp only: mult_div_mod_eq) simp
  ultimately show ?thesis
    by (simp add: hex_byte_def del: of_nat_add of_nat_mult split: sum.split)
qed

lemma hex_roundtrip: "hex_decode (hex_encode bs) = Inr bs"
  by (induction bs) (simp_all add: hex_encode_def hex_decode_byte)

lemma length_hex_encode [simp]: "length (hex_encode bs) = 2 * length bs"
  by (induction bs) (simp_all add: hex_encode_def hex_byte_def)

text \<open>The verb \<^verbatim>\<open>%x\<close> of a number, padding on the left (\<^verbatim>\<open>%0nx\<close>), and \<^verbatim>\<open>%q\<close> of ASCII text.\<close>

fun show_hex :: "nat \<Rightarrow> string" where
  "show_hex n = (if n < 16 then [hex_digit n] else show_hex (n div 16) @ [hex_digit (n mod 16)])"

declare show_hex.simps [simp del]

definition pad_left :: "nat \<Rightarrow> char \<Rightarrow> string \<Rightarrow> string" where
  "pad_left n c s = replicate (n - length s) c @ s"

definition go_quote :: "string \<Rightarrow> string" where
  "go_quote s = [CHR 0x22] @ concat (map (\<lambda>c. if c = CHR 0x22 \<or> c = CHR 0x5C then [CHR 0x5C, c] else [c]) s)
     @ [CHR 0x22]"

subsection \<open>Options and lists\<close>

text \<open>A Go slice read, \<open>None\<close> where it panics with an index out of range.\<close>

definition go_index :: "'a list \<Rightarrow> int \<Rightarrow> 'a option" where
  "go_index xs i = (if 0 \<le> i \<and> i < int (length xs) then Some (xs ! nat i) else None)"

lemma go_index_nat [simp]: "i < length xs \<Longrightarrow> go_index xs (int i) = Some (xs ! i)"
  by (simp add: go_index_def)

lemma go_index_eq_Some: "go_index xs i = Some x \<Longrightarrow> x \<in> set xs"
  by (auto simp: go_index_def split: if_splits)

lemma go_index_None: "go_index xs i = None \<longleftrightarrow> i < 0 \<or> int (length xs) \<le> i"
  by (auto simp: go_index_def)

subsection \<open>Association lists\<close>

lemma map_of_rev_distinct: "distinct (map fst kvs) \<Longrightarrow> map_of (rev kvs) = map_of kvs"
  by (simp add: map_of_inject_set rev_map [symmetric])

end
