(* ===== verification/Chain_Types.thy ===== *)
theory Chain_Types
  imports Prelude
begin

text \<open>
  The data of the package \<^verbatim>\<open>chain\<close>: the ports of a node (\<^verbatim>\<open>chain/types.go\<close>, with the
  defaults of \<^verbatim>\<open>chain/init.go\<close>), the default denomination, keys and accounts (\<^verbatim>\<open>chain/key.go\<close>). The elliptic-curve
  library behind the keys and the bech32 encoding are fields of \<open>key_lib\<close>, a parameter of
  everything that uses a key.
\<close>

record Ports =
  RPC :: int
  P2P :: int
  API :: int
  GRPC :: int
  GRPCWeb :: int
  PProf :: int
  Prometheus :: int
  EVMRPC :: int
  EVMWSPort :: int
  ProxyApp :: int

definition DefaultPorts :: Ports where
  "DefaultPorts = \<lparr> RPC = 26657, P2P = 26656, API = 10337, GRPC = 9900, GRPCWeb = 9091,
     PProf = 6060, Prometheus = 26660, EVMRPC = 8545, EVMWSPort = 8546, ProxyApp = 26658 \<rparr>"

definition DefaultBondDenom :: string where
  "DefaultBondDenom = ''inj''"

type_synonym Secp256k1PrivateKey = bytes
type_synonym Secp256k1PublicKey = bytes

record Account =
  Name :: string
  Key :: Secp256k1PrivateKey
  Number :: uint64
  Sequence :: uint64

text \<open>
  The library calls under a key: the public key of a private one, the address of a public key,
  the two bech32 encodings (under a prefix), the decoding of an account address, and the signature
  of a message.
\<close>

record key_lib =
  priv_pub :: "bytes \<Rightarrow> bytes"
  pub_address :: "bytes \<Rightarrow> bytes"
  bech32 :: "string \<Rightarrow> bytes \<Rightarrow> string"
  unbech32 :: "string \<Rightarrow> string \<Rightarrow> bytes go"
  priv_sign :: "bytes \<Rightarrow> bytes \<Rightarrow> bytes go"

definition account_prefix :: string where
  "account_prefix = ''inj''"

definition validator_prefix :: string where
  "validator_prefix = account_prefix @ ''valoper''"

definition PubKey :: "key_lib \<Rightarrow> Secp256k1PrivateKey \<Rightarrow> Secp256k1PublicKey" where
  "PubKey kl key = priv_pub kl key"

definition priv_Address :: "key_lib \<Rightarrow> Secp256k1PrivateKey \<Rightarrow> bytes" where
  "priv_Address kl key = pub_address kl (priv_pub kl key)"

definition AccAddress :: "key_lib \<Rightarrow> Secp256k1PrivateKey \<Rightarrow> string" where
  "AccAddress kl key = bech32 kl account_prefix (pub_address kl (priv_pub kl key))"

definition ValAddress :: "key_lib \<Rightarrow> Secp256k1PrivateKey \<Rightarrow> string" where
  "ValAddress kl key = bech32 kl validator_prefix (pub_address kl (priv_pub kl key))"

definition pub_Address :: "key_lib \<Rightarrow> Secp256k1PublicKey \<Rightarrow> bytes" where
  "pub_Address kl key = pub_address kl key"

definition Account_String :: "key_lib \<Rightarrow> Account \<Rightarrow> string" where
  "Account_String kl a = Name a @ ''@'' @ AccAddress kl (Key a)"

text \<open>
  \<^verbatim>\<open>common.BytesToAddress\<close>: the last twenty bytes, padded with zero bytes on the left.
\<close>

type_synonym eth_address = bytes

definition left_pad :: "nat \<Rightarrow> bytes \<Rightarrow> bytes" where
  "left_pad n bs = replicate (n - length bs) 0 @ bs"

definition BytesToAddress :: "bytes \<Rightarrow> eth_address" where
  "BytesToAddress bs = left_pad 20 (drop (length bs - 20) bs)"

definition Account_EthAddress :: "key_lib \<Rightarrow> Account \<Rightarrow> eth_address" where
  "Account_EthAddress kl a = BytesToAddress (pub_Address kl (PubKey kl (Key a)))"

lemma length_left_pad: "length bs \<le> n \<Longrightarrow> length (left_pad n bs) = n"
  by (simp add: left_pad_def)

lemma length_BytesToAddress [simp]: "length (BytesToAddress bs) = 20"
  by (simp add: BytesToAddress_def length_left_pad)

lemma BytesToAddress_id: "length bs = 20 \<Longrightarrow> BytesToAddress bs = bs"
  by (simp add: BytesToAddress_def left_pad_def)

text \<open>
  \<^verbatim>\<open>HexToHash\<close>: the hexadecimal digits after an optional \<^verbatim>\<open>0x\<close>, cropped or padded on the left to 32
  bytes (nothing when they are no hexadecimal).
\<close>

definition FromHex :: "string \<Rightarrow> bytes" where
  "FromHex s = (let d = (case strip_prefix ''0x'' s of Some r \<Rightarrow> r
                  | None \<Rightarrow> (case strip_prefix ''0X'' s of Some r \<Rightarrow> r | None \<Rightarrow> s));
                    e = (if odd (length d) then CHR ''0'' # d else d)
                in case hex_decode e of Inl _ \<Rightarrow> [] | Inr bs \<Rightarrow> bs)"

definition BytesToHash :: "bytes \<Rightarrow> bytes" where
  "BytesToHash bs = left_pad 32 (drop (length bs - 32) bs)"

lemma length_BytesToHash [simp]: "length (BytesToHash bs) = 32"
  by (simp add: BytesToHash_def length_left_pad)

lemma BytesToHash_id: "length bs = 32 \<Longrightarrow> BytesToHash bs = bs"
  by (simp add: BytesToHash_def left_pad_def)

text \<open>What the bech32 library promises: decoding under the same prefix undoes encoding.\<close>

definition bech32_roundtrip :: "key_lib \<Rightarrow> bool" where
  "bech32_roundtrip kl \<longleftrightarrow> (\<forall>p a. unbech32 kl p (bech32 kl p a) = Inr a)"

end
