(* ===== verification/Chain_Client.thy ===== *)
theory Chain_Client
  imports Chain_Types
begin

text \<open>
  The chain client, \<^verbatim>\<open>chain/client.go\<close>: building and signing a transaction, broadcasting it
  until the node's mempool takes it, waiting for its block, and recovering the expected account
  sequence from the node's error messages. The node, the transaction codec of the SDK and the
  retry library are parameters: a record of the calls the client makes on each, over an abstract
  world \<open>'w\<close> that a call may change. Contexts and their deadlines are part of the world, logging
  is left out.
\<close>

subsection \<open>The libraries and the node\<close>

text \<open>The SDK's registered errors, by codespace and code.\<close>

record sdk_errors =
  ErrTxInMempoolCache :: "string \<times> uint32"
  ErrMempoolIsFull :: "string \<times> uint32"
  ErrWrongSequence :: "string \<times> uint32"
  ErrInvalidSequence :: "string \<times> uint32"

record TxResponse =
  resp_Codespace :: string
  resp_Code :: uint32
  resp_RawLog :: string
  resp_TxHash :: string

record ResultBroadcastTx =
  res_Code :: uint32
  res_Codespace :: string
  res_Log :: string
  res_Hash :: string

record ResultTx =
  tx_Code :: uint32
  tx_Codespace :: string
  tx_Log :: string
  tx_Height :: int

text \<open>
  The node behind the RPC client. \<open>ctx_done\<close> is the choice of the \<^verbatim>\<open>select\<close> in the confirmation
  loop: true when the timeout context has ended and its case is taken.
\<close>

record 'w node =
  BroadcastTxSync :: "bytes \<Rightarrow> 'w \<Rightarrow> ResultBroadcastTx go \<times> 'w"
  QueryTx :: "bytes \<Rightarrow> 'w \<Rightarrow> ResultTx go \<times> 'w"
  CheckCometError :: "go_error \<Rightarrow> bytes \<Rightarrow> TxResponse option"
  GetAccountNumberSequence :: "bytes \<Rightarrow> 'w \<Rightarrow> (uint64 \<times> uint64) go \<times> 'w"
  ctx_done :: "'w \<Rightarrow> bool \<times> 'w"

text \<open>
  A body under retry: it may change the state and reports an error or none. The retry library
  runs it with a number of attempts (0 is \<^verbatim>\<open>UntilSucceeded\<close>); \<open>None\<close> is a run without end.
\<close>

type_synonym 's body = "'s \<Rightarrow> go_error option \<times> 's"
type_synonym 's retry = "nat \<Rightarrow> 's body \<Rightarrow> 's \<Rightarrow> (go_error option \<times> 's) option"

subsection \<open>Building and signing\<close>

type_synonym coins = "(string \<times> int) list"

record 'm ChainTx =
  ct_Msgs :: "'m list"
  ct_Fee :: coins
  ct_GasLimit :: uint64
  ct_Memo :: string

record SignerData =
  sd_ChainID :: string
  sd_AccountNumber :: uint64
  sd_Sequence :: uint64

record SignatureV2 =
  sig_PubKey :: "bytes option"
  sig_Signature :: "bytes option"
  sig_Sequence :: uint64

text \<open>
  A decoded transaction, through the interfaces the program asks it for: \<^verbatim>\<open>sdk.FeeTx\<close>,
  \<^verbatim>\<open>sdk.TxWithMemo\<close>, \<^verbatim>\<open>sdk.TxWithTimeoutHeight\<close>, \<^verbatim>\<open>authsigning.SigVerifiableTx\<close>
  (\<open>None\<close> where the transaction does not implement the interface).
\<close>

record FeeInfo =
  fee_Gas :: uint64
  fee_Fee :: coins
  fee_Granter :: bytes
  fee_Payer :: bytes

record 'm DecodedTx =
  dt_Msgs :: "'m list"
  dt_Fee :: "FeeInfo option"
  dt_Memo :: "string option"
  dt_TimeoutHeight :: "uint64 option"
  dt_Signatures :: "SignatureV2 list go option"

record ('m, 'b, 't) sdk_tx_config =
  NewTxBuilder :: 'b
  SetGasLimit :: "uint64 \<Rightarrow> 'b \<Rightarrow> 'b"
  SetFeeAmount :: "coins \<Rightarrow> 'b \<Rightarrow> 'b"
  SetMemo :: "string \<Rightarrow> 'b \<Rightarrow> 'b"
  SetMsgs :: "'m list \<Rightarrow> 'b \<Rightarrow> 'b go"
  SetFeeGranter :: "bytes \<Rightarrow> 'b \<Rightarrow> 'b"
  SetFeePayer :: "bytes \<Rightarrow> 'b \<Rightarrow> 'b"
  SetTimeoutHeight :: "uint64 \<Rightarrow> 'b \<Rightarrow> 'b"
  SetSignatures :: "SignatureV2 list \<Rightarrow> 'b \<Rightarrow> 'b go"
  GetTx :: "'b \<Rightarrow> 't"
  GetSignBytes :: "SignerData \<Rightarrow> 't \<Rightarrow> bytes go"
  TxEncoder :: "'t \<Rightarrow> bytes go"
  TxDecoder :: "bytes \<Rightarrow> 'm DecodedTx go"

record ('m, 'b, 't, 'w) Client =
  cl_ChainID :: string
  cl_TxConfig :: "('m, 'b, 't) sdk_tx_config"
  cl_Keys :: key_lib
  cl_Node :: "'w node"
  cl_Errors :: sdk_errors

definition signTx ::
  "('m, 'b, 't, 'w) Client \<Rightarrow> Secp256k1PrivateKey \<Rightarrow> uint64 \<Rightarrow> uint64 \<Rightarrow> 'b \<Rightarrow> 't go res" where
  "signTx c signerKey accNum accSeq txBuilder =
     (let cfg = cl_TxConfig c;
          signerData = \<lparr> sd_ChainID = cl_ChainID c, sd_AccountNumber = accNum, sd_Sequence = accSeq \<rparr>;
          sig = \<lparr> sig_PubKey = Some (priv_pub (cl_Keys c) signerKey), sig_Signature = None,
                  sig_Sequence = accSeq \<rparr>
      in case SetSignatures cfg [sig] txBuilder of
           Inl e \<Rightarrow> Ret (Inl (Wrap ''failed to set Tx signatures'' e))
         | Inr b1 \<Rightarrow>
             res_bind (orPanic (GetSignBytes cfg signerData (GetTx cfg b1))) (\<lambda>bytesToSign.
             case priv_sign (cl_Keys c) signerKey bytesToSign of
               Inl e \<Rightarrow> Ret (Inl (Wrap ''failed to sign Tx'' e))
             | Inr sigBytes \<Rightarrow>
                 (case SetSignatures cfg [sig\<lparr>sig_Signature := Some sigBytes\<rparr>] b1 of
                    Inl e \<Rightarrow> Ret (Inl (Wrap ''failed to set Tx signatures'' e))
                  | Inr b2 \<Rightarrow> Ret (Inr (GetTx cfg b2)))))"

definition buildAndSignTx ::
  "('m, 'b, 't, 'w) Client \<Rightarrow> Secp256k1PrivateKey \<Rightarrow> uint64 \<Rightarrow> uint64 \<Rightarrow> coins \<Rightarrow> uint64 \<Rightarrow>
     string \<Rightarrow> 'm list \<Rightarrow> 't go res" where
  "buildAndSignTx c signerKey accNum accSeq fee gasLimit memo msgs =
     (let cfg = cl_TxConfig c;
          b0 = SetFeeAmount cfg fee (SetGasLimit cfg gasLimit (NewTxBuilder cfg));
          b1 = (if memo \<noteq> [] then SetMemo cfg memo b0 else b0)
      in case SetMsgs cfg msgs b1 of
           Inl e \<Rightarrow> Ret (Inl (Wrap ''failed to set Tx messages'' e))
         | Inr b2 \<Rightarrow> signTx c signerKey accNum accSeq b2)"

definition BuildAndSignTx :: "('m, 'b, 't, 'w) Client \<Rightarrow> Account \<Rightarrow> 'm ChainTx \<Rightarrow> 't go res" where
  "BuildAndSignTx c signer tx =
     buildAndSignTx c (Key signer) (Number signer) (Sequence signer) (ct_Fee tx) (ct_GasLimit tx)
       (ct_Memo tx) (ct_Msgs tx)"

definition SignTx :: "('m, 'b, 't, 'w) Client \<Rightarrow> Account \<Rightarrow> 'b \<Rightarrow> 't go res" where
  "SignTx c signer txBuilder = signTx c (Key signer) (Number signer) (Sequence signer) txBuilder"

definition Encode :: "('m, 'b, 't, 'w) Client \<Rightarrow> 't \<Rightarrow> bytes res" where
  "Encode c signedTx = orPanic (TxEncoder (cl_TxConfig c) signedTx)"

definition GetNumberSequence ::
  "('m, 'b, 't, 'w) Client \<Rightarrow> string \<Rightarrow> 'w \<Rightarrow> ((uint64 \<times> uint64) go \<times> 'w) res" where
  "GetNumberSequence c address w =
     res_bind (orPanic (unbech32 (cl_Keys c) account_prefix address))
       (\<lambda>addr. Ret (GetAccountNumberSequence (cl_Node c) addr w))"

subsection \<open>Sequence errors\<close>

text \<open>
  The two regular expressions: a fixed phrase, a run of digits, a second phrase and another run
  of digits. \<open>FindStringSubmatch\<close> takes the leftmost place where the expression matches; the
  captured group is the first run for the sequence and the second for the nonce.
\<close>

definition seq_phrase :: string where "seq_phrase = ''account sequence mismatch, expected ''"
definition seq_mid :: string where "seq_mid = '', got ''"
definition nonce_phrase :: string where "nonce_phrase = ''invalid nonce; got ''"
definition nonce_mid :: string where "nonce_mid = '', expected ''"

definition match_two_numbers :: "string \<Rightarrow> string \<Rightarrow> string \<Rightarrow> (string \<times> string) option" where
  "match_two_numbers p q s =
     (case strip_prefix p s of None \<Rightarrow> None | Some r \<Rightarrow>
      let (d1, r1) = span_digits r in
      if d1 = [] then None else
      case strip_prefix q r1 of None \<Rightarrow> None | Some r2 \<Rightarrow>
      let (d2, r3) = span_digits r2 in
      if d2 = [] then None else Some (d1, d2))"

fun leftmost :: "(string \<Rightarrow> 'a option) \<Rightarrow> string \<Rightarrow> 'a option" where
  "leftmost m [] = m []"
| "leftmost m (c # s) = (case m (c # s) of Some x \<Rightarrow> Some x | None \<Rightarrow> leftmost m s)"

definition expectedSequenceRegExp :: "string \<Rightarrow> string option" where
  "expectedSequenceRegExp s = map_option fst (leftmost (match_two_numbers seq_phrase seq_mid) s)"

definition expectedNonceRegExp :: "string \<Rightarrow> string option" where
  "expectedNonceRegExp s = map_option snd (leftmost (match_two_numbers nonce_phrase nonce_mid) s)"

definition isSDKErrorResult :: "string \<Rightarrow> uint32 \<Rightarrow> string \<times> uint32 \<Rightarrow> bool" where
  "isSDKErrorResult codespace code sdkErr \<longleftrightarrow> codespace = fst sdkErr \<and> code = snd sdkErr"

definition checkSequence :: "sdk_errors \<Rightarrow> string \<Rightarrow> uint32 \<Rightarrow> string \<Rightarrow> go_error option" where
  "checkSequence errs codespace code lg =
     (if \<not> isSDKErrorResult codespace code (ErrWrongSequence errs) then None
      else case expectedSequenceRegExp lg of
        None \<Rightarrow> Some (Msg (''cosmos sdk hasn't returned expected sequence number, log mesage received: '' @ lg))
      | Some d \<Rightarrow> (case parse_uint d of
          Inl e \<Rightarrow> Some (Wrap (''can't parse expected sequence number, log mesage received: '' @ lg) e)
        | Inr n \<Rightarrow> Some (SequenceError n lg)))"

definition checkNonce :: "sdk_errors \<Rightarrow> string \<Rightarrow> uint32 \<Rightarrow> string \<Rightarrow> go_error option" where
  "checkNonce errs codespace code lg =
     (if \<not> isSDKErrorResult codespace code (ErrInvalidSequence errs) then None
      else case expectedNonceRegExp lg of
        None \<Rightarrow> Some (Msg (''cosmos sdk hasn't returned expected nonce number, log mesage received: '' @ lg))
      | Some d \<Rightarrow> (case parse_uint d of
          Inl e \<Rightarrow> Some (Wrap (''can't parse expected nonce number, log mesage received: '' @ lg) e)
        | Inr n \<Rightarrow> Some (SequenceError n lg)))"

text \<open>\<^verbatim>\<open>errors.As\<close> to a sequence error: the first one found by unwrapping.\<close>

fun IsSequenceError :: "go_error \<Rightarrow> uint64 option" where
  "IsSequenceError (SequenceError n s) = Some n"
| "IsSequenceError (Wrap s e) = IsSequenceError e"
| "IsSequenceError (Unrecoverable e) = IsSequenceError e"
| "IsSequenceError (Joined a b) =
     (case IsSequenceError a of Some n \<Rightarrow> Some n | None \<Rightarrow> IsSequenceError b)"
| "IsSequenceError e = None"

definition IsMempoolFullError :: "go_error option \<Rightarrow> bool" where
  "IsMempoolFullError err = (case err of None \<Rightarrow> False
     | Some e \<Rightarrow> str_contains (error_text e) ''mempool is full'')"

subsection \<open>Broadcasting\<close>

definition errRetry :: go_error where
  "errRetry = Sentinel ''retry required''"

definition isTxInMempool :: "sdk_errors \<Rightarrow> TxResponse option \<Rightarrow> bool" where
  "isTxInMempool errs errRes = (case errRes of None \<Rightarrow> False
     | Some r \<Rightarrow> resp_Codespace r = fst (ErrTxInMempoolCache errs) \<and>
                 resp_Code r = snd (ErrTxInMempoolCache errs))"

definition isMempoolFull :: "sdk_errors \<Rightarrow> TxResponse option \<Rightarrow> bool" where
  "isMempoolFull errs errRes = (case errRes of None \<Rightarrow> False
     | Some r \<Rightarrow> resp_Codespace r = fst (ErrMempoolIsFull errs) \<and>
                 resp_Code r = snd (ErrMempoolIsFull errs))"

text \<open>The error of a response with a non-zero code, from \<^verbatim>\<open>CheckTx\<close> or from the block.\<close>

definition nonzero_code_error :: "string \<Rightarrow> uint32 \<Rightarrow> string \<Rightarrow> string \<Rightarrow> go_error" where
  "nonzero_code_error txHash code codespace lg =
     Msg (''node returned non-zero code for tx '' @ [CHR 39] @ txHash @ [CHR 39] @ '' (code: '' @ show_nat (unat code)
          @ '', codespace: '' @ codespace @ ''): '' @ lg)"

text \<open>One attempt of the retried body; its state is the hash variable of the closure and the world.\<close>

definition broadcast_once ::
  "('m, 'b, 't, 'w) Client \<Rightarrow> bytes \<Rightarrow> (string \<times> 'w) body" where
  "broadcast_once c encodedTx st =
     (let (txHash, w) = st; errs = cl_Errors c in
      case BroadcastTxSync (cl_Node c) encodedTx w of
        (Inl err, w') \<Rightarrow>
          (let errRes = CheckCometError (cl_Node c) err encodedTx in
           if isMempoolFull errs errRes then (Some errRetry, (txHash, w'))
           else if \<not> isTxInMempool errs errRes then (Some (Unrecoverable err), (txHash, w'))
           else (None, (case errRes of None \<Rightarrow> txHash | Some r \<Rightarrow> resp_TxHash r, w')))
      | (Inr res, w') \<Rightarrow>
          (let h = res_Hash res in
           if res_Code res = 0 then (None, (h, w'))
           else case checkSequence errs (res_Codespace res) (res_Code res) (res_Log res) of
             Some e \<Rightarrow> (Some (Unrecoverable e), (h, w'))
           | None \<Rightarrow> (case checkNonce errs (res_Codespace res) (res_Code res) (res_Log res) of
               Some e \<Rightarrow> (Some (Unrecoverable e), (h, w'))
             | None \<Rightarrow> (Some (Unrecoverable
                 (nonzero_code_error h (res_Code res) (res_Codespace res) (res_Log res))), (h, w')))))"

type_synonym 'w bresult = "((string \<times> go_error option) \<times> 'w) option"

text \<open>The confirmation loop: it polls until the transaction is in a block, fails or times out.\<close>

partial_function (option) await_tx ::
  "('m, 'b, 't, 'w) Client \<Rightarrow> bytes \<Rightarrow> string \<Rightarrow> bytes \<Rightarrow> 'w \<Rightarrow> 'w bresult" where
  "await_tx c encodedTx txHash hashBytes w =
     (case ctx_done (cl_Node c) w of
        (done, w1) \<Rightarrow>
          if done then Some ((txHash, Some (Msg (''transaction timed out while await until included in the block ''
                        @ txHash))), w1)
          else (case QueryTx (cl_Node c) hashBytes w1 of
             (Inl err, w2) \<Rightarrow>
               (case CheckCometError (cl_Node c) err encodedTx of
                  Some r \<Rightarrow> Some (([], Some (Msg (''got tendermint error: '' @ resp_RawLog r))), w2)
                | None \<Rightarrow> await_tx c encodedTx txHash hashBytes w2)
           | (Inr r, w2) \<Rightarrow>
               if tx_Code r \<noteq> 0 then
                 (case checkSequence (cl_Errors c) (tx_Codespace r) (tx_Code r) (tx_Log r) of
                    Some e \<Rightarrow> Some (([], Some e), w2)
                  | None \<Rightarrow> (case checkNonce (cl_Errors c) (tx_Codespace r) (tx_Code r) (tx_Log r) of
                      Some e \<Rightarrow> Some (([], Some e), w2)
                    | None \<Rightarrow> Some ((txHash, Some (nonzero_code_error txHash (tx_Code r)
                                (tx_Codespace r) (tx_Log r))), w2)))
               else if tx_Height r > 0 then Some ((txHash, None), w2)
               else await_tx c encodedTx txHash hashBytes w2))"

definition Broadcast ::
  "(string \<times> 'w) retry \<Rightarrow> ('m, 'b, 't, 'w) Client \<Rightarrow> bytes \<Rightarrow> bool \<Rightarrow> 'w \<Rightarrow> 'w bresult" where
  "Broadcast retry c encodedTx await w =
     (case retry 0 (broadcast_once c encodedTx) ([], w) of
        None \<Rightarrow> None
      | Some (Some finalError, (txHash, w1)) \<Rightarrow> Some ((txHash, Some finalError), w1)
      | Some (None, (txHash, w1)) \<Rightarrow>
          (case hex_decode txHash of
             Inl err \<Rightarrow> Some (([], Some (Wrap ''failed to decode tx hash as hex'' err)), w1)
           | Inr txHashBytes \<Rightarrow>
               if \<not> await then Some ((txHash, None), w1)
               else await_tx c encodedTx txHash txHashBytes w1))"

subsection \<open>What the libraries promise\<close>

text \<open>
  The retry library marks an error that ends the attempts; the mark is found through wrapping.
  \<^verbatim>\<open>UntilSucceeded\<close> runs the body again after every other error.
\<close>

fun is_unrecoverable :: "go_error \<Rightarrow> bool" where
  "is_unrecoverable (Unrecoverable e) = True"
| "is_unrecoverable (Wrap s e) = is_unrecoverable e"
| "is_unrecoverable (Joined a b) = (is_unrecoverable a \<or> is_unrecoverable b)"
| "is_unrecoverable e = False"

definition retries_until_succeeded :: "'s retry \<Rightarrow> bool" where
  "retries_until_succeeded retry \<longleftrightarrow> (\<forall>f s. retry 0 f s =
     (case f s of (None, s') \<Rightarrow> Some (None, s')
      | (Some e, s') \<Rightarrow> if is_unrecoverable e then Some (Some e, s') else retry 0 f s'))"

text \<open>A library that keeps this promise, for the concrete runs below.\<close>

partial_function (option) retry_forever :: "'s body \<Rightarrow> 's \<Rightarrow> (go_error option \<times> 's) option" where
  "retry_forever f s = (case f s of (r, s') \<Rightarrow>
     (case r of None \<Rightarrow> Some (None, s')
      | Some e \<Rightarrow> if is_unrecoverable e then Some (Some e, s') else retry_forever f s'))"

fun retry_times :: "nat \<Rightarrow> 's body \<Rightarrow> 's \<Rightarrow> go_error option \<times> 's" where
  "retry_times 0 f s = f s"
| "retry_times (Suc n) f s = (case f s of (None, s') \<Rightarrow> (None, s')
     | (Some e, s') \<Rightarrow> if is_unrecoverable e then (Some e, s') else retry_times n f s')"

definition retry_impl :: "'s retry" where
  "retry_impl n f s = (if n = 0 then retry_forever f s else Some (retry_times (n - 1) f s))"

lemma retry_impl_promise: "retries_until_succeeded retry_impl"
  unfolding retries_until_succeeded_def retry_impl_def
  by (intro allI, subst retry_forever.simps) (auto split: prod.split option.split)

subsection \<open>Parsing the expected sequence\<close>

lemma match_two_numbers_hit:
  assumes "q \<noteq> []" and "\<not> is_digit (hd q)" and "r = [] \<or> \<not> is_digit (hd r)"
  shows "match_two_numbers p q (p @ show_nat a @ q @ show_nat b @ r) = Some (show_nat a, show_nat b)"
proof -
  have "span_digits (show_nat a @ q @ show_nat b @ r) = (show_nat a, q @ show_nat b @ r)"
    using assms by (intro span_digits_show_nat) (cases q; simp)
  moreover have "span_digits (show_nat b @ r) = (show_nat b, r)"
    using assms by (intro span_digits_show_nat)
  ultimately show ?thesis by (simp add: match_two_numbers_def)
qed

lemma leftmost_skip:
  assumes "\<And>k. k < length pre \<Longrightarrow> m (drop k (pre @ s)) = None" and "m s = Some x"
  shows "leftmost m (pre @ s) = Some x"
  using assms
proof (induction pre)
  case Nil
  then show ?case by (cases s) auto
next
  case (Cons c pre)
  from Cons.prems(1) [of 0] have "m (c # pre @ s) = None" by simp
  moreover have "leftmost m (pre @ s) = Some x"
    using Cons.prems(1) [of "Suc k" for k] Cons.prems(2) by (intro Cons.IH) auto
  ultimately show ?case by simp
qed

definition first_at_end :: "string \<Rightarrow> string \<Rightarrow> string \<Rightarrow> bool" where
  "first_at_end phrase pre rest \<longleftrightarrow>
     list_all (\<lambda>k. strip_prefix phrase (drop k (pre @ rest)) = None) [0..<length pre]"

lemma leftmost_two_numbers:
  assumes "q \<noteq> []" and "\<not> is_digit (hd q)" and "r = [] \<or> \<not> is_digit (hd r)"
    and "first_at_end p pre (p @ show_nat a @ q @ show_nat b @ r)"
  shows "leftmost (match_two_numbers p q) (pre @ p @ show_nat a @ q @ show_nat b @ r)
    = Some (show_nat a, show_nat b)"
proof (rule leftmost_skip)
  fix k assume "k < length pre"
  with assms(4) show "match_two_numbers p q (drop k (pre @ p @ show_nat a @ q @ show_nat b @ r)) = None"
    by (simp add: first_at_end_def list_all_iff match_two_numbers_def)
qed (use assms in \<open>intro match_two_numbers_hit\<close>)

text \<open>The log lines of a chain that reports the sequence (nonce) it expects and the one it got.\<close>

definition seq_log :: "string \<Rightarrow> nat \<Rightarrow> nat \<Rightarrow> string \<Rightarrow> string" where
  "seq_log pre e g post = pre @ seq_phrase @ show_nat e @ seq_mid @ show_nat g @ post"

definition nonce_log :: "string \<Rightarrow> nat \<Rightarrow> nat \<Rightarrow> string \<Rightarrow> string" where
  "nonce_log pre e g post = pre @ nonce_phrase @ show_nat g @ nonce_mid @ show_nat e @ post"

definition plain_tail :: "string \<Rightarrow> bool" where
  "plain_tail post \<longleftrightarrow> post = [] \<or> \<not> is_digit (hd post)"

lemma expected_sequence_found:
  assumes "plain_tail post" and "first_at_end seq_phrase pre (seq_log [] e g post)"
  shows "expectedSequenceRegExp (seq_log pre e g post) = Some (show_nat e)"
  using assms leftmost_two_numbers [of seq_mid post seq_phrase pre e g]
  by (simp add: expectedSequenceRegExp_def seq_log_def plain_tail_def) (simp add: seq_mid_def is_digit_def)

lemma expected_nonce_found:
  assumes "plain_tail post" and "first_at_end nonce_phrase pre (nonce_log [] e g post)"
  shows "expectedNonceRegExp (nonce_log pre e g post) = Some (show_nat e)"
  using assms leftmost_two_numbers [of nonce_mid post nonce_phrase pre g e]
  by (simp add: expectedNonceRegExp_def nonce_log_def plain_tail_def) (simp add: nonce_mid_def is_digit_def)

lemma checkSequence_hit:
  assumes "plain_tail post" "first_at_end seq_phrase pre (seq_log [] e g post)" "e < 2 ^ 64"
  shows "checkSequence errs (fst (ErrWrongSequence errs)) (snd (ErrWrongSequence errs)) (seq_log pre e g post)
    = Some (SequenceError (of_nat e) (seq_log pre e g post))"
  using assms by (simp add: checkSequence_def isSDKErrorResult_def expected_sequence_found parse_uint_show_nat)

lemma checkNonce_hit:
  assumes "plain_tail post" "first_at_end nonce_phrase pre (nonce_log [] e g post)" "e < 2 ^ 64"
  shows "checkNonce errs (fst (ErrInvalidSequence errs)) (snd (ErrInvalidSequence errs)) (nonce_log pre e g post)
    = Some (SequenceError (of_nat e) (nonce_log pre e g post))"
  using assms by (simp add: checkNonce_def isSDKErrorResult_def expected_nonce_found parse_uint_show_nat)

subsection \<open>Broadcasting until the mempool takes the transaction\<close>

text \<open>The world after the given number of attempts, all refused because the mempool is full.\<close>

definition mempool_full_step :: "('m, 'b, 't, 'w) Client \<Rightarrow> bytes \<Rightarrow> 'w \<Rightarrow> 'w option" where
  "mempool_full_step c tx w = (case BroadcastTxSync (cl_Node c) tx w of
     (Inl err, w') \<Rightarrow> if isMempoolFull (cl_Errors c) (CheckCometError (cl_Node c) err tx) then Some w' else None
   | (Inr _, _) \<Rightarrow> None)"

fun after_full :: "('m, 'b, 't, 'w) Client \<Rightarrow> bytes \<Rightarrow> nat \<Rightarrow> 'w \<Rightarrow> 'w option" where
  "after_full c tx 0 w = Some w"
| "after_full c tx (Suc k) w = (case mempool_full_step c tx w of None \<Rightarrow> None | Some w' \<Rightarrow> after_full c tx k w')"

lemma retry_promiseD:
  "retries_until_succeeded retry \<Longrightarrow> retry 0 f s =
     (case f s of (None, s') \<Rightarrow> Some (None, s')
      | (Some e, s') \<Rightarrow> if is_unrecoverable e then Some (Some e, s') else retry 0 f s')"
  by (simp add: retries_until_succeeded_def)

lemma broadcast_once_full:
  "mempool_full_step c tx w = Some w' \<Longrightarrow> broadcast_once c tx (h, w) = (Some errRetry, (h, w'))"
  by (auto simp: mempool_full_step_def broadcast_once_def Let_def split: prod.splits sum.splits if_splits)

lemma retry_skips_full:
  assumes "retries_until_succeeded retry" and "after_full c tx k w = Some w'"
  shows "retry 0 (broadcast_once c tx) (h, w) = retry 0 (broadcast_once c tx) (h, w')"
  using assms(2)
proof (induction k arbitrary: w)
  case (Suc k)
  then obtain w1 where step: "mempool_full_step c tx w = Some w1" and rest: "after_full c tx k w1 = Some w'"
    by (auto split: option.splits)
  have "retry 0 (broadcast_once c tx) (h, w) = retry 0 (broadcast_once c tx) (h, w1)"
    by (subst retry_promiseD [OF assms(1)]) (simp add: broadcast_once_full [OF step] errRetry_def)
  with Suc.IH [OF rest] show ?case by simp
qed simp

text \<open>The rejections from which the client learns the sequence the chain expects.\<close>

definition sequence_rejection :: "sdk_errors \<Rightarrow> ResultBroadcastTx \<Rightarrow> nat \<Rightarrow> bool" where
  "sequence_rejection errs r e \<longleftrightarrow> res_Code r \<noteq> 0 \<and> e < 2 ^ 64 \<and>
     ((\<exists>pre g post. (res_Codespace r, res_Code r) = ErrWrongSequence errs \<and> plain_tail post \<and>
         first_at_end seq_phrase pre (seq_log [] e g post) \<and> res_Log r = seq_log pre e g post) \<or>
      (\<exists>pre g post. (res_Codespace r, res_Code r) = ErrInvalidSequence errs \<and>
         ErrInvalidSequence errs \<noteq> ErrWrongSequence errs \<and> plain_tail post \<and>
         first_at_end nonce_phrase pre (nonce_log [] e g post) \<and> res_Log r = nonce_log pre e g post))"

lemma checkSequence_other:
  "(codespace, code) \<noteq> ErrWrongSequence errs \<Longrightarrow> checkSequence errs codespace code lg = None"
  by (auto simp: checkSequence_def isSDKErrorResult_def)

lemma broadcast_once_rejected:
  assumes "BroadcastTxSync (cl_Node c) tx w = (Inr r, w')" and "sequence_rejection (cl_Errors c) r e"
  shows "broadcast_once c tx (h, w) =
    (Some (Unrecoverable (SequenceError (of_nat e) (res_Log r))), (res_Hash r, w'))"
proof -
  consider
      (wrong) pre g post where "(res_Codespace r, res_Code r) = ErrWrongSequence (cl_Errors c)"
        "plain_tail post" "first_at_end seq_phrase pre (seq_log [] e g post)" "res_Log r = seq_log pre e g post"
    | (nonce) pre g post where "(res_Codespace r, res_Code r) = ErrInvalidSequence (cl_Errors c)"
        "ErrInvalidSequence (cl_Errors c) \<noteq> ErrWrongSequence (cl_Errors c)"
        "plain_tail post" "first_at_end nonce_phrase pre (nonce_log [] e g post)" "res_Log r = nonce_log pre e g post"
    using assms(2) unfolding sequence_rejection_def by (elim exE conjE disjE) (rule that; assumption)+
  then have "checkSequence (cl_Errors c) (res_Codespace r) (res_Code r) (res_Log r)
      = Some (SequenceError (of_nat e) (res_Log r)) \<or>
    checkSequence (cl_Errors c) (res_Codespace r) (res_Code r) (res_Log r) = None \<and>
    checkNonce (cl_Errors c) (res_Codespace r) (res_Code r) (res_Log r)
      = Some (SequenceError (of_nat e) (res_Log r))"
  proof cases
    case wrong
    then show ?thesis
      using checkSequence_hit [OF wrong(2,3), of "cl_Errors c"] assms(2)
      by (simp add: sequence_rejection_def flip: wrong(1))
  next
    case nonce
    then show ?thesis
      using checkNonce_hit [OF nonce(3,4), of "cl_Errors c"] checkSequence_other [of _ _ "cl_Errors c"] assms(2)
      by (simp add: sequence_rejection_def flip: nonce(1))
  qed
  then show ?thesis
    using assms by (auto simp: broadcast_once_def sequence_rejection_def)
qed

text \<open>C35: The expected sequence survives the chain's log: printing a mismatch, whatever stands
  before and after it, and parsing it gives the number back, as a sequence error.\<close>

theorem sequence_roundtrip:
  assumes "plain_tail post" and "e < 2 ^ 64"
    and "first_at_end seq_phrase pre (seq_log [] e g post)"
  shows "checkSequence errs (fst (ErrWrongSequence errs)) (snd (ErrWrongSequence errs)) (seq_log pre e g post)
    = Some (SequenceError (of_nat e) (seq_log pre e g post))"
  using assms by (intro checkSequence_hit)

text \<open>The concrete registered errors the examples use.\<close>

definition example_errors :: sdk_errors where
  "example_errors = \<lparr> ErrTxInMempoolCache = (''sdk'', 19), ErrMempoolIsFull = (''sdk'', 20),
     ErrWrongSequence = (''sdk'', 32), ErrInvalidSequence = (''sdk'', 33) \<rparr>"

text \<open>
  A small chain for the concrete runs: its state is the sequence it expects next and how many
  more attempts find the mempool full; a transaction is one byte, its sequence.
\<close>

definition example_node :: "(uint64 \<times> nat) node" where
  "example_node = \<lparr>
     BroadcastTxSync = (\<lambda>tx (s, full).
       if full > 0 then (Inl (Msg ''mempool is full''), (s, full - 1))
       else if map uint tx = [uint s] then
         (Inr \<lparr> res_Code = 0, res_Codespace = [], res_Log = [], res_Hash = ''ab'' \<rparr>, (s + 1, 0))
       else (Inr \<lparr> res_Code = 32, res_Codespace = ''sdk'',
                  res_Log = seq_log [] (unat s) (unat (hd tx)) [], res_Hash = ''cd'' \<rparr>, (s, 0))),
     QueryTx = (\<lambda>h w. (Inr \<lparr> tx_Code = 0, tx_Codespace = [], tx_Log = [], tx_Height = 7 \<rparr>, w)),
     CheckCometError = (\<lambda>e tx. if e = Msg ''mempool is full'' then
       Some \<lparr> resp_Codespace = ''sdk'', resp_Code = 20, resp_RawLog = [], resp_TxHash = [] \<rparr> else None),
     GetAccountNumberSequence = (\<lambda>a (s, full). (Inr (3, s), (s, full))),
     ctx_done = (\<lambda>w. (False, w)) \<rparr>"

definition example_keys :: key_lib where
  "example_keys = \<lparr> priv_pub = rev, pub_address = id, bech32 = (\<lambda>p a. p @ hex_encode a),
     unbech32 = (\<lambda>p s. case strip_prefix p s of None \<Rightarrow> Inl (Msg ''invalid prefix'') | Some r \<Rightarrow> hex_decode r),
     priv_sign = (\<lambda>k m. Inr (k @ m)) \<rparr>"

text \<open>A builder that keeps the last signature set and one byte per message; the encoding is the sequence.\<close>

definition example_txcfg :: "('m, bytes \<times> SignatureV2 option, bytes \<times> SignatureV2 option) sdk_tx_config" where
  "example_txcfg = \<lparr> NewTxBuilder = ([], None), SetGasLimit = (\<lambda>g b. b), SetFeeAmount = (\<lambda>f b. b),
     SetMemo = (\<lambda>m b. b), SetMsgs = (\<lambda>ms (b, s). Inr (map (\<lambda>_. 8) ms, s)),
     SetFeeGranter = (\<lambda>a b. b), SetFeePayer = (\<lambda>a b. b), SetTimeoutHeight = (\<lambda>h b. b),
     SetSignatures = (\<lambda>ss (b, _). Inr (b, Some (hd ss))), GetTx = id,
     GetSignBytes = (\<lambda>d (b, s). Inr (ucast (sd_Sequence d) # b)),
     TxEncoder = (\<lambda>(b, s). case s of None \<Rightarrow> Inl (Msg ''unsigned'')
       | Some g \<Rightarrow> Inr [ucast (sig_Sequence g)]),
     TxDecoder = (\<lambda>bs. Inl (Msg ''no decoder'')) \<rparr>"

definition example_client ::
  "(bytes, bytes \<times> SignatureV2 option, bytes \<times> SignatureV2 option, uint64 \<times> nat) Client" where
  "example_client = \<lparr> cl_ChainID = ''stressinj-1337'', cl_TxConfig = example_txcfg, cl_Keys = example_keys,
     cl_Node = example_node, cl_Errors = example_errors \<rparr>"

lemmas example_defs = example_node_def example_errors_def example_client_def example_txcfg_def example_keys_def

lemma example_after_full: "after_full example_client tx k (s, k) = Some (s, 0)"
  by (induction k) (simp_all add: mempool_full_step_def isMempoolFull_def example_defs)

theorem sequence_roundtrip_witness:
  "checkSequence example_errors ''sdk'' 32
     ''rpc: account sequence mismatch, expected 17, got 4: incorrect account sequence''
   = Some (SequenceError 17 ''rpc: account sequence mismatch, expected 17, got 4: incorrect account sequence'')"
  using sequence_roundtrip [of "'': incorrect account sequence''" 17 "''rpc: ''" 4 example_errors]
  by (simp add: plain_tail_def is_digit_def first_at_end_def seq_log_def seq_phrase_def seq_mid_def
      example_errors_def go_simps upt_rec)

lemma Broadcast_taken:
  assumes "retries_until_succeeded retry" and "after_full c tx k w = Some w1"
    and "BroadcastTxSync (cl_Node c) tx w1 = (Inr r, w2)" and "res_Code r = 0"
    and "hex_decode (res_Hash r) = Inr hb"
  shows "Broadcast retry c tx False w = Some ((res_Hash r, None), w2)"
proof -
  have "broadcast_once c tx ([], w1) = (None, (res_Hash r, w2))"
    using assms by (simp add: broadcast_once_def)
  then have "retry 0 (broadcast_once c tx) ([], w) = Some (None, (res_Hash r, w2))"
    by (subst retry_skips_full [OF assms(1,2)], subst retry_promiseD [OF assms(1)]) simp
  then show ?thesis using assms by (simp add: Broadcast_def)
qed

lemma Broadcast_rejected:
  assumes "retries_until_succeeded retry" and "after_full c tx k w = Some w1"
    and "BroadcastTxSync (cl_Node c) tx w1 = (Inr r, w2)"
    and "sequence_rejection (cl_Errors c) r e"
  shows "\<exists>err. Broadcast retry c tx await w = Some ((res_Hash r, Some err), w2) \<and>
    IsSequenceError err = Some (of_nat e)"
proof -
  have "retry 0 (broadcast_once c tx) ([], w)
      = Some (Some (Unrecoverable (SequenceError (of_nat e) (res_Log r))), (res_Hash r, w2))"
    using broadcast_once_rejected [OF assms(3,4)]
    by (subst retry_skips_full [OF assms(1,2)], subst retry_promiseD [OF assms(1)]) simp
  then show ?thesis by (simp add: Broadcast_def)
qed

text \<open>C12: A transaction refused any number of times because the mempool is full is sent again until
  the node takes it; the hash reported is the one of the accepting answer.\<close>

theorem broadcast_until_taken:
  assumes "retries_until_succeeded retry" and "after_full c tx k w = Some w1"
    and "BroadcastTxSync (cl_Node c) tx w1 = (Inr r, w2)" and "res_Code r = 0"
    and "hex_decode (res_Hash r) = Inr hb"
  shows "Broadcast retry c tx False w = Some ((res_Hash r, None), w2)"
  using assms by (rule Broadcast_taken)

theorem broadcast_until_taken_witness:
  "Broadcast retry_impl example_client [5] False (5, 2) = Some ((''ab'', None), (6, 0))"
  using broadcast_until_taken [OF retry_impl_promise example_after_full, of "[5]" 5]
  by (simp add: example_defs hex_val_def)

text \<open>C13: When the chain rejects the transaction's sequence, after any number of attempts refused for
  a full mempool, the error of \<^verbatim>\<open>Broadcast\<close> carries the sequence the chain expects, for both kinds
  of rejection (the account sequence of the SDK and the nonce of the EVM).\<close>

theorem broadcast_reports_expected_sequence:
  assumes "retries_until_succeeded retry" and "after_full c tx k w = Some w1"
    and "BroadcastTxSync (cl_Node c) tx w1 = (Inr r, w2)"
    and "sequence_rejection (cl_Errors c) r e"
  shows "\<exists>err. Broadcast retry c tx await w = Some ((res_Hash r, Some err), w2) \<and>
    IsSequenceError err = Some (of_nat e)"
  using assms by (rule Broadcast_rejected)

theorem broadcast_reports_expected_sequence_witness:
  "\<exists>err. Broadcast retry_impl example_client [4] True (17, 1) = Some ((''cd'', Some err), (17, 0)) \<and>
    IsSequenceError err = Some 17"
proof -
  have "sequence_rejection example_errors \<lparr> res_Code = 32, res_Codespace = ''sdk'',
      res_Log = seq_log [] 17 4 [], res_Hash = ''cd'' \<rparr> 17"
    by (simp add: sequence_rejection_def example_errors_def plain_tail_def first_at_end_def)
      (rule exI [of _ "[]"], rule exI [of _ 4], rule exI [of _ "[]"], simp)
  then show ?thesis
    using broadcast_reports_expected_sequence [OF retry_impl_promise, of example_client "[4]" 1 "(17, 1)" "(17, 0)"
        "\<lparr> res_Code = 32, res_Codespace = ''sdk'', res_Log = seq_log [] 17 4 [], res_Hash = ''cd'' \<rparr>" "(17, 0)" 17 True]
    by (simp add: mempool_full_step_def isMempoolFull_def example_defs)
qed

subsection \<open>Waiting for the block\<close>

text \<open>The world after a poll that decides nothing, and after a number of them.\<close>

definition pending_step :: "('m, 'b, 't, 'w) Client \<Rightarrow> bytes \<Rightarrow> bytes \<Rightarrow> 'w \<Rightarrow> 'w option" where
  "pending_step c tx hb w = (case ctx_done (cl_Node c) w of (done, w1) \<Rightarrow>
     if done then None
     else (case QueryTx (cl_Node c) hb w1 of
         (Inl err, w2) \<Rightarrow> if CheckCometError (cl_Node c) err tx = None then Some w2 else None
       | (Inr r, w2) \<Rightarrow> if tx_Code r = 0 \<and> tx_Height r \<le> 0 then Some w2 else None))"

fun after_pending :: "('m, 'b, 't, 'w) Client \<Rightarrow> bytes \<Rightarrow> bytes \<Rightarrow> nat \<Rightarrow> 'w \<Rightarrow> 'w option" where
  "after_pending c tx hb 0 w = Some w"
| "after_pending c tx hb (Suc n) w = (case pending_step c tx hb w of None \<Rightarrow> None
     | Some w' \<Rightarrow> after_pending c tx hb n w')"

lemma await_pending: "pending_step c tx hb w = Some w' \<Longrightarrow> await_tx c tx h hb w = await_tx c tx h hb w'"
  by (subst await_tx.simps) (auto simp: pending_step_def split: prod.splits sum.splits if_splits option.splits)

lemma await_decided: "pending_step c tx hb w = None \<Longrightarrow> \<exists>y. await_tx c tx h hb w = Some y"
  by (subst await_tx.simps) (auto simp: pending_step_def split: prod.splits sum.splits if_splits option.splits)

lemma await_after_pending:
  "after_pending c tx hb n w = Some w' \<Longrightarrow> await_tx c tx h hb w = await_tx c tx h hb w'"
  by (induction n arbitrary: w) (auto split: option.splits simp: await_pending)

lemma await_confirmed:
  assumes ret: "await_tx c tx h hb w = Some y"
  shows "snd (fst y) = None \<longrightarrow> fst (fst y) = h \<and>
    (\<exists>w0 r. QueryTx (cl_Node c) hb w0 = (Inr r, snd y) \<and> tx_Code r = 0 \<and> 0 < tx_Height r)"
  by (rule await_tx.raw_induct [where P = "\<lambda>c tx h hb w y. snd (fst y) = None \<longrightarrow> fst (fst y) = h \<and>
        (\<exists>w0 r. QueryTx (cl_Node c) hb w0 = (Inr r, snd y) \<and> tx_Code r = 0 \<and> 0 < tx_Height r)", OF _ ret])
    (fastforce split: if_splits prod.splits option.splits sum.splits)

text \<open>C14: A successful broadcast that waits for confirmation means inclusion: the node reported the
  transaction of the returned hash with code zero in a block of positive height.\<close>

theorem await_means_included:
  assumes "Broadcast retry c tx True w = Some ((h, None), w')"
  shows "\<exists>hb w0 r. hex_decode h = Inr hb \<and> QueryTx (cl_Node c) hb w0 = (Inr r, w') \<and>
    tx_Code r = 0 \<and> 0 < tx_Height r"
  using assms by (auto simp: Broadcast_def split: option.splits prod.splits sum.splits dest!: await_confirmed) blast

theorem await_means_included_witness:
  "\<exists>hb w0 r. hex_decode ''ab'' = Inr hb \<and> QueryTx example_node hb w0 = (Inr r, (6, 0)) \<and>
    tx_Code r = 0 \<and> 0 < tx_Height r"
proof -
  have "Broadcast retry_impl example_client [5] True (5, 0) = Some ((''ab'', None), (6, 0))"
    by (subst Broadcast_def, subst retry_promiseD [OF retry_impl_promise])
      (simp add: broadcast_once_def example_defs hex_val_def await_tx.simps)
  from await_means_included [OF this] show ?thesis by (simp add: example_client_def)
qed

text \<open>The confirmation loop ends: when the deadline passes after some number of polls that decide
  nothing, \<^verbatim>\<open>Broadcast\<close> returns the hash with the timeout error.\<close>

theorem await_ends_at_deadline:
  assumes "retry 0 (broadcast_once c tx) ([], w) = Some (None, (h, w1))"
    and "hex_decode h = Inr hb" and "after_pending c tx hb n w1 = Some w2"
    and "ctx_done (cl_Node c) w2 = (True, w3)"
  shows "Broadcast retry c tx True w = Some ((h, Some (Msg
    (''transaction timed out while await until included in the block '' @ h))), w3)"
  using assms await_after_pending [OF assms(3)]
  by (simp add: Broadcast_def) (subst await_tx.simps, simp)

definition slow_client ::
  "(bytes, bytes \<times> SignatureV2 option, bytes \<times> SignatureV2 option, uint64 \<times> nat) Client" where
  "slow_client = example_client\<lparr> cl_Node := example_node
     \<lparr> QueryTx := (\<lambda>h (s, t). (Inl (Msg ''tx not found''), (s, t + 1))), ctx_done := (\<lambda>(s, t). (t \<ge> 2, (s, t))) \<rparr> \<rparr>"

theorem await_ends_at_deadline_witness:
  "Broadcast retry_impl slow_client [5] True (5, 0) = Some ((''ab'', Some (Msg
     ''transaction timed out while await until included in the block ab'')), (6, 2))"
proof -
  have "retry_impl 0 (broadcast_once slow_client [5]) ([], (5, 0)) = Some (None, (''ab'', (6, 0)))"
    by (subst retry_promiseD [OF retry_impl_promise]) (simp add: broadcast_once_def slow_client_def example_defs)
  from await_ends_at_deadline [where retry = retry_impl and c = slow_client and n = 2, OF this] show ?thesis
    by (simp add: numeral_2_eq_2 pending_step_def slow_client_def example_defs hex_val_def)
qed

subsection \<open>Signing\<close>

text \<open>
  What the SDK promises of direct signing: the bytes to sign cover the body, the fee, the public
  key and the sequence of the signer, but not the signature itself.
\<close>

definition sign_bytes_skip_signature :: "('m, 'b, 't) sdk_tx_config \<Rightarrow> bool" where
  "sign_bytes_skip_signature cfg \<longleftrightarrow> (\<forall>d s x b b1 b2. SetSignatures cfg [s] b = Inr b1 \<longrightarrow>
     SetSignatures cfg [s\<lparr>sig_Signature := x\<rparr>] b1 = Inr b2 \<longrightarrow>
     GetSignBytes cfg d (GetTx cfg b2) = GetSignBytes cfg d (GetTx cfg b1))"

text \<open>C15: A signed transaction carries a signature, by the account's key, over the bytes of that very
  transaction for the account's number and sequence and the client's chain, and its signer entry has
  the account's public key and sequence.\<close>

theorem signed_tx_verifies:
  assumes "sign_bytes_skip_signature (cl_TxConfig c)" and "BuildAndSignTx c acc tx = Ret (Inr t)"
  shows "\<exists>bs sg b b'. GetSignBytes (cl_TxConfig c) \<lparr> sd_ChainID = cl_ChainID c,
        sd_AccountNumber = Number acc, sd_Sequence = Sequence acc \<rparr> t = Inr bs \<and>
      priv_sign (cl_Keys c) (Key acc) bs = Inr sg \<and>
      SetSignatures (cl_TxConfig c) [\<lparr> sig_PubKey = Some (PubKey (cl_Keys c) (Key acc)), sig_Signature = Some sg,
        sig_Sequence = Sequence acc \<rparr>] b = Inr b' \<and> t = GetTx (cl_TxConfig c) b'"
proof -
  let ?sig = "\<lambda>x. \<lparr> sig_PubKey = Some (priv_pub (cl_Keys c) (Key acc)), sig_Signature = x, sig_Sequence = Sequence acc \<rparr>"
  let ?d = "\<lparr> sd_ChainID = cl_ChainID c, sd_AccountNumber = Number acc, sd_Sequence = Sequence acc \<rparr>"
  obtain b b1 bs sg b2 where steps: "SetSignatures (cl_TxConfig c) [?sig None] b = Inr b1"
      "GetSignBytes (cl_TxConfig c) ?d (GetTx (cl_TxConfig c) b1) = Inr bs"
      "priv_sign (cl_Keys c) (Key acc) bs = Inr sg"
      "SetSignatures (cl_TxConfig c) [?sig (Some sg)] b1 = Inr b2" "t = GetTx (cl_TxConfig c) b2"
    using assms(2)
    unfolding BuildAndSignTx_def buildAndSignTx_def signTx_def Let_def
    by (clarsimp simp del: split_paired_Ex) 
  have "GetSignBytes (cl_TxConfig c) ?d t = Inr bs"
    using assms(1) steps unfolding sign_bytes_skip_signature_def by (metis SignatureV2.update_convs(2))
  with steps show ?thesis unfolding PubKey_def by blast
qed

theorem signed_tx_verifies_witness:
  "\<exists>bs sg b b'. GetSignBytes example_txcfg \<lparr> sd_ChainID = ''stressinj-1337'', sd_AccountNumber = 3,
        sd_Sequence = 17 \<rparr> ([8], Some \<lparr> sig_PubKey = Some [2, 1], sig_Signature = Some [1, 2, 17, 8], sig_Sequence = 17 \<rparr>) = Inr bs \<and>
      priv_sign example_keys [1, 2] bs = Inr sg \<and>
      SetSignatures example_txcfg [\<lparr> sig_PubKey = Some (PubKey example_keys [1, 2]), sig_Signature = Some sg,
        sig_Sequence = 17 \<rparr>] b = Inr b' \<and>
      ([8], Some \<lparr> sig_PubKey = Some [2, 1], sig_Signature = Some [1, 2, 17, 8], sig_Sequence = 17 \<rparr>) = GetTx example_txcfg b'"
proof -
  have "sign_bytes_skip_signature example_txcfg"
    by (auto simp: sign_bytes_skip_signature_def example_txcfg_def split: prod.splits)
  then show ?thesis
    using signed_tx_verifies [of example_client "\<lparr> Name = [], Key = [1, 2], Number = 3, Sequence = 17 \<rparr>"
      "\<lparr> ct_Msgs = [[8]], ct_Fee = [], ct_GasLimit = 0, ct_Memo = [] \<rparr>"
      "([8], Some \<lparr> sig_PubKey = Some [2, 1], sig_Signature = Some [1, 2, 17, 8], sig_Sequence = 17 \<rparr>)"]
    by (simp add: example_client_def BuildAndSignTx_def buildAndSignTx_def signTx_def)
      (simp add: example_txcfg_def example_keys_def PubKey_def)
qed

end
