(* ===== verification/Payload_Base.thy ===== *)
theory Payload_Base
  imports Chain_Client
begin

text \<open>
  The interface between the stresser and the payload providers, \<^verbatim>\<open>payload/payload.go\<close>: transaction
  requests, the transactions the providers make (the struct \<^verbatim>\<open>baseTx\<close> and the structs that embed it,
  and the raw transaction of the replay) with the methods of the interface \<^verbatim>\<open>Tx\<close>, the SDK messages
  they carry, and the interfaces \<^verbatim>\<open>Tx\<close> and \<^verbatim>\<open>TxProvider\<close> as locales. The SDK's coins and
  decimal arithmetic are the parameter \<open>sdk_lib\<close>.
\<close>

subsection \<open>Messages\<close>

type_synonym coin = "string \<times> int"

record LegacyTx =
  Nonce :: uint64
  To :: "eth_address option"
  Value :: int
  Gas :: uint64
  GasPrice :: int
  Data :: bytes

text \<open>Prices and quantities are decimals with 18 places, kept as multiples of the last place.\<close>

record OrderInfo =
  FeeRecipient :: string
  Price :: int
  Quantity :: int
  Cid :: string
  SubaccountId :: string

record DerivativeOrder =
  d_MarketId :: string
  Margin :: int
  d_OrderInfo :: OrderInfo

record SpotOrder =
  s_MarketId :: string
  s_OrderInfo :: OrderInfo

record BatchUpdate =
  bu_Sender :: string
  bu_SubaccountId :: string
  DerivativeOrdersToCreate :: "DerivativeOrder list"
  DerivativeMarketIdsToCancelAll :: "string list"
  SpotOrdersToCreate :: "SpotOrder list"
  SpotMarketIdsToCancelAll :: "string list"

text \<open>
  The messages the providers put into their transactions, with the arguments the source gives them.
  An Ethereum message also has the sender and the signature that \<^verbatim>\<open>eth_signer.go\<close> writes into it.
\<close>

datatype sdk_msg =
    MsgSend bytes bytes coins
  | MsgMultiSend "bytes \<times> coins" "(bytes \<times> coins) list"
  | MsgBatchUpdateOrders BatchUpdate
  | MsgStoreCode string bytes
  | MsgInstantiateContract string string uint64 string string coins
  | MsgInstantiateContract2 string uint64 string string coins bytes bool
  | MsgExecuteContract string string string coins
  | MsgEthereumTx LegacyTx "bytes option" bytes

subsection \<open>Requests and transactions\<close>

record TxRequest =
  req_Keys :: "Secp256k1PrivateKey list"
  req_From :: Account
  req_FromIdx :: int
  req_TxIdx :: int

record baseTx =
  base_from :: Account
  base_msgs :: "sdk_msg list"
  base_txBytes :: bytes
  base_fromIdx :: int
  base_txIdx :: int

definition new_baseTx :: "TxRequest \<Rightarrow> sdk_msg list \<Rightarrow> baseTx" where
  "new_baseTx req msgs = \<lparr> base_from = req_From req, base_msgs = msgs, base_txBytes = [],
     base_fromIdx = req_FromIdx req, base_txIdx = req_TxIdx req \<rparr>"

text \<open>The dynamic types behind the interface \<^verbatim>\<open>Tx\<close>.\<close>

datatype Tx =
    BaseTx baseTx
  | BankSendTx baseTx bytes
  | BankMultiSendTx baseTx bytes
  | ExchangeBatchUpdateTx baseTx
  | WasmStoreCodeTx baseTx
  | WasmInitContractTx baseTx
  | WasmExecContractTx baseTx
  | EthSendTx baseTx eth_address
  | EthCallTx baseTx eth_address
  | EthDeployTx baseTx
  | EthInternalCallTx baseTx eth_address
  | EthUserOpTx baseTx eth_address
  | TxnsReplayTx bytes

text \<open>The embedded \<^verbatim>\<open>baseTx\<close>, whose methods the embedding structs inherit.\<close>

fun embedded :: "Tx \<Rightarrow> baseTx option" where
  "embedded (BaseTx b) = Some b"
| "embedded (BankSendTx b _) = Some b"
| "embedded (BankMultiSendTx b _) = Some b"
| "embedded (ExchangeBatchUpdateTx b) = Some b"
| "embedded (WasmStoreCodeTx b) = Some b"
| "embedded (WasmInitContractTx b) = Some b"
| "embedded (WasmExecContractTx b) = Some b"
| "embedded (EthSendTx b _) = Some b"
| "embedded (EthCallTx b _) = Some b"
| "embedded (EthDeployTx b) = Some b"
| "embedded (EthInternalCallTx b _) = Some b"
| "embedded (EthUserOpTx b _) = Some b"
| "embedded (TxnsReplayTx _) = None"

definition baseTx_WithBytes :: "baseTx \<Rightarrow> bytes \<Rightarrow> Tx" where
  "baseTx_WithBytes t txBytes = BaseTx (t\<lparr>base_txBytes := txBytes\<rparr>)"

definition txnsReplayTx_WithBytes :: "bytes \<Rightarrow> Tx" where
  "txnsReplayTx_WithBytes bytes = TxnsReplayTx bytes"

definition zero_account :: Account where
  "zero_account = \<lparr> Name = [], Key = [], Number = 0, Sequence = 0 \<rparr>"

fun raw_bytes :: "Tx \<Rightarrow> bytes" where
  "raw_bytes (TxnsReplayTx b) = b"
| "raw_bytes _ = []"

definition tx_From :: "Tx \<Rightarrow> Account" where
  "tx_From t = (case embedded t of Some b \<Rightarrow> base_from b | None \<Rightarrow> zero_account)"

definition tx_Msgs :: "Tx \<Rightarrow> sdk_msg list" where
  "tx_Msgs t = (case embedded t of Some b \<Rightarrow> base_msgs b | None \<Rightarrow> [])"

definition tx_WithBytes :: "bytes \<Rightarrow> Tx \<Rightarrow> Tx" where
  "tx_WithBytes bs t = (case embedded t of Some b \<Rightarrow> baseTx_WithBytes b bs | None \<Rightarrow> txnsReplayTx_WithBytes bs)"

definition tx_Bytes :: "Tx \<Rightarrow> bytes" where
  "tx_Bytes t = (case embedded t of Some b \<Rightarrow> base_txBytes b | None \<Rightarrow> raw_bytes t)"

definition tx_FromIdx :: "Tx \<Rightarrow> int" where
  "tx_FromIdx t = (case embedded t of Some b \<Rightarrow> base_fromIdx b | None \<Rightarrow> 0)"

definition tx_TxIdx :: "Tx \<Rightarrow> int" where
  "tx_TxIdx t = (case embedded t of Some b \<Rightarrow> base_txIdx b | None \<Rightarrow> 0)"

lemmas tx_methods = tx_From_def tx_Msgs_def tx_WithBytes_def tx_Bytes_def tx_FromIdx_def tx_TxIdx_def
  baseTx_WithBytes_def txnsReplayTx_WithBytes_def

lemma embedded_None: "embedded t = None \<longleftrightarrow> (\<exists>b. t = TxnsReplayTx b)"
  by (cases t) auto

subsection \<open>The interface of a transaction\<close>

text \<open>
  What the stresser relies on when it passes a transaction through its queues: a copy with bytes has
  those bytes and is otherwise the same transaction.
\<close>

locale tx_interface =
  fixes from_of :: "'tx \<Rightarrow> Account" and msgs_of :: "'tx \<Rightarrow> sdk_msg list"
    and with_bytes :: "bytes \<Rightarrow> 'tx \<Rightarrow> 'tx" and bytes_of :: "'tx \<Rightarrow> bytes"
    and from_idx :: "'tx \<Rightarrow> int" and tx_idx :: "'tx \<Rightarrow> int"
  assumes bytes_with: "bytes_of (with_bytes bs t) = bs"
    and from_with: "from_of (with_bytes bs t) = from_of t"
    and msgs_with: "msgs_of (with_bytes bs t) = msgs_of t"
    and from_idx_with: "from_idx (with_bytes bs t) = from_idx t"
    and tx_idx_with: "tx_idx (with_bytes bs t) = tx_idx t"
begin

definition slot :: "'tx \<Rightarrow> int \<times> int" where
  "slot t = (from_idx t, tx_idx t)"

lemma slot_with: "slot (with_bytes bs t) = slot t"
  by (simp add: slot_def from_idx_with tx_idx_with)

lemma with_bytes_twice: "bytes_of (with_bytes b (with_bytes a t)) = b"
  by (rule bytes_with)

end

interpretation tx: tx_interface tx_From tx_Msgs tx_WithBytes tx_Bytes tx_FromIdx tx_TxIdx
proof
  fix bs t
  show "tx_Bytes (tx_WithBytes bs t) = bs" "tx_From (tx_WithBytes bs t) = tx_From t"
    "tx_Msgs (tx_WithBytes bs t) = tx_Msgs t" "tx_FromIdx (tx_WithBytes bs t) = tx_FromIdx t"
    "tx_TxIdx (tx_WithBytes bs t) = tx_TxIdx t"
    by (cases "embedded t"; simp add: tx_methods)+
qed

lemmas tx_simps [simp] = tx.bytes_with tx.from_with tx.msgs_with tx.from_idx_with tx.tx_idx_with

subsection \<open>The interface of a provider\<close>

text \<open>
  A provider has a state of its own that its calls may change. \<^verbatim>\<open>GenerateTx\<close> makes the transaction
  of a request, \<^verbatim>\<open>BuildAndSignTx\<close> the same transaction with its signed bytes; both may fail or
  panic. What the pipeline relies on: neither changes the account or the indices.
\<close>

type_synonym 'p gen = "TxRequest \<Rightarrow> 'p \<Rightarrow> Tx go res \<times> 'p"
type_synonym 'p sign = "Tx \<Rightarrow> 'p \<Rightarrow> Tx go res \<times> 'p"

locale tx_provider =
  fixes GenerateTx :: "'p gen" and SignTx :: "'p sign"
  assumes generate_keeps: "GenerateTx req p = (Ret (Inr t), p') \<Longrightarrow>
      tx_From t = req_From req \<and> tx_FromIdx t = req_FromIdx req \<and> tx_TxIdx t = req_TxIdx req"
    and sign_keeps: "SignTx t p = (Ret (Inr t'), p') \<Longrightarrow>
      tx_From t' = tx_From t \<and> tx_FromIdx t' = tx_FromIdx t \<and> tx_TxIdx t' = tx_TxIdx t"
begin

lemma signed_slot:
  assumes "GenerateTx req p = (Ret (Inr t), p')" and "SignTx t q = (Ret (Inr t'), q')"
  shows "tx.slot t' = (req_FromIdx req, req_TxIdx req) \<and> tx_From t' = req_From req"
  using generate_keeps [OF assms(1)] sign_keeps [OF assms(2)] by (simp add: tx.slot_def)

end

subsection \<open>Fees\<close>

record sdk_lib =
  ParseCoinNormalized :: "string \<Rightarrow> coin go"
  NewCoin :: "string \<Rightarrow> int \<Rightarrow> coin res"
  NewCoins :: "coin list \<Rightarrow> coins res"
  IntMul :: "int \<Rightarrow> int \<Rightarrow> int res"

text \<open>
  What the SDK documents: products that fit 256 bits are exact, a coin with a valid denomination and
  no negative amount is made as given, a positive coin alone is a valid set of coins.
\<close>

definition sdk_arith :: "sdk_lib \<Rightarrow> bool" where
  "sdk_arith sl \<longleftrightarrow>
     (\<forall>a b. \<bar>a * b\<bar> < 2 ^ 256 \<longrightarrow> IntMul sl a b = Ret (a * b)) \<and>
     (\<forall>s d n. ParseCoinNormalized sl s = Inr (d, n) \<longrightarrow> 0 \<le> n \<and>
        (\<forall>m \<ge> 0. NewCoin sl d m = Ret (d, m) \<and> (0 < m \<longrightarrow> NewCoins sl [(d, m)] = Ret [(d, m)])))"

text \<open>
  The body that the native providers share: the fee is the gas price times the gas limit, the
  messages are those of the transaction, the signed transaction is encoded into the copy.
\<close>

definition sign_with_fee ::
  "sdk_lib \<Rightarrow> coin \<Rightarrow> uint64 \<Rightarrow> string \<Rightarrow> (sdk_msg, 'b, 't, 'w) Client \<Rightarrow> Tx \<Rightarrow> Tx go res" where
  "sign_with_fee sl minGasPrice maxGasLimit memo client unsignedTx =
     res_bind (IntMul sl (snd minGasPrice) (uint maxGasLimit)) (\<lambda>maxFeeAmount.
     res_bind (NewCoin sl (fst minGasPrice) maxFeeAmount) (\<lambda>feeCoin.
     res_bind (NewCoins sl [feeCoin]) (\<lambda>fee.
     res_bind (BuildAndSignTx client (tx_From unsignedTx)
       \<lparr> ct_Msgs = tx_Msgs unsignedTx, ct_Fee = fee, ct_GasLimit = maxGasLimit, ct_Memo = memo \<rparr>) (\<lambda>r.
     case r of Inl err \<Rightarrow> Ret (Inl err)
     | Inr signedResult \<Rightarrow>
         res_bind (Encode client signedResult) (\<lambda>bs. Ret (Inr (tx_WithBytes bs unsignedTx)))))))"

lemma sign_with_fee_keeps:
  "sign_with_fee sl mg gl memo client t = Ret (Inr t') \<Longrightarrow>
     tx_From t' = tx_From t \<and> tx_Msgs t' = tx_Msgs t \<and> tx_FromIdx t' = tx_FromIdx t \<and> tx_TxIdx t' = tx_TxIdx t"
  by (auto simp: sign_with_fee_def split: sum.splits)

lemma sign_with_fee_fee:
  assumes "sdk_arith sl" and "ParseCoinNormalized sl s = Inr (d, n)" and "0 < n"
    and "n * uint gl < 2 ^ 256" and "0 < gl"
  shows "sign_with_fee sl (d, n) gl memo client t =
    res_bind (BuildAndSignTx client (tx_From t)
      \<lparr> ct_Msgs = tx_Msgs t, ct_Fee = [(d, n * uint gl)], ct_GasLimit = gl, ct_Memo = memo \<rparr>) (\<lambda>r.
    case r of Inl err \<Rightarrow> Ret (Inl err)
    | Inr s \<Rightarrow> res_bind (Encode client s) (\<lambda>bs. Ret (Inr (tx_WithBytes bs t))))"
proof -
  have pos: "0 < n * uint gl" using assms(3,5) by (simp add: word_less_def)
  then have "IntMul sl n (uint gl) = Ret (n * uint gl)" using assms(1,4) by (simp add: sdk_arith_def)
  moreover have "NewCoin sl d (n * uint gl) = Ret (d, n * uint gl)"
      "NewCoins sl [(d, n * uint gl)] = Ret [(d, n * uint gl)]"
    using assms(1,2) pos by (auto simp: sdk_arith_def)
  ultimately show ?thesis by (simp add: sign_with_fee_def)
qed

end
