(* ===== verification/Pipeline.thy ===== *)
theory Pipeline
  imports Payload_Base "HOL-Library.Multiset"
begin

text \<open>
  The preparation phase of \<^verbatim>\<open>Stress\<close> (\<^verbatim>\<open>stresser.go\<close>): a pool of workers generates the
  transactions of every account, signers take them from one bounded queue and put the signed ones on
  another, and a collector writes their bytes into the matrix \<^verbatim>\<open>signedTxs\<close>. The goroutines are the
  cases of one step relation, so a run is any interleaving of them: starting the task of an account
  (at most one per CPU, in the order of submission), generating and queueing its next transaction,
  signing, queueing a signed transaction, collecting. A panic or a fatal log ends the process. Calls
  on the provider are atomic in the model; the provider's state is threaded through them.
\<close>

subsection \<open>State\<close>

text \<open>The task of an account: not started, about to generate the transaction with this index, done.\<close>

datatype task = Submitted | Generating nat Account | Finished

record 'p prep_env =
  pr_gen :: "'p gen"
  pr_sign :: "'p sign"
  pr_accounts :: "Secp256k1PrivateKey list"
  pr_numTxs :: nat
  pr_numCPU :: nat
  pr_fetch :: "nat \<Rightarrow> (uint64 \<times> uint64) go"

record 'p prep_state =
  tasks :: "task list"
  txQueue :: "Tx list"
  hands :: "Tx list"
  txSignedQueue :: "Tx list"
  signedTxs :: "bytes list list"
  initialAccountSequences :: "uint64 list"
  collected :: nat
  prov :: 'p

datatype 'p prep_outcome = Going "'p prep_state" | Died go_error

definition queue_cap :: nat where
  "queue_cap = 1000000"

definition sender_account :: "'p prep_env \<Rightarrow> nat \<Rightarrow> uint64 \<Rightarrow> uint64 \<Rightarrow> Account" where
  "sender_account E i accNum accSeq =
     \<lparr> Name = ''sender-'' @ show_nat i, Key = pr_accounts E ! i, Number = accNum, Sequence = accSeq \<rparr>"

definition tx_request :: "'p prep_env \<Rightarrow> nat \<Rightarrow> nat \<Rightarrow> Account \<Rightarrow> TxRequest" where
  "tx_request E i j acc =
     \<lparr> req_Keys = pr_accounts E, req_From = acc, req_FromIdx = int i, req_TxIdx = int j \<rparr>"

definition prep_init :: "'p prep_env \<Rightarrow> 'p \<Rightarrow> 'p prep_state" where
  "prep_init E p = (let n = length (pr_accounts E) in
     \<lparr> tasks = replicate n Submitted, txQueue = [], hands = [], txSignedQueue = [],
       signedTxs = replicate n (replicate (pr_numTxs E) []),
       initialAccountSequences = replicate n 0, collected = 0, prov = p \<rparr>)"

definition running :: "'p prep_state \<Rightarrow> nat" where
  "running s = length (filter (\<lambda>t. t \<noteq> Submitted \<and> t \<noteq> Finished) (tasks s))"

text \<open>The collector's write; \<open>None\<close> is an index out of range.\<close>

definition store_signed :: "bytes list list \<Rightarrow> Tx \<Rightarrow> bytes list list option" where
  "store_signed m t =
     (case go_index m (tx_FromIdx t) of None \<Rightarrow> None
      | Some row \<Rightarrow> (case go_index row (tx_TxIdx t) of None \<Rightarrow> None
          | Some _ \<Rightarrow> Some (m[nat (tx_FromIdx t) := row[nat (tx_TxIdx t) := tx_Bytes t]])))"

subsection \<open>Steps\<close>

inductive prep_step :: "'p prep_env \<Rightarrow> 'p prep_state \<Rightarrow> 'p prep_outcome \<Rightarrow> bool" for E where
  start: "i < length (tasks s) \<Longrightarrow> tasks s ! i = Submitted \<Longrightarrow> Submitted \<notin> set (take i (tasks s)) \<Longrightarrow>
     running s < pr_numCPU E \<Longrightarrow> pr_fetch E i = Inr (accNum, accSeq) \<Longrightarrow>
     prep_step E s (Going (s\<lparr> tasks := (tasks s)[i := Generating 0 (sender_account E i accNum accSeq)],
       initialAccountSequences := (initialAccountSequences s)[i := accSeq] \<rparr>))"
| start_fatal: "i < length (tasks s) \<Longrightarrow> tasks s ! i = Submitted \<Longrightarrow> Submitted \<notin> set (take i (tasks s)) \<Longrightarrow>
     running s < pr_numCPU E \<Longrightarrow> pr_fetch E i = Inl e \<Longrightarrow>
     prep_step E s (Died (Wrap (cross_mark @ ''Fetching account number and sequence failed'') e))"
| generate: "i < length (tasks s) \<Longrightarrow> tasks s ! i = Generating j acc \<Longrightarrow> j < pr_numTxs E \<Longrightarrow>
     length (txQueue s) < queue_cap \<Longrightarrow>
     pr_gen E (tx_request E i j acc) (prov s) = (Ret (Inr t), p') \<Longrightarrow>
     prep_step E s (Going (s\<lparr> tasks := (tasks s)[i := Generating (Suc j) (acc\<lparr>Sequence := Sequence acc + 1\<rparr>)],
       txQueue := txQueue s @ [t], prov := p' \<rparr>))"
| generate_panic: "i < length (tasks s) \<Longrightarrow> tasks s ! i = Generating j acc \<Longrightarrow> j < pr_numTxs E \<Longrightarrow>
     pr_gen E (tx_request E i j acc) (prov s) = (r, p') \<Longrightarrow> r = Panic e \<or> r = Ret (Inl e) \<Longrightarrow>
     prep_step E s (Died e)"
| finish: "i < length (tasks s) \<Longrightarrow> tasks s ! i = Generating j acc \<Longrightarrow> pr_numTxs E \<le> j \<Longrightarrow>
     prep_step E s (Going (s\<lparr> tasks := (tasks s)[i := Finished] \<rparr>))"
| sign: "length (hands s) < pr_numCPU E \<Longrightarrow> txQueue s = t # q \<Longrightarrow>
     pr_sign E t (prov s) = (Ret (Inr t'), p') \<Longrightarrow>
     prep_step E s (Going (s\<lparr> txQueue := q, hands := hands s @ [t'], prov := p' \<rparr>))"
| sign_panic: "length (hands s) < pr_numCPU E \<Longrightarrow> txQueue s = t # q \<Longrightarrow>
     pr_sign E t (prov s) = (r, p') \<Longrightarrow> r = Panic e \<or> r = Ret (Inl e) \<Longrightarrow> prep_step E s (Died e)"
| put: "hands s = xs @ t # ys \<Longrightarrow> length (txSignedQueue s) < queue_cap \<Longrightarrow>
     prep_step E s (Going (s\<lparr> hands := xs @ ys, txSignedQueue := txSignedQueue s @ [t] \<rparr>))"
| collect: "collected s < length (pr_accounts E) * pr_numTxs E \<Longrightarrow> txSignedQueue s = t # q \<Longrightarrow>
     store_signed (signedTxs s) t = Some m \<Longrightarrow>
     prep_step E s (Going (s\<lparr> txSignedQueue := q, signedTxs := m, collected := Suc (collected s) \<rparr>))"
| collect_panic: "collected s < length (pr_accounts E) * pr_numTxs E \<Longrightarrow> txSignedQueue s = t # q \<Longrightarrow>
     store_signed (signedTxs s) t = None \<Longrightarrow>
     prep_step E s (Died (Msg ''runtime error: index out of range''))"

inductive_cases prep_step_GoingE: "prep_step E s (Going s')"
inductive_cases prep_step_DiedE: "prep_step E s (Died e)"

inductive prep_reach :: "'p prep_env \<Rightarrow> 'p prep_state \<Rightarrow> 'p prep_state \<Rightarrow> bool" for E where
  refl: "prep_reach E s s"
| step: "prep_reach E s s' \<Longrightarrow> prep_step E s' (Going s'') \<Longrightarrow> prep_reach E s s''"

text \<open>The collector has filled the matrix, which ends the phase.\<close>

definition prep_done :: "'p prep_env \<Rightarrow> 'p prep_state \<Rightarrow> bool" where
  "prep_done E s \<longleftrightarrow> collected s = length (pr_accounts E) * pr_numTxs E"

subsection \<open>Invariant\<close>

text \<open>The account as it is when the transaction with this index is generated.\<close>

definition account_at :: "'p prep_env \<Rightarrow> nat \<Rightarrow> nat \<Rightarrow> Account" where
  "account_at E i j = (case pr_fetch E i of
     Inr (num, seq) \<Rightarrow> sender_account E i num (seq + of_nat j) | Inl _ \<Rightarrow> zero_account)"

definition generated_for :: "'p prep_env \<Rightarrow> nat \<Rightarrow> nat \<Rightarrow> Tx \<Rightarrow> bool" where
  "generated_for E i j t \<longleftrightarrow> (\<exists>p p'. pr_gen E (tx_request E i j (account_at E i j)) p = (Ret (Inr t), p'))"

definition signed_for :: "'p prep_env \<Rightarrow> nat \<Rightarrow> nat \<Rightarrow> Tx \<Rightarrow> bool" where
  "signed_for E i j t' \<longleftrightarrow> (\<exists>t p p'. generated_for E i j t \<and> pr_sign E t p = (Ret (Inr t'), p'))"

fun progress :: "nat \<Rightarrow> task \<Rightarrow> nat" where
  "progress n Submitted = 0"
| "progress n (Generating j acc) = j"
| "progress n Finished = n"

definition nslot :: "Tx \<Rightarrow> nat \<times> nat" where
  "nslot t = (nat (tx_FromIdx t), nat (tx_TxIdx t))"

definition inflight :: "'p prep_state \<Rightarrow> (nat \<times> nat) list" where
  "inflight s = map nslot (txQueue s) @ map nslot (hands s) @ map nslot (txSignedQueue s)"

definition begun :: "'p prep_env \<Rightarrow> 'p prep_state \<Rightarrow> (nat \<times> nat) set" where
  "begun E s = {(i, j). i < length (tasks s) \<and> j < progress (pr_numTxs E) (tasks s ! i)}"

definition task_ok :: "'p prep_env \<Rightarrow> 'p prep_state \<Rightarrow> nat \<Rightarrow> bool" where
  "task_ok E s i \<longleftrightarrow> (case tasks s ! i of
     Submitted \<Rightarrow> True
   | Generating j acc \<Rightarrow> j \<le> pr_numTxs E \<and> acc = account_at E i j \<and>
       (\<exists>num. pr_fetch E i = Inr (num, initialAccountSequences s ! i))
   | Finished \<Rightarrow> \<exists>num. pr_fetch E i = Inr (num, initialAccountSequences s ! i))"

definition shape_ok :: "'p prep_env \<Rightarrow> 'p prep_state \<Rightarrow> bool" where
  "shape_ok E s \<longleftrightarrow> length (tasks s) = length (pr_accounts E) \<and>
     length (signedTxs s) = length (pr_accounts E) \<and>
     (\<forall>row \<in> set (signedTxs s). length row = pr_numTxs E) \<and>
     length (initialAccountSequences s) = length (pr_accounts E)"

definition prep_inv :: "'p prep_env \<Rightarrow> 'p prep_state \<Rightarrow> bool" where
  "prep_inv E s \<longleftrightarrow> shape_ok E s \<and> (\<forall>i < length (pr_accounts E). task_ok E s i) \<and>
     (\<forall>t \<in> set (txQueue s). \<exists>i j. generated_for E i j t) \<and>
     (\<forall>t \<in> set (hands s) \<union> set (txSignedQueue s). \<exists>i j. signed_for E i j t) \<and>
     distinct (inflight s) \<and> set (inflight s) \<subseteq> begun E s \<and>
     collected s + length (inflight s) = (\<Sum>k \<leftarrow> tasks s. progress (pr_numTxs E) k) \<and>
     (\<forall>(i, j) \<in> begun E s - set (inflight s).
        \<exists>t'. signed_for E i j t' \<and> signedTxs s ! i ! j = tx_Bytes t')"

lemma nslot_generated:
  assumes "tx_provider (pr_gen E) (pr_sign E)" and "generated_for E i j t"
  shows "nslot t = (i, j)" "tx_FromIdx t = int i" "tx_TxIdx t = int j"
  using assms tx_provider.generate_keeps [OF assms(1)]
  by (fastforce simp: generated_for_def nslot_def tx_request_def)+

lemma nslot_sign:
  assumes "tx_provider (pr_gen E) (pr_sign E)" and "pr_sign E t p = (Ret (Inr t'), p')"
  shows "nslot t' = nslot t" "tx_FromIdx t' = tx_FromIdx t" "tx_TxIdx t' = tx_TxIdx t"
  using tx_provider.sign_keeps [OF assms] by (auto simp: nslot_def)

lemma nslot_signed:
  assumes "tx_provider (pr_gen E) (pr_sign E)" and "signed_for E i j t"
  shows "nslot t = (i, j)" "tx_FromIdx t = int i" "tx_TxIdx t = int j"
  using assms(2) nslot_generated [OF assms(1)] nslot_sign [OF assms(1)]
  unfolding signed_for_def by metis+

text \<open>Two states agree on everything the slots depend on.\<close>

lemma inflight_perm:
  assumes "mset (inflight s') = mset (inflight s)"
  shows "distinct (inflight s') = distinct (inflight s)" "set (inflight s') = set (inflight s)"
    "length (inflight s') = length (inflight s)"
  using assms mset_eq_setD mset_eq_length mset_eq_imp_distinct_iff by blast+

lemma sum_progress_update:
  assumes "i < length ts"
  shows "(\<Sum>k \<leftarrow> ts[i := t]. progress n k) + progress n (ts ! i) = (\<Sum>k \<leftarrow> ts. progress n k) + progress n t"
  using assms by (induction ts arbitrary: i) (auto split: nat.split simp: less_Suc_eq_0_disj)

lemma prep_inv_init: "prep_inv E (prep_init E p)"
  by (auto simp: prep_inv_def prep_init_def Let_def shape_ok_def task_ok_def inflight_def begun_def
      sum_list_replicate)

lemma prep_inv_start:
  assumes inv: "prep_inv E s" and i: "i < length (tasks s)" "tasks s ! i = Submitted"
    and f: "pr_fetch E i = Inr (accNum, accSeq)"
  shows "prep_inv E (s\<lparr> tasks := (tasks s)[i := Generating 0 (sender_account E i accNum accSeq)],
    initialAccountSequences := (initialAccountSequences s)[i := accSeq] \<rparr>)" (is "prep_inv E ?s")
proof -
  have b: "begun E ?s = begun E s"
    using i by (auto simp: begun_def nth_list_update split: if_splits)
  have sum: "(\<Sum>k \<leftarrow> tasks ?s. progress (pr_numTxs E) k) = (\<Sum>k \<leftarrow> tasks s. progress (pr_numTxs E) k)"
    using sum_progress_update [OF i(1), where n = "pr_numTxs E" and t = "tasks ?s ! i"] i by simp
  have "task_ok E ?s k" if "k < length (pr_accounts E)" for k
    using inv i f that
    by (cases "k = i") (auto simp: prep_inv_def shape_ok_def task_ok_def account_at_def split: task.splits)
  moreover have "inflight ?s = inflight s" by (simp add: inflight_def)
  ultimately show ?thesis using inv unfolding prep_inv_def b sum by (simp add: shape_ok_def)
qed

lemma prep_inv_finish:
  assumes inv: "prep_inv E s" and i: "i < length (tasks s)" "tasks s ! i = Generating j acc" "pr_numTxs E \<le> j"
  shows "prep_inv E (s\<lparr> tasks := (tasks s)[i := Finished] \<rparr>)" (is "prep_inv E ?s")
proof -
  have j: "j = pr_numTxs E" using inv i by (auto simp: prep_inv_def task_ok_def shape_ok_def)
  have b: "begun E ?s = begun E s"
    using i j by (auto simp: begun_def nth_list_update split: if_splits)
  have sum: "(\<Sum>k \<leftarrow> tasks ?s. progress (pr_numTxs E) k) = (\<Sum>k \<leftarrow> tasks s. progress (pr_numTxs E) k)"
    using sum_progress_update [OF i(1), where n = "pr_numTxs E" and t = Finished] i j by simp
  have "task_ok E ?s k" if "k < length (pr_accounts E)" for k
    using inv i that by (cases "k = i") (auto simp: prep_inv_def shape_ok_def task_ok_def split: task.splits)
  moreover have "inflight ?s = inflight s" by (simp add: inflight_def)
  ultimately show ?thesis using inv unfolding prep_inv_def b sum by (simp add: shape_ok_def)
qed

lemma prep_inv_generate:
  assumes tp: "tx_provider (pr_gen E) (pr_sign E)" and inv: "prep_inv E s"
    and i: "i < length (tasks s)" "tasks s ! i = Generating j acc" "j < pr_numTxs E"
    and g: "pr_gen E (tx_request E i j acc) (prov s) = (Ret (Inr t), p')"
  shows "prep_inv E (s\<lparr> tasks := (tasks s)[i := Generating (Suc j) (acc\<lparr>Sequence := Sequence acc + 1\<rparr>)],
    txQueue := txQueue s @ [t], prov := p' \<rparr>)" (is "prep_inv E ?s")
proof -
  let ?n = "pr_numTxs E"
  have n: "i < length (pr_accounts E)" and ok: "task_ok E s i"
    using inv i by (auto simp: prep_inv_def shape_ok_def)
  then obtain num where acc: "acc = account_at E i j"
      and f: "pr_fetch E i = Inr (num, initialAccountSequences s ! i)"
    using i by (auto simp: task_ok_def)
  have gen: "generated_for E i j t" using g acc unfolding generated_for_def by blast
  have slot: "nslot t = (i, j)" using nslot_generated [OF tp gen] by simp
  have next_acc: "acc\<lparr>Sequence := Sequence acc + 1\<rparr> = account_at E i (Suc j)"
    using f by (simp add: acc account_at_def sender_account_def)
  have b: "begun E ?s = insert (i, j) (begun E s)"
    using i by (auto simp: begun_def nth_list_update less_Suc_eq split: if_splits)
  have new: "(i, j) \<notin> begun E s" using i by (simp add: begun_def)
  have perm: "mset (inflight ?s) = add_mset (i, j) (mset (inflight s))"
    by (simp add: inflight_def slot)
  have fresh: "(i, j) \<notin> set (inflight s)" using inv new by (auto simp: prep_inv_def)
  have dist: "distinct (inflight ?s)" and set: "set (inflight ?s) = insert (i, j) (set (inflight s))"
    and len: "length (inflight ?s) = Suc (length (inflight s))"
    using perm mset_eq_imp_distinct_iff [of "inflight ?s" "(i, j) # inflight s"] fresh inv
      mset_eq_setD [of "inflight ?s" "(i, j) # inflight s"] mset_eq_length [of "inflight ?s" "(i, j) # inflight s"]
    by (auto simp: prep_inv_def)
  have sum: "(\<Sum>k \<leftarrow> tasks ?s. progress ?n k) = Suc (\<Sum>k \<leftarrow> tasks s. progress ?n k)"
    using sum_progress_update [OF i(1), where n = ?n and t = "tasks ?s ! i"] i by simp
  have "task_ok E ?s k" if "k < length (pr_accounts E)" for k
    using inv i n that next_acc f
    by (cases "k = i") (auto simp: prep_inv_def shape_ok_def task_ok_def split: task.splits)
  moreover have "begun E ?s - set (inflight ?s) = begun E s - set (inflight s)"
    using b set new by auto
  ultimately show ?thesis
    using inv gen dist len unfolding prep_inv_def sum
    by (auto simp: shape_ok_def set b)
qed

text \<open>Signing and queueing only move a slot on; the collector takes one out.\<close>

lemma prep_inv_move:
  assumes inv: "prep_inv E s" and "mset (inflight s') = mset (inflight s)"
    and "tasks s' = tasks s" "signedTxs s' = signedTxs s" "collected s' = collected s"
      "initialAccountSequences s' = initialAccountSequences s"
    and "set (txQueue s') \<subseteq> set (txQueue s)"
    and "\<forall>t \<in> set (hands s') \<union> set (txSignedQueue s'). \<exists>i j. signed_for E i j t"
  shows "prep_inv E s'"
proof -
  have "begun E s' = begun E s" "\<And>i. task_ok E s' i = task_ok E s i" "shape_ok E s' = shape_ok E s"
    using assms by (simp_all add: begun_def task_ok_def shape_ok_def split: task.split)
  then show ?thesis
    using assms inflight_perm [OF assms(2)] unfolding prep_inv_def by auto
qed

lemma prep_inv_sign:
  assumes tp: "tx_provider (pr_gen E) (pr_sign E)" and inv: "prep_inv E s"
    and q: "txQueue s = t # q" and sg: "pr_sign E t (prov s) = (Ret (Inr t'), p')"
  shows "prep_inv E (s\<lparr> txQueue := q, hands := hands s @ [t'], prov := p' \<rparr>)" (is "prep_inv E ?s")
proof (rule prep_inv_move [OF inv])
  show "mset (inflight ?s) = mset (inflight s)"
    using q nslot_sign [OF tp sg] by (simp add: inflight_def)
  obtain i j where "generated_for E i j t" using inv q by (auto simp: prep_inv_def)
  with sg have "signed_for E i j t'" unfolding signed_for_def by blast
  then show "\<forall>t \<in> set (hands ?s) \<union> set (txSignedQueue ?s). \<exists>i j. signed_for E i j t"
    using inv by (auto simp: prep_inv_def)
qed (use q in auto)

lemma prep_inv_put:
  assumes inv: "prep_inv E s" and h: "hands s = xs @ t # ys"
  shows "prep_inv E (s\<lparr> hands := xs @ ys, txSignedQueue := txSignedQueue s @ [t] \<rparr>)" (is "prep_inv E ?s")
proof (rule prep_inv_move [OF inv])
  show "mset (inflight ?s) = mset (inflight s)" using h by (simp add: inflight_def)
  show "\<forall>t \<in> set (hands ?s) \<union> set (txSignedQueue ?s). \<exists>i j. signed_for E i j t"
    using inv h by (auto simp: prep_inv_def)
qed auto

lemma store_signed_in_range:
  assumes "shape_ok E s" and "tx_FromIdx t = int i" "tx_TxIdx t = int j"
    and "i < length (pr_accounts E)" "j < pr_numTxs E"
  shows "store_signed (signedTxs s) t = Some ((signedTxs s)[i := (signedTxs s ! i)[j := tx_Bytes t]])"
  using assms by (simp add: store_signed_def shape_ok_def go_index_def)

lemma signed_head_in_range:
  assumes tp: "tx_provider (pr_gen E) (pr_sign E)" and inv: "prep_inv E s" and q: "txSignedQueue s = t # q"
  obtains i j where "signed_for E i j t" "i < length (pr_accounts E)" "j < pr_numTxs E"
    "store_signed (signedTxs s) t = Some ((signedTxs s)[i := (signedTxs s ! i)[j := tx_Bytes t]])"
proof -
  obtain i j where sg: "signed_for E i j t" using inv q by (auto simp: prep_inv_def)
  have "(i, j) \<in> begun E s"
    using inv q nslot_signed(1) [OF tp sg] by (auto simp: prep_inv_def inflight_def)
  moreover from this have "i < length (pr_accounts E)" "task_ok E s i"
    using inv by (auto simp: begun_def prep_inv_def shape_ok_def)
  ultimately have ij: "i < length (pr_accounts E)" "j < pr_numTxs E"
    by (auto simp: begun_def task_ok_def split: task.splits)
  show ?thesis
    using that [OF sg ij] store_signed_in_range [of E s t i j] nslot_signed [OF tp sg] ij inv
    by (auto simp: prep_inv_def)
qed

lemma prep_inv_collect:
  assumes tp: "tx_provider (pr_gen E) (pr_sign E)" and inv: "prep_inv E s"
    and q: "txSignedQueue s = t # q" and m: "store_signed (signedTxs s) t = Some m"
  shows "prep_inv E (s\<lparr> txSignedQueue := q, signedTxs := m, collected := Suc (collected s) \<rparr>)"
    (is "prep_inv E ?s")
proof -
  obtain i j where sg: "signed_for E i j t" and ij: "i < length (pr_accounts E)" "j < pr_numTxs E"
      and m': "m = (signedTxs s)[i := (signedTxs s ! i)[j := tx_Bytes t]]"
    using signed_head_in_range [OF tp inv q] m by auto
  have slot: "nslot t = (i, j)" using nslot_signed [OF tp sg] by simp
  have perm: "mset (inflight s) = add_mset (i, j) (mset (inflight ?s))"
    using q by (simp add: inflight_def slot)
  have dist: "distinct ((i, j) # inflight ?s)" and set: "set (inflight s) = insert (i, j) (set (inflight ?s))"
    and len: "length (inflight s) = Suc (length (inflight ?s))"
    using perm mset_eq_imp_distinct_iff [of "inflight s" "(i, j) # inflight ?s"] inv
      mset_eq_setD [of "inflight s" "(i, j) # inflight ?s"] mset_eq_length [of "inflight s" "(i, j) # inflight ?s"]
    by (auto simp: prep_inv_def)
  have b: "begun E ?s = begun E s" "\<And>k. task_ok E ?s k = task_ok E s k"
    by (simp_all add: begun_def task_ok_def split: task.split)
  have shape: "shape_ok E ?s"
    using inv ij m' by (auto simp: prep_inv_def shape_ok_def dest!: set_update_subset_insert [THEN subsetD])
  have rows: "i < length (signedTxs s)" "j < length (signedTxs s ! i)"
    using inv ij by (auto simp: prep_inv_def shape_ok_def)
  have "\<exists>t'. signed_for E a c t' \<and> m ! a ! c = tx_Bytes t'"
    if "(a, c) \<in> begun E s - set (inflight ?s)" for a c
  proof (cases "(a, c) = (i, j)")
    case True
    then show ?thesis using sg m' rows by auto
  next
    case False
    with that set have "(a, c) \<in> begun E s - set (inflight s)" by auto
    with inv obtain t' where "signed_for E a c t'" "signedTxs s ! a ! c = tx_Bytes t'"
      unfolding prep_inv_def by blast
    moreover have "m ! a ! c = signedTxs s ! a ! c"
      using False m' rows by (cases "a = i") auto
    ultimately show ?thesis by auto
  qed
  then show ?thesis
    using inv shape dist set len q unfolding prep_inv_def b by auto
qed

lemma prep_inv_step:
  assumes "tx_provider (pr_gen E) (pr_sign E)" and "prep_inv E s" and "prep_step E s (Going s')"
  shows "prep_inv E s'"
  using assms(3)
proof cases
  case start
  with assms(2) show ?thesis by (simp add: prep_inv_start)
next
  case generate
  with assms(1,2) show ?thesis by (simp add: prep_inv_generate)
next
  case finish
  with assms(2) show ?thesis by (simp add: prep_inv_finish)
next
  case sign
  with assms(1,2) show ?thesis by (simp add: prep_inv_sign)
next
  case put
  with assms(2) show ?thesis by (simp add: prep_inv_put)
next
  case collect
  with assms(1,2) show ?thesis by (simp add: prep_inv_collect)
qed

lemma prep_inv_reach:
  assumes "tx_provider (pr_gen E) (pr_sign E)" and "prep_reach E (prep_init E p) s"
  shows "prep_inv E s"
  using assms(2)
proof (induction "prep_init E p" s rule: prep_reach.induct)
  case refl
  show ?case by (rule prep_inv_init)
next
  case (step s' s'')
  with assms(1) show ?case by (blast intro: prep_inv_step)
qed

subsection \<open>Completion\<close>

lemma progress_le:
  assumes "prep_inv E s" and "t \<in> set (tasks s)"
  shows "progress (pr_numTxs E) t \<le> pr_numTxs E"
proof -
  obtain i where "i < length (tasks s)" "t = tasks s ! i" using assms(2) by (auto simp: in_set_conv_nth)
  with assms(1) have "task_ok E s i" by (auto simp: prep_inv_def shape_ok_def)
  with \<open>t = tasks s ! i\<close> show ?thesis by (auto simp: task_ok_def split: task.splits)
qed

lemma sum_full_imp_all:
  fixes f :: "'a \<Rightarrow> nat"
  assumes "\<forall>x \<in> set xs. f x \<le> n" and "length xs * n \<le> (\<Sum>x \<leftarrow> xs. f x)"
  shows "\<forall>x \<in> set xs. f x = n" "(\<Sum>x \<leftarrow> xs. f x) = length xs * n"
proof -
  have le: "(\<Sum>x \<leftarrow> ys. f x) \<le> length ys * n" if "\<forall>x \<in> set ys. f x \<le> n" for ys
    using that by (induction ys) auto
  show "\<forall>x \<in> set xs. f x = n"
    using assms
  proof (induction xs)
    case (Cons x xs)
    then show ?case using le [of xs] by force
  qed simp
  show "(\<Sum>x \<leftarrow> xs. f x) = length xs * n" using le [OF assms(1)] assms(2) by simp
qed

lemma prep_done_full:
  assumes inv: "prep_inv E s" and "prep_done E s"
  shows "inflight s = []" "\<forall>t \<in> set (tasks s). progress (pr_numTxs E) t = pr_numTxs E"
proof -
  let ?sum = "\<Sum>k \<leftarrow> tasks s. progress (pr_numTxs E) k"
  have le: "\<forall>t \<in> set (tasks s). progress (pr_numTxs E) t \<le> pr_numTxs E" using progress_le [OF inv] by blast
  have "length (tasks s) * pr_numTxs E + length (inflight s) = ?sum"
    using assms by (simp add: prep_inv_def shape_ok_def prep_done_def)
  with sum_full_imp_all [OF le] show "inflight s = []"
      "\<forall>t \<in> set (tasks s). progress (pr_numTxs E) t = pr_numTxs E"
    by (simp_all)
qed

text \<open>The provider succeeds in every state with a property \<open>P\<close>, which its calls keep.\<close>

definition provider_succeeds :: "'p prep_env \<Rightarrow> ('p \<Rightarrow> bool) \<Rightarrow> bool" where
  "provider_succeeds E P \<longleftrightarrow>
     (\<forall>i < length (pr_accounts E). \<forall>j < pr_numTxs E. \<forall>p. P p \<longrightarrow>
        (\<exists>t p'. pr_gen E (tx_request E i j (account_at E i j)) p = (Ret (Inr t), p') \<and> P p')) \<and>
     (\<forall>i j t p. generated_for E i j t \<longrightarrow> P p \<longrightarrow> (\<exists>t' p'. pr_sign E t p = (Ret (Inr t'), p') \<and> P p'))"

definition accounts_fetched :: "'p prep_env \<Rightarrow> bool" where
  "accounts_fetched E \<longleftrightarrow> (\<forall>i < length (pr_accounts E). \<exists>r. pr_fetch E i = Inr r)"

fun task_work :: "nat \<Rightarrow> task \<Rightarrow> nat" where
  "task_work n Submitted = 4 * n + 2"
| "task_work n (Generating j acc) = 4 * (n - j) + 1"
| "task_work n Finished = 0"

definition work :: "'p prep_env \<Rightarrow> 'p prep_state \<Rightarrow> nat" where
  "work E s = (\<Sum>k \<leftarrow> tasks s. task_work (pr_numTxs E) k) + 3 * length (txQueue s) + 2 * length (hands s)
     + length (txSignedQueue s)"

lemma sum_work_update:
  assumes "i < length ts"
  shows "(\<Sum>k \<leftarrow> ts[i := t]. task_work n k) + task_work n (ts ! i) = (\<Sum>k \<leftarrow> ts. task_work n k) + task_work n t"
  using assms by (induction ts arbitrary: i) (auto split: nat.split simp: less_Suc_eq_0_disj)

lemma prep_step_work:
  assumes "prep_step E s (Going s')"
  shows "work E s' < work E s"
  using assms
proof cases
  case (start i accNum accSeq)
  with sum_work_update [OF start(2), where t = "Generating 0 (sender_account E i accNum accSeq)" and n = "pr_numTxs E"]
  show ?thesis by (simp add: work_def)
next
  case (generate i j acc t p')
  with sum_work_update [OF generate(2), where t = "Generating (Suc j) (acc\<lparr>Sequence := Sequence acc + 1\<rparr>)" and n = "pr_numTxs E"]
  show ?thesis by (simp add: work_def)
next
  case (finish i j acc)
  with sum_work_update [OF finish(2), where t = Finished and n = "pr_numTxs E"] show ?thesis by (simp add: work_def)
qed (simp_all add: work_def)

lemma provider_state_reach:
  assumes "tx_provider (pr_gen E) (pr_sign E)" and "prep_reach E (prep_init E p) s"
    and "provider_succeeds E P" and "P p"
  shows "P (prov s)"
  using assms(2)
proof (induction "prep_init E p" s rule: prep_reach.induct)
  case refl
  then show ?case using assms(4) by (simp add: prep_init_def Let_def)
next
  case (step s' s'')
  have inv: "prep_inv E s'" by (rule prep_inv_reach [OF assms(1) step(1)])
  from step(3) show ?case
  proof cases
    case (generate i j acc t p')
    then have "i < length (pr_accounts E)" "acc = account_at E i j"
      using inv by (auto simp: prep_inv_def shape_ok_def task_ok_def)
    with assms(3) step(2) generate show ?thesis unfolding provider_succeeds_def by fastforce
  next
    case (sign t q t' p')
    then obtain i j where "generated_for E i j t" using inv by (auto simp: prep_inv_def)
    with assms(3) step(2) sign show ?thesis unfolding provider_succeeds_def by fastforce
  qed (use step(2) in simp_all)
qed

lemma prep_no_death:
  assumes tp: "tx_provider (pr_gen E) (pr_sign E)" and inv: "prep_inv E s"
    and P: "P (prov s)" and ok: "provider_succeeds E P" "accounts_fetched E"
  shows "\<not> prep_step E s (Died e)"
proof
  assume "prep_step E s (Died e)"
  then show False
  proof cases
    case (start_fatal i err)
    then show False using inv ok(2) by (auto simp: accounts_fetched_def prep_inv_def shape_ok_def)
  next
    case (generate_panic i j acc r p')
    then have "i < length (pr_accounts E)" "acc = account_at E i j"
      using inv by (auto simp: prep_inv_def shape_ok_def task_ok_def)
    moreover from this ok(1) P generate_panic(3) obtain t q
      where "pr_gen E (tx_request E i j (account_at E i j)) (prov s) = (Ret (Inr t), q)"
      unfolding provider_succeeds_def by blast
    ultimately show False using generate_panic by auto
  next
    case (sign_panic t q r p')
    then obtain i j where "generated_for E i j t" using inv by (auto simp: prep_inv_def)
    with ok(1) P obtain t' p'' where "pr_sign E t (prov s) = (Ret (Inr t'), p'')"
      unfolding provider_succeeds_def by blast
    with sign_panic show False by auto
  next
    case (collect_panic t q)
    from signed_head_in_range [OF tp inv collect_panic(3)] collect_panic(4) show False by simp
  qed
qed

lemma first_submitted:
  assumes "Submitted \<in> set ts"
  obtains i where "i < length ts" "ts ! i = Submitted" "Submitted \<notin> set (take i ts)"
proof -
  obtain ys zs where "ts = ys @ Submitted # zs" "Submitted \<notin> set ys"
    using split_list_first [OF assms] by blast
  then show ?thesis by (intro that [of "length ys"]) auto
qed

lemma task_progress:
  assumes inv: "prep_inv E s" and P: "P (prov s)" and ok: "provider_succeeds E P" "accounts_fetched E" "0 < pr_numCPU E"
    and "txQueue s = []" and "t \<in> set (tasks s)" "t \<noteq> Finished"
  shows "\<exists>s'. prep_step E s (Going s')"
proof (cases "\<exists>i < length (tasks s). \<exists>j acc. tasks s ! i = Generating j acc")
  case True
  then obtain i j acc where i: "i < length (tasks s)" "tasks s ! i = Generating j acc" by blast
  then have n: "i < length (pr_accounts E)" "acc = account_at E i j"
    using inv by (auto simp: prep_inv_def shape_ok_def task_ok_def)
  show ?thesis
  proof (cases "j < pr_numTxs E")
    case True
    with ok(1) P n obtain t p' where "pr_gen E (tx_request E i j acc) (prov s) = (Ret (Inr t), p')"
      unfolding provider_succeeds_def by blast
    with i True assms(6) show ?thesis by (intro exI) (rule generate, auto simp: queue_cap_def)
  next
    case False
    with i show ?thesis by (intro exI) (rule finish, auto)
  qed
next
  case False
  then have none: "\<forall>k \<in> set (tasks s). k = Submitted \<or> k = Finished"
    by (metis in_set_conv_nth task.exhaust)
  then have "running s = 0" by (auto simp: running_def filter_empty_conv)
  moreover have "Submitted \<in> set (tasks s)" using none assms(7,8) by metis
  then obtain i where i: "i < length (tasks s)" "tasks s ! i = Submitted" "Submitted \<notin> set (take i (tasks s))"
    by (rule first_submitted)
  moreover obtain num seq where "pr_fetch E i = Inr (num, seq)"
    using ok(2) i(1) inv by (fastforce simp: accounts_fetched_def prep_inv_def shape_ok_def)
  ultimately show ?thesis using ok(3) by (intro exI) (rule start, auto)
qed

lemma prep_progress:
  assumes tp: "tx_provider (pr_gen E) (pr_sign E)" and inv: "prep_inv E s"
    and P: "P (prov s)" and ok: "provider_succeeds E P" "accounts_fetched E" "0 < pr_numCPU E" and nd: "\<not> prep_done E s"
  shows "\<exists>s'. prep_step E s (Going s')"
proof -
  let ?n = "pr_numTxs E"
  have le: "\<forall>t \<in> set (tasks s). progress ?n t \<le> ?n" using progress_le [OF inv] by blast
  have "(\<Sum>k \<leftarrow> tasks s. progress ?n k) \<le> length (tasks s) * ?n"
    using sum_list_mono [of "tasks s" "progress ?n" "\<lambda>_. ?n"] le by (simp add: sum_list_triv)
  then have c: "collected s < length (pr_accounts E) * ?n"
    using inv nd by (auto simp: prep_inv_def shape_ok_def prep_done_def)
  consider (sq) t q where "txSignedQueue s = t # q" | (h) t q where "hands s = t # q" "txSignedQueue s = []"
    | (q) t q where "txQueue s = t # q" "hands s = []" | (tasks) "txQueue s = []" "inflight s = []"
    unfolding inflight_def by (cases "txSignedQueue s"; cases "hands s"; cases "txQueue s") auto
  then show ?thesis
  proof cases
    case sq
    then show ?thesis using signed_head_in_range [OF tp inv sq] c collect by metis
  next
    case h
    then show ?thesis using put [of s "[]"] by (auto simp: queue_cap_def)
  next
    case q
    then obtain i j where "generated_for E i j t" using inv by (auto simp: prep_inv_def)
    then obtain t' p' where "pr_sign E t (prov s) = (Ret (Inr t'), p')"
      using ok(1) P unfolding provider_succeeds_def by blast
    with q ok(3) show ?thesis by (intro exI) (rule sign, auto)
  next
    case tasks
    have "\<exists>t \<in> set (tasks s). t \<noteq> Finished"
    proof (rule ccontr)
      assume "\<not> ?thesis"
      then have "map (progress ?n) (tasks s) = replicate (length (tasks s)) ?n"
        by (intro replicate_eqI) auto
      then have "(\<Sum>k \<leftarrow> tasks s. progress ?n k) = length (tasks s) * ?n" by (simp add: sum_list_replicate)
      with tasks inv c show False by (simp add: prep_inv_def shape_ok_def)
    qed
    with task_progress [OF inv P ok tasks(1)] show ?thesis by blast
  qed
qed

lemma matrix_entries:
  assumes "tx_provider (pr_gen E) (pr_sign E)" and "prep_reach E (prep_init E p) s" and "prep_done E s"
    and "i < length (pr_accounts E)" and "j < pr_numTxs E"
  shows "(\<exists>t'. signed_for E i j t' \<and> signedTxs s ! i ! j = tx_Bytes t') \<and>
    (\<exists>num. pr_fetch E i = Inr (num, initialAccountSequences s ! i))"
proof -
  have inv: "prep_inv E s" by (rule prep_inv_reach [OF assms(1,2)])
  have i: "i < length (tasks s)" using inv assms(4) by (simp add: prep_inv_def shape_ok_def)
  have pi: "progress (pr_numTxs E) (tasks s ! i) = pr_numTxs E"
    using prep_done_full(2) [OF inv assms(3)] i by simp
  then have "(i, j) \<in> begun E s - set (inflight s)"
    using prep_done_full(1) [OF inv assms(3)] i assms(5) by (simp add: begun_def)
  moreover have "task_ok E s i" using inv assms(4) by (simp add: prep_inv_def)
  then have "\<exists>num. pr_fetch E i = Inr (num, initialAccountSequences s ! i)"
    using pi assms(5) by (cases "tasks s ! i") (auto simp: task_ok_def)
  ultimately show ?thesis using inv unfolding prep_inv_def by blast
qed

text \<open>C5: When the preparation ends, under any interleaving of the workers, signers and the collector,
  row \<open>i\<close> and column \<open>j\<close> of the matrix hold the bytes of a signed transaction that the provider
  generated for account \<open>i\<close> with the fetched sequence plus \<open>j\<close>, and the sequence kept for the
  broadcast is the fetched one.\<close>

theorem matrix_complete:
  assumes "tx_provider (pr_gen E) (pr_sign E)" and "prep_reach E (prep_init E p) s" and "prep_done E s"
    and "i < length (pr_accounts E)" and "j < pr_numTxs E"
  shows "(\<exists>t'. signed_for E i j t' \<and> signedTxs s ! i ! j = tx_Bytes t') \<and>
    (\<exists>num. pr_fetch E i = Inr (num, initialAccountSequences s ! i))"
  using assms by (rule matrix_entries)

text \<open>Some schedule fills the matrix.\<close>

lemma preparation_completes:
  assumes "tx_provider (pr_gen E) (pr_sign E)" and "provider_succeeds E P" and "P p" and "accounts_fetched E" and "0 < pr_numCPU E"
  shows "\<exists>s. prep_reach E (prep_init E p) s \<and> prep_done E s"
proof -
  have "prep_reach E (prep_init E p) s \<Longrightarrow> \<exists>s'. prep_reach E (prep_init E p) s' \<and> prep_done E s'" for s
  proof (induction "work E s" arbitrary: s rule: less_induct)
    case less
    show ?case
    proof (cases "prep_done E s")
      case False
      with prep_progress [OF assms(1) prep_inv_reach [OF assms(1) less.prems] provider_state_reach [OF assms(1) less.prems assms(2,3)]
          assms(2,4,5)]
      obtain s' where s': "prep_step E s (Going s')" by blast
      from less.hyps [OF prep_step_work [OF s'] prep_reach.step [OF less.prems s']] show ?thesis .
    qed (use less.prems in blast)
  qed
  then show ?thesis using prep_reach.refl by blast
qed

text \<open>C6: The preparation cannot get stuck, die or run forever when the accounts are found and the
  provider succeeds in the states it goes through: in every reachable state no step is a panic, some goroutine can move unless the
  matrix is full, and every move decreases the work left.\<close>

theorem preparation_ends:
  assumes "tx_provider (pr_gen E) (pr_sign E)" and "prep_reach E (prep_init E p) s"
    and "provider_succeeds E P" and "P p" and "accounts_fetched E" and "0 < pr_numCPU E"
  shows "\<not> prep_step E s (Died e) \<and> (prep_done E s \<or> (\<exists>s'. prep_step E s (Going s'))) \<and>
    (\<forall>s'. prep_step E s (Going s') \<longrightarrow> work E s' < work E s)"
proof -
  note inv = prep_inv_reach [OF assms(1,2)] and P = provider_state_reach [OF assms(1-4)]
  show ?thesis
    using prep_no_death [OF assms(1) inv P assms(3,5)] prep_progress [OF assms(1) inv P assms(3,5,6)] prep_step_work
    by blast
qed

end
