(* ===== verification/Go_Float.thy ===== *)
theory Go_Float
  imports Complex_Main "HOL-Library.Log_Nat" Prelude
begin

text \<open>
  Go's \<^verbatim>\<open>float64\<close>: IEEE 754 binary64 with rounding to the nearest value, ties to even. A finite
  float is the rational it stands for, so \<open>+\<close>, \<open>-\<close>, \<open>*\<close> and \<open>/\<close> of the source are the
  exact operation followed by \<open>fround\<close>. The sign of a zero is not kept: the program compares
  floats, adds, multiplies, rounds up and divides by non-zero values only, and none of these can
  tell the zeros apart. What the proofs use is that rounding is monotone and keeps the values that
  are floats already.
\<close>

datatype float64 = Fin rat | PInf | NInf | NaN

subsection \<open>Powers of two and the binary logarithm\<close>

definition pow2 :: "int \<Rightarrow> rat" where
  "pow2 k = (if 0 \<le> k then 2 ^ nat k else 1 / 2 ^ nat (- k))"

lemma pow2_powi: "pow2 k = 2 powi k"
  unfolding pow2_def power_int_def by (simp add: power_one_over inverse_eq_divide)

lemma pow2_pos [simp]: "0 < pow2 k"
  by (simp add: pow2_def)

lemma pow2_nonneg [simp]: "0 \<le> pow2 k" and pow2_nonzero [simp]: "pow2 k \<noteq> 0"
  using pow2_pos [of k] by linarith+

lemma pow2_add: "pow2 (a + b) = pow2 a * pow2 b"
  by (simp add: pow2_powi power_int_add)

lemma pow2_diff: "pow2 (a - b) = pow2 a / pow2 b"
  by (simp add: pow2_powi power_int_diff)

lemma pow2_mono: "a \<le> b \<Longrightarrow> pow2 a \<le> pow2 b"
  by (simp add: pow2_powi power_int_increasing)

lemma pow2_strict_mono: "a < b \<Longrightarrow> pow2 a < pow2 b"
  by (simp add: pow2_powi power_int_strict_increasing)

lemma pow2_less_iff: "pow2 a < pow2 b \<longleftrightarrow> a < b"
  using pow2_strict_mono [of a b] pow2_mono [of b a] by linarith

lemma pow2_int: "0 \<le> k \<Longrightarrow> pow2 k = of_int (2 ^ nat k)"
  by (simp add: pow2_def)

definition flog2 :: "rat \<Rightarrow> int" where
  "flog2 x = (let (n, d) = quotient_of x; k = bitlen n - bitlen d
     in if pow2 k \<le> x then k else k - 1)"

lemma flog2_bounds:
  assumes "0 < x"
  shows "pow2 (flog2 x) \<le> x" and "x < pow2 (flog2 x + 1)"
proof -
  obtain n d where q: "quotient_of x = (n, d)" by fastforce
  have d: "0 < d" using quotient_of_denom_pos [OF q] .
  have x: "x = of_int n / of_int d" using quotient_of_div [OF q] .
  with assms d have n: "0 < n" by (simp add: zero_less_divide_iff)
  let ?a = "bitlen n" and ?b = "bitlen d"
  have "0 < ?a" "0 < ?b" using n d by (simp_all add: bitlen_alt_def)
  then have p: "pow2 (?a - 1) = of_int (2 ^ nat (?a - 1))" "pow2 ?a = of_int (2 ^ nat ?a)"
    "pow2 (?b - 1) = of_int (2 ^ nat (?b - 1))" "pow2 ?b = of_int (2 ^ nat ?b)"
    by (simp_all only: pow2_int)
  have n1: "pow2 (?a - 1) \<le> of_int n" and n2: "of_int n < pow2 ?a"
    and d1: "pow2 (?b - 1) \<le> of_int d" and d2: "of_int d < pow2 ?b"
    using bitlen_bounds [OF n] bitlen_bounds [OF d] unfolding p of_int_le_iff of_int_less_iff
    by auto
  have "pow2 (?a - ?b - 1) = pow2 (?a - 1) / pow2 ?b"
    by (simp add: pow2_diff)
  also have "\<dots> \<le> x"
    unfolding x using n1 d2 d less_imp_le [OF n] by (intro frac_le; simp)
  finally have lo: "pow2 (?a - ?b - 1) \<le> x" .
  have "x < pow2 ?a / pow2 (?b - 1)"
    unfolding x using n2 d1 d n by (intro frac_less) auto
  also have "\<dots> = pow2 (?a - ?b + 1)"
    by (simp add: pow2_diff pow2_add)
  finally have hi: "x < pow2 (?a - ?b + 1)" .
  show "pow2 (flog2 x) \<le> x" and "x < pow2 (flog2 x + 1)"
    using lo hi by (auto simp: flog2_def q Let_def)
qed

lemma flog2_mono:
  assumes "0 < x" "x \<le> y"
  shows "flog2 x \<le> flog2 y"
proof -
  have "pow2 (flog2 x) \<le> x" using assms flog2_bounds by simp
  also have "x < pow2 (flog2 y + 1)" using assms flog2_bounds(2) [of y] by simp
  finally show ?thesis by (simp add: pow2_less_iff)
qed

subsection \<open>Rounding\<close>

text \<open>To the nearest integer, ties to the even one.\<close>

definition rne :: "rat \<Rightarrow> int" where
  "rne x = (let f = \<lfloor>x\<rfloor>; d = x - of_int f
     in if d < 1 / 2 then f else if 1 / 2 < d then f + 1 else if even f then f else f + 1)"

lemma rne_int [simp]: "rne (of_int k) = k"
  by (simp add: rne_def)

lemma rne_near: "\<lfloor>x\<rfloor> \<le> rne x \<and> rne x \<le> \<lfloor>x\<rfloor> + 1"
  by (simp add: rne_def Let_def)

lemma rne_mono:
  assumes "x \<le> y"
  shows "rne x \<le> rne y"
proof (cases "\<lfloor>x\<rfloor> = \<lfloor>y\<rfloor>")
  case True
  with assms show ?thesis by (auto simp: rne_def Let_def)
next
  case False
  with floor_mono [OF assms] have "\<lfloor>x\<rfloor> + 1 \<le> \<lfloor>y\<rfloor>" by simp
  with rne_near [of x] rne_near [of y] show ?thesis by linarith
qed

lemma rne_minus: "rne (- x) = - rne x"
proof (cases "x = of_int \<lfloor>x\<rfloor>")
  case True
  then show ?thesis by (metis of_int_minus rne_int)
next
  case False
  then have "\<lfloor>- x\<rfloor> = - \<lfloor>x\<rfloor> - 1"
    by (simp add: floor_minus ceiling_altdef)
  then show ?thesis by (auto simp: rne_def Let_def)
qed

text \<open>The exponent of the last place: 53 bits of precision, down to the subnormal numbers.\<close>

definition ulp_exp :: "rat \<Rightarrow> int" where
  "ulp_exp x = max (flog2 \<bar>x\<bar> - 52) (- 1074)"

definition round53 :: "rat \<Rightarrow> rat" where
  "round53 x = (if x = 0 then 0 else pow2 (ulp_exp x) * of_int (rne (x / pow2 (ulp_exp x))))"

definition fround :: "rat \<Rightarrow> float64" where
  "fround x = (let r = round53 x in
     if \<bar>r\<bar> < 2 ^ 1024 then Fin r else if 0 < r then PInf else NInf)"

lemma round53_grid:
  assumes "x = pow2 e * of_int m" and "ulp_exp x \<le> e"
  shows "round53 x = x"
proof -
  let ?u = "ulp_exp x"
  have "x / pow2 ?u = pow2 (e - ?u) * of_int m"
    using assms(1) by (simp add: pow2_diff)
  also have "\<dots> = of_int (2 ^ nat (e - ?u) * m)"
    using assms(2) pow2_int [of "e - ?u"] by simp
  finally have q: "x / pow2 ?u = of_int (2 ^ nat (e - ?u) * m)" .
  have "pow2 ?u * (x / pow2 ?u) = x" by simp
  then show ?thesis unfolding round53_def using q by (metis rne_int)
qed

lemma round53_minus: "round53 (- x) = - round53 x"
  by (simp add: round53_def ulp_exp_def rne_minus flip: minus_divide_left)

lemma round53_pow2_bounds:
  assumes "0 < x" and "ulp_exp x \<le> k"
  shows "x \<le> pow2 k \<Longrightarrow> round53 x \<le> pow2 k" and "pow2 k \<le> x \<Longrightarrow> pow2 k \<le> round53 x"
proof -
  let ?u = "ulp_exp x"
  have k: "pow2 k / pow2 ?u = of_int (2 ^ nat (k - ?u))"
    using assms(2) by (simp flip: pow2_diff add: pow2_int)
  have r: "round53 x / pow2 ?u = of_int (rne (x / pow2 ?u))"
    using assms(1) by (simp add: round53_def)
  show "round53 x \<le> pow2 k" if "x \<le> pow2 k"
  proof -
    have "x / pow2 ?u \<le> of_int (2 ^ nat (k - ?u))"
      using that k by (metis divide_right_mono less_imp_le pow2_pos)
    then have "rne (x / pow2 ?u) \<le> 2 ^ nat (k - ?u)" using rne_mono by (metis rne_int)
    then have "round53 x / pow2 ?u \<le> pow2 k / pow2 ?u" unfolding r k of_int_le_iff .
    then show ?thesis by (simp add: divide_le_cancel)
  qed
  show "pow2 k \<le> round53 x" if "pow2 k \<le> x"
  proof -
    have "of_int (2 ^ nat (k - ?u)) \<le> x / pow2 ?u"
      using that k by (metis divide_right_mono less_imp_le pow2_pos)
    then have "2 ^ nat (k - ?u) \<le> rne (x / pow2 ?u)" using rne_mono by (metis rne_int)
    then have "pow2 k / pow2 ?u \<le> round53 x / pow2 ?u" unfolding r k of_int_le_iff .
    then show ?thesis by (simp add: divide_le_cancel)
  qed
qed

lemma round53_nonneg: "0 \<le> x \<Longrightarrow> 0 \<le> round53 x"
proof -
  assume "0 \<le> x"
  moreover have "rne 0 \<le> rne (x / pow2 (ulp_exp x))" if "0 < x"
    using that by (intro rne_mono) (simp add: less_imp_le)
  moreover have "rne 0 = 0" using rne_int [of 0] by simp
  ultimately show ?thesis by (auto simp: round53_def)
qed

lemma round53_mono_pos:
  assumes "0 < x" "x \<le> y"
  shows "round53 x \<le> round53 y"
proof (cases "ulp_exp x = ulp_exp y")
  case True
  have "rne (x / pow2 (ulp_exp y)) \<le> rne (y / pow2 (ulp_exp y))"
    using assms(2) by (intro rne_mono) (simp add: divide_right_mono less_imp_le)
  with True assms show ?thesis by (simp add: round53_def)
next
  case False
  have lt: "flog2 x \<le> flog2 y" using assms by (rule flog2_mono)
  with False assms have u: "ulp_exp y = flog2 y - 52" "ulp_exp x < ulp_exp y" "flog2 x < flog2 y"
    by (auto simp: ulp_exp_def)
  have "x < pow2 (flog2 x + 1)" using flog2_bounds assms by simp
  also have "\<dots> \<le> pow2 (flog2 y)" using u by (intro pow2_mono) simp
  finally have "round53 x \<le> pow2 (flog2 y)" using u assms by (intro round53_pow2_bounds) auto
  also have "\<dots> \<le> round53 y"
    using u assms flog2_bounds(1) [of y] by (intro round53_pow2_bounds) auto
  finally show ?thesis .
qed

lemma round53_mono:
  assumes "x \<le> y"
  shows "round53 x \<le> round53 y"
proof (cases "0 < x")
  case True
  then show ?thesis using assms by (rule round53_mono_pos)
next
  case x: False
  show ?thesis
  proof (cases "0 \<le> y")
    case True
    have "0 \<le> round53 (- x)" using x by (intro round53_nonneg) simp
    moreover have "0 \<le> round53 y" using True by (rule round53_nonneg)
    ultimately show ?thesis by (simp add: round53_minus)
  next
    case False
    then have "round53 (- y) \<le> round53 (- x)" using assms by (intro round53_mono_pos) auto
    then show ?thesis by (simp add: round53_minus)
  qed
qed

lemma round53_idem_pos:
  assumes "0 < x"
  shows "round53 (round53 x) = round53 x"
proof -
  let ?u = "ulp_exp x" and ?r = "round53 x" and ?m = "rne (x / pow2 (ulp_exp x))"
  have r: "?r = pow2 ?u * of_int ?m" using assms by (simp add: round53_def)
  show ?thesis
  proof (cases "?r = 0")
    case False
    with round53_nonneg [of x] assms have pos: "0 < ?r" by simp
    have "x \<le> pow2 (?u + 53)"
    proof -
      have "x < pow2 (flog2 x + 1)" using flog2_bounds assms by simp
      also have "\<dots> \<le> pow2 (?u + 53)" using assms by (intro pow2_mono) (simp add: ulp_exp_def)
      finally show ?thesis by simp
    qed
    then have le: "?r \<le> pow2 (?u + 53)" using assms by (intro round53_pow2_bounds) auto
    show ?thesis
    proof (cases "?r = pow2 (?u + 53)")
      case True
      have "flog2 ?r = ?u + 53"
        using flog2_bounds [OF pos] True by (simp add: pow2_less_iff)
           (metis pow2_less_iff not_less zless_add1_eq linorder_not_less order_less_le)
      then have "ulp_exp ?r \<le> ?u + 53" using pos by (simp add: ulp_exp_def)
      then show ?thesis using True by (intro round53_grid [of _ "?u + 53" 1]) auto
    next
      case False
      with le have "?r < pow2 (?u + 53)" by simp
      then have "flog2 ?r < ?u + 53"
        using flog2_bounds(1) [OF pos] by (metis order_le_less_trans pow2_less_iff)
      then have "ulp_exp ?r \<le> ?u" using pos by (simp add: ulp_exp_def)
      then show ?thesis using r by (rule round53_grid [rotated])
    qed
  qed (simp add: round53_def)
qed

lemma round53_idem: "round53 (round53 x) = round53 x"
proof (cases x "0 :: rat" rule: linorder_cases)
  case less
  then show ?thesis using round53_idem_pos [of "- x"] by (simp add: round53_minus)
next
  case equal
  then show ?thesis by (simp add: round53_def)
qed (rule round53_idem_pos)

subsection \<open>The operations\<close>

fun fneg :: "float64 \<Rightarrow> float64" where
  "fneg (Fin a) = Fin (- a)"
| "fneg PInf = NInf"
| "fneg NInf = PInf"
| "fneg NaN = NaN"

fun fadd :: "float64 \<Rightarrow> float64 \<Rightarrow> float64" where
  "fadd (Fin a) (Fin b) = fround (a + b)"
| "fadd NaN y = NaN"
| "fadd x NaN = NaN"
| "fadd PInf NInf = NaN"
| "fadd NInf PInf = NaN"
| "fadd PInf y = PInf"
| "fadd x PInf = PInf"
| "fadd NInf y = NInf"
| "fadd x NInf = NInf"

definition fsub :: "float64 \<Rightarrow> float64 \<Rightarrow> float64" where
  "fsub x y = fadd x (fneg y)"

definition inf_of_sign :: "rat \<Rightarrow> float64" where
  "inf_of_sign a = (if a = 0 then NaN else if 0 < a then PInf else NInf)"

fun fmul :: "float64 \<Rightarrow> float64 \<Rightarrow> float64" where
  "fmul (Fin a) (Fin b) = fround (a * b)"
| "fmul NaN y = NaN"
| "fmul x NaN = NaN"
| "fmul (Fin a) PInf = inf_of_sign a"
| "fmul (Fin a) NInf = inf_of_sign (- a)"
| "fmul PInf (Fin a) = inf_of_sign a"
| "fmul NInf (Fin a) = inf_of_sign (- a)"
| "fmul PInf PInf = PInf"
| "fmul PInf NInf = NInf"
| "fmul NInf PInf = NInf"
| "fmul NInf NInf = PInf"

fun fdiv :: "float64 \<Rightarrow> float64 \<Rightarrow> float64" where
  "fdiv (Fin a) (Fin b) = (if b = 0 then inf_of_sign a else fround (a / b))"
| "fdiv NaN y = NaN"
| "fdiv x NaN = NaN"
| "fdiv (Fin a) PInf = Fin 0"
| "fdiv (Fin a) NInf = Fin 0"
| "fdiv PInf (Fin a) = (if a < 0 then NInf else PInf)"
| "fdiv NInf (Fin a) = (if a < 0 then PInf else NInf)"
| "fdiv PInf PInf = NaN"
| "fdiv PInf NInf = NaN"
| "fdiv NInf PInf = NaN"
| "fdiv NInf NInf = NaN"

text \<open>The comparisons; each is false when an operand is NaN.\<close>

fun fle :: "float64 \<Rightarrow> float64 \<Rightarrow> bool" where
  "fle NaN y = False"
| "fle x NaN = False"
| "fle NInf y = True"
| "fle x PInf = True"
| "fle (Fin a) (Fin b) = (a \<le> b)"
| "fle PInf y = False"
| "fle x NInf = False"

definition feq :: "float64 \<Rightarrow> float64 \<Rightarrow> bool" where
  "feq x y \<longleftrightarrow> fle x y \<and> fle y x"

definition flt :: "float64 \<Rightarrow> float64 \<Rightarrow> bool" where
  "flt x y \<longleftrightarrow> fle x y \<and> \<not> fle y x"

text \<open>\<^verbatim>\<open>math.Ceil\<close> and the conversions to and from integers. Converting a float whose integer part
  does not fit is implementation-dependent in Go, so the value is a parameter.\<close>

fun fceil :: "float64 \<Rightarrow> float64" where
  "fceil (Fin a) = Fin (of_int \<lceil>a\<rceil>)"
| "fceil x = x"

definition f64_of_u64 :: "uint64 \<Rightarrow> float64" where
  "f64_of_u64 w = fround (of_int (uint w))"

definition trunc_rat :: "rat \<Rightarrow> int" where
  "trunc_rat a = (if 0 \<le> a then \<lfloor>a\<rfloor> else \<lceil>a\<rceil>)"

definition int_of_f64 :: "(float64 \<Rightarrow> int) \<Rightarrow> float64 \<Rightarrow> int" where
  "int_of_f64 other x = (case x of
     Fin a \<Rightarrow> if int_range (trunc_rat a) then trunc_rat a else wrap_int (other x)
   | _ \<Rightarrow> wrap_int (other x))"

definition u64_of_f64 :: "(float64 \<Rightarrow> uint64) \<Rightarrow> float64 \<Rightarrow> uint64" where
  "u64_of_f64 other x = (case x of
     Fin a \<Rightarrow> if 0 \<le> trunc_rat a \<and> trunc_rat a < 2 ^ 64 then word_of_int (trunc_rat a) else other x
   | _ \<Rightarrow> other x)"

text \<open>A value a float variable can hold, and the finite ones among them.\<close>

definition is_f64 :: "float64 \<Rightarrow> bool" where
  "is_f64 x \<longleftrightarrow> (case x of Fin a \<Rightarrow> round53 a = a \<and> \<bar>a\<bar> < 2 ^ 1024 | _ \<Rightarrow> True)"

abbreviation fzero :: float64 where
  "fzero \<equiv> Fin 0"

abbreviation fone :: float64 where
  "fone \<equiv> Fin 1"

lemma round53_0 [simp]: "round53 0 = 0"
  by (simp add: round53_def)

lemma fround_is_f64 [simp]: "is_f64 (fround x)"
  by (simp add: is_f64_def fround_def Let_def round53_idem)

lemma is_f64_const [simp]: "is_f64 fzero" "is_f64 PInf" "is_f64 NInf" "is_f64 NaN"
  by (simp_all add: is_f64_def)

lemma inf_of_sign_is_f64 [simp]: "is_f64 (inf_of_sign a)"
  by (simp add: inf_of_sign_def)

lemma fadd_is_f64 [simp]: "is_f64 (fadd x y)"
  by (cases "(x, y)" rule: fadd.cases) simp_all

lemma fmul_is_f64 [simp]: "is_f64 (fmul x y)"
  by (cases "(x, y)" rule: fmul.cases) simp_all

lemma fdiv_is_f64 [simp]: "is_f64 (fdiv x y)"
  by (cases "(x, y)" rule: fdiv.cases) simp_all

lemma fle_refl: "x \<noteq> NaN \<Longrightarrow> fle x x"
  by (cases x) simp_all

lemma fle_trans: "fle x y \<Longrightarrow> fle y z \<Longrightarrow> fle x z"
  by (cases x; cases y; cases z) simp_all

lemma fle_total: "x \<noteq> NaN \<Longrightarrow> y \<noteq> NaN \<Longrightarrow> fle x y \<or> fle y x"
  by (cases x; cases y) auto

lemma fle_not_NaN: "fle x y \<Longrightarrow> x \<noteq> NaN" "fle x y \<Longrightarrow> y \<noteq> NaN"
  by (cases x; cases y; simp)+

lemma not_fle_flt: "x \<noteq> NaN \<Longrightarrow> y \<noteq> NaN \<Longrightarrow> \<not> fle x y \<longleftrightarrow> flt y x"
  using fle_total [of x y] by (auto simp: flt_def)

lemma fround_mono: "x \<le> y \<Longrightarrow> fle (fround x) (fround y)"
  using round53_mono [of x y] by (auto simp: fround_def Let_def abs_less_iff)

lemma fround_not_NaN [simp]: "fround x \<noteq> NaN"
  by (simp add: fround_def Let_def)

lemma fround_float: "is_f64 (Fin a) \<Longrightarrow> fround a = Fin a"
  by (simp add: is_f64_def fround_def)

text \<open>Integers of at most 53 bits, also over a power of two, are floats.\<close>

lemma is_f64_dyadic:
  assumes "\<bar>m\<bar> < 2 ^ 53" and "- 1074 \<le> e" "e \<le> 900"
  shows "is_f64 (Fin (pow2 e * of_int m))"
proof (cases "m = 0")
  case False
  let ?x = "pow2 e * of_int m :: rat"
  have ax: "\<bar>?x\<bar> = pow2 e * of_int \<bar>m\<bar>" by (simp add: abs_mult)
  have lt: "\<bar>?x\<bar> < pow2 (e + 53)"
  proof -
    have "(of_int \<bar>m\<bar> :: rat) < of_int (2 ^ 53)" using assms(1) by (simp only: of_int_less_iff)
    also have "(of_int (2 ^ 53) :: rat) = pow2 53" by (simp add: pow2_def)
    finally show ?thesis by (simp only: ax pow2_add) (rule mult_strict_left_mono, simp_all)
  qed
  have "pow2 (flog2 \<bar>?x\<bar>) \<le> \<bar>?x\<bar>" using False by (intro flog2_bounds) simp
  with lt have "pow2 (flog2 \<bar>?x\<bar>) < pow2 (e + 53)" by linarith
  then have "ulp_exp ?x \<le> e" using assms(2) by (simp add: ulp_exp_def pow2_less_iff)
  then have "round53 ?x = ?x" by (intro round53_grid) simp_all
  moreover have "pow2 (e + 53) < pow2 1024" using assms(3) by (simp only: pow2_less_iff)
  with lt have "\<bar>?x\<bar> < pow2 1024" by linarith
  moreover have "pow2 1024 = 2 ^ 1024" by (simp only: pow2_def) simp
  ultimately show ?thesis by (simp add: is_f64_def)
qed simp

lemma is_f64_int: "\<bar>m\<bar> < 2 ^ 53 \<Longrightarrow> is_f64 (Fin (of_int m))"
  using is_f64_dyadic [of m 0] by (simp add: pow2_def)

lemma is_f64_numeral: "(numeral k :: int) < 2 ^ 53 \<Longrightarrow> is_f64 (Fin (numeral k))"
  using is_f64_int [of "numeral k"] by simp

lemma is_f64_half_numeral: "(numeral k :: int) < 2 ^ 53 \<Longrightarrow> is_f64 (Fin (numeral k / 2))"
  using is_f64_dyadic [of "numeral k" "- 1"] by (simp add: pow2_def)

text \<open>Rounded addition of a non-negative value never goes down, whatever the rounding.\<close>

lemma fle_fadd:
  assumes "is_f64 x" "x \<noteq> NaN" "x \<noteq> NInf" "fle fzero y"
  shows "fle x (fadd x y)"
proof (cases "(x, y)" rule: fadd.cases)
  case (1 a b)
  then show ?thesis using assms fround_mono [of a "a + b"] fround_float [of a] by simp
qed (use assms in auto)

end
