(* ===== verification/Rate_Limit.thy ===== *)
theory Rate_Limit
  imports Go_Float
begin

text \<open>
  The package \<^verbatim>\<open>pkg/ratelimit\<close>: its configuration (\<^verbatim>\<open>config.go\<close>), the limiter that wraps
  \<^verbatim>\<open>golang.org/x/time/rate\<close> and the limiter of three metrics (\<^verbatim>\<open>bucket.go\<close>), and the gas of an
  encoded transaction (\<^verbatim>\<open>gas.go\<close>). The library limiter is a parameter (\<open>rate_lib\<close>), as is the
  transaction decoder of the Cosmos SDK (\<open>tx_config\<close>). The loops that take a transaction's bytes
  and gas in pieces of at most the burst size may run forever if a piece is empty, so they are
  partial functions; the lemmas show that they return.
\<close>

subsection \<open>Configuration\<close>

definition DefaultBurstMultiplier :: int where
  "DefaultBurstMultiplier = 1"

record burst_config =
  Size :: int

record rl_config =
  TxPerSecond :: float64
  BytesPerSecond :: uint64
  GasPerSecond :: uint64
  Burst :: burst_config

definition ErrRateMustBePositive :: go_error where
  "ErrRateMustBePositive = Sentinel ''rate must be positive''"

definition ErrBurstSizeMustBePositive :: go_error where
  "ErrBurstSizeMustBePositive = Sentinel ''burst size must be positive''"

definition ErrAtLeastOneRateLimitRequired :: go_error where
  "ErrAtLeastOneRateLimitRequired =
     Sentinel ''at least one rate limit must be configured when enabled''"

definition ErrTxPerSecondMustBePositive :: go_error where
  "ErrTxPerSecondMustBePositive = Sentinel ''tx_per_second must be positive''"

definition ErrTPSRateLimitExceeded :: go_error where
  "ErrTPSRateLimitExceeded = Sentinel ''TPS rate limit exceeded''"

definition ErrBytesRateLimitExceeded :: go_error where
  "ErrBytesRateLimitExceeded = Sentinel ''bytes rate limit exceeded''"

definition ErrGasRateLimitExceeded :: go_error where
  "ErrGasRateLimitExceeded = Sentinel ''gas rate limit exceeded''"

definition IsEnabled :: "rl_config \<Rightarrow> bool" where
  "IsEnabled c \<longleftrightarrow> flt fzero (TxPerSecond c) \<or> 0 < BytesPerSecond c \<or> 0 < GasPerSecond c"

definition Validate :: "rl_config \<Rightarrow> go_error option" where
  "Validate c =
     (if \<not> IsEnabled c then None
      else if feq (TxPerSecond c) fzero \<and> BytesPerSecond c = 0 \<and> GasPerSecond c = 0
      then Some ErrAtLeastOneRateLimitRequired
      else if flt (TxPerSecond c) fzero then Some ErrTxPerSecondMustBePositive
      else None)"

definition HasTxLimit :: "rl_config \<Rightarrow> bool" where
  "HasTxLimit c \<longleftrightarrow> IsEnabled c \<and> flt fzero (TxPerSecond c)"

definition HasBytesLimit :: "rl_config \<Rightarrow> bool" where
  "HasBytesLimit c \<longleftrightarrow> IsEnabled c \<and> 0 < BytesPerSecond c"

definition HasGasLimit :: "rl_config \<Rightarrow> bool" where
  "HasGasLimit c \<longleftrightarrow> IsEnabled c \<and> 0 < GasPerSecond c"

definition GetTxRate :: "rl_config \<Rightarrow> float64" where
  "GetTxRate c = TxPerSecond c"

definition GetBytesRate :: "rl_config \<Rightarrow> float64" where
  "GetBytesRate c = f64_of_u64 (BytesPerSecond c)"

definition GetGasRate :: "rl_config \<Rightarrow> float64" where
  "GetGasRate c = f64_of_u64 (GasPerSecond c)"

text \<open>\<open>conv\<close> is what the platform makes of a float that is no \<^verbatim>\<open>int\<close>.\<close>

definition GetTpsBurstSize :: "(float64 \<Rightarrow> int) \<Rightarrow> rl_config \<Rightarrow> int" where
  "GetTpsBurstSize conv c =
     (if 0 < Size (Burst c) then Size (Burst c)
      else let v = int_of_f64 conv
                     (fceil (fmul (TxPerSecond c) (fround (of_int DefaultBurstMultiplier))))
           in if v < 1 then 1 else v)"

definition saturating_burst :: "uint64 \<Rightarrow> int" where
  "saturating_burst rate =
     (let b = rate * u64_of_int DefaultBurstMultiplier
      in if b = 0 then 1 else if u64_of_int max_int < b then max_int else int_of_u64 b)"

definition GetBytesBurstSize :: "rl_config \<Rightarrow> int" where
  "GetBytesBurstSize c =
     (if 0 < Size (Burst c) then Size (Burst c) else saturating_burst (BytesPerSecond c))"

definition GetGasBurstSize :: "rl_config \<Rightarrow> int" where
  "GetGasBurstSize c =
     (if 0 < Size (Burst c) then Size (Burst c) else saturating_burst (GasPerSecond c))"

subsection \<open>The limiter\<close>

text \<open>\<^verbatim>\<open>golang.org/x/time/rate.Limiter\<close>, over its own state \<open>'rl\<close> and the contexts \<open>'c\<close>.\<close>

record ('rl, 'c) rate_lib =
  newLimiter :: "float64 \<Rightarrow> int \<Rightarrow> 'rl"
  waitN :: "'rl \<Rightarrow> 'c \<Rightarrow> int \<Rightarrow> go_error option \<times> 'rl"
  allowN :: "'rl \<Rightarrow> int \<Rightarrow> int \<Rightarrow> bool \<times> 'rl"
  tokensAt :: "'rl \<Rightarrow> int \<Rightarrow> float64"
  setLimit :: "'rl \<Rightarrow> float64 \<Rightarrow> 'rl"

record 'rl limiter =
  rateLimiter :: 'rl

text \<open>The verb \<^verbatim>\<open>%f\<close>: six decimals, the exact value rounded to the nearest.\<close>

definition fmt_f :: "float64 \<Rightarrow> string" where
  "fmt_f x = (case x of
     Fin a \<Rightarrow> (let m = nat (rne (\<bar>a\<bar> * 1000000)) in
       (if a < 0 then ''-'' else '''') @ show_nat (m div 1000000) @ ''.'' @
       pad_left 6 CHR ''0'' (show_nat (m mod 1000000)))
   | PInf \<Rightarrow> ''+Inf'' | NInf \<Rightarrow> ''-Inf'' | NaN \<Rightarrow> ''NaN'')"

definition NewLimiter :: "('rl, 'c) rate_lib \<Rightarrow> float64 \<Rightarrow> int \<Rightarrow> 'rl limiter go" where
  "NewLimiter lib ratePerSecond burstSize =
     (if fle ratePerSecond fzero
      then Inl (Joined ErrRateMustBePositive (Msg (''got '' @ fmt_f ratePerSecond)))
      else if burstSize \<le> 0
      then Inl (Joined ErrBurstSizeMustBePositive (Msg (''got '' @ itoa burstSize)))
      else Inr \<lparr>rateLimiter = newLimiter lib ratePerSecond burstSize\<rparr>)"

definition limiter_Wait ::
  "('rl, 'c) rate_lib \<Rightarrow> 'rl limiter \<Rightarrow> 'c \<Rightarrow> int \<Rightarrow> go_error option \<times> 'rl limiter" where
  "limiter_Wait lib l ctx tokens =
     (if tokens \<le> 0 then (None, l)
      else case waitN lib (rateLimiter l) ctx tokens of (e, rl) \<Rightarrow> (e, l\<lparr>rateLimiter := rl\<rparr>))"

definition limiter_TryConsume ::
  "('rl, 'c) rate_lib \<Rightarrow> int \<Rightarrow> 'rl limiter \<Rightarrow> int \<Rightarrow> bool \<times> 'rl limiter" where
  "limiter_TryConsume lib now l tokens =
     (if tokens \<le> 0 then (True, l)
      else case allowN lib (rateLimiter l) now tokens of (b, rl) \<Rightarrow> (b, l\<lparr>rateLimiter := rl\<rparr>))"

definition limiter_Tokens :: "('rl, 'c) rate_lib \<Rightarrow> int \<Rightarrow> 'rl limiter \<Rightarrow> float64" where
  "limiter_Tokens lib now l = tokensAt lib (rateLimiter l) now"

definition limiter_SetRate ::
  "('rl, 'c) rate_lib \<Rightarrow> 'rl limiter \<Rightarrow> float64 \<Rightarrow> go_error option \<times> 'rl limiter" where
  "limiter_SetRate lib l ratePerSecond =
     (if fle ratePerSecond fzero
      then (Some (Joined ErrRateMustBePositive (Msg (''got '' @ fmt_f ratePerSecond))), l)
      else (None, l\<lparr>rateLimiter := setLimit lib (rateLimiter l) ratePerSecond\<rparr>))"

subsection \<open>The gas limit of an encoded transaction\<close>

text \<open>
  The decoder of the client's \<^verbatim>\<open>TxConfig\<close> and the gas of a decoded transaction, where the
  transaction implements \<^verbatim>\<open>sdk.FeeTx\<close>.
\<close>

record 'tx tx_config =
  txDecoder :: "bytes \<Rightarrow> 'tx go"
  feeTxGas :: "'tx \<Rightarrow> uint64 option"

definition ExtractGasLimit :: "'tx tx_config option \<Rightarrow> bytes \<Rightarrow> uint64 go" where
  "ExtractGasLimit txConfig txBytes = (case txConfig of
     None \<Rightarrow> Inr 0
   | Some tc \<Rightarrow> (case txDecoder tc txBytes of
       Inl err \<Rightarrow> Inl err
     | Inr tx \<Rightarrow> (case feeTxGas tc tx of None \<Rightarrow> Inr 0 | Some g \<Rightarrow> Inr g)))"

subsection \<open>The limiter of three metrics\<close>

record tx_metrics =
  SizeBytes :: uint64
  GasLimit :: uint64

record ('rl, 'tx) multi_limiter =
  tpsLimiter :: "'rl limiter option"
  bytesLimiter :: "'rl limiter option"
  gasLimiter :: "'rl limiter option"
  txConfig :: "'tx tx_config option"
  ml_config :: rl_config

text \<open>A limiter of one metric is made when its rate is positive.\<close>

definition new_if :: "bool \<Rightarrow> 'a go \<Rightarrow> 'a option go" where
  "new_if b r = (if b then map_sum id Some r else Inr None)"

definition NewMultiLimiter ::
  "('rl, 'c) rate_lib \<Rightarrow> (float64 \<Rightarrow> int) \<Rightarrow> rl_config \<Rightarrow> 'tx tx_config option
    \<Rightarrow> ('rl, 'tx) multi_limiter go" where
  "NewMultiLimiter lib conv config tc =
     (case new_if (flt fzero (TxPerSecond config))
             (NewLimiter lib (TxPerSecond config) (GetTpsBurstSize conv config)) of
        Inl err \<Rightarrow> Inl err
      | Inr tps \<Rightarrow> (case new_if (0 < BytesPerSecond config)
             (NewLimiter lib (GetBytesRate config) (GetBytesBurstSize config)) of
          Inl err \<Rightarrow> Inl err
        | Inr byt \<Rightarrow> (case new_if (0 < GasPerSecond config)
             (NewLimiter lib (GetGasRate config) (GetGasBurstSize config)) of
            Inl err \<Rightarrow> Inl err
          | Inr gas \<Rightarrow> Inr \<lparr>tpsLimiter = tps, bytesLimiter = byt, gasLimiter = gas,
                            txConfig = tc, ml_config = config\<rparr>)))"

text \<open>The context's own errors pass through, every other one is marked with the metric.\<close>

definition limit_error :: "go_error \<Rightarrow> go_error \<Rightarrow> go_error" where
  "limit_error mark err =
     (if errors_is err Canceled \<or> errors_is err DeadlineExceeded then err else Joined mark err)"

partial_function (option) wait_chunks ::
  "('l \<Rightarrow> 'c \<Rightarrow> int \<Rightarrow> go_error option \<times> 'l) \<Rightarrow> go_error \<Rightarrow> 'c \<Rightarrow> int \<Rightarrow> 'l \<Rightarrow> uint64
    \<Rightarrow> (go_error option \<times> 'l) option" where
  "wait_chunks wait mark ctx chunk l remaining =
     (if remaining = 0 then Some (None, l)
      else let n = (if remaining < u64_of_int chunk then int_of_u64 remaining else chunk)
      in case wait l ctx n of
           (Some err, l') \<Rightarrow> Some (Some (limit_error mark err), l')
         | (None, l') \<Rightarrow> wait_chunks wait mark ctx chunk l' (remaining - u64_of_int n))"

definition wait_metric ::
  "('l \<Rightarrow> 'c \<Rightarrow> int \<Rightarrow> go_error option \<times> 'l) \<Rightarrow> go_error \<Rightarrow> 'c \<Rightarrow> int \<Rightarrow> 'l option \<Rightarrow> uint64
    \<Rightarrow> (go_error option \<times> 'l option) option" where
  "wait_metric wait mark ctx chunk lo amount = (case lo of
     None \<Rightarrow> Some (None, None)
   | Some l \<Rightarrow>
       if 0 < amount
       then map_option (apsnd Some) (wait_chunks wait mark ctx chunk l amount)
       else Some (None, Some l))"

definition wait_tps ::
  "('l \<Rightarrow> 'c \<Rightarrow> int \<Rightarrow> go_error option \<times> 'l) \<Rightarrow> 'c \<Rightarrow> 'l option \<Rightarrow> go_error option \<times> 'l option"
where
  "wait_tps wait ctx lo = (case lo of
     None \<Rightarrow> (None, None)
   | Some l \<Rightarrow> (case wait l ctx 1 of
       (Some err, l') \<Rightarrow> (Some (limit_error ErrTPSRateLimitExceeded err), Some l')
     | (None, l') \<Rightarrow> (None, Some l')))"

definition WaitForTransaction ::
  "('rl, 'c) rate_lib \<Rightarrow> 'c \<Rightarrow> ('rl, 'tx) multi_limiter \<Rightarrow> tx_metrics
    \<Rightarrow> (go_error option \<times> ('rl, 'tx) multi_limiter) option" where
  "WaitForTransaction lib ctx ml m =
     (case wait_tps (limiter_Wait lib) ctx (tpsLimiter ml) of
        (Some err, t) \<Rightarrow> Some (Some err, ml\<lparr>tpsLimiter := t\<rparr>)
      | (None, t) \<Rightarrow>
          (case wait_metric (limiter_Wait lib) ErrBytesRateLimitExceeded ctx
                  (GetBytesBurstSize (ml_config ml)) (bytesLimiter ml) (SizeBytes m) of
             None \<Rightarrow> None
           | Some (Some err, b) \<Rightarrow> Some (Some err, ml\<lparr>tpsLimiter := t, bytesLimiter := b\<rparr>)
           | Some (None, b) \<Rightarrow>
               (case wait_metric (limiter_Wait lib) ErrGasRateLimitExceeded ctx
                       (GetGasBurstSize (ml_config ml)) (gasLimiter ml) (GasLimit m) of
                  None \<Rightarrow> None
                | Some (e, g) \<Rightarrow>
                    Some (e, ml\<lparr>tpsLimiter := t, bytesLimiter := b, gasLimiter := g\<rparr>))))"

definition WaitForTransactionBytes ::
  "('rl, 'c) rate_lib \<Rightarrow> 'c \<Rightarrow> ('rl, 'tx) multi_limiter \<Rightarrow> bytes
    \<Rightarrow> (go_error option \<times> ('rl, 'tx) multi_limiter) option" where
  "WaitForTransactionBytes lib ctx ml txBytes =
     (let gasLimit = (case ExtractGasLimit (txConfig ml) txBytes of Inl err \<Rightarrow> 0 | Inr g \<Rightarrow> g)
      in WaitForTransaction lib ctx ml
           \<lparr>SizeBytes = of_nat (length txBytes), GasLimit = gasLimit\<rparr>)"

subsection \<open>Burst sizes\<close>

lemma u64_max_int: "uint (u64_of_int max_int) = max_int"
  by (rule uint_u64_of_int) (simp_all add: max_int_def)

lemma saturating_burst_eq:
  "saturating_burst r = (if r = 0 then 1 else min (uint r) max_int)"
proof -
  have "u64_of_int max_int < r \<longleftrightarrow> max_int < uint r"
    by (simp add: word_less_def u64_max_int)
  moreover have "int_of_u64 r = uint r" if "\<not> max_int < uint r"
    using that by (simp add: int_of_u64_def max_int_def)
  ultimately show ?thesis
    by (simp add: saturating_burst_def DefaultBurstMultiplier_def u64_of_int_def Let_def)
qed

lemma saturating_burst_range: "1 \<le> saturating_burst r \<and> saturating_burst r \<le> max_int"
proof (cases "r = 0")
  case False
  then have "0 < uint r" using uint_ge_0 [of r] by (simp add: less_le unsigned_eq_0_iff)
  then show ?thesis using False by (simp add: saturating_burst_eq max_int_def)
qed (simp add: saturating_burst_eq max_int_def)

definition config_ok :: "rl_config \<Rightarrow> bool" where
  "config_ok c \<longleftrightarrow> int_range (Size (Burst c)) \<and> is_f64 (TxPerSecond c)"

lemma burst_range_aux: "int_range s \<Longrightarrow> 0 < s \<Longrightarrow> 1 \<le> s \<and> s \<le> max_int"
  by (simp add: int_range_def max_int_def)

lemma int_of_f64_range: "int_range (int_of_f64 conv x)"
  by (simp add: int_of_f64_def split: float64.split)

lemma tps_burst_range: "config_ok c \<Longrightarrow> 1 \<le> GetTpsBurstSize conv c \<and> GetTpsBurstSize conv c \<le> max_int"
  using int_of_f64_range [of conv "fceil (fmul (TxPerSecond c) (fround (of_int DefaultBurstMultiplier)))"]
  by (auto simp: GetTpsBurstSize_def config_ok_def Let_def int_range_def max_int_def)

lemma bytes_burst_range: "config_ok c \<Longrightarrow> 1 \<le> GetBytesBurstSize c \<and> GetBytesBurstSize c \<le> max_int"
  using saturating_burst_range burst_range_aux by (auto simp: GetBytesBurstSize_def config_ok_def)

lemma gas_burst_range: "config_ok c \<Longrightarrow> 1 \<le> GetGasBurstSize c \<and> GetGasBurstSize c \<le> max_int"
  using saturating_burst_range burst_range_aux by (auto simp: GetGasBurstSize_def config_ok_def)

lemma fone_is_f64 [simp]: "is_f64 fone"
proof -
  have "bitlen 1 = 1" by (simp add: bitlen_alt_def)
  then have "flog2 1 = 0" by (simp add: flog2_def pow2_def)
  then have "round53 1 = 1" by (intro round53_grid [of _ 0 1]) (simp_all add: ulp_exp_def pow2_def)
  then show ?thesis by (simp add: is_f64_def)
qed

lemma f64_of_u64_pos: "0 < w \<Longrightarrow> \<not> fle (f64_of_u64 w) fzero"
proof -
  assume "0 < w"
  then have "0 < uint w" by (simp add: word_less_def)
  then have "(of_int 1 :: rat) \<le> of_int (uint w)" unfolding of_int_le_iff by simp
  then have "fle (fround (of_int 1)) (f64_of_u64 w)"
    unfolding f64_of_u64_def by (rule fround_mono)
  then have "fle fone (f64_of_u64 w)" by (simp add: fround_float)
  then show ?thesis using fle_trans [of fone "f64_of_u64 w" fzero] by auto
qed

subsection \<open>One piece of the loop\<close>

text \<open>
  The interface \<^verbatim>\<open>Limiter\<close> of \<^verbatim>\<open>limiter.go\<close>: what its comments promise of every implementation,
  and what its client, the loop over the pieces, draws from it.
\<close>

definition grants ::
  "('l \<Rightarrow> 'c \<Rightarrow> int \<Rightarrow> go_error option \<times> 'l) \<Rightarrow> 'c \<Rightarrow> ('l \<Rightarrow> int) \<Rightarrow> ('l \<Rightarrow> int) \<Rightarrow> bool" where
  "grants wait ctx cap used \<longleftrightarrow> (\<forall>l n. 0 < n \<and> n \<le> cap l \<longrightarrow>
     (\<exists>l'. wait l ctx n = (None, l') \<and> cap l' = cap l \<and> used l' = used l + n))"

lemma grantsD:
  assumes "grants wait ctx cap used" "0 < n" "n \<le> cap l"
  obtains l' where "wait l ctx n = (None, l')" "cap l' = cap l" "used l' = used l + n"
  using assms by (auto simp: grants_def)

definition piece :: "int \<Rightarrow> uint64 \<Rightarrow> int" where
  "piece chunk remaining = (if remaining < u64_of_int chunk then int_of_u64 remaining else chunk)"

lemma piece_bounds:
  assumes "0 < chunk" "chunk \<le> max_int" "remaining \<noteq> 0"
  shows "0 < piece chunk remaining" and "piece chunk remaining \<le> chunk"
    and "uint (remaining - u64_of_int (piece chunk remaining)) = uint remaining - piece chunk remaining"
proof -
  have u: "uint (u64_of_int chunk) = chunk"
    using assms by (intro uint_u64_of_int) (simp_all add: max_int_def)
  have r: "0 < uint remaining" using assms(3) uint_ge_0 [of remaining] by (simp add: less_le unsigned_eq_0_iff)
  have p: "piece chunk remaining = min (uint remaining) chunk"
    using assms by (auto simp: piece_def word_less_def u int_of_u64_def max_int_def)
  show "0 < piece chunk remaining" "piece chunk remaining \<le> chunk"
    using r assms by (auto simp: p)
  have up: "uint (u64_of_int (piece chunk remaining)) = piece chunk remaining"
    using r assms by (intro uint_u64_of_int) (auto simp: p max_int_def)
  have "u64_of_int (piece chunk remaining) \<le> remaining"
    by (simp add: word_le_def up) (simp add: p)
  then show "uint (remaining - u64_of_int (piece chunk remaining)) = uint remaining - piece chunk remaining"
    by (simp add: uint_minus_simple_alt word_le_def up)
qed

lemma wait_chunks_0 [simp]: "wait_chunks wait mark ctx chunk l 0 = Some (None, l)"
  by (subst wait_chunks.simps) simp

lemma wait_chunks_step:
  "r \<noteq> 0 \<Longrightarrow> wait_chunks wait mark ctx chunk l r =
     (case wait l ctx (piece chunk r) of
        (Some err, l') \<Rightarrow> Some (Some (limit_error mark err), l')
      | (None, l') \<Rightarrow> wait_chunks wait mark ctx chunk l' (r - u64_of_int (piece chunk r)))"
  unfolding piece_def by (subst wait_chunks.simps) (simp add: Let_def)

locale limiter_iface =
  fixes wait :: "'l \<Rightarrow> 'c \<Rightarrow> int \<Rightarrow> go_error option \<times> 'l"
    and try_consume :: "int \<Rightarrow> 'l \<Rightarrow> int \<Rightarrow> bool \<times> 'l"
    and set_rate :: "'l \<Rightarrow> float64 \<Rightarrow> go_error option \<times> 'l"
  assumes wait_nothing: "n \<le> 0 \<Longrightarrow> wait l ctx n = (None, l)"
    and try_nothing: "n \<le> 0 \<Longrightarrow> try_consume now l n = (True, l)"
    and set_rate_refused: "fle r fzero \<Longrightarrow>
      \<exists>e. set_rate l r = (Some e, l) \<and> errors_is e ErrRateMustBePositive"
    and set_rate_taken: "\<not> fle r fzero \<Longrightarrow> fst (set_rate l r) = None"
begin

lemma chunks_return:
  assumes "0 < chunk" "chunk \<le> max_int"
  shows "\<exists>r. wait_chunks wait mark ctx chunk l remaining = Some r"
proof (induction "nat (uint remaining)" arbitrary: l remaining rule: less_induct)
  case less
  show ?case
  proof (cases "remaining = 0")
    case False
    note b = piece_bounds [OF assms False]
    have "nat (uint (remaining - u64_of_int (piece chunk remaining))) < nat (uint remaining)"
      using b(1,3) uint_ge_0 [of "remaining - u64_of_int (piece chunk remaining)"] by linarith
    with False less show ?thesis
      by (auto simp: wait_chunks_step split: prod.split option.split)
  qed simp
qed

lemma chunks_granted:
  assumes g: "grants wait ctx cap used" and c: "0 < chunk" "chunk \<le> max_int" "chunk \<le> cap l"
  shows "\<exists>l'. wait_chunks wait mark ctx chunk l remaining = Some (None, l') \<and>
    cap l' = cap l \<and> used l' = used l + uint remaining"
  using c(3)
proof (induction "nat (uint remaining)" arbitrary: l remaining rule: less_induct)
  case less
  show ?case
  proof (cases "remaining = 0")
    case False
    note b = piece_bounds [OF c(1,2) False]
    obtain l1 where w: "wait l ctx (piece chunk remaining) = (None, l1)"
      and l1: "cap l1 = cap l" "used l1 = used l + piece chunk remaining"
      using grantsD [OF g b(1), of l] b(2) less.prems by (metis order_trans)
    let ?r = "remaining - u64_of_int (piece chunk remaining)"
    have "nat (uint ?r) < nat (uint remaining)"
      using b(1,3) uint_ge_0 [of ?r] by linarith
    then obtain l2 where "wait_chunks wait mark ctx chunk l1 ?r = Some (None, l2)"
      "cap l2 = cap l1" "used l2 = used l1 + uint ?r"
      using less.hyps [of ?r l1] less.prems l1 by auto
    with w l1 b(3) False show ?thesis by (auto simp: wait_chunks_step)
  qed simp
qed

end

interpretation wrapped: limiter_iface "limiter_Wait lib" "limiter_TryConsume lib" "limiter_SetRate lib"
  for lib :: "('rl, 'c) rate_lib"
  by unfold_locales
    (auto simp: limiter_Wait_def limiter_TryConsume_def limiter_SetRate_def ErrRateMustBePositive_def)

subsection \<open>Whole transactions\<close>

text \<open>
  What \<^verbatim>\<open>WaitN\<close> documents, for a context that is never cancelled and has no deadline: a request of
  at most the burst size is granted. \<open>cap\<close> reads the burst size of a library limiter and \<open>used\<close>
  counts the tokens it has given.
\<close>

definition rate_lib_grants ::
  "('rl, 'c) rate_lib \<Rightarrow> 'c \<Rightarrow> ('rl \<Rightarrow> int) \<Rightarrow> ('rl \<Rightarrow> int) \<Rightarrow> bool" where
  "rate_lib_grants lib ctx cap used \<longleftrightarrow>
     (\<forall>r b. cap (newLimiter lib r b) = b) \<and> grants (waitN lib) ctx cap used"

definition used_of :: "('rl \<Rightarrow> int) \<Rightarrow> 'rl limiter option \<Rightarrow> int" where
  "used_of used lo = (case lo of None \<Rightarrow> 0 | Some l \<Rightarrow> used (rateLimiter l))"

definition cap_at_least :: "('rl \<Rightarrow> int) \<Rightarrow> int \<Rightarrow> 'rl limiter option \<Rightarrow> bool" where
  "cap_at_least cap k lo \<longleftrightarrow> (case lo of None \<Rightarrow> True | Some l \<Rightarrow> k \<le> cap (rateLimiter l))"

definition ml_ok :: "('rl \<Rightarrow> int) \<Rightarrow> ('rl, 'tx) multi_limiter \<Rightarrow> bool" where
  "ml_ok cap ml \<longleftrightarrow> config_ok (ml_config ml) \<and> cap_at_least cap 1 (tpsLimiter ml) \<and>
     cap_at_least cap (GetBytesBurstSize (ml_config ml)) (bytesLimiter ml) \<and>
     cap_at_least cap (GetGasBurstSize (ml_config ml)) (gasLimiter ml)"

definition share :: "'a option \<Rightarrow> int \<Rightarrow> int" where
  "share lo n = (if lo = None then 0 else n)"

lemma wrapped_grants:
  assumes "grants (waitN lib) ctx cap used"
  shows "grants (limiter_Wait lib) ctx (\<lambda>l. cap (rateLimiter l)) (\<lambda>l. used (rateLimiter l))"
  unfolding grants_def
proof (intro allI impI)
  fix l :: "'a limiter" and n
  assume "0 < n \<and> n \<le> cap (rateLimiter l)"
  then obtain rl where "waitN lib (rateLimiter l) ctx n = (None, rl)" "cap rl = cap (rateLimiter l)"
    "used rl = used (rateLimiter l) + n"
    using grantsD [OF assms] by metis
  with \<open>0 < n \<and> _\<close> show "\<exists>l'. limiter_Wait lib l ctx n = (None, l') \<and>
      cap (rateLimiter l') = cap (rateLimiter l) \<and> used (rateLimiter l') = used (rateLimiter l) + n"
    by (intro exI [of _ "l\<lparr>rateLimiter := rl\<rparr>"]) (simp add: limiter_Wait_def)
qed

lemma wait_tps_granted:
  assumes "grants (waitN lib) ctx cap used" "cap_at_least cap 1 lo"
  shows "\<exists>lo'. wait_tps (limiter_Wait lib) ctx lo = (None, lo') \<and> (lo' = None \<longleftrightarrow> lo = None) \<and>
    (\<forall>k. cap_at_least cap k lo' \<longleftrightarrow> cap_at_least cap k lo) \<and> used_of used lo' = used_of used lo + share lo 1"
proof (cases lo)
  case (Some l)
  then obtain l' where "limiter_Wait lib l ctx 1 = (None, l')"
    "cap (rateLimiter l') = cap (rateLimiter l)" "used (rateLimiter l') = used (rateLimiter l) + 1"
    using grantsD [OF wrapped_grants [OF assms(1)], of 1 l] assms(2) by (auto simp: cap_at_least_def)
  with Some show ?thesis by (auto simp: wait_tps_def cap_at_least_def used_of_def share_def)
qed (simp add: wait_tps_def cap_at_least_def used_of_def share_def)

lemma wait_metric_granted:
  assumes "grants (waitN lib) ctx cap used" "1 \<le> chunk \<and> chunk \<le> max_int"
    "cap_at_least cap chunk lo"
  shows "\<exists>lo'. wait_metric (limiter_Wait lib) mark ctx chunk lo w = Some (None, lo') \<and>
    (lo' = None \<longleftrightarrow> lo = None) \<and> (\<forall>k. cap_at_least cap k lo' \<longleftrightarrow> cap_at_least cap k lo) \<and>
    used_of used lo' = used_of used lo + share lo (uint w)"
proof (cases lo)
  case (Some l)
  then obtain l' where "wait_chunks (limiter_Wait lib) mark ctx chunk l w = Some (None, l')"
    "cap (rateLimiter l') = cap (rateLimiter l)"
    "used (rateLimiter l') = used (rateLimiter l) + uint w"
    using wrapped.chunks_granted [OF wrapped_grants [OF assms(1)], of chunk l mark w] assms(2,3)
    by (auto simp: cap_at_least_def)
  with Some show ?thesis
    by (auto simp: wait_metric_def cap_at_least_def used_of_def share_def word_greater_zero_iff)
qed (simp add: wait_metric_def cap_at_least_def used_of_def share_def)

lemma wait_transaction_granted:
  assumes "grants (waitN lib) ctx cap used" "ml_ok cap ml"
  shows "\<exists>ml'. WaitForTransaction lib ctx ml m = Some (None, ml') \<and> ml_ok cap ml' \<and>
    (tpsLimiter ml' = None \<longleftrightarrow> tpsLimiter ml = None) \<and>
    (bytesLimiter ml' = None \<longleftrightarrow> bytesLimiter ml = None) \<and>
    (gasLimiter ml' = None \<longleftrightarrow> gasLimiter ml = None) \<and>
    used_of used (tpsLimiter ml') = used_of used (tpsLimiter ml) + share (tpsLimiter ml) 1 \<and>
    used_of used (bytesLimiter ml') =
      used_of used (bytesLimiter ml) + share (bytesLimiter ml) (uint (SizeBytes m)) \<and>
    used_of used (gasLimiter ml') =
      used_of used (gasLimiter ml) + share (gasLimiter ml) (uint (GasLimit m))"
proof -
  let ?c = "ml_config ml"
  have c: "config_ok ?c" using assms(2) by (simp add: ml_ok_def)
  from wait_tps_granted [OF assms(1), of "tpsLimiter ml"] assms(2)
  obtain t where t: "wait_tps (limiter_Wait lib) ctx (tpsLimiter ml) = (None, t)"
    "t = None \<longleftrightarrow> tpsLimiter ml = None" "\<forall>k. cap_at_least cap k t \<longleftrightarrow> cap_at_least cap k (tpsLimiter ml)"
    "used_of used t = used_of used (tpsLimiter ml) + share (tpsLimiter ml) 1"
    by (auto simp: ml_ok_def)
  from wait_metric_granted [OF assms(1) bytes_burst_range [OF c], of "bytesLimiter ml"
      ErrBytesRateLimitExceeded "SizeBytes m"] assms(2)
  obtain b where b: "wait_metric (limiter_Wait lib) ErrBytesRateLimitExceeded ctx
      (GetBytesBurstSize ?c) (bytesLimiter ml) (SizeBytes m) = Some (None, b)"
    "b = None \<longleftrightarrow> bytesLimiter ml = None" "\<forall>k. cap_at_least cap k b \<longleftrightarrow> cap_at_least cap k (bytesLimiter ml)"
    "used_of used b = used_of used (bytesLimiter ml) + share (bytesLimiter ml) (uint (SizeBytes m))"
    by (auto simp: ml_ok_def)
  from wait_metric_granted [OF assms(1) gas_burst_range [OF c], of "gasLimiter ml"
      ErrGasRateLimitExceeded "GasLimit m"] assms(2)
  obtain g where g: "wait_metric (limiter_Wait lib) ErrGasRateLimitExceeded ctx
      (GetGasBurstSize ?c) (gasLimiter ml) (GasLimit m) = Some (None, g)"
    "g = None \<longleftrightarrow> gasLimiter ml = None" "\<forall>k. cap_at_least cap k g \<longleftrightarrow> cap_at_least cap k (gasLimiter ml)"
    "used_of used g = used_of used (gasLimiter ml) + share (gasLimiter ml) (uint (GasLimit m))"
    by (auto simp: ml_ok_def)
  show ?thesis
    using t b g assms(2) by (simp add: WaitForTransaction_def ml_ok_def)
qed

text \<open>A sequence of transactions, one after the other, until one is refused.\<close>

fun wait_all ::
  "('rl, 'c) rate_lib \<Rightarrow> 'c \<Rightarrow> ('rl, 'tx) multi_limiter \<Rightarrow> tx_metrics list
    \<Rightarrow> (go_error option \<times> ('rl, 'tx) multi_limiter) option" where
  "wait_all lib ctx ml [] = Some (None, ml)"
| "wait_all lib ctx ml (m # ms) = (case WaitForTransaction lib ctx ml m of
     None \<Rightarrow> None
   | Some (Some e, ml') \<Rightarrow> Some (Some e, ml')
   | Some (None, ml') \<Rightarrow> wait_all lib ctx ml' ms)"

lemma wait_all_granted:
  assumes "grants (waitN lib) ctx cap used" "ml_ok cap ml"
  shows "\<exists>ml'. wait_all lib ctx ml ms = Some (None, ml') \<and>
    used_of used (tpsLimiter ml') = used_of used (tpsLimiter ml) + share (tpsLimiter ml) (int (length ms)) \<and>
    used_of used (bytesLimiter ml') = used_of used (bytesLimiter ml) +
      share (bytesLimiter ml) (\<Sum>m\<leftarrow>ms. uint (SizeBytes m)) \<and>
    used_of used (gasLimiter ml') = used_of used (gasLimiter ml) +
      share (gasLimiter ml) (\<Sum>m\<leftarrow>ms. uint (GasLimit m))"
  using assms(2)
proof (induction ms arbitrary: ml)
  case (Cons m ms)
  from wait_transaction_granted [OF assms(1) Cons.prems, of m]
  obtain ml1 where ml1: "WaitForTransaction lib ctx ml m = Some (None, ml1)" "ml_ok cap ml1"
    and lims: "tpsLimiter ml1 = None \<longleftrightarrow> tpsLimiter ml = None"
      "bytesLimiter ml1 = None \<longleftrightarrow> bytesLimiter ml = None" "gasLimiter ml1 = None \<longleftrightarrow> gasLimiter ml = None"
    and used: "used_of used (tpsLimiter ml1) = used_of used (tpsLimiter ml) + share (tpsLimiter ml) 1"
      "used_of used (bytesLimiter ml1) =
        used_of used (bytesLimiter ml) + share (bytesLimiter ml) (uint (SizeBytes m))"
      "used_of used (gasLimiter ml1) =
        used_of used (gasLimiter ml) + share (gasLimiter ml) (uint (GasLimit m))"
    by (elim exE conjE) (rule that; assumption)
  from Cons.IH [OF ml1(2)]
  obtain ml2 where ml2: "wait_all lib ctx ml1 ms = Some (None, ml2)"
    "used_of used (tpsLimiter ml2) = used_of used (tpsLimiter ml1) + share (tpsLimiter ml1) (int (length ms))"
    "used_of used (bytesLimiter ml2) = used_of used (bytesLimiter ml1) +
      share (bytesLimiter ml1) (\<Sum>m\<leftarrow>ms. uint (SizeBytes m))"
    "used_of used (gasLimiter ml2) = used_of used (gasLimiter ml1) +
      share (gasLimiter ml1) (\<Sum>m\<leftarrow>ms. uint (GasLimit m))"
    by (elim exE conjE) (rule that; assumption)
  show ?case
    by (rule exI [of _ ml2]) (simp add: ml1(1) ml2 used share_def lims)
qed (auto simp: share_def)

lemma new_multi_limiter_cases:
  assumes "config_ok c"
  shows "NewMultiLimiter lib conv c tc = Inr
    \<lparr>tpsLimiter = (if HasTxLimit c
       then Some \<lparr>rateLimiter = newLimiter lib (TxPerSecond c) (GetTpsBurstSize conv c)\<rparr> else None),
     bytesLimiter = (if HasBytesLimit c
       then Some \<lparr>rateLimiter = newLimiter lib (GetBytesRate c) (GetBytesBurstSize c)\<rparr> else None),
     gasLimiter = (if HasGasLimit c
       then Some \<lparr>rateLimiter = newLimiter lib (GetGasRate c) (GetGasBurstSize c)\<rparr> else None),
     txConfig = tc, ml_config = c\<rparr>"
proof -
  have "0 < GetTpsBurstSize conv c" "0 < GetBytesBurstSize c" "0 < GetGasBurstSize c"
    using tps_burst_range [OF assms, of conv] bytes_burst_range [OF assms] gas_burst_range [OF assms]
    by linarith+
  then show ?thesis
    by (auto simp: NewMultiLimiter_def new_if_def NewLimiter_def HasTxLimit_def HasBytesLimit_def
        HasGasLimit_def IsEnabled_def GetBytesRate_def GetGasRate_def f64_of_u64_pos flt_def)
qed

lemma new_multi_limiter_ok:
  assumes "config_ok c" "rate_lib_grants lib ctx cap used" "NewMultiLimiter lib conv c tc = Inr ml"
  shows "ml_ok cap ml"
  using assms tps_burst_range [OF assms(1), of conv]
  by (auto simp: new_multi_limiter_cases ml_ok_def rate_lib_grants_def cap_at_least_def)

subsection \<open>Errors of the loops\<close>

lemma limit_error_is:
  "errors_is (limit_error mark err) Canceled \<or> errors_is (limit_error mark err) DeadlineExceeded \<or>
   errors_is (limit_error mark err) mark"
  by (cases mark) (auto simp: limit_error_def)

lemma marked_error:
  assumes "e = limit_error mark err" and "P mark"
  shows "\<exists>mark err. e = limit_error mark err \<and>
    (errors_is e Canceled \<or> errors_is e DeadlineExceeded \<or> errors_is e mark) \<and> P mark"
  using assms limit_error_is [of mark err] by auto

lemma wait_chunks_error:
  assumes ret: "wait_chunks wait mark ctx chunk l r = Some (Some e, l')"
  shows "\<exists>err. e = limit_error mark err"
proof -
  have "fst (Some e, l') \<noteq> None \<longrightarrow> (\<exists>err. fst (Some e, l') = Some (limit_error mark err))"
    by (rule wait_chunks.raw_induct [where P = "\<lambda>wait mark ctx chunk l r x.
          fst x \<noteq> None \<longrightarrow> (\<exists>err. fst x = Some (limit_error mark err))", OF _ ret])
      (auto simp: Let_def split: if_splits prod.splits option.splits)
  then show ?thesis by simp
qed

lemma wait_metric_error:
  assumes "wait_metric wait mark ctx chunk lo w = Some (Some e, lo')"
  shows "\<exists>err. e = limit_error mark err"
  using assms wait_chunks_error
  by (fastforce simp: wait_metric_def split: option.splits if_splits)

lemma wait_metric_returns:
  assumes "1 \<le> chunk \<and> chunk \<le> max_int"
  shows "\<exists>e lo'. wait_metric (limiter_Wait lib) mark ctx chunk lo w = Some (e, lo')"
proof (cases lo)
  case (Some l)
  obtain e l' where "wait_chunks (limiter_Wait lib) mark ctx chunk l w = Some (e, l')"
    using wrapped.chunks_return [of chunk lib mark ctx l w] assms by auto
  with Some show ?thesis by (auto simp: wait_metric_def)
qed (simp add: wait_metric_def)

lemma wait_transaction_returns:
  assumes "config_ok (ml_config ml)"
  shows "\<exists>r. WaitForTransaction lib ctx ml m = Some r"
  using wait_metric_returns [OF bytes_burst_range [OF assms], of lib ErrBytesRateLimitExceeded ctx
      "bytesLimiter ml" "SizeBytes m"]
    wait_metric_returns [OF gas_burst_range [OF assms], of lib ErrGasRateLimitExceeded ctx
      "gasLimiter ml" "GasLimit m"]
  by (auto simp: WaitForTransaction_def split: prod.splits option.splits)

subsection \<open>Properties\<close>

text \<open>
  A limiter for the examples: it grants what fits into the burst and counts it.
\<close>

definition counting_lib :: "(int \<times> int, unit) rate_lib" where
  "counting_lib = \<lparr>newLimiter = (\<lambda>r b. (b, 0)),
     waitN = (\<lambda>(b, u) ctx n. if n \<le> b then (None, (b, u + n))
                              else (Some (Msg ''rate: Wait(n) exceeds limiter's burst''), (b, u))),
     allowN = (\<lambda>(b, u) now n. (n \<le> b, (b, u))), tokensAt = (\<lambda>(b, u) now. fzero),
     setLimit = (\<lambda>l r. l)\<rparr>"

lemma counting_lib_grants: "rate_lib_grants counting_lib () fst snd"
  by (auto simp: rate_lib_grants_def grants_def counting_lib_def)

definition example_config :: rl_config where
  "example_config = \<lparr>TxPerSecond = Fin 100, BytesPerSecond = 300, GasPerSecond = 0, Burst = \<lparr>Size = 0\<rparr>\<rparr>"

lemma example_config_ok: "config_ok (example_config\<lparr>TxPerSecond := fone\<rparr>)"
  by (simp add: config_ok_def example_config_def int_range_def)

text \<open>C11: With a live context, the limiter a configuration makes lets every transaction of a
  sequence through and takes exactly one token per transaction from the TPS limiter, the sizes in
  bytes from the bytes limiter and the gas limits from the gas limiter, for each metric that is
  configured: the pieces of a transaction larger than the burst add up to it.\<close>

theorem wait_consumes_exactly:
  assumes "rate_lib_grants lib ctx cap used" and "config_ok c"
    and "NewMultiLimiter lib conv c tc = Inr ml"
  shows "\<exists>ml'. wait_all lib ctx ml ms = Some (None, ml') \<and>
    used_of used (tpsLimiter ml') =
      used_of used (tpsLimiter ml) + (if HasTxLimit c then int (length ms) else 0) \<and>
    used_of used (bytesLimiter ml') =
      used_of used (bytesLimiter ml) + (if HasBytesLimit c then \<Sum>m\<leftarrow>ms. uint (SizeBytes m) else 0) \<and>
    used_of used (gasLimiter ml') =
      used_of used (gasLimiter ml) + (if HasGasLimit c then \<Sum>m\<leftarrow>ms. uint (GasLimit m) else 0)"
proof -
  have ml: "tpsLimiter ml = None \<longleftrightarrow> \<not> HasTxLimit c" "bytesLimiter ml = None \<longleftrightarrow> \<not> HasBytesLimit c"
    "gasLimiter ml = None \<longleftrightarrow> \<not> HasGasLimit c"
    using assms(3) by (auto simp: new_multi_limiter_cases [OF assms(2)])
  have sh: "share (tpsLimiter ml) n = (if HasTxLimit c then n else 0)"
    "share (bytesLimiter ml) n = (if HasBytesLimit c then n else 0)"
    "share (gasLimiter ml) n = (if HasGasLimit c then n else 0)" for n
    by (simp_all add: share_def ml)
  have "grants (waitN lib) ctx cap used" using assms(1) by (simp add: rate_lib_grants_def)
  then show ?thesis
    using wait_all_granted [OF _ new_multi_limiter_ok [OF assms(2,1,3)], of lib ctx used ms]
    unfolding sh by blast
qed

theorem wait_consumes_exactly_witness:
  "\<exists>ml ml'. NewMultiLimiter counting_lib (\<lambda>_. 0) (example_config\<lparr>TxPerSecond := fone\<rparr>)
       (None :: unit tx_config option) = Inr ml \<and>
     wait_all counting_lib () ml [\<lparr>SizeBytes = 1000, GasLimit = 7\<rparr>, \<lparr>SizeBytes = 20, GasLimit = 7\<rparr>]
       = Some (None, ml') \<and>
     used_of snd (tpsLimiter ml') = 2 \<and> used_of snd (bytesLimiter ml') = 1020 \<and>
     used_of snd (gasLimiter ml') = 0"
proof -
  let ?c = "example_config\<lparr>TxPerSecond := fone\<rparr>"
  obtain ml where ml: "NewMultiLimiter counting_lib (\<lambda>_. 0) ?c (None :: unit tx_config option) = Inr ml"
    using new_multi_limiter_cases [OF example_config_ok] by blast
  have h: "HasTxLimit ?c" "HasBytesLimit ?c" "\<not> HasGasLimit ?c"
    by (simp_all add: HasTxLimit_def HasBytesLimit_def HasGasLimit_def IsEnabled_def
        example_config_def flt_def)
  have z: "used_of snd (tpsLimiter ml) = 0" "used_of snd (bytesLimiter ml) = 0"
    "used_of snd (gasLimiter ml) = 0"
    using ml h by (auto simp: new_multi_limiter_cases [OF example_config_ok] used_of_def counting_lib_def)
  show ?thesis
    using wait_consumes_exactly [OF counting_lib_grants example_config_ok ml, of
        "[\<lparr>SizeBytes = 1000, GasLimit = 7\<rparr>, \<lparr>SizeBytes = 20, GasLimit = 7\<rparr>]"] ml h z
    by auto
qed

text \<open>Applying the rate limits to a transaction always returns, whatever the library limiters
  answer: the loops over the pieces make progress for every size and every gas limit, because a
  burst size is never below one.\<close>

theorem wait_for_transaction_returns:
  assumes "config_ok (ml_config ml)"
  shows "\<exists>e ml'. WaitForTransactionBytes lib ctx ml txBytes = Some (e, ml')"
  using wait_transaction_returns [OF assms] by (fastforce simp: WaitForTransactionBytes_def Let_def)

theorem wait_for_transaction_returns_witness:
  "\<exists>e ml'. WaitForTransactionBytes counting_lib ()
     \<lparr>tpsLimiter = None, bytesLimiter = Some \<lparr>rateLimiter = (1, 0)\<rparr>, gasLimiter = None,
      txConfig = (None :: unit tx_config option), ml_config = example_config\<lparr>TxPerSecond := fone\<rparr>\<rparr>
     (replicate 1000 0) = Some (e, ml')"
  by (rule wait_for_transaction_returns) (simp add: example_config_ok)



text \<open>A multi-limiter can be made from every configuration, valid or not, and has a limiter for
  exactly the metrics whose rate is positive.\<close>

theorem new_multi_limiter_total:
  assumes "config_ok c"
  shows "\<exists>ml. NewMultiLimiter lib conv c tc = Inr ml \<and>
    (tpsLimiter ml \<noteq> None \<longleftrightarrow> HasTxLimit c) \<and> (bytesLimiter ml \<noteq> None \<longleftrightarrow> HasBytesLimit c) \<and>
    (gasLimiter ml \<noteq> None \<longleftrightarrow> HasGasLimit c)"
  by (simp add: new_multi_limiter_cases [OF assms])

theorem new_multi_limiter_total_witness:
  "\<exists>ml. NewMultiLimiter counting_lib (\<lambda>_. 0) (example_config\<lparr>TxPerSecond := fone\<rparr>)
      (None :: unit tx_config option) = Inr ml \<and> tpsLimiter ml \<noteq> None \<and> gasLimiter ml = None"
  using new_multi_limiter_total [OF example_config_ok, of counting_lib "\<lambda>_. 0" "None :: unit tx_config option"]
  by (auto simp: HasTxLimit_def HasGasLimit_def IsEnabled_def example_config_def flt_def)

text \<open>Without a custom burst, the burst of the bytes and of the gas limiter is the rate itself,
  at least one and saturated at the largest \<^verbatim>\<open>int\<close>; a rate above it does not wrap around to a
  negative burst.\<close>

theorem burst_saturates:
  assumes "Size (Burst c) \<le> 0"
  shows "GetBytesBurstSize c = (if BytesPerSecond c = 0 then 1 else min (uint (BytesPerSecond c)) (2 ^ 63 - 1)) \<and>
    GetGasBurstSize c = (if GasPerSecond c = 0 then 1 else min (uint (GasPerSecond c)) (2 ^ 63 - 1))"
  using assms by (simp_all add: GetBytesBurstSize_def GetGasBurstSize_def saturating_burst_eq max_int_def)

theorem burst_saturates_witness:
  "GetBytesBurstSize \<lparr>TxPerSecond = fzero, BytesPerSecond = - 1, GasPerSecond = 5, Burst = \<lparr>Size = 0\<rparr>\<rparr>
     = 2 ^ 63 - 1 \<and>
   GetGasBurstSize \<lparr>TxPerSecond = fzero, BytesPerSecond = - 1, GasPerSecond = 5, Burst = \<lparr>Size = 0\<rparr>\<rparr> = 5"
  using burst_saturates [of "\<lparr>TxPerSecond = fzero, BytesPerSecond = - 1, GasPerSecond = 5, Burst = \<lparr>Size = 0\<rparr>\<rparr>"]
  by (simp add: unsigned_minus_1_eq_mask mask_eq_exp_minus_1)

text \<open>Validation rejects exactly the configurations with a negative TPS and a positive bytes or
  gas rate. A negative TPS alone passes, and the error for a missing limit is never returned.\<close>

theorem validate_rejects_exactly:
  "Validate c = Some e \<longleftrightarrow> e = ErrTxPerSecondMustBePositive \<and> flt (TxPerSecond c) fzero \<and>
     (0 < BytesPerSecond c \<or> 0 < GasPerSecond c)"
  by (auto simp: Validate_def IsEnabled_def flt_def feq_def word_greater_zero_iff split: if_splits)

end
