(* ===== verification/Fuzzer.thy ===== *)
theory Fuzzer
  imports Payload_Base Go_Float
begin

text \<open>
  The gas fuzzer of the replay, \<^verbatim>\<open>replay/fuzzer.go\<close>: its configuration and defaults, the decision to
  fuzz a transaction, the two strategies on \<^verbatim>\<open>float64\<close> multipliers, the rebuilt transaction, and the
  fields logged about a transaction. The random source is a parameter, with its state in the fuzzer.
\<close>

subsection \<open>Configuration\<close>

record GasFuzzingConfig =
  Enabled :: bool
  Strategy :: string
  GasLimitMultiplierMin :: float64
  GasLimitMultiplierMax :: float64
  Seed :: int
  FuzzPercentage :: int
  VerboseLogging :: bool

record 'g rng =
  NewSource :: "int \<Rightarrow> 'g"
  Intn :: "int \<Rightarrow> 'g \<Rightarrow> int \<times> 'g"
  Float64 :: "'g \<Rightarrow> float64 \<times> 'g"

text \<open>What the random source promises of its ranges.\<close>

definition rng_ok :: "'g rng \<Rightarrow> bool" where
  "rng_ok r \<longleftrightarrow>
     (\<forall>n g. 0 < n \<longrightarrow> 0 \<le> fst (Intn r n g) \<and> fst (Intn r n g) < n) \<and>
     (\<forall>g. \<exists>a. fst (Float64 r g) = Fin a \<and> round53 a = a \<and> 0 \<le> a \<and> a < 1)"

record 'g GasFuzzer =
  gf_config :: GasFuzzingConfig
  gf_rng :: 'g
  gf_txCounter :: uint64

definition NewGasFuzzer :: "'g rng \<Rightarrow> int \<Rightarrow> GasFuzzingConfig \<Rightarrow> 'g GasFuzzer option" where
  "NewGasFuzzer r now config =
     (if \<not> Enabled config then None
      else
        let c1 = (if feq (GasLimitMultiplierMin config) fzero then config\<lparr>GasLimitMultiplierMin := Fin (1 / 2)\<rparr> else config);
            c2 = (if feq (GasLimitMultiplierMax c1) fzero then c1\<lparr>GasLimitMultiplierMax := Fin 5\<rparr> else c1);
            c3 = (if FuzzPercentage c2 = 0 then c2\<lparr>FuzzPercentage := 100\<rparr> else c2);
            c4 = (if Strategy c3 = [] then c3\<lparr>Strategy := ''random''\<rparr> else c3);
            seed = (if Seed c4 = 0 then now else Seed c4)
        in Some \<lparr> gf_config = c4, gf_rng = NewSource r seed, gf_txCounter = 0 \<rparr>)"

subsection \<open>Strategies\<close>

text \<open>\<open>other\<close> is what the platform makes of a float that is no \<^verbatim>\<open>uint64\<close>.\<close>

definition scaled_gas :: "(float64 \<Rightarrow> uint64) \<Rightarrow> uint64 \<Rightarrow> float64 \<Rightarrow> uint64" where
  "scaled_gas other gasLimit gasMultiplier = u64_of_f64 other (fmul (f64_of_u64 gasLimit) gasMultiplier)"

definition randomFuzzing ::
  "'g rng \<Rightarrow> (float64 \<Rightarrow> uint64) \<Rightarrow> 'g GasFuzzer \<Rightarrow> uint64 \<Rightarrow> uint64 go \<times> 'g GasFuzzer" where
  "randomFuzzing r other f gasLimit =
     (let (x, g) = Float64 r (gf_rng f);
          lo = GasLimitMultiplierMin (gf_config f);
          gasMultiplier = fadd lo (fmul x (fsub (GasLimitMultiplierMax (gf_config f)) lo))
      in (Inr (scaled_gas other gasLimit gasMultiplier), f\<lparr>gf_rng := g\<rparr>))"

definition boundaryFuzzing :: "(float64 \<Rightarrow> uint64) \<Rightarrow> 'g GasFuzzer \<Rightarrow> uint64 \<Rightarrow> uint64 go \<times> 'g GasFuzzer" where
  "boundaryFuzzing other f gasLimit =
     (let useMin = (gf_txCounter f mod 2 = 0);
          gasMultiplier = (if useMin then GasLimitMultiplierMin (gf_config f)
                           else GasLimitMultiplierMax (gf_config f))
      in (Inr (scaled_gas other gasLimit gasMultiplier), f))"

definition applyFuzzingStrategy ::
  "'g rng \<Rightarrow> (float64 \<Rightarrow> uint64) \<Rightarrow> 'g GasFuzzer \<Rightarrow> uint64 \<Rightarrow> uint64 go \<times> 'g GasFuzzer" where
  "applyFuzzingStrategy r other f gasLimit =
     (if Strategy (gf_config f) = ''random'' then randomFuzzing r other f gasLimit
      else if Strategy (gf_config f) = ''boundary'' then boundaryFuzzing other f gasLimit
      else randomFuzzing r other f gasLimit)"

subsection \<open>The fuzzed transaction\<close>

definition createFuzzedTransaction ::
  "('m, 'b, 't, 'w) Client \<Rightarrow> 'm DecodedTx \<Rightarrow> uint64 \<Rightarrow> coins \<Rightarrow> 't go" where
  "createFuzzedTransaction client originalTx gasLimit fee =
     (let cfg = cl_TxConfig client in
      case SetMsgs cfg (dt_Msgs originalTx) (NewTxBuilder cfg) of
        Inl err \<Rightarrow> Inl (Wrap ''failed to set messages in fuzzed transaction'' err)
      | Inr b0 \<Rightarrow>
          let b1 = SetFeeAmount cfg fee (SetGasLimit cfg gasLimit b0);
              b2 = (case dt_Fee originalTx of None \<Rightarrow> b1
                    | Some ft \<Rightarrow>
                        let g = (if fee_Granter ft \<noteq> [] then SetFeeGranter cfg (fee_Granter ft) b1 else b1)
                        in if fee_Payer ft \<noteq> [] then SetFeePayer cfg (fee_Payer ft) g else g);
              b3 = (case dt_Memo originalTx of None \<Rightarrow> b2 | Some m \<Rightarrow> SetMemo cfg m b2);
              b4 = (case dt_TimeoutHeight originalTx of None \<Rightarrow> b3 | Some h \<Rightarrow> SetTimeoutHeight cfg h b3);
              b5 = (case dt_Signatures originalTx of
                      Some (Inr (s # ss)) \<Rightarrow> (case SetSignatures cfg (s # ss) b4 of Inl _ \<Rightarrow> b4 | Inr b \<Rightarrow> b)
                    | _ \<Rightarrow> b4)
          in Inr (GetTx cfg b5))"

definition FuzzTransaction ::
  "'g rng \<Rightarrow> (float64 \<Rightarrow> uint64) \<Rightarrow> ('m, 'b, 't, 'w) Client \<Rightarrow> 'g GasFuzzer option \<Rightarrow> bytes
    \<Rightarrow> (bytes go \<times> 'g GasFuzzer option) res" where
  "FuzzTransaction r other client fo txBytes = (case fo of
     None \<Rightarrow> Ret (Inr txBytes, None)
   | Some f \<Rightarrow>
       if \<not> Enabled (gf_config f) then Ret (Inr txBytes, Some f)
       else let (roll, g) = Intn r 100 (gf_rng f); f1 = f\<lparr>gf_rng := g\<rparr> in
         if FuzzPercentage (gf_config f) \<le> roll then Ret (Inr txBytes, Some f1)
         else let f2 = f1\<lparr>gf_txCounter := gf_txCounter f1 + 1\<rparr> in
           case TxDecoder (cl_TxConfig client) txBytes of
             Inl _ \<Rightarrow> Ret (Inr txBytes, Some f2)
           | Inr tx \<Rightarrow> (case dt_Fee tx of
               None \<Rightarrow> Ret (Inr txBytes, Some f2)
             | Some feeTx \<Rightarrow> (case applyFuzzingStrategy r other f2 (fee_Gas feeTx) of
                 (Inl _, f3) \<Rightarrow> Ret (Inr txBytes, Some f3)
               | (Inr newGasLimit, f3) \<Rightarrow> (case createFuzzedTransaction client tx newGasLimit (fee_Fee feeTx) of
                   Inl _ \<Rightarrow> Ret (Inr txBytes, Some f3)
                 | Inr fuzzedTx \<Rightarrow>
                     res_bind (Encode client fuzzedTx) (\<lambda>bs. Ret (Inr bs, Some f3))))))"

subsection \<open>The logged fields of a transaction\<close>

datatype field = FStr string | FInt int | FU64 uint64

record 'm info_lib =
  CoinsString :: "coins \<Rightarrow> string"
  CoinsAdd :: "coins \<Rightarrow> coin \<Rightarrow> coins"
  MsgTypeURL :: "'m \<Rightarrow> string"
  Sum256 :: "bytes \<Rightarrow> bytes"

definition fee_fields :: "'m info_lib \<Rightarrow> key_lib \<Rightarrow> FeeInfo option \<Rightarrow> (string \<times> field) list" where
  "fee_fields il kl fo = (case fo of
     Some ft \<Rightarrow> [(''gas_limit'', FU64 (fee_Gas ft)), (''fee_coins'', FStr (CoinsString il (fee_Fee ft))),
         (''total_fee'', FStr (CoinsString il (foldl (CoinsAdd il) [] (fee_Fee ft))))] @
       (if fee_Granter ft \<noteq> [] then [(''fee_granter'', FStr (bech32 kl account_prefix (fee_Granter ft)))] else []) @
       (if fee_Payer ft \<noteq> [] then [(''fee_payer'', FStr (bech32 kl account_prefix (fee_Payer ft)))] else [])
   | None \<Rightarrow> [(''gas_limit'', FStr ''unknown (not FeeTx)''), (''total_fee'', FStr ''unknown (not FeeTx)'')])"

definition msg_fields :: "'m info_lib \<Rightarrow> 'm list \<Rightarrow> (string \<times> field) list" where
  "msg_fields il msgs = (''msg_count'', FInt (int (length msgs))) #
     (if msgs \<noteq> [] then [(''msg_types'', FStr (str_join '','' (map (MsgTypeURL il) msgs)))] else [])"

text \<open>The first eight bytes of a key; a shorter key is a slice out of range.\<close>

definition first8 :: "bytes \<Rightarrow> bytes res" where
  "first8 bs = (if 8 \<le> length bs then Ret (take 8 bs)
     else Panic (Msg ''runtime error: slice bounds out of range''))"

definition sig_fields :: "key_lib \<Rightarrow> SignatureV2 list go option \<Rightarrow> (string \<times> field) list res" where
  "sig_fields kl so = (case so of
     None \<Rightarrow> Ret [(''signature_count'', FStr ''unknown (not SigVerifiableTx)'')]
   | Some (Inl err) \<Rightarrow> Ret [(''signature_error'', FStr (error_text err))]
   | Some (Inr []) \<Rightarrow> Ret [(''signature_count'', FInt 0)]
   | Some (Inr (s # ss)) \<Rightarrow>
       let count = (''signature_count'', FInt (int (length (s # ss))));
           seqf = (''first_sig_sequence'', FU64 (sig_Sequence s))
       in case sig_PubKey s of
            None \<Rightarrow> Ret [count, seqf]
          | Some pk \<Rightarrow> res_bind (first8 pk) (\<lambda>h. Ret [count,
              (''sender'', FStr (bech32 kl account_prefix (pub_address kl pk))),
              (''first_sig_pubkey'', FStr (hex_encode h)), seqf]))"

definition ExtractTransactionInfo ::
  "'m info_lib \<Rightarrow> ('m, 'b, 't, 'w) Client \<Rightarrow> bytes \<Rightarrow> string \<Rightarrow> (string \<times> field) list option res" where
  "ExtractTransactionInfo il client txBytes txType =
     (if txBytes = [] then Ret None
      else case TxDecoder (cl_TxConfig client) txBytes of
        Inl err \<Rightarrow> Ret (Some [(''tx_type'', FStr txType), (''decode_error'', FStr (error_text err)),
          (''tx_size'', FInt (int (length txBytes)))])
      | Inr tx \<Rightarrow>
          res_bind (sig_fields (cl_Keys client) (dt_Signatures tx)) (\<lambda>sigs.
          res_bind (first8 (Sum256 il txBytes)) (\<lambda>h.
          Ret (Some ([(''tx_type'', FStr txType), (''tx_size'', FInt (int (length txBytes)))]
            @ fee_fields il (cl_Keys client) (dt_Fee tx) @ msg_fields il (dt_Msgs tx)
            @ (case dt_Memo tx of Some m \<Rightarrow> if m \<noteq> [] then [(''memo'', FStr m)] else [] | None \<Rightarrow> [])
            @ sigs @ [(''tx_hash'', FStr (hex_encode h))])))))"

subsection \<open>Bounds of the strategies\<close>

lemma u64_of_f64_mono:
  assumes "0 \<le> a" "a \<le> b" "trunc_rat b < 2 ^ 64"
  shows "u64_of_f64 o1 (Fin a) \<le> u64_of_f64 o2 (Fin b)"
proof -
  have "0 \<le> trunc_rat a" "trunc_rat a \<le> trunc_rat b"
    using assms by (simp_all add: trunc_rat_def floor_mono)
  then show ?thesis using assms(3)
    by (simp add: u64_of_f64_def word_le_def uint_word_of_int)
qed

lemma fround_between:
  assumes "0 \<le> x" "x \<le> y" "fround y = Fin v"
  shows "\<exists>u. fround x = Fin u \<and> 0 \<le> u \<and> u \<le> v \<and> u = round53 x"
proof -
  have v: "v = round53 y" "\<bar>v\<bar> < 2 ^ 1024" using assms(3) by (auto simp: fround_def Let_def split: if_splits)
  have "round53 x \<le> v" "0 \<le> round53 x" using round53_mono [OF assms(2)] round53_nonneg [OF assms(1)] v by simp_all
  with v(2) show ?thesis by (simp add: fround_def Let_def)
qed

lemma f64_of_u64_finite: "\<exists>g. f64_of_u64 w = Fin g \<and> 0 \<le> g"
proof -
  have "fround (2 ^ 64) = Fin (2 ^ 64)" using is_f64_dyadic [of 1 64] by (intro fround_float) (simp add: pow2_def)
  moreover have "of_int (uint w) \<le> (2 ^ 64 :: rat)"
  proof -
    have "uint w \<le> 2 ^ 64" using uint_lt2p [of w] by simp
    then have "(of_int (uint w) :: rat) \<le> of_int (2 ^ 64)" by (simp only: of_int_le_iff)
    then show ?thesis by (simp only: of_int_power of_int_numeral)
  qed
  moreover have "(0 :: rat) \<le> of_int (uint w)" using uint_ge_0 [of w] by (simp only: of_int_0_le_iff)
  ultimately show ?thesis
    unfolding f64_of_u64_def using fround_between by blast
qed

text \<open>The upper end of the multipliers, as the source's expression computes it for a draw of one.\<close>

definition top_multiplier :: "GasFuzzingConfig \<Rightarrow> float64" where
  "top_multiplier c = fadd (GasLimitMultiplierMin c) (fsub (GasLimitMultiplierMax c) (GasLimitMultiplierMin c))"

definition multipliers_ok :: "GasFuzzingConfig \<Rightarrow> bool" where
  "multipliers_ok c \<longleftrightarrow> (\<exists>a b. GasLimitMultiplierMin c = Fin a \<and> GasLimitMultiplierMax c = Fin b \<and>
     is_f64 (Fin a) \<and> is_f64 (Fin b) \<and> 0 \<le> a \<and> a \<le> b)"

lemma random_multiplier_between:
  assumes "multipliers_ok c" and "0 \<le> q" "q < 1" and "top_multiplier c = Fin t"
  shows "\<exists>a m. GasLimitMultiplierMin c = Fin a \<and> 0 \<le> a \<and> a \<le> m \<and> m \<le> t \<and>
    fadd (GasLimitMultiplierMin c) (fmul (Fin q) (fsub (GasLimitMultiplierMax c) (GasLimitMultiplierMin c))) = Fin m"
proof -
  obtain a b where ab: "GasLimitMultiplierMin c = Fin a" "GasLimitMultiplierMax c = Fin b"
      "is_f64 (Fin a)" "is_f64 (Fin b)" "0 \<le> a" "a \<le> b"
    using assms(1) unfolding multipliers_ok_def by blast
  obtain d where d: "fround (b - a) = Fin d" "0 \<le> d" "d = round53 (b - a)"
    using fround_between [of "b - a" b b] fround_float [OF ab(4)] ab by auto
  have rd: "round53 d = d" using d(3) round53_idem by simp
  then have fd: "fround d = Fin d"
    using d(1,3) by (auto simp: fround_def Let_def split: if_splits)
  have "0 \<le> q * d" "q * d \<le> d" using assms(2,3) d(2) by (simp_all add: mult_left_le_one_le)
  then obtain e where e: "fround (q * d) = Fin e" "0 \<le> e" "e \<le> d" using fround_between fd by blast
  have top: "fround (a + d) = Fin t" using assms(4) ab d(1) by (simp add: top_multiplier_def fsub_def)
  obtain m where m: "fround (a + e) = Fin m" "m \<le> t" "m = round53 (a + e)"
    using fround_between [of "a + e" "a + d" t] ab(5) e top by auto
  have "round53 a = a" using ab(3) by (simp add: is_f64_def)
  then have "a \<le> m" using round53_mono [of a "a + e"] m(3) e(2) by simp
  with ab d(1) e(1) m(1,2) show ?thesis by (simp add: fsub_def)
qed

text \<open>C40: The random strategy stays between the gas limit scaled by the configured minimum and the gas
  limit scaled by the top of the multiplier range, floating-point rounding included, for every draw.\<close>

theorem random_gas_bounds:
  assumes "rng_ok r" and "multipliers_ok (gf_config f)"
    and "fmul (f64_of_u64 gasLimit) (top_multiplier (gf_config f)) = Fin z" and "z < 2 ^ 64"
  shows "\<exists>n f'. randomFuzzing r other f gasLimit = (Inr n, f') \<and>
    scaled_gas other gasLimit (GasLimitMultiplierMin (gf_config f)) \<le> n \<and>
    n \<le> scaled_gas other gasLimit (top_multiplier (gf_config f))"
proof -
  let ?c = "gf_config f"
  obtain g where g: "f64_of_u64 gasLimit = Fin g" "0 \<le> g" using f64_of_u64_finite by blast
  obtain q s where q: "Float64 r (gf_rng f) = (Fin q, s)" "0 \<le> q" "q < 1"
    using assms(1) unfolding rng_ok_def by (metis fst_conv surj_pair)
  obtain t where t: "top_multiplier ?c = Fin t"
    using assms(3) g by (cases "top_multiplier ?c") (auto simp: inf_of_sign_def split: if_splits)
  obtain a m where am: "GasLimitMultiplierMin ?c = Fin a" "0 \<le> a" "a \<le> m" "m \<le> t"
      "fadd (GasLimitMultiplierMin ?c) (fmul (Fin q) (fsub (GasLimitMultiplierMax ?c) (GasLimitMultiplierMin ?c))) = Fin m"
    using random_multiplier_between [OF assms(2) q(2,3) t] by blast
  have z: "fround (g * t) = Fin z" using assms(3) g t by simp
  have order: "0 \<le> g * a" "g * a \<le> g * m" "g * m \<le> g * t" using am g by (simp_all add: mult_left_mono)
  obtain v where v: "fround (g * m) = Fin v" "0 \<le> v" "v \<le> z" using fround_between [OF _ order(3) z] order by force
  obtain u where u: "fround (g * a) = Fin u" "0 \<le> u" "u \<le> v" using fround_between [OF order(1,2) v(1)] by blast
  have tz: "trunc_rat z < 2 ^ 64"
    using v u assms(4) by (simp add: trunc_rat_def floor_less_iff)
  have tv: "trunc_rat v < 2 ^ 64"
    using v u assms(4) by (simp add: trunc_rat_def floor_less_iff)
  have "u64_of_f64 other (Fin u) \<le> u64_of_f64 other (Fin v)" "u64_of_f64 other (Fin v) \<le> u64_of_f64 other (Fin z)"
    using u64_of_f64_mono u v tz tv by blast+
  then show ?thesis
    using q(1) am g u(1) v(1) z t by (simp add: randomFuzzing_def scaled_gas_def)
qed

text \<open>Fuzzing a transaction never reports an error: every failure on the way (an undecodable
  transaction, one without a fee, a failing rebuild) gives the original bytes back, and the counter
  of the boundary strategy moves exactly when the draw selects the transaction.\<close>

theorem fuzz_never_errors:
  assumes "FuzzTransaction r other client fo txBytes = Ret (res, fo')"
  shows "(\<exists>bs. res = Inr bs) \<and> (fo = None \<longleftrightarrow> fo' = None) \<and>
    (\<forall>f f'. fo = Some f \<longrightarrow> fo' = Some f' \<longrightarrow> gf_config f' = gf_config f \<and>
       gf_txCounter f' = gf_txCounter f +
         (if Enabled (gf_config f) \<and> fst (Intn r 100 (gf_rng f)) < FuzzPercentage (gf_config f) then 1 else 0))"
  using assms
  by (auto simp: FuzzTransaction_def Let_def applyFuzzingStrategy_def randomFuzzing_def boundaryFuzzing_def
      split: option.splits if_splits prod.splits sum.splits)

subsection \<open>Concrete runs\<close>

definition half_rng :: "unit rng" where
  "half_rng = \<lparr> NewSource = (\<lambda>s. ()), Intn = (\<lambda>n g. (0, g)), Float64 = (\<lambda>g. (Fin (1 / 2), g)) \<rparr>"

lemma half_rng_ok: "rng_ok half_rng"
proof -
  have "round53 (1 / 2) = 1 / 2" using is_f64_dyadic [of 1 "- 1"] by (simp add: pow2_def is_f64_def)
  then show ?thesis unfolding rng_ok_def half_rng_def by (auto intro!: exI [of _ "1 / 2"])
qed

definition example_fuzz_config :: GasFuzzingConfig where
  "example_fuzz_config = \<lparr> Enabled = True, Strategy = ''random'', GasLimitMultiplierMin = Fin (1 / 2),
     GasLimitMultiplierMax = Fin 5, Seed = 7, FuzzPercentage = 100, VerboseLogging = False \<rparr>"

theorem random_gas_bounds_witness:
  "\<exists>n f'. randomFuzzing half_rng (\<lambda>_. 0) \<lparr> gf_config = example_fuzz_config, gf_rng = (), gf_txCounter = 1 \<rparr> 200000
     = (Inr n, f') \<and> 100000 \<le> n \<and> n \<le> 1000000"
proof -
  have half: "is_f64 (Fin (1 / 2))" using is_f64_dyadic [of 1 "- 1"] by (simp add: pow2_def)
  have fl: "is_f64 (Fin 5)" "is_f64 (Fin (9 / 2))" "is_f64 (Fin 200000)" "is_f64 (Fin 1000000)" "is_f64 (Fin 100000)"
    by (simp_all add: is_f64_numeral is_f64_half_numeral)
  have "multipliers_ok example_fuzz_config"
    using half fl(1) unfolding multipliers_ok_def example_fuzz_config_def by (auto intro!: exI [of _ "1 / 2"])
  moreover have top: "top_multiplier example_fuzz_config = Fin 5"
    using fl [THEN fround_float] by (simp add: top_multiplier_def example_fuzz_config_def fsub_def)
  moreover have gas: "f64_of_u64 200000 = Fin 200000"
    using fl(3) [THEN fround_float] by (simp add: f64_of_u64_def)
  have "fmul (f64_of_u64 200000) (top_multiplier example_fuzz_config) = Fin 1000000"
    "scaled_gas (\<lambda>_. 0) 200000 (GasLimitMultiplierMin example_fuzz_config) = 100000"
    "scaled_gas (\<lambda>_. 0) 200000 (top_multiplier example_fuzz_config) = 1000000"
    unfolding top scaled_gas_def gas using fl(4,5) [THEN fround_float]
    by (simp_all add: example_fuzz_config_def u64_of_f64_def trunc_rat_def)
  ultimately show ?thesis
    using random_gas_bounds [OF half_rng_ok, of "\<lparr> gf_config = example_fuzz_config, gf_rng = (), gf_txCounter = 1 \<rparr>"
        200000 1000000 "\<lambda>_. 0"] by simp
qed

theorem fuzz_never_errors_witness:
  "\<exists>bs f'. FuzzTransaction half_rng (\<lambda>_. 0) example_client
      (Some \<lparr> gf_config = example_fuzz_config, gf_rng = (), gf_txCounter = 4 \<rparr>) [1] = Ret (Inr bs, Some f') \<and>
    gf_config f' = example_fuzz_config \<and> gf_txCounter f' = 5"
proof -
  let ?f = "\<lambda>n. \<lparr> gf_config = example_fuzz_config, gf_rng = (), gf_txCounter = n \<rparr>"
  have run: "FuzzTransaction half_rng (\<lambda>_. 0) example_client (Some (?f 4)) [1] = Ret (Inr [1], Some (?f 5))"
    by (simp add: FuzzTransaction_def half_rng_def example_fuzz_config_def example_client_def example_txcfg_def)
  from fuzz_never_errors [OF run] run show ?thesis by auto
qed

end
