(* ===== verification/Stresser.thy ===== *)
theory Stresser
  imports Pipeline Rate_Limit Fuzzer
begin

text \<open>
  The stress run of \<^verbatim>\<open>stresser.go\<close>: fetching account numbers, the initial transactions, the
  rate-limited broadcast function, the broadcast loops of the accounts (one goroutine each, any
  interleaving) and \<^verbatim>\<open>Stress\<close>, which puts them after the preparation of theory \<open>Pipeline\<close>.
\<close>

record StressConfig =
  sc_ChainID :: string
  sc_EthChainID :: int
  sc_MinGasPrice :: string
  sc_NodeAddress :: string
  sc_GRPCAddress :: string
  sc_Accounts :: "Secp256k1PrivateKey list"
  sc_NumOfTransactions :: int
  sc_AwaitTxConfirmation :: bool
  sc_GasFuzzing :: GasFuzzingConfig
  sc_RateLimit :: rl_config

subsection \<open>The broadcast function\<close>

definition limiter_txcfg :: "('m, 'b, 't, 'w) Client \<Rightarrow> 'm DecodedTx tx_config option" where
  "limiter_txcfg client = Some \<lparr> txDecoder = TxDecoder (cl_TxConfig client),
     feeTxGas = (\<lambda>t. map_option fee_Gas (dt_Fee t)) \<rparr>"

text \<open>The state of the closure: its limiter, when there is one, and the world.\<close>

type_synonym ('rl, 'm, 'w) bstate = "('rl, 'm DecodedTx) multi_limiter option \<times> 'w"

definition buildBroadcastClient ::
  "('rl, 'c) rate_lib \<Rightarrow> (float64 \<Rightarrow> int) \<Rightarrow> StressConfig \<Rightarrow> ('m, 'b, 't, 'w) Client
    \<Rightarrow> ('rl, 'm DecodedTx) multi_limiter option go" where
  "buildBroadcastClient lib conv config client =
     (if IsEnabled (sc_RateLimit config) then
        (case NewMultiLimiter lib conv (sc_RateLimit config) (limiter_txcfg client) of
           Inl err \<Rightarrow> Inl (Wrap ''failed to create rate limiter'' err)
         | Inr limiter \<Rightarrow> Inr (Some limiter))
      else Inr None)"

definition rateLimitedBroadcast ::
  "('rl, 'c) rate_lib \<Rightarrow> 'c \<Rightarrow> (string \<times> 'w) retry \<Rightarrow> ('m, 'b, 't, 'w) Client \<Rightarrow> bool \<Rightarrow> bytes
    \<Rightarrow> ('rl, 'm, 'w) bstate \<Rightarrow> ('rl, 'm, 'w) bstate bresult" where
  "rateLimitedBroadcast lib ctx retry client await txBytes st =
     (let (limiter, w) = st in
      case limiter of
        None \<Rightarrow> map_option (apsnd (\<lambda>w'. (None, w'))) (Broadcast retry client txBytes await w)
      | Some ml \<Rightarrow> (case WaitForTransactionBytes lib ctx ml txBytes of
          None \<Rightarrow> None
        | Some (Some err, ml') \<Rightarrow> Some (([], Some (Wrap ''rate limit wait failed'' err)), (Some ml', w))
        | Some (None, ml') \<Rightarrow>
            map_option (apsnd (\<lambda>w'. (Some ml', w'))) (Broadcast retry client txBytes await w)))"

subsection \<open>Account numbers\<close>

definition fetch_once :: "('m, 'b, 't, 'w) Client \<Rightarrow> bytes \<Rightarrow> ((uint64 \<times> uint64) \<times> 'w) body" where
  "fetch_once client addr st =
     (case GetAccountNumberSequence (cl_Node client) addr (snd st) of
        (Inl err, w') \<Rightarrow> (Some (Wrap ''querying for account number and sequence failed'' err), ((0, 0), w'))
      | (Inr ns, w') \<Rightarrow> (None, (ns, w')))"

definition getAccountNumberSequence ::
  "((uint64 \<times> uint64) \<times> 'w) retry \<Rightarrow> ('m, 'b, 't, 'w) Client \<Rightarrow> string \<Rightarrow> 'w
    \<Rightarrow> ((uint64 \<times> uint64) go \<times> 'w) option res" where
  "getAccountNumberSequence retry client address w =
     res_bind (orPanic (unbech32 (cl_Keys client) account_prefix address)) (\<lambda>addr.
     Ret (case retry 10 (fetch_once client addr) ((0, 0), w) of
            None \<Rightarrow> None
          | Some (Some err, (_, w')) \<Rightarrow> Some (Inl err, w')
          | Some (None, (ns, w')) \<Rightarrow> Some (Inr ns, w')))"

subsection \<open>Initial transactions\<close>

type_synonym 'p gen_initial = "TxRequest \<Rightarrow> 'p \<Rightarrow> Tx option go res \<times> 'p"

text \<open>
  Providers that keep no state and have no initial transactions. Such a provider succeeds throughout a
  preparation when it succeeds on each request from the state it was made in.
\<close>

locale plain_provider = tx_provider +
  fixes GenerateInitialTx :: "'a gen_initial"
  assumes no_initial: "GenerateInitialTx req p = (Ret (Inr None), p)"
    and generate_state: "GenerateTx req p = (r, p') \<Longrightarrow> p' = p"
    and sign_state: "SignTx t p = (r, p') \<Longrightarrow> p' = p"
begin

lemma succeeds:
  assumes "pr_gen E = GenerateTx" and "pr_sign E = SignTx"
    and "\<And>i j. i < length (pr_accounts E) \<Longrightarrow> j < pr_numTxs E \<Longrightarrow>
      \<exists>t. fst (GenerateTx (tx_request E i j (account_at E i j)) p) = Ret (Inr t)"
    and "\<And>t. \<exists>t'. fst (SignTx t p) = Ret (Inr t')"
  shows "provider_succeeds E (\<lambda>q. q = p)"
  unfolding provider_succeeds_def assms(1,2)
proof (intro conjI allI impI)
  fix i j q assume "i < length (pr_accounts E)" "j < pr_numTxs E" "q = p"
  then show "\<exists>t p'. GenerateTx (tx_request E i j (account_at E i j)) q = (Ret (Inr t), p') \<and> p' = p"
    using assms(3) generate_state by (metis fst_conv surj_pair)
next
  fix t q assume "q = p"
  then show "\<exists>t' p'. SignTx t q = (Ret (Inr t'), p') \<and> p' = p"
    using assms(4) [of t] sign_state by (metis fst_conv surj_pair)
qed

end

text \<open>The first loop: one request per key, in order.\<close>

fun generate_initial ::
  "(string \<Rightarrow> 'w \<Rightarrow> ((uint64 \<times> uint64) go \<times> 'w) option res) \<Rightarrow> key_lib \<Rightarrow> 'p gen_initial \<Rightarrow> nat
    \<Rightarrow> Secp256k1PrivateKey list \<Rightarrow> 'p \<times> 'w \<Rightarrow> (Tx list go \<times> ('p \<times> 'w)) option res" where
  "generate_initial getns kl gen keyIdx [] st = Ret (Some (Inr [], st))"
| "generate_initial getns kl gen keyIdx (key # keys) (p, w) =
     res_bind (getns (AccAddress kl key) w) (\<lambda>r.
     case r of
       None \<Rightarrow> Ret None
     | Some (Inl err, w') \<Rightarrow>
         Ret (Some (Inl (Wrap (cross_mark @ ''Fetching initial Tx account number and sequence failed'') err), (p, w')))
     | Some (Inr (accNum, accSeq), w') \<Rightarrow>
         (case gen \<lparr> req_Keys = [key],
                     req_From = \<lparr> Name = [], Key = key, Number = accNum, Sequence = accSeq \<rparr>,
                     req_FromIdx = int keyIdx, req_TxIdx = 0 \<rparr> p of
            (rr, p') \<Rightarrow> res_bind rr (\<lambda>initial.
              case initial of
                Inl err \<Rightarrow> Ret (Some (Inl (Wrap (cross_mark @ ''Generating initial Tx failed'') err), (p', w')))
              | Inr t \<Rightarrow>
                  res_bind (generate_initial getns kl gen (Suc keyIdx) keys (p', w')) (\<lambda>rest.
                  Ret (map_option (apfst (map_sum id (\<lambda>ts. case t of None \<Rightarrow> ts | Some x \<Rightarrow> x # ts))) rest)))))"

text \<open>
  One attempt to sign and broadcast an initial transaction. The state is the provider, the world and
  the transactions broadcast so far; a panic of the provider ends the process, and a broadcast may
  not return: the state keeps both, and nothing follows them.
\<close>

record ('p, 'w) init_state =
  is_prov :: 'p
  is_world :: 'w
  is_sent :: "Tx list"
  is_panic :: "go_error option"
  is_stuck :: bool

definition initial_once ::
  "'p sign \<Rightarrow> (bytes \<Rightarrow> 'w \<Rightarrow> 'w bresult) \<Rightarrow> Tx \<Rightarrow> ('p, 'w) init_state body" where
  "initial_once sign bcast t st =
     (case sign t (is_prov st) of
        (Panic e, p') \<Rightarrow> (Some (Unrecoverable e), st\<lparr>is_prov := p', is_panic := Some e\<rparr>)
      | (Ret (Inl err), p') \<Rightarrow> (Some (Wrap (cross_mark @ ''Signing initial Tx failed'') err), st\<lparr>is_prov := p'\<rparr>)
      | (Ret (Inr signedTx), p') \<Rightarrow>
          (case bcast (tx_Bytes signedTx) (is_world st) of
             None \<Rightarrow> (Some (Unrecoverable (Msg [])), st\<lparr>is_prov := p', is_stuck := True\<rparr>)
           | Some ((txHash, Some err), w') \<Rightarrow>
               (Some (Wrap (cross_mark @ ''Broadcasting initial Tx failed: '' @ txHash) err),
                st\<lparr>is_prov := p', is_world := w'\<rparr>)
           | Some ((txHash, None), w') \<Rightarrow>
               (None, st\<lparr>is_prov := p', is_world := w', is_sent := is_sent st @ [signedTx]\<rparr>)))"

text \<open>
  The pool broadcasts them in some order; an initial transaction whose five attempts fail is logged
  and dropped.
\<close>

fun broadcast_initial ::
  "('p, 'w) init_state retry \<Rightarrow> 'p sign \<Rightarrow> (bytes \<Rightarrow> 'w \<Rightarrow> 'w bresult) \<Rightarrow> Tx list
    \<Rightarrow> ('p, 'w) init_state \<Rightarrow> ('p, 'w) init_state option" where
  "broadcast_initial retry sign bcast [] st = Some st"
| "broadcast_initial retry sign bcast (t # ts) st =
     (case retry 5 (initial_once sign bcast t) st of
        None \<Rightarrow> None
      | Some (_, st') \<Rightarrow>
          if is_panic st' \<noteq> None \<or> is_stuck st' then Some st' else broadcast_initial retry sign bcast ts st')"

definition createAndBroadcastInitialTxs ::
  "((uint64 \<times> uint64) \<times> 'w) retry \<Rightarrow> (string \<times> 'w) retry \<Rightarrow> ('p, 'w) init_state retry
    \<Rightarrow> ('m, 'b, 't, 'w) Client \<Rightarrow> 'p gen_initial \<Rightarrow> 'p sign \<Rightarrow> Secp256k1PrivateKey list
    \<Rightarrow> (Tx list \<Rightarrow> Tx list) \<Rightarrow> 'p \<Rightarrow> 'w \<Rightarrow> (go_error option \<times> ('p, 'w) init_state) option res" where
  "createAndBroadcastInitialTxs retryN retryB retryI client gen sign keys order p w =
     res_bind (generate_initial (getAccountNumberSequence retryN client) (cl_Keys client) gen 0 keys (p, w)) (\<lambda>r.
     case r of
       None \<Rightarrow> Ret None
     | Some (Inl err, (p', w')) \<Rightarrow>
         Ret (Some (Some err, \<lparr> is_prov = p', is_world = w', is_sent = [], is_panic = None, is_stuck = False \<rparr>))
     | Some (Inr initialTxs, (p', w')) \<Rightarrow>
         let st = \<lparr> is_prov = p', is_world = w', is_sent = [], is_panic = None, is_stuck = False \<rparr> in
         if initialTxs = [] then Ret (Some (None, st))
         else (case broadcast_initial retryI sign (\<lambda>bs. Broadcast retryB client bs True) (order initialTxs) st of
             None \<Rightarrow> Ret None
           | Some st' \<Rightarrow> (case is_panic st' of Some e \<Rightarrow> Panic e
               | None \<Rightarrow> if is_stuck st' then Ret None else Ret (Some (None, st')))))"

subsection \<open>The broadcast loops\<close>

text \<open>
  The goroutine of an account: at an index, ended, ended with an error, or dead of an index out of
  range. \<open>account_step\<close> is one turn of its loop over the shared state of the broadcast function.
\<close>

datatype acc_status = At int | Sent | Failed go_error | Crashed

definition account_step ::
  "(bytes \<Rightarrow> 's \<Rightarrow> 's bresult) \<Rightarrow> int \<Rightarrow> bytes list \<Rightarrow> uint64 \<Rightarrow> int \<Rightarrow> 's \<Rightarrow> (acc_status \<times> 's) option" where
  "account_step bcast num accountTxs initialSequence txIndex s =
     (if \<not> txIndex < num then Some (Sent, s)
      else case go_index accountTxs txIndex of
        None \<Rightarrow> Some (Crashed, s)
      | Some tx \<Rightarrow> (case bcast tx s of
          None \<Rightarrow> None
        | Some ((txHash, Some err), s') \<Rightarrow> (case IsSequenceError err of
            Some expectedAccSeq \<Rightarrow> Some (At (int_of_u64 (expectedAccSeq - initialSequence)), s')
          | None \<Rightarrow> Some (Failed (Wrap (warning_sign @ ''Tx broadcasting error'') err), s'))
        | Some ((txHash, None), s') \<Rightarrow> Some (At (wrap_int (txIndex + 1)), s')))"

inductive bcast_step ::
  "(bytes \<Rightarrow> 's \<Rightarrow> 's bresult) \<Rightarrow> int \<Rightarrow> bytes list list \<Rightarrow> uint64 list
    \<Rightarrow> acc_status list \<times> 's \<Rightarrow> acc_status list \<times> 's \<Rightarrow> bool"
  for bcast num txs seqs where
  turn: "i < length sts \<Longrightarrow> sts ! i = At k \<Longrightarrow>
     account_step bcast num (txs ! i) (seqs ! i) k s = Some (st, s') \<Longrightarrow>
     bcast_step bcast num txs seqs (sts, s) (sts[i := st], s')"

inductive_cases bcast_stepE: "bcast_step bcast num txs seqs (sts, s) c"

text \<open>
  \<^verbatim>\<open>Stress\<close>: what a run may end with, for one order of the initial broadcasts and one interleaving of
  each phase. Without accounts the generator's error and the collector, which has nothing to wait
  for, race.
\<close>

datatype 's stress_outcome = Fatal string | Returned go_error | Dead go_error | Completed 's

text \<open>
  The group of account goroutines ends when one of them crashes (with the process), when one fails
  (its error is returned) or when all are done.
\<close>

inductive broadcast_outcome :: "acc_status list \<Rightarrow> 's \<Rightarrow> 's stress_outcome \<Rightarrow> bool" where
  crashed: "Crashed \<in> set sts \<Longrightarrow> broadcast_outcome sts s (Dead (Msg ''runtime error: index out of range''))"
| failed: "Failed e \<in> set sts \<Longrightarrow> broadcast_outcome sts s (Returned e)"
| all_sent: "set sts \<subseteq> {Sent} \<Longrightarrow> broadcast_outcome sts s (Completed s)"

record ('p, 'rl, 'c, 'm, 'b, 't, 'w) stress_env =
  se_client :: "('m, 'b, 't, 'w) Client"
  se_lib :: "('rl, 'c) rate_lib"
  se_ctx :: 'c
  se_conv :: "float64 \<Rightarrow> int"
  se_retryN :: "((uint64 \<times> uint64) \<times> 'w) retry"
  se_retryB :: "(string \<times> 'w) retry"
  se_retryI :: "('p, 'w) init_state retry"
  se_gen_initial :: "'p gen_initial"
  se_prep :: "'p prep_env"

definition stress_limiter ::
  "('p, 'rl, 'c, 'm, 'b, 't, 'w) stress_env \<Rightarrow> StressConfig \<Rightarrow> ('rl, 'm DecodedTx) multi_limiter option" where
  "stress_limiter V config = (case buildBroadcastClient (se_lib V) (se_conv V) config (se_client V) of
     Inl err \<Rightarrow> None | Inr limiter \<Rightarrow> limiter)"

definition stress_bcast where
  "stress_bcast V config =
     rateLimitedBroadcast (se_lib V) (se_ctx V) (se_retryB V) (se_client V) (sc_AwaitTxConfirmation config)"

definition stress_initial where
  "stress_initial V config order p w =
     createAndBroadcastInitialTxs (se_retryN V) (se_retryB V) (se_retryI V) (se_client V) (se_gen_initial V)
       (pr_sign (se_prep V)) (sc_Accounts config) order p w"

text \<open>The pool takes the initial transactions in some order, each once.\<close>

definition reorders :: "(Tx list \<Rightarrow> Tx list) \<Rightarrow> bool" where
  "reorders order \<longleftrightarrow> (\<forall>ts. mset (order ts) = mset ts)"

inductive Stress ::
  "('p, 'rl, 'c, 'm, 'b, 't, 'w) stress_env \<Rightarrow> StressConfig \<Rightarrow> 'p \<Rightarrow> 'w
    \<Rightarrow> ('rl, 'm, 'w) bstate stress_outcome \<Rightarrow> bool"
  for V config p w where
  no_eth_chain: "sc_EthChainID config = 0 \<Longrightarrow> Stress V config p w (Fatal (cross_mark @ ''EthChainID is required''))"
| no_chain: "sc_EthChainID config \<noteq> 0 \<Longrightarrow> sc_ChainID config = [] \<Longrightarrow>
     Stress V config p w (Fatal (cross_mark @ ''ChainID is required''))"
| no_accounts: "sc_EthChainID config \<noteq> 0 \<Longrightarrow> sc_ChainID config \<noteq> [] \<Longrightarrow> sc_Accounts config = [] \<Longrightarrow>
     Stress V config p w (Returned (Msg ''empty accounts list''))"
| no_accounts_collected: "sc_EthChainID config \<noteq> 0 \<Longrightarrow> sc_ChainID config \<noteq> [] \<Longrightarrow> sc_Accounts config = [] \<Longrightarrow>
     Stress V config p w (Completed (stress_limiter V config, w))"
| negative_number: "sc_EthChainID config \<noteq> 0 \<Longrightarrow> sc_ChainID config \<noteq> [] \<Longrightarrow> sc_Accounts config \<noteq> [] \<Longrightarrow>
     sc_NumOfTransactions config < 0 \<Longrightarrow>
     Stress V config p w (Dead (Msg ''runtime error: makeslice: len out of range''))"
| initial_panic: "sc_EthChainID config \<noteq> 0 \<Longrightarrow> sc_ChainID config \<noteq> [] \<Longrightarrow> sc_Accounts config \<noteq> [] \<Longrightarrow>
     reorders order \<Longrightarrow> stress_initial V config order p w = r \<Longrightarrow> r = Panic e \<or> (\<exists>st. r = Ret (Some (Some e, st))) \<Longrightarrow>
     Stress V config p w (Dead e)"
| preparation_dies: "sc_EthChainID config \<noteq> 0 \<Longrightarrow> sc_ChainID config \<noteq> [] \<Longrightarrow> sc_Accounts config \<noteq> [] \<Longrightarrow>
     reorders order \<Longrightarrow> stress_initial V config order p w = Ret (Some (None, st)) \<Longrightarrow>
     prep_reach (se_prep V) (prep_init (se_prep V) (is_prov st)) ps \<Longrightarrow>
     prep_step (se_prep V) ps (Died e) \<Longrightarrow> Stress V config p w (Dead e)"
| broadcast_ends: "sc_EthChainID config \<noteq> 0 \<Longrightarrow> sc_ChainID config \<noteq> [] \<Longrightarrow> sc_Accounts config \<noteq> [] \<Longrightarrow>
     reorders order \<Longrightarrow> stress_initial V config order p w = Ret (Some (None, st)) \<Longrightarrow>
     prep_reach (se_prep V) (prep_init (se_prep V) (is_prov st)) ps \<Longrightarrow> prep_done (se_prep V) ps \<Longrightarrow>
     (bcast_step (stress_bcast V config) (sc_NumOfTransactions config) (signedTxs ps)
       (initialAccountSequences ps))\<^sup>*\<^sup>* (replicate (length (signedTxs ps)) (At 0), (stress_limiter V config, is_world st)) (sts, s) \<Longrightarrow>
     broadcast_outcome sts s out \<Longrightarrow> Stress V config p w out"

subsection \<open>All interleavings send every transaction\<close>

text \<open>
  What a chain promises of account sequences, seen through the broadcast function: \<open>cur s i\<close> is the
  sequence the chain expects next from account \<open>i\<close>. In the states \<open>good\<close> (those a run can be in), a
  prepared transaction with that sequence is accepted and advances it; any other is rejected with the
  expected sequence.
\<close>

definition chain_sequences ::
  "('s \<Rightarrow> bool) \<Rightarrow> (bytes \<Rightarrow> 's \<Rightarrow> 's bresult) \<Rightarrow> nat \<Rightarrow> bytes list list \<Rightarrow> uint64 list \<Rightarrow> ('s \<Rightarrow> nat \<Rightarrow> nat) \<Rightarrow> bool" where
  "chain_sequences good bcast n txs seqs cur \<longleftrightarrow> (\<forall>i < length txs. \<forall>j < n. \<forall>s. good s \<longrightarrow>
     (if cur s i = unat (seqs ! i) + j
      then \<exists>h s'. bcast (txs ! i ! j) s = Some ((h, None), s') \<and> good s' \<and> cur s' = (cur s)(i := Suc (cur s i))
      else \<exists>h e s'. bcast (txs ! i ! j) s = Some ((h, Some e), s') \<and> good s' \<and>
             IsSequenceError e = Some (of_nat (cur s i)) \<and> cur s' = cur s))"

definition matrix_ok :: "nat \<Rightarrow> bytes list list \<Rightarrow> uint64 list \<Rightarrow> bool" where
  "matrix_ok n txs seqs \<longleftrightarrow> length seqs = length txs \<and> (\<forall>i < length txs. length (txs ! i) = n \<and>
     unat (seqs ! i) + n < 2 ^ 63)"

definition acc_ok :: "nat \<Rightarrow> uint64 \<Rightarrow> nat \<Rightarrow> acc_status \<Rightarrow> bool" where
  "acc_ok n q c st \<longleftrightarrow> unat q \<le> c \<and> c \<le> unat q + n \<and>
     (case st of At k \<Rightarrow> 0 \<le> k \<and> nat k \<le> c - unat q | Sent \<Rightarrow> c = unat q + n | _ \<Rightarrow> False)"

definition acc_work :: "nat \<Rightarrow> uint64 \<Rightarrow> nat \<Rightarrow> acc_status \<Rightarrow> nat" where
  "acc_work n q c st = (case st of
     At k \<Rightarrow> 2 * (unat q + n - c) + (if nat k = c - unat q then 0 else 1) + 1 | _ \<Rightarrow> 0)"

lemma resync_index:
  assumes "unat q \<le> c" "c < 2 ^ 63"
  shows "0 \<le> int_of_u64 (of_nat c - q)" "nat (int_of_u64 (of_nat c - q)) = c - unat q"
proof -
  have u: "unat (of_nat c :: uint64) = c" using assms(2) by (simp add: unat_of_nat)
  then have le: "q \<le> of_nat c" using assms(1) by (simp add: word_le_nat_alt)
  have uc: "uint (of_nat c :: uint64) = int c" using u by (simp add: uint_nat)
  have uq: "uint q = int (unat q)" by simp
  have "int c < 2 ^ 63" using assms(2) by simp
  have "int_of_u64 (of_nat c - q) = uint (of_nat c :: uint64) - uint q"
    using uc uint_ge_0 [of q] \<open>int c < 2 ^ 63\<close> by (intro int_of_u64_sub_small [OF le]) linarith
  then have eq: "int_of_u64 (of_nat c - q) = int c - int (unat q)" using uc uq by linarith
  then show "0 \<le> int_of_u64 (of_nat c - q)" using assms(1) by linarith
  show "nat (int_of_u64 (of_nat c - q)) = c - unat q" unfolding eq by (simp only: nat_diff_distrib' nat_int)
qed

lemma account_turn:
  assumes cs: "chain_sequences good bcast n txs seqs cur" and mat: "matrix_ok n txs seqs"
    and i: "i < length txs" and ok: "acc_ok n (seqs ! i) (cur s i) (At k)" and good: "good s"
  shows "\<exists>st s'. account_step bcast (int n) (txs ! i) (seqs ! i) k s = Some (st, s') \<and>
    acc_ok n (seqs ! i) (cur s' i) st \<and> good s' \<and> (\<forall>j. j \<noteq> i \<longrightarrow> cur s' j = cur s j) \<and>
    acc_work n (seqs ! i) (cur s' i) st < acc_work n (seqs ! i) (cur s i) (At k)"
proof (cases "k < int n")
  case False
  with ok good show ?thesis by (auto simp: account_step_def acc_ok_def acc_work_def)
next
  case True
  have "0 \<le> k" using ok by (simp add: acc_ok_def)
  then obtain j where j: "k = int j" "j < n" using True by (metis nonneg_int_cases of_nat_less_iff)
  have small: "unat (seqs ! i) + n < 2 ^ 63" and idx: "go_index (txs ! i) k = Some (txs ! i ! j)"
    using mat i j by (auto simp: matrix_ok_def)
  have wrap: "wrap_int (int j + 1) = int j + 1" using j(2) small by (intro wrap_int_id) (simp add: int_range_def)
  show ?thesis
  proof (cases "cur s i = unat (seqs ! i) + j")
    case True
    then obtain h s' where b: "bcast (txs ! i ! j) s = Some ((h, None), s')" "good s'" "cur s' = (cur s)(i := Suc (cur s i))"
      using cs i j(2) good unfolding chain_sequences_def by metis
    then show ?thesis
      using idx j True wrap by (auto simp: account_step_def acc_ok_def acc_work_def)
  next
    case False
    then obtain h e s' where b: "bcast (txs ! i ! j) s = Some ((h, Some e), s')"
        "good s'" "IsSequenceError e = Some (of_nat (cur s i))" "cur s' = cur s"
      using cs i j(2) good unfolding chain_sequences_def by metis
    have "unat (seqs ! i) \<le> cur s i" "cur s i < 2 ^ 63" using ok small by (auto simp: acc_ok_def)
    note resync_index [OF this]
    then show ?thesis
      using idx j False b ok by (auto simp: account_step_def acc_ok_def acc_work_def)
  qed
qed

definition bcast_inv where
  "bcast_inv good n txs seqs cur c \<longleftrightarrow> good (snd c) \<and> length (fst c) = length txs \<and>
     (\<forall>i < length txs. acc_ok n (seqs ! i) (cur (snd c) i) (fst c ! i))"

definition bcast_work where
  "bcast_work n seqs cur c = (\<Sum>i < length (fst c). acc_work n (seqs ! i) (cur (snd c) i) (fst c ! i))"

lemma bcast_step_inv:
  assumes cs: "chain_sequences good bcast n txs seqs cur" and mat: "matrix_ok n txs seqs"
    and inv: "bcast_inv good n txs seqs cur c" and step: "bcast_step bcast (int n) txs seqs c c'"
  shows "bcast_inv good n txs seqs cur c' \<and> bcast_work n seqs cur c' < bcast_work n seqs cur c"
  using step
proof cases
  case (turn i sts k s st s')
  have i: "i < length txs" and ok: "acc_ok n (seqs ! i) (cur s i) (At k)" and g: "good s"
    using inv turn by (auto simp: bcast_inv_def)
  from account_turn [OF cs mat i ok g] turn have g': "good s'" and new: "acc_ok n (seqs ! i) (cur s' i) st"
      and same: "\<And>j. j \<noteq> i \<Longrightarrow> cur s' j = cur s j"
      and less: "acc_work n (seqs ! i) (cur s' i) st < acc_work n (seqs ! i) (cur s i) (At k)"
    by auto
  have "bcast_inv good n txs seqs cur c'"
    using inv turn new same g' by (auto simp: bcast_inv_def nth_list_update)
  moreover have "bcast_work n seqs cur c' < bcast_work n seqs cur c"
    unfolding bcast_work_def using turn new same less
    by (auto simp: nth_list_update intro!: sum_strict_mono_ex1)
  ultimately show ?thesis ..
qed

lemma bcast_inv_reach:
  assumes "chain_sequences good bcast n txs seqs cur" and "matrix_ok n txs seqs"
    and "(bcast_step bcast (int n) txs seqs)\<^sup>*\<^sup>* c c'" and "bcast_inv good n txs seqs cur c"
  shows "bcast_inv good n txs seqs cur c'"
  using assms(3,4) by (induction rule: rtranclp_induct) (auto dest: bcast_step_inv [OF assms(1,2)])

lemma bcast_inv_init:
  assumes "good s" and "\<forall>i < length txs. unat (seqs ! i) \<le> cur s i \<and> cur s i \<le> unat (seqs ! i) + n"
  shows "bcast_inv good n txs seqs cur (replicate (length txs) (At 0), s)"
  using assms by (simp add: bcast_inv_def acc_ok_def)

text \<open>
  The same promise at the node: it may first refuse the transaction a number of times because its
  mempool is full; then it takes a transaction that has the expected sequence and rejects another
  one, naming the expected sequence in its log.
\<close>

definition node_sequences ::
  "('m, 'b, 't, 'w) Client \<Rightarrow> nat \<Rightarrow> bytes list list \<Rightarrow> uint64 list \<Rightarrow> ('w \<Rightarrow> nat \<Rightarrow> nat) \<Rightarrow> bool" where
  "node_sequences client n txs seqs cur \<longleftrightarrow> (\<forall>i < length txs. \<forall>j < n. \<forall>w.
     \<exists>k w1 r w2. after_full client (txs ! i ! j) k w = Some w1 \<and>
       BroadcastTxSync (cl_Node client) (txs ! i ! j) w1 = (Inr r, w2) \<and>
       (if cur w i = unat (seqs ! i) + j
        then res_Code r = 0 \<and> (\<exists>hb. hex_decode (res_Hash r) = Inr hb) \<and> cur w2 = (cur w)(i := Suc (cur w i))
        else sequence_rejection (cl_Errors client) r (cur w i) \<and> cur w2 = cur w))"

text \<open>States with no limiter, or with one whose bursts admit every piece.\<close>

definition limiter_good :: "('rl \<Rightarrow> int) \<Rightarrow> ('rl, 'm, 'w) bstate \<Rightarrow> bool" where
  "limiter_good cap s \<longleftrightarrow> (case fst s of None \<Rightarrow> True | Some ml \<Rightarrow> ml_ok cap ml)"

lemma rateLimited_through:
  assumes "grants (waitN lib) ctx cap used" and "limiter_good cap s"
  shows "\<exists>lim. limiter_good cap (lim, w') \<and>
    rateLimitedBroadcast lib ctx retry client await tx s =
      map_option (apsnd (\<lambda>w. (lim, w))) (Broadcast retry client tx await (snd s))"
proof (cases "fst s")
  case None
  then show ?thesis by (intro exI [of _ None]) (auto simp: rateLimitedBroadcast_def limiter_good_def split: prod.split)
next
  case (Some ml)
  then have "ml_ok cap ml" using assms(2) by (simp add: limiter_good_def)
  from wait_transaction_granted [OF assms(1) this] obtain ml'
    where "WaitForTransactionBytes lib ctx ml tx = Some (None, ml')" "ml_ok cap ml'"
    unfolding WaitForTransactionBytes_def Let_def by blast
  with Some show ?thesis
    by (intro exI [of _ "Some ml'"]) (auto simp: rateLimitedBroadcast_def limiter_good_def split: prod.split)
qed

lemma node_sequences_broadcast:
  fixes client :: "('m, 'b, 't, 'w) Client" and lib :: "('rl, 'c) rate_lib"
  assumes ret: "retries_until_succeeded retry" and gr: "grants (waitN lib) ctx cap used"
    and node: "node_sequences client n txs seqs cur"
  shows "chain_sequences (limiter_good cap) (rateLimitedBroadcast lib ctx retry client False) n txs seqs
    (\<lambda>s. cur (snd s))"
  unfolding chain_sequences_def
proof (intro allI impI)
  fix i j and s :: "('rl, 'm, 'w) bstate"
  assume ij: "i < length txs" "j < n" and good: "limiter_good cap s"
  let ?tx = "txs ! i ! j" and ?w = "snd s"
  obtain k w1 r w2 where node': "after_full client ?tx k ?w = Some w1"
      "BroadcastTxSync (cl_Node client) ?tx w1 = (Inr r, w2)"
      "if cur ?w i = unat (seqs ! i) + j
       then res_Code r = 0 \<and> (\<exists>hb. hex_decode (res_Hash r) = Inr hb) \<and> cur w2 = (cur ?w)(i := Suc (cur ?w i))
       else sequence_rejection (cl_Errors client) r (cur ?w i) \<and> cur w2 = cur ?w"
    using node ij unfolding node_sequences_def by blast
  from rateLimited_through [OF gr good, where w' = w2 and await = False and retry = retry and client = client and tx = ?tx]
  obtain lim where lim: "limiter_good cap (lim, w2)"
      "rateLimitedBroadcast lib ctx retry client False ?tx s =
        map_option (apsnd (\<lambda>w. (lim, w))) (Broadcast retry client ?tx False ?w)" by blast
  show "if cur ?w i = unat (seqs ! i) + j
    then \<exists>h s'. rateLimitedBroadcast lib ctx retry client False ?tx s = Some ((h, None), s') \<and>
      limiter_good cap s' \<and> cur (snd s') = (cur ?w)(i := Suc (cur ?w i))
    else \<exists>h e s'. rateLimitedBroadcast lib ctx retry client False ?tx s = Some ((h, Some e), s') \<and>
      limiter_good cap s' \<and> IsSequenceError e = Some (of_nat (cur ?w i)) \<and> cur (snd s') = cur ?w"
  proof (cases "cur ?w i = unat (seqs ! i) + j")
    case True
    with node' obtain hb where "Broadcast retry client ?tx False ?w = Some ((res_Hash r, None), w2)"
      using Broadcast_taken [OF ret node'(1,2)] by auto
    with True node'(3) lim show ?thesis by simp
  next
    case False
    with node'(3) obtain err where "Broadcast retry client ?tx False ?w = Some ((res_Hash r, Some err), w2)"
        "IsSequenceError err = Some (of_nat (cur ?w i))"
      using Broadcast_rejected [OF ret node'(1,2), where await = False] by auto
    with False node'(3) lim show ?thesis by simp
  qed
qed

lemma bcast_live:
  assumes "chain_sequences good bcast n txs seqs cur" and "matrix_ok n txs seqs" and inv: "bcast_inv good n txs seqs cur (sts, s)"
  shows "(\<forall>x \<in> set sts. x = Sent \<or> (\<exists>k. x = At k)) \<and>
    (set sts \<subseteq> {Sent} \<longrightarrow> (\<forall>i < length txs. cur s i = unat (seqs ! i) + n)) \<and>
    (\<not> set sts \<subseteq> {Sent} \<longrightarrow> (\<exists>c. bcast_step bcast (int n) txs seqs (sts, s) c)) \<and>
    (\<forall>c. bcast_step bcast (int n) txs seqs (sts, s) c \<longrightarrow> bcast_work n seqs cur c < bcast_work n seqs cur (sts, s))"
proof -
  from inv have len: "length sts = length txs" and gs: "good s" and ok: "\<And>i. i < length txs \<Longrightarrow> acc_ok n (seqs ! i) (cur s i) (sts ! i)"
    by (auto simp: bcast_inv_def)
  have kinds: "\<forall>x \<in> set sts. x = Sent \<or> (\<exists>k. x = At k)"
  proof
    fix x assume "x \<in> set sts"
    then obtain i where "i < length txs" "x = sts ! i" using len by (auto simp: in_set_conv_nth)
    with ok [of i] show "x = Sent \<or> (\<exists>k. x = At k)" by (cases "sts ! i") (auto simp: acc_ok_def)
  qed
  have "cur s i = unat (seqs ! i) + n" if "set sts \<subseteq> {Sent}" "i < length txs" for i
  proof -
    have "sts ! i = Sent" using that len by (metis nth_mem singletonD subsetD)
    with ok [OF that(2)] show ?thesis by (simp add: acc_ok_def)
  qed
  moreover have "\<exists>c. bcast_step bcast (int n) txs seqs (sts, s) c" if ns: "\<not> set sts \<subseteq> {Sent}"
  proof -
    from ns obtain x where "x \<in> set sts" "x \<noteq> Sent" by blast
    then obtain i where i: "i < length txs" "sts ! i \<noteq> Sent" using len by (auto simp: in_set_conv_nth)
    with kinds len obtain k where k: "sts ! i = At k" by (metis nth_mem)
    with account_turn [OF assms(1,2) i(1) _ gs] ok [OF i(1)] obtain st s'
      where "account_step bcast (int n) (txs ! i) (seqs ! i) k s = Some (st, s')" by force
    then show ?thesis using turn i(1) k len by metis
  qed
  ultimately show ?thesis using kinds bcast_step_inv [OF assms(1,2) inv] by blast
qed

text \<open>The measure turns this into a run to the end, from any state of the invariant.\<close>

lemma bcast_completes:
  assumes "chain_sequences good bcast n txs seqs cur" and "matrix_ok n txs seqs" and "bcast_inv good n txs seqs cur c"
  shows "\<exists>sts s. (bcast_step bcast (int n) txs seqs)\<^sup>*\<^sup>* c (sts, s) \<and> set sts \<subseteq> {Sent}"
  using assms(3)
proof (induction c rule: measure_induct_rule [where f = "bcast_work n seqs cur"])
  case (less c)
  obtain sts s where c: "c = (sts, s)" by force
  show ?case
  proof (cases "set sts \<subseteq> {Sent}")
    case False
    with bcast_live [OF assms(1,2) less.prems [unfolded c]] obtain c' where step: "bcast_step bcast (int n) txs seqs c c'"
      unfolding c by blast
    with bcast_step_inv [OF assms(1,2) less.prems step] less.IH [of c'] show ?thesis
      by (meson converse_rtranclp_into_rtranclp)
  qed (use c in blast)
qed

text \<open>C4: Under every interleaving of the account goroutines, and even when the chain is ahead of the
  sequences that were fetched, no account fails or crashes, an unfinished account can always take a
  turn, every turn decreases the work left, and when all are done the chain has advanced every
  account to its fetched sequence plus the number of transactions: every prepared transaction that
  was still due has been accepted, in order.\<close>

theorem broadcast_sends_all:
  assumes "chain_sequences good bcast n txs seqs cur" and "matrix_ok n txs seqs"
    and "\<forall>i < length txs. unat (seqs ! i) \<le> cur s0 i \<and> cur s0 i \<le> unat (seqs ! i) + n"
    and "(bcast_step bcast (int n) txs seqs)\<^sup>*\<^sup>* (replicate (length txs) (At 0), s0) (sts, s)" and "good s0"
  shows "(\<forall>x \<in> set sts. x = Sent \<or> (\<exists>k. x = At k)) \<and>
    (set sts \<subseteq> {Sent} \<longrightarrow> (\<forall>i < length txs. cur s i = unat (seqs ! i) + n)) \<and>
    (\<not> set sts \<subseteq> {Sent} \<longrightarrow> (\<exists>c. bcast_step bcast (int n) txs seqs (sts, s) c)) \<and>
    (\<forall>c. bcast_step bcast (int n) txs seqs (sts, s) c \<longrightarrow> bcast_work n seqs cur c < bcast_work n seqs cur (sts, s))"
  using assms(1,2) bcast_inv_reach [OF assms(1,2,4)] bcast_inv_init [of good s0 txs seqs cur n] assms(3,5)
  by (intro bcast_live) auto

text \<open>When the chain is behind the fetched sequence (a node that lags or was rolled back), the
  suggested sequence gives a negative index and the next turn of the account's loop is an index out of
  range, which ends the process.\<close>

theorem chain_behind_crashes:
  assumes "0 \<le> k" "k < num" and "go_index txs k = Some tx"
    and "bcast tx s = Some ((h, Some e), s')" and "IsSequenceError e = Some q" and "q < seq" "uint seq < 2 ^ 63"
  shows "\<exists>k'. account_step bcast num txs seq k s = Some (At k', s') \<and> k' < 0 \<and>
    account_step bcast num txs seq k' s' = Some (Crashed, s')"
proof -
  have "int_of_u64 (q - seq) = uint q - uint seq"
    using assms(6,7) uint_ge_0 [of q] by (intro int_of_u64_sub_neg) linarith+
  moreover have "uint q < uint seq" using assms(6) by (simp add: word_less_def)
  ultimately show ?thesis using assms by (auto simp: account_step_def go_index_def)
qed

text \<open>The example chain accepts the bytes 5 and 6 in order; one account, fetched sequence 5.\<close>

definition example_cur :: "uint64 \<times> nat \<Rightarrow> nat \<Rightarrow> nat" where
  "example_cur w i = (if i = 0 then unat (fst w) else 0)"

lemma example_node_sequences: "node_sequences example_client 2 [[[5], [6]]] [5] example_cur"
proof -
  have "\<exists>k w1 r w2. after_full example_client ([[5], [6]] ! j) k w = Some w1 \<and>
       BroadcastTxSync (cl_Node example_client) ([[5], [6]] ! j) w1 = (Inr r, w2) \<and>
       (if example_cur w 0 = 5 + j
        then res_Code r = 0 \<and> (\<exists>hb. hex_decode (res_Hash r) = Inr hb) \<and> example_cur w2 = (example_cur w)(0 := Suc (example_cur w 0))
        else sequence_rejection (cl_Errors example_client) r (example_cur w 0) \<and> example_cur w2 = example_cur w)"
    if j: "j < 2" for j w
  proof -
    obtain s f where w: "w = (s, f)" by force
    let ?tx = "[[5], [6]] ! j :: bytes"
    have tx: "map uint ?tx = [5 + int j]" "length ?tx = 1"
      using j by (auto simp: less_2_cases_iff)
    have eq: "unat s = 5 + j \<longleftrightarrow> map uint ?tx = [uint s]" unfolding tx
    proof -
      have "unat s = 5 + j \<longleftrightarrow> int (unat s) = int (5 + j)" by (simp only: of_nat_eq_iff)
      then show "unat s = 5 + j \<longleftrightarrow> [5 + int j] = [uint s]" by (auto simp: eq_commute)
    qed
    have full: "after_full example_client ?tx f w = Some (s, 0)" unfolding w by (rule example_after_full)
    show ?thesis
    proof (cases "unat s = 5 + j")
      case True
      with eq have "BroadcastTxSync (cl_Node example_client) ?tx (s, 0) = (Inr \<lparr> res_Code = 0, res_Codespace = [],
          res_Log = [], res_Hash = ''ab'' \<rparr>, (s + 1, 0))" by (simp add: example_defs)
      moreover have "unat (s + 1) = Suc (unat s)"
        using True j by (simp add: unat_word_ariths)
      ultimately show ?thesis using full True w
        by (intro exI [of _ f] exI conjI) (auto simp: example_cur_def hex_val_def)
    next
      case False
      with eq have b: "BroadcastTxSync (cl_Node example_client) ?tx (s, 0) = (Inr \<lparr> res_Code = 32, res_Codespace = ''sdk'',
          res_Log = seq_log [] (unat s) (unat (hd ?tx)) [], res_Hash = ''cd'' \<rparr>, (s, 0))" by (simp add: example_defs)
      have "unat s < 2 ^ LENGTH(64)" by (rule unsigned_less)
      then have "sequence_rejection example_errors \<lparr> res_Code = 32, res_Codespace = ''sdk'',
          res_Log = seq_log [] (unat s) (unat (hd ?tx)) [], res_Hash = ''cd'' \<rparr> (unat s)"
        unfolding sequence_rejection_def
        by (auto simp: example_errors_def plain_tail_def first_at_end_def intro!: exI [of _ "[]"])
      then show ?thesis
        by (intro exI [of _ f]) (rule exI [of _ "(s, 0)"], rule exI, rule exI [of _ "(s, 0)"], rule conjI, rule full,
          rule conjI, rule b, use False w in \<open>simp add: example_cur_def example_client_def fun_eq_iff\<close>)
    qed
  qed
  then show ?thesis unfolding node_sequences_def by simp
qed

lemma counting_grants: "grants (waitN counting_lib) () fst snd"
  using counting_lib_grants by (simp add: rate_lib_grants_def)

theorem broadcast_sends_all_witness:
  "\<exists>sts s. (bcast_step (rateLimitedBroadcast counting_lib () retry_impl example_client False) (int 2) [[[5], [6]]] [5])\<^sup>*\<^sup>*
      ([At 0], (None, (5, 3))) (sts, s) \<and> set sts \<subseteq> {Sent} \<and> example_cur (snd s) 0 = 7"
proof -
  note cs = node_sequences_broadcast [OF retry_impl_promise counting_grants example_node_sequences]
  have m: "matrix_ok 2 [[[5], [6]]] [5]" by (simp add: matrix_ok_def)
  have "bcast_inv (limiter_good fst) 2 [[[5], [6]]] [5] (\<lambda>s. example_cur (snd s)) (replicate 1 (At 0), (None, (5, 3)))"
    using bcast_inv_init [of "limiter_good fst" "(None, (5, 3))" "[[[5], [6]]]" "[5]" "\<lambda>s. example_cur (snd s)" 2]
    by (simp add: example_cur_def limiter_good_def)
  from bcast_completes [OF cs m this] obtain sts s
    where run: "(bcast_step (rateLimitedBroadcast counting_lib () retry_impl example_client False) (int 2) [[[5], [6]]] [5])\<^sup>*\<^sup>*
      (replicate 1 (At 0), (None, (5, 3))) (sts, s)" and "set sts \<subseteq> {Sent}" by blast
  moreover from broadcast_sends_all [OF cs m, of "(None, (5, 3))" sts s] this have "example_cur (snd s) 0 = 7"
    by (simp add: example_cur_def limiter_good_def)
  ultimately show ?thesis by (intro exI [of _ sts] exI [of _ s]) simp
qed

theorem chain_behind_crashes_witness:
  "\<exists>k'. account_step (\<lambda>tx s. Some (([], Some (SequenceError 3 [])), s)) 2 [[5], [6]] 5 0 () = Some (At k', ()) \<and> k' < 0 \<and>
    account_step (\<lambda>tx s. Some (([], Some (SequenceError 3 [])), s)) 2 [[5], [6]] 5 k' () = Some (Crashed, ())"
  by (rule chain_behind_crashes [where tx = "[5]" and h = "[]" and e = "SequenceError 3 []" and q = 3])
    (simp_all add: go_index_def)

lemma stress_start:
  assumes "retries_until_succeeded (se_retryB V)" and "rate_lib_grants (se_lib V) (se_ctx V) cap used"
    and "config_ok (sc_RateLimit config)" and "\<not> sc_AwaitTxConfirmation config"
    and "node_sequences (se_client V) n txs seqs cur" and "\<forall>i < length txs. cur w i = unat (seqs ! i)"
  shows "chain_sequences (limiter_good cap) (stress_bcast V config) n txs seqs (\<lambda>s. cur (snd s))"
    and "bcast_inv (limiter_good cap) n txs seqs (\<lambda>s. cur (snd s)) (replicate (length txs) (At 0), (stress_limiter V config, w))"
proof -
  have "limiter_good cap (stress_limiter V config, w)"
    using new_multi_limiter_ok [OF assms(3,2)]
    by (auto simp: limiter_good_def stress_limiter_def buildBroadcastClient_def new_multi_limiter_cases [OF assms(3)]
        split: sum.splits if_splits)
  then show "bcast_inv (limiter_good cap) n txs seqs (\<lambda>s. cur (snd s)) (replicate (length txs) (At 0), (stress_limiter V config, w))"
    using assms(6) by (intro bcast_inv_init) simp_all
  have "grants (waitN (se_lib V)) (se_ctx V) cap used" using assms(2) by (simp add: rate_lib_grants_def)
  from node_sequences_broadcast [OF assms(1) this assms(5)]
  show "chain_sequences (limiter_good cap) (stress_bcast V config) n txs seqs (\<lambda>s. cur (snd s))"
    using assms(4) by (simp add: stress_bcast_def)
qed

text \<open>Composition of the client, the rate limiter and the loops: over a node that keeps account
  sequences, with its mempool full any number of times, and a limiter made from the configuration whose
  context stays alive, every interleaving ends with all prepared transactions of every account
  accepted.\<close>

theorem stress_broadcast_complete:
  assumes "retries_until_succeeded (se_retryB V)" and "rate_lib_grants (se_lib V) (se_ctx V) cap used"
    and "config_ok (sc_RateLimit config)" and "\<not> sc_AwaitTxConfirmation config"
    and "sc_NumOfTransactions config = int n" and "node_sequences (se_client V) n txs seqs cur"
    and "matrix_ok n txs seqs" and "\<forall>i < length txs. cur w i = unat (seqs ! i)"
    and "(bcast_step (stress_bcast V config) (sc_NumOfTransactions config) txs seqs)\<^sup>*\<^sup>*
      (replicate (length txs) (At 0), (stress_limiter V config, w)) (sts, s)"
    and "broadcast_outcome sts s out"
  shows "out = Completed s \<and> (\<forall>i < length txs. cur (snd s) i = unat (seqs ! i) + n)"
proof -
  note start = stress_start [OF assms(1-4) assms(6) assms(8)]
  have inv: "bcast_inv (limiter_good cap) n txs seqs (\<lambda>s. cur (snd s)) (sts, s)"
    using bcast_inv_reach [OF start(1) assms(7) _ start(2)] assms(9) unfolding assms(5) by blast
  show ?thesis
    using assms(10)
  proof cases
    case crashed
    then obtain i where "i < length txs" "sts ! i = Crashed" using inv by (auto simp: bcast_inv_def in_set_conv_nth)
    with inv show ?thesis by (force simp: bcast_inv_def acc_ok_def)
  next
    case (failed e)
    then obtain i where "i < length txs" "sts ! i = Failed e" using inv by (auto simp: bcast_inv_def in_set_conv_nth)
    with inv show ?thesis by (force simp: bcast_inv_def acc_ok_def)
  next
    case all_sent
    have "sts ! i = Sent" if "i < length txs" for i
      using that inv all_sent(2) by (metis bcast_inv_def fst_conv nth_mem singletonD subsetD)
    with inv all_sent(1) show ?thesis by (force simp: bcast_inv_def acc_ok_def)
  qed
qed

definition example_env :: "(unit, int \<times> int, unit, bytes, bytes \<times> SignatureV2 option,
    bytes \<times> SignatureV2 option, uint64 \<times> nat) stress_env" where
  "example_env = \<lparr> se_client = example_client, se_lib = counting_lib, se_ctx = (), se_conv = (\<lambda>_. 0),
     se_retryN = retry_impl, se_retryB = retry_impl, se_retryI = retry_impl,
     se_gen_initial = (\<lambda>req p. (Ret (Inr None), p)),
     se_prep = \<lparr> pr_gen = (\<lambda>req p. (Ret (Inr (BaseTx (new_baseTx req []))), p)), pr_sign = (\<lambda>t p. (Ret (Inr t), p)),
       pr_accounts = [[1]], pr_numTxs = 2, pr_numCPU = 1, pr_fetch = (\<lambda>i. Inr (3, 5)) \<rparr> \<rparr>"

definition example_stress_config :: StressConfig where
  "example_stress_config = \<lparr> sc_ChainID = ''stressinj-1337'', sc_EthChainID = 1337, sc_MinGasPrice = ''1inj'',
     sc_NodeAddress = [], sc_GRPCAddress = [], sc_Accounts = [[1]], sc_NumOfTransactions = 2,
     sc_AwaitTxConfirmation = False, sc_GasFuzzing = example_fuzz_config,
     sc_RateLimit = example_config\<lparr>TxPerSecond := fone\<rparr> \<rparr>"

theorem stress_broadcast_complete_witness:
  "\<exists>sts s. (bcast_step (stress_bcast example_env example_stress_config) 2 [[[5], [6]]] [5])\<^sup>*\<^sup>*
      ([At 0], (stress_limiter example_env example_stress_config, (5, 3))) (sts, s) \<and>
    broadcast_outcome sts s (Completed s) \<and> example_cur (snd s) 0 = 7"
proof -
  have m: "matrix_ok 2 [[[5], [6]]] [5]" by (simp add: matrix_ok_def)
  have hyps: "retries_until_succeeded (se_retryB example_env)" "rate_lib_grants (se_lib example_env) (se_ctx example_env) fst snd"
    "config_ok (sc_RateLimit example_stress_config)" "\<not> sc_AwaitTxConfirmation example_stress_config"
    "node_sequences (se_client example_env) 2 [[[5], [6]]] [5] example_cur"
    "\<forall>i < length [[[5], [6::byte]]]. example_cur (5, 3) i = unat ([5 :: uint64] ! i)"
    by (simp_all add: example_env_def retry_impl_promise counting_lib_grants example_stress_config_def example_config_ok
        example_node_sequences example_cur_def)
  note start = stress_start [OF hyps]
  from bcast_completes [OF start(1) m start(2)] obtain sts s
    where run: "(bcast_step (stress_bcast example_env example_stress_config) (int 2) [[[5], [6]]] [5])\<^sup>*\<^sup>*
      (replicate (length [[[5], [6::byte]]]) (At 0), (stress_limiter example_env example_stress_config, (5, 3))) (sts, s)"
      and sent: "set sts \<subseteq> {Sent}" by blast
  have o: "broadcast_outcome sts s (Completed s)" using sent by (rule all_sent)
  have num: "sc_NumOfTransactions example_stress_config = int 2" by (simp add: example_stress_config_def)
  from stress_broadcast_complete [OF hyps(1-4) num hyps(5) m hyps(6) _ o] run
  have "example_cur (snd s) 0 = 7" by (simp add: num)
  with run o show ?thesis by (intro exI [of _ sts] exI [of _ s]) simp
qed

text \<open>Once the initial transactions are generated, their broadcast cannot make the initialisation
  fail: whatever happened to them, the function returns no error (or does not return at all, or the
  provider panicked), so a run goes on after an initial transaction that never reached the chain.\<close>

theorem initial_broadcast_failure_ignored:
  assumes "generate_initial (getAccountNumberSequence retryN client) (cl_Keys client) gen 0 keys (p, w)
      = Ret (Some (Inr initialTxs, st0))"
    and "createAndBroadcastInitialTxs retryN retryB retryI client gen sign keys order p w = Ret (Some (e, st))"
  shows "e = None"
  using assms by (auto simp: createAndBroadcastInitialTxs_def Let_def split: if_splits option.splits prod.splits)

definition down_client ::
  "(bytes, bytes \<times> SignatureV2 option, bytes \<times> SignatureV2 option, uint64 \<times> nat) Client" where
  "down_client = example_client\<lparr> cl_Node := example_node\<lparr> BroadcastTxSync := (\<lambda>tx w. (Inl (Msg ''connection refused''), w)) \<rparr> \<rparr>"

text \<open>A retry library that gives every body one attempt.\<close>

definition retry_once :: "'s retry" where
  "retry_once n f s = Some (f s)"

theorem initial_broadcast_failure_ignored_witness:
  "\<exists>e st. createAndBroadcastInitialTxs retry_once retry_once retry_once down_client
      (\<lambda>req p. (Ret (Inr (Some (BaseTx (new_baseTx req [])))), p)) (\<lambda>t p. (Ret (Inr t), p)) [[1]] id () (5, 0)
    = Ret (Some (e, st)) \<and> e = None \<and> is_sent st = []"
proof -
  let ?gen = "\<lambda>req p. (Ret (Inr (Some (BaseTx (new_baseTx req [])))), p)"
  have dec: "hex_decode (hex_encode [1]) = Inr [1]" by (rule hex_roundtrip)
  obtain t st0 where g: "generate_initial (getAccountNumberSequence retry_once down_client) (cl_Keys down_client)
      ?gen 0 [[1]] ((), (5, 0)) = Ret (Some (Inr [t], st0))" "st0 = ((), (5, 0))"
    using dec by (simp add: getAccountNumberSequence_def AccAddress_def retry_once_def fetch_once_def down_client_def
        example_defs account_prefix_def)
  let ?st = "\<lparr> is_prov = (), is_world = (5, 0), is_sent = [], is_panic = None, is_stuck = False \<rparr>"
  have "createAndBroadcastInitialTxs retry_once retry_once retry_once down_client ?gen (\<lambda>t p. (Ret (Inr t), p)) [[1]] id () (5, 0)
      = Ret (Some (None, ?st))"
    unfolding createAndBroadcastInitialTxs_def g
    by (simp add: retry_once_def initial_once_def Broadcast_def broadcast_once_def
        isMempoolFull_def isTxInMempool_def down_client_def example_defs)
  with initial_broadcast_failure_ignored [OF g(1) this] show ?thesis by (intro exI conjI) auto
qed

end
