(* ===== verification/Payload_Native.thy ===== *)
theory Payload_Native
  imports Pipeline Stresser
begin

text \<open>
  The providers of native chain transactions: bank send and multi-send, exchange batch orders, and
  the three CosmWasm ones (\<^verbatim>\<open>payload/bank_send_stress.go\<close>, \<^verbatim>\<open>bank_multi_send_stress.go\<close>,
  \<^verbatim>\<open>exchange_batch_orders_stress.go\<close>, \<^verbatim>\<open>wasm_store_stress.go\<close>, \<^verbatim>\<open>wasm_init_stress.go\<close>,
  \<^verbatim>\<open>wasm_exec_stress.go\<close>, \<^verbatim>\<open>wasm_checksum.go\<close>). Each interprets the interface \<open>tx_provider\<close>.
  Clock readings and random draws are arguments.
\<close>

subsection \<open>Bank send\<close>

record bankSendProvider =
  bs_sendAmount :: coin
  bs_minGasPrice :: coin
  bs_maxGasLimit :: uint64
  bs_memoAttach :: string

definition parse_coin :: "sdk_lib \<Rightarrow> string \<Rightarrow> string \<Rightarrow> coin go" where
  "parse_coin sl what s = wrap_err (''failed to parse '' @ what @ '' coin'') (ParseCoinNormalized sl s)"

definition NewBankSendProvider :: "sdk_lib \<Rightarrow> string \<Rightarrow> string \<Rightarrow> bankSendProvider go" where
  "NewBankSendProvider sl minGasPrice sendAmount =
     go_bind (parse_coin sl ''amount'' sendAmount) (\<lambda>parsedAmount.
     go_bind (parse_coin sl ''minGasPrice'' minGasPrice) (\<lambda>parsedMinGasPrice.
     Inr \<lparr> bs_sendAmount = parsedAmount, bs_minGasPrice = parsedMinGasPrice, bs_maxGasLimit = 150000,
           bs_memoAttach = hex_encode [] \<rparr>))"

definition bankSend_Name :: string where "bankSend_Name = ''bank_send_stress''"

text \<open>The receiver after the sender, around the end of the list; an empty list is an index out of range.\<close>

definition key_at :: "Secp256k1PrivateKey list \<Rightarrow> int \<Rightarrow> Secp256k1PrivateKey res" where
  "key_at keys i = (case go_index keys i of None \<Rightarrow> index_panic | Some k \<Rightarrow> Ret k)"

definition next_index :: "TxRequest \<Rightarrow> int \<Rightarrow> int" where
  "next_index req offset = (let toIdx = wrap_int (req_FromIdx req + offset) in
     if toIdx \<ge> int (length (req_Keys req)) then 0 else toIdx)"

definition bankSend_GenerateTx :: "key_lib \<Rightarrow> bankSendProvider gen" where
  "bankSend_GenerateTx kl req p =
     (res_bind (key_at (req_Keys req) (next_index req 1)) (\<lambda>key.
      let to = priv_Address kl key in
      Ret (Inr (BankSendTx (new_baseTx req
        [MsgSend (priv_Address kl (Key (req_From req))) to [bs_sendAmount p]]) to))), p)"

definition bankSend_BuildAndSignTx :: "sdk_lib \<Rightarrow> (sdk_msg, 'b, 't, 'w) Client \<Rightarrow> bankSendProvider sign" where
  "bankSend_BuildAndSignTx sl client unsignedTx p =
     (sign_with_fee sl (bs_minGasPrice p) (bs_maxGasLimit p) (bs_memoAttach p) client unsignedTx, p)"

definition bankSend_GenerateInitialTx :: "bankSendProvider gen_initial" where
  "bankSend_GenerateInitialTx req p = (Ret (Inr None), p)"

subsection \<open>Bank multi-send\<close>

record bankMultiSendProvider =
  bm_sendAmount :: coin
  bm_minGasPrice :: coin
  bm_maxGasLimit :: uint64
  bm_memoAttach :: string
  bm_numTargets :: int

definition NewBankMultiSendProvider ::
  "sdk_lib \<Rightarrow> bytes go \<Rightarrow> string \<Rightarrow> string \<Rightarrow> int \<Rightarrow> bankMultiSendProvider go" where
  "NewBankMultiSendProvider sl randmemo minGasPrice sendAmount numTargets =
     (if numTargets < 1 then Inl (Msg ''numTargets must be greater than 0'')
      else go_bind (parse_coin sl ''amount'' sendAmount) (\<lambda>parsedAmount.
        go_bind (parse_coin sl ''minGasPrice'' minGasPrice) (\<lambda>parsedMinGasPrice.
        go_bind (wrap_err ''failed to generate random memo'' randmemo) (\<lambda>memo.
        Inr \<lparr> bm_sendAmount = parsedAmount, bm_minGasPrice = parsedMinGasPrice, bm_maxGasLimit = 18000000,
              bm_memoAttach = hex_encode memo, bm_numTargets = numTargets \<rparr>))))"

text \<open>The outputs for the offsets 1 to \<^verbatim>\<open>numTargets\<close>.\<close>

fun multi_outputs :: "key_lib \<Rightarrow> TxRequest \<Rightarrow> coin \<Rightarrow> int list \<Rightarrow> (bytes \<times> coins) list res" where
  "multi_outputs kl req amount [] = Ret []"
| "multi_outputs kl req amount (offset # os) =
     res_bind (key_at (req_Keys req) (next_index req offset)) (\<lambda>key.
     res_bind (multi_outputs kl req amount os) (\<lambda>rest.
     Ret ((priv_Address kl key, [amount]) # rest)))"

definition bankMultiSend_GenerateTx :: "sdk_lib \<Rightarrow> key_lib \<Rightarrow> bankMultiSendProvider gen" where
  "bankMultiSend_GenerateTx sl kl req p =
     (res_bind (IntMul sl (snd (bm_sendAmount p)) (bm_numTargets p)) (\<lambda>totalAmount.
      res_bind (NewCoin sl (fst (bm_sendAmount p)) totalAmount) (\<lambda>totalCoin.
      res_bind (multi_outputs kl req (bm_sendAmount p) [1..bm_numTargets p]) (\<lambda>outputs.
      Ret (Inr (BankMultiSendTx (new_baseTx req
        [MsgMultiSend (priv_Address kl (Key (req_From req)), [totalCoin]) outputs]) []))))), p)"

definition bankMultiSend_BuildAndSignTx ::
  "sdk_lib \<Rightarrow> (sdk_msg, 'b, 't, 'w) Client \<Rightarrow> bankMultiSendProvider sign" where
  "bankMultiSend_BuildAndSignTx sl client unsignedTx p =
     (sign_with_fee sl (bm_minGasPrice p) (bm_maxGasLimit p) (bm_memoAttach p) client unsignedTx, p)"

definition bankMultiSend_GenerateInitialTx :: "bankMultiSendProvider gen_initial" where
  "bankMultiSend_GenerateInitialTx req p = (Ret (Inr None), p)"

subsection \<open>Exchange batch orders\<close>

record exchangeBatchOrdersProvider =
  ex_spotMarketIDs :: "string list"
  ex_derivativeMarketIDs :: "string list"
  ex_numTargets :: int
  ex_minGasPrice :: coin
  ex_maxGasLimit :: uint64
  ex_memoAttach :: string

definition NewExchangeBatchOrdersProvider ::
  "sdk_lib \<Rightarrow> string \<Rightarrow> string list \<Rightarrow> string list \<Rightarrow> exchangeBatchOrdersProvider go" where
  "NewExchangeBatchOrdersProvider sl minGasPrice spotMarketIDs derivativeMarketIDs =
     go_bind (parse_coin sl ''minGasPrice'' minGasPrice) (\<lambda>parsedMinGasPrice.
     Inr \<lparr> ex_spotMarketIDs = spotMarketIDs, ex_derivativeMarketIDs = derivativeMarketIDs, ex_numTargets = 0,
           ex_minGasPrice = parsedMinGasPrice, ex_maxGasLimit = 150000, ex_memoAttach = [] \<rparr>)"

text \<open>Lower-casing the checksummed form of an address gives its plain hexadecimal.\<close>

definition subaccount :: "bytes \<Rightarrow> nat \<Rightarrow> bytes" where
  "subaccount account index =
     (let ethLowerAddress = ''0x'' @ hex_encode (BytesToAddress account);
          subaccountId = ethLowerAddress @ pad_left 24 CHR ''0'' (show_hex index)
      in BytesToHash (FromHex subaccountId))"

definition hash_Hex :: "bytes \<Rightarrow> string" where
  "hash_Hex h = ''0x'' @ hex_encode h"

text \<open>
  The draws and readings of one call: the two random numbers, the two coin tosses, and the clock
  string of each order.
\<close>

record exchange_draws =
  dr_price :: int
  dr_quantity :: int
  dr_cancelDerivative :: bool
  dr_cancelSpot :: bool
  dr_derivativeCid :: "nat \<Rightarrow> string"
  dr_spotCid :: "nat \<Rightarrow> string"

definition dec_of_int :: "int \<Rightarrow> int" where
  "dec_of_int n = n * 10 ^ 18"

text \<open>The derivative loop: index, remaining markets, current price and message.\<close>

fun derivative_orders ::
  "(int \<Rightarrow> int \<Rightarrow> int) \<Rightarrow> exchange_draws \<Rightarrow> string \<Rightarrow> string \<Rightarrow> int \<Rightarrow> nat \<Rightarrow> string list \<Rightarrow> int \<times> BatchUpdate
    \<Rightarrow> int \<times> BatchUpdate" where
  "derivative_orders dec_mul d sender sub quantity i [] st = st"
| "derivative_orders dec_mul d sender sub quantity i (marketID # ms) (price, msg) =
     (let price' = price + dec_of_int (int i * 1000);
          order = \<lparr> d_MarketId = marketID, Margin = dec_mul price' quantity,
            d_OrderInfo = \<lparr> FeeRecipient = sender, Price = price', Quantity = quantity,
              Cid = dr_derivativeCid d i, SubaccountId = sub \<rparr> \<rparr>;
          msg1 = msg\<lparr>DerivativeOrdersToCreate := DerivativeOrdersToCreate msg @ [order]\<rparr>;
          msg2 = (if dr_cancelDerivative d
                  then msg1\<lparr>DerivativeMarketIdsToCancelAll := [marketID], bu_SubaccountId := sub\<rparr> else msg1)
      in derivative_orders dec_mul d sender sub quantity (Suc i) ms (price', msg2))"

fun spot_orders ::
  "exchange_draws \<Rightarrow> string \<Rightarrow> string \<Rightarrow> int \<Rightarrow> nat \<Rightarrow> string list \<Rightarrow> int \<times> BatchUpdate \<Rightarrow> int \<times> BatchUpdate" where
  "spot_orders d sender sub quantity i [] st = st"
| "spot_orders d sender sub quantity i (marketID # ms) (price, msg) =
     (let price' = price + dec_of_int (int i * 1000);
          order = \<lparr> s_MarketId = marketID, s_OrderInfo = \<lparr> FeeRecipient = sender, Price = price',
              Quantity = quantity, Cid = dr_spotCid d i, SubaccountId = sub \<rparr> \<rparr>;
          msg1 = msg\<lparr>SpotOrdersToCreate := SpotOrdersToCreate msg @ [order]\<rparr>;
          msg2 = (if dr_cancelSpot d
                  then msg1\<lparr>SpotMarketIdsToCancelAll := [marketID], bu_SubaccountId := sub\<rparr> else msg1)
      in spot_orders d sender sub quantity (Suc i) ms (price', msg2))"

definition exchange_GenerateTx ::
  "(int \<Rightarrow> int \<Rightarrow> int) \<Rightarrow> exchange_draws \<Rightarrow> key_lib \<Rightarrow> exchangeBatchOrdersProvider gen" where
  "exchange_GenerateTx dec_mul d kl req p =
     (let price = dec_of_int ((dr_price d + 1) * 1000);
          quantity = (dr_quantity d + 1) * 10 ^ 16;
          sender = AccAddress kl (Key (req_From req));
          sub = hash_Hex (subaccount (priv_Address kl (Key (req_From req))) 0);
          empty = \<lparr> bu_Sender = [], bu_SubaccountId = [], DerivativeOrdersToCreate = [],
            DerivativeMarketIdsToCancelAll = [], SpotOrdersToCreate = [], SpotMarketIdsToCancelAll = [] \<rparr>;
          st1 = derivative_orders dec_mul d sender sub quantity 0 (ex_derivativeMarketIDs p) (price, empty);
          st2 = spot_orders d sender sub quantity 0 (ex_spotMarketIDs p) st1
      in (Ret (Inr (ExchangeBatchUpdateTx (new_baseTx req
            [MsgBatchUpdateOrders ((snd st2)\<lparr>bu_Sender := sender\<rparr>)]))), p))"

definition exchange_BuildAndSignTx ::
  "sdk_lib \<Rightarrow> (sdk_msg, 'b, 't, 'w) Client \<Rightarrow> exchangeBatchOrdersProvider sign" where
  "exchange_BuildAndSignTx sl client unsignedTx p =
     (sign_with_fee sl (ex_minGasPrice p) (ex_maxGasLimit p) (ex_memoAttach p) client unsignedTx, p)"

definition exchange_GenerateInitialTx :: "exchangeBatchOrdersProvider gen_initial" where
  "exchange_GenerateInitialTx req p = (Ret (Inr None), p)"

subsection \<open>CosmWasm: storing code\<close>

definition defaultMaxGasLimit :: uint64 where
  "defaultMaxGasLimit = 10000000"

record wasmStoreCodeProvider =
  ws_minGasPrice :: coin
  ws_maxGasLimit :: uint64
  ws_memoAttach :: string

definition NewWasmStoreCodeProvider :: "sdk_lib \<Rightarrow> string \<Rightarrow> wasmStoreCodeProvider go" where
  "NewWasmStoreCodeProvider sl minGasPrice =
     go_bind (parse_coin sl ''minGasPrice'' minGasPrice) (\<lambda>parsedMinGasPrice.
     Inr \<lparr> ws_minGasPrice = parsedMinGasPrice, ws_maxGasLimit = defaultMaxGasLimit, ws_memoAttach = [] \<rparr>)"

definition wasmStore_GenerateTx :: "bytes \<Rightarrow> key_lib \<Rightarrow> wasmStoreCodeProvider gen" where
  "wasmStore_GenerateTx cw20ByteCode kl req p =
     (Ret (Inr (WasmStoreCodeTx (new_baseTx req
        [MsgStoreCode (AccAddress kl (Key (req_From req))) cw20ByteCode]))), p)"

definition wasmStore_BuildAndSignTx ::
  "sdk_lib \<Rightarrow> (sdk_msg, 'b, 't, 'w) Client \<Rightarrow> wasmStoreCodeProvider sign" where
  "wasmStore_BuildAndSignTx sl client unsignedTx p =
     (sign_with_fee sl (ws_minGasPrice p) (ws_maxGasLimit p) (ws_memoAttach p) client unsignedTx, p)"

definition wasmStore_GenerateInitialTx :: "wasmStoreCodeProvider gen_initial" where
  "wasmStore_GenerateInitialTx req p = (Ret (Inr None), p)"

subsection \<open>CosmWasm: instantiating a contract\<close>

record wasmInitContractProvider =
  wi_minGasPrice :: coin
  wi_maxGasLimit :: uint64
  wi_memoAttach :: string
  wi_contractCodeID :: uint64

definition NewWasmInitContractProvider :: "sdk_lib \<Rightarrow> string \<Rightarrow> wasmInitContractProvider go" where
  "NewWasmInitContractProvider sl minGasPrice =
     go_bind (parse_coin sl ''minGasPrice'' minGasPrice) (\<lambda>parsedMinGasPrice.
     Inr \<lparr> wi_minGasPrice = parsedMinGasPrice, wi_maxGasLimit = defaultMaxGasLimit, wi_memoAttach = [],
           wi_contractCodeID = 0 \<rparr>)"

definition newline :: string where "newline = [CHR 0x0A]"
definition quoted :: "string \<Rightarrow> string" where "quoted s = [CHR 0x22] @ s @ [CHR 0x22]"

definition initMsg :: "string \<Rightarrow> string \<Rightarrow> string" where
  "initMsg address minter =
     ''{'' @ newline @
     ''    '' @ quoted ''name'' @ '': '' @ quoted ''CW20Solana'' @ '','' @ newline @
     ''    '' @ quoted ''symbol'' @ '': '' @ quoted ''SOL'' @ '','' @ newline @
     ''    '' @ quoted ''decimals'' @ '': 6,'' @ newline @
     ''    '' @ quoted ''initial_balances'' @ '': ['' @ newline @
     ''        {'' @ newline @
     ''            '' @ quoted ''address'' @ '': '' @ go_quote address @ '','' @ newline @
     ''            '' @ quoted ''amount'' @ '': '' @ quoted ''10000000000'' @ newline @
     ''        }'' @ newline @
     ''    ],'' @ newline @
     ''    '' @ quoted ''mint'' @ '': {'' @ newline @
     ''        '' @ quoted ''minter'' @ '': '' @ go_quote minter @ newline @
     ''    },'' @ newline @
     ''    '' @ quoted ''marketing'' @ '': {}'' @ newline @
     ''}''"

definition one_inj :: coins where "one_inj = [(''inj'', 1)]"

definition wasmInit_GenerateTx :: "string \<Rightarrow> key_lib \<Rightarrow> wasmInitContractProvider gen" where
  "wasmInit_GenerateTx now kl req p =
     (let sender = AccAddress kl (Key (req_From req)) in
      Ret (Inr (WasmInitContractTx (new_baseTx req
        [MsgInstantiateContract sender sender (wi_contractCodeID p) now (initMsg sender sender) one_inj]))), p)"

definition wasmInit_BuildAndSignTx ::
  "sdk_lib \<Rightarrow> (sdk_msg, 'b, 't, 'w) Client \<Rightarrow> wasmInitContractProvider sign" where
  "wasmInit_BuildAndSignTx sl client unsignedTx p =
     (sign_with_fee sl (wi_minGasPrice p) (wi_maxGasLimit p) (wi_memoAttach p) client unsignedTx, p)"

text \<open>
  The pages of the code list: \<open>codes key\<close> is the query's answer, the number of entries of a page and
  the key of the next one. The loop ends at a page with no next key.
\<close>

partial_function (option) queryLastWasmContractID ::
  "(bytes \<Rightarrow> (nat \<times> bytes) go) \<Rightarrow> int \<Rightarrow> bytes \<Rightarrow> uint64 go option" where
  "queryLastWasmContractID codes totalCodes nextKey =
     (case codes nextKey of
        Inl err \<Rightarrow> Some (Inl (Wrap ''failed to query CW codes'' err))
      | Inr page \<Rightarrow>
          if snd page \<noteq> [] then queryLastWasmContractID codes (wrap_int (totalCodes + int (fst page))) (snd page)
          else Some (Inr (u64_of_int (wrap_int (totalCodes + int (fst page))))))"

definition wasmInit_GenerateInitialTx ::
  "(bytes \<Rightarrow> (nat \<times> bytes) go) \<Rightarrow> bytes \<Rightarrow> key_lib \<Rightarrow> TxRequest \<Rightarrow> wasmInitContractProvider
    \<Rightarrow> (Tx option go res \<times> wasmInitContractProvider) option" where
  "wasmInit_GenerateInitialTx codes cw20ByteCode kl req p =
     (if req_FromIdx req \<noteq> 0 \<or> req_TxIdx req \<noteq> 0 then Some (Ret (Inr None), p)
      else case queryLastWasmContractID codes 0 [] of
        None \<Rightarrow> None
      | Some (Inl err) \<Rightarrow> Some (Ret (Inl (Wrap ''failed to query last CW contract ID'' err)), p)
      | Some (Inr lastID) \<Rightarrow>
          Some (Ret (Inr (Some (WasmStoreCodeTx (new_baseTx req
            [MsgStoreCode (AccAddress kl (Key (req_From req))) cw20ByteCode])))),
            p\<lparr>wi_contractCodeID := lastID + 1\<rparr>))"

subsection \<open>CosmWasm: the checksum of a contract\<close>

definition WasmChecksumLen :: nat where
  "WasmChecksumLen = 32"

definition WasmChecksum_String :: "bytes \<Rightarrow> string" where
  "WasmChecksum_String cs = hex_encode cs"

text \<open>JSON strings: \<open>marshal\<close> and \<open>unmarshal\<close> of \<^verbatim>\<open>encoding/json\<close> are arguments.\<close>

definition WasmChecksum_MarshalJSON :: "(string \<Rightarrow> string) \<Rightarrow> bytes \<Rightarrow> string" where
  "WasmChecksum_MarshalJSON marshal cs = marshal (hex_encode cs)"

definition WasmChecksum_UnmarshalJSON :: "(string \<Rightarrow> string go) \<Rightarrow> string \<Rightarrow> bytes go" where
  "WasmChecksum_UnmarshalJSON unmarshal input =
     go_bind (unmarshal input) (\<lambda>hexString.
     go_bind (hex_decode hexString) (\<lambda>data.
     if length data \<noteq> WasmChecksumLen then Inl (Msg ''got wrong number of bytes for wasm checksum'')
     else Inr data))"

definition WasmCreateChecksum :: "(bytes \<Rightarrow> bytes) \<Rightarrow> bytes \<Rightarrow> bytes go" where
  "WasmCreateChecksum sha256 wasm =
     (if length wasm = 0 then Inl (Msg ''wasm bytes nil or empty'')
      else if length wasm < 4 then Inl (Msg ''wasm bytes shorter than 4 bytes'')
      else if take 4 wasm \<noteq> [0x00, 0x61, 0x73, 0x6D] then Inl (Msg ''wasm bytes do not start with Wasm magic number'')
      else Inr (sha256 wasm))"

subsection \<open>CosmWasm: executing a contract\<close>

record wasmExecContractProvider =
  we_minGasPrice :: coin
  we_maxGasLimit :: uint64
  we_memoAttach :: string
  we_init2Salt :: bytes
  we_contractCodeHash :: string
  we_contractCodeID :: uint64
  we_contractAddress :: string

definition NewWasmExecContractProvider ::
  "sdk_lib \<Rightarrow> (bytes \<Rightarrow> bytes) \<Rightarrow> bytes \<Rightarrow> bytes \<Rightarrow> string \<Rightarrow> wasmExecContractProvider go" where
  "NewWasmExecContractProvider sl sha256 cw20ByteCode now minGasPrice =
     go_bind (parse_coin sl ''minGasPrice'' minGasPrice) (\<lambda>parsedMinGasPrice.
     go_bind (wrap_err ''failed to create wasm checksum for CW20 contract'' (WasmCreateChecksum sha256 cw20ByteCode)) (\<lambda>codeHash.
     Inr \<lparr> we_minGasPrice = parsedMinGasPrice, we_maxGasLimit = defaultMaxGasLimit, we_memoAttach = [],
           we_init2Salt = now, we_contractCodeHash = WasmChecksum_String codeHash, we_contractCodeID = 0,
           we_contractAddress = [] \<rparr>))"

definition transferMsg :: "string \<Rightarrow> int \<Rightarrow> string" where
  "transferMsg to amount =
     ''{'' @ quoted ''transfer'' @ '':{'' @ quoted ''recipient'' @ '': '' @ go_quote to @ '','' @
     quoted ''amount'' @ '': '' @ quoted (itoa amount) @ ''}}''"

definition wasmExec_GenerateTx :: "key_lib \<Rightarrow> wasmExecContractProvider gen" where
  "wasmExec_GenerateTx kl req p =
     (res_bind (key_at (req_Keys req) (next_index req 1)) (\<lambda>key.
      Ret (Inr (WasmExecContractTx (new_baseTx req
        [MsgExecuteContract (AccAddress kl (Key (req_From req))) (we_contractAddress p)
           (transferMsg (AccAddress kl key) 0) one_inj])))), p)"

definition wasmExec_BuildAndSignTx ::
  "sdk_lib \<Rightarrow> (sdk_msg, 'b, 't, 'w) Client \<Rightarrow> wasmExecContractProvider sign" where
  "wasmExec_BuildAndSignTx sl client unsignedTx p =
     (sign_with_fee sl (we_minGasPrice p) (we_maxGasLimit p) (we_memoAttach p) client unsignedTx, p)"

text \<open>\<open>build\<close> answers the query for the address of an instance: code hash, creator, salt, arguments.\<close>

definition queryBuildAddress ::
  "(string \<Rightarrow> string \<Rightarrow> string \<Rightarrow> string \<Rightarrow> string go) \<Rightarrow> wasmExecContractProvider \<Rightarrow> string \<Rightarrow> string \<Rightarrow> string \<Rightarrow> string go" where
  "queryBuildAddress build p sender codeHash initArgs =
     wrap_err ''failed to query build address'' (build codeHash sender (hex_encode (we_init2Salt p)) initArgs)"

definition wasmExec_GenerateInitialTx ::
  "(bytes \<Rightarrow> (nat \<times> bytes) go) \<Rightarrow> (string \<Rightarrow> string \<Rightarrow> string \<Rightarrow> string \<Rightarrow> string go) \<Rightarrow> bytes \<Rightarrow> string \<Rightarrow> key_lib
    \<Rightarrow> TxRequest \<Rightarrow> wasmExecContractProvider \<Rightarrow> (Tx option go res \<times> wasmExecContractProvider) option" where
  "wasmExec_GenerateInitialTx codes build cw20ByteCode now kl req p =
     (if req_FromIdx req \<noteq> 0 \<or> req_TxIdx req \<noteq> 0 then Some (Ret (Inr None), p)
      else let sender = AccAddress kl (Key (req_From req)); initMsgBytes = initMsg sender sender in
        case queryLastWasmContractID codes 0 [] of
          None \<Rightarrow> None
        | Some (Inl err) \<Rightarrow> Some (Ret (Inl (Wrap ''failed to query last CW contract ID'' err)), p)
        | Some (Inr lastID) \<Rightarrow>
            let p1 = p\<lparr>we_contractCodeID := lastID + 1\<rparr> in
            case queryBuildAddress build p1 sender (we_contractCodeHash p1) initMsgBytes of
              Inl err \<Rightarrow> Some (Ret (Inl (Wrap ''failed to query build address'' err)), p1)
            | Inr contractAddress \<Rightarrow>
                Some (Ret (Inr (Some (WasmStoreCodeTx (new_baseTx req
                  [MsgStoreCode sender cw20ByteCode,
                   MsgInstantiateContract2 sender (we_contractCodeID p1) now initMsgBytes one_inj (we_init2Salt p1) True])))),
                  p1\<lparr>we_contractAddress := contractAddress\<rparr>))"

subsection \<open>All of them are providers\<close>

lemma new_baseTx_fields [simp]:
  "base_from (new_baseTx req ms) = req_From req" "base_fromIdx (new_baseTx req ms) = req_FromIdx req"
  "base_txIdx (new_baseTx req ms) = req_TxIdx req" "base_msgs (new_baseTx req ms) = ms"
  by (simp_all add: new_baseTx_def)

lemmas native_provider_defs =
  bankSend_GenerateTx_def bankSend_BuildAndSignTx_def bankMultiSend_GenerateTx_def bankMultiSend_BuildAndSignTx_def
  exchange_GenerateTx_def exchange_BuildAndSignTx_def wasmStore_GenerateTx_def wasmStore_BuildAndSignTx_def
  wasmInit_GenerateTx_def wasmInit_BuildAndSignTx_def wasmExec_GenerateTx_def wasmExec_BuildAndSignTx_def

interpretation bankSend: plain_provider "bankSend_GenerateTx kl" "bankSend_BuildAndSignTx sl client" bankSend_GenerateInitialTx
  for kl sl and client :: "(sdk_msg, 'b, 't, 'w) Client"
  by unfold_locales (auto simp: native_provider_defs bankSend_GenerateInitialTx_def tx_methods Let_def dest: sign_with_fee_keeps)

interpretation bankMultiSend: plain_provider "bankMultiSend_GenerateTx sl kl" "bankMultiSend_BuildAndSignTx sl client" bankMultiSend_GenerateInitialTx
  for kl sl and client :: "(sdk_msg, 'b, 't, 'w) Client"
  by unfold_locales (auto simp: native_provider_defs bankMultiSend_GenerateInitialTx_def tx_methods Let_def dest: sign_with_fee_keeps)

interpretation exchange: plain_provider "exchange_GenerateTx dec_mul d kl" "exchange_BuildAndSignTx sl client" exchange_GenerateInitialTx
  for dec_mul d kl sl and client :: "(sdk_msg, 'b, 't, 'w) Client"
  by unfold_locales (auto simp: native_provider_defs exchange_GenerateInitialTx_def tx_methods Let_def dest: sign_with_fee_keeps)

interpretation wasmStore: plain_provider "wasmStore_GenerateTx code kl" "wasmStore_BuildAndSignTx sl client" wasmStore_GenerateInitialTx
  for code kl sl and client :: "(sdk_msg, 'b, 't, 'w) Client"
  by unfold_locales (auto simp: native_provider_defs wasmStore_GenerateInitialTx_def tx_methods Let_def dest: sign_with_fee_keeps)

interpretation wasmInit: tx_provider "wasmInit_GenerateTx now kl" "wasmInit_BuildAndSignTx sl client"
  for now kl sl and client :: "(sdk_msg, 'b, 't, 'w) Client"
  by unfold_locales (auto simp: native_provider_defs tx_methods Let_def dest: sign_with_fee_keeps)

interpretation wasmExec: tx_provider "wasmExec_GenerateTx kl" "wasmExec_BuildAndSignTx sl client"
  for kl sl and client :: "(sdk_msg, 'b, 't, 'w) Client"
  by unfold_locales (auto simp: native_provider_defs tx_methods Let_def dest: sign_with_fee_keeps)

subsection \<open>Receivers and amounts\<close>

lemma next_index_in_range:
  assumes "req_FromIdx req = int i" "i < length (req_Keys req)" "0 < k" "int i + k < 2 ^ 63"
  shows "next_index req k = (if int i + k < int (length (req_Keys req)) then int i + k else 0)"
  using assms by (simp add: next_index_def Let_def int_range_def)

lemma key_at_nat: "i < length keys \<Longrightarrow> key_at keys (int i) = Ret (keys ! i)"
  by (simp add: key_at_def)

text \<open>The request of account \<open>i\<close>, whatever its sequence.\<close>

definition request_of :: "Secp256k1PrivateKey list \<Rightarrow> Account \<Rightarrow> nat \<Rightarrow> nat \<Rightarrow> TxRequest" where
  "request_of keys acc i j = \<lparr> req_Keys = keys, req_From = acc, req_FromIdx = int i, req_TxIdx = int j \<rparr>"

text \<open>Bank transfers go around the ring of accounts: the transaction generated for account \<open>i\<close> sends
  the configured amount from its key to the address of the next account, the last one to the first.\<close>

theorem bank_send_ring:
  assumes "i < length keys" and "length keys < 2 ^ 63"
  shows "\<exists>t. bankSend_GenerateTx kl (request_of keys acc i j) p = (Ret (Inr t), p) \<and>
    tx_Msgs t = [MsgSend (priv_Address kl (Key acc)) (priv_Address kl (rotate1 keys ! i)) [bs_sendAmount p]]"
proof -
  have "next_index (request_of keys acc i j) 1 = int (Suc i mod length keys)"
    using assms by (subst next_index_in_range [of _ i]) (auto simp: request_of_def mod_Suc)
  moreover have "key_at keys (int (Suc i mod length keys)) = Ret (rotate1 keys ! i)"
    using assms(1) nth_rotate1 [OF assms(1)] by (subst key_at_nat) (auto intro!: mod_less_divisor)
  ultimately show ?thesis
    by (simp add: bankSend_GenerateTx_def Let_def request_of_def tx_Msgs_def)
qed

lemma multi_outputs_eq:
  assumes "i < length keys" "\<And>k. k \<in> set os \<Longrightarrow> 0 < k \<and> int i + k < 2 ^ 63"
  shows "multi_outputs kl (request_of keys acc i j) amount os = Ret (map (\<lambda>k. (priv_Address kl
    (keys ! (if int i + k < int (length keys) then i + nat k else 0)), [amount])) os)"
  using assms(2)
proof (induction os)
  case (Cons k os)
  then have k: "0 < k" "int i + k < 2 ^ 63" by auto
  have "next_index (request_of keys acc i j) k = int (if int i + k < int (length keys) then i + nat k else 0)"
    using assms(1) k by (subst next_index_in_range [of _ i]) (auto simp: request_of_def)
  moreover have "key_at keys (int (if int i + k < int (length keys) then i + nat k else 0))
      = Ret (keys ! (if int i + k < int (length keys) then i + nat k else 0))"
    using assms(1) k by (intro key_at_nat) auto
  ultimately show ?case using Cons by (simp add: request_of_def)
qed simp

text \<open>A multi-send is balanced and complete: it has one output of the configured amount per target, the
  input is their sum, and the targets are the accounts after the sender; past the end of the list every
  target is the first account.\<close>

theorem multi_send_balanced:
  assumes "sdk_arith sl" and "NewBankMultiSendProvider sl memo minGasPrice sendAmount numTargets = Inr p"
    and "i < length keys" and "int i + numTargets < 2 ^ 63" and "snd (bm_sendAmount p) * numTargets < 2 ^ 256"
  shows "\<exists>t from total outs. bankMultiSend_GenerateTx sl kl (request_of keys acc i j) p = (Ret (Inr t), p) \<and>
    tx_Msgs t = [MsgMultiSend (from, [(fst (bm_sendAmount p), total)]) outs] \<and>
    total = (\<Sum>(a, cs) \<leftarrow> outs. \<Sum>(d, n) \<leftarrow> cs. n) \<and> int (length outs) = numTargets \<and>
    map fst outs = map (\<lambda>k. priv_Address kl (keys ! (if int i + k < int (length keys) then i + nat k else 0))) [1..numTargets]"
proof -
  obtain d n where dn: "ParseCoinNormalized sl sendAmount = Inr (d, n)" "bm_sendAmount p = (d, n)"
      "bm_numTargets p = numTargets" "1 \<le> numTargets"
    using assms(2) by (auto simp: NewBankMultiSendProvider_def parse_coin_def split: if_splits)
  have n: "0 \<le> n" and coin: "NewCoin sl d (n * numTargets) = Ret (d, n * numTargets)"
    using assms(1) dn unfolding sdk_arith_def by auto
  have mul: "IntMul sl n numTargets = Ret (n * numTargets)"
    using assms(1,5) n dn by (auto simp: sdk_arith_def)
  let ?outs = "map (\<lambda>k. (priv_Address kl (keys ! (if int i + k < int (length keys) then i + nat k else 0)), [(d, n)])) [1..numTargets]"
  have outs: "multi_outputs kl (request_of keys acc i j) (d, n) [1..numTargets] = Ret ?outs"
    using assms(3,4) by (intro multi_outputs_eq) auto
  have "(\<Sum>(a, cs) \<leftarrow> ?outs. \<Sum>(d, n) \<leftarrow> cs. n) = n * numTargets"
    using dn(4) by (simp add: comp_def sum_list_triv)
  then show ?thesis
    using dn outs mul coin
    by (simp add: bankMultiSend_GenerateTx_def tx_Msgs_def comp_def)
qed

text \<open>The pages that a list of codes is served in: their sizes, starting at a key.\<close>

fun pages :: "(bytes \<Rightarrow> (nat \<times> bytes) go) \<Rightarrow> bytes \<Rightarrow> nat list \<Rightarrow> bool" where
  "pages codes key [] = False"
| "pages codes key [n] = (codes key = Inr (n, []))"
| "pages codes key (n # m # ns) = (\<exists>next. next \<noteq> [] \<and> codes key = Inr (n, next) \<and> pages codes next (m # ns))"

text \<open>The search for the last code ends with the last page and counts the codes of all pages, however
  many there are.\<close>

theorem query_counts_all_pages:
  assumes "pages codes key ns" and "int (sum_list ns) + cnt < 2 ^ 63" and "0 \<le> cnt"
  shows "queryLastWasmContractID codes cnt key = Some (Inr (u64_of_int (cnt + int (sum_list ns))))"
  using assms
proof (induction codes key ns arbitrary: cnt rule: pages.induct)
  case (2 codes key n)
  then show ?case by (subst queryLastWasmContractID.simps) (simp add: int_range_def)
next
  case (3 codes key n m ns)
  then obtain nx where nx: "nx \<noteq> []" "codes key = Inr (n, nx)" "pages codes nx (m # ns)" by auto
  have "queryLastWasmContractID codes (cnt + int n) nx = Some (Inr (u64_of_int (cnt + int n + int (sum_list (m # ns)))))"
    using 3 nx by (intro "3.IH") auto
  moreover have "wrap_int (cnt + int n) = cnt + int n" using 3 by (intro wrap_int_id) (simp add: int_range_def)
  ultimately show ?case using nx by (subst queryLastWasmContractID.simps) (simp add: add.assoc)
qed simp

lemma hex_encode_append: "hex_encode (a @ b) = hex_encode a @ hex_encode b"
  by (simp add: hex_encode_def)

text \<open>The default subaccount of an account is its twenty address bytes followed by twelve zero bytes.\<close>

theorem subaccount_layout: "subaccount account 0 = BytesToAddress account @ replicate 12 0"
proof -
  have z: "pad_left 24 CHR ''0'' (show_hex 0) = hex_encode (replicate 12 0)"
    by code_simp
  have "hex_decode (hex_encode (BytesToAddress account) @ pad_left 24 CHR ''0'' (show_hex 0))
      = Inr (BytesToAddress account @ replicate 12 0)"
    unfolding z hex_encode_append [symmetric] by (rule hex_roundtrip)
  moreover have "even (length (hex_encode (BytesToAddress account) @ pad_left 24 CHR ''0'' (show_hex 0)))"
    unfolding z by simp
  ultimately show ?thesis
    by (simp add: subaccount_def FromHex_def Let_def BytesToHash_def left_pad_def)
qed

text \<open>A contract checksum read back from its JSON form is the checksum, provided it has the length of a
  SHA-256 digest; any other length is refused.\<close>

theorem checksum_json_roundtrip:
  assumes "\<forall>s. unmarshal (marshal s) = Inr s"
  shows "WasmChecksum_UnmarshalJSON unmarshal (WasmChecksum_MarshalJSON marshal cs) =
    (if length cs = 32 then Inr cs else Inl (Msg ''got wrong number of bytes for wasm checksum''))"
  using assms by (simp add: WasmChecksum_UnmarshalJSON_def WasmChecksum_MarshalJSON_def hex_roundtrip WasmChecksumLen_def)

subsection \<open>A worked instance\<close>

text \<open>An SDK that parses one denomination, a client of it, and the preparation of one bank transfer.\<close>

definition example_sdk :: sdk_lib where
  "example_sdk = \<lparr> ParseCoinNormalized = (\<lambda>s. if s = ''7inj'' then Inr (''inj'', 7) else Inl (Msg ''invalid decimal coin expression'')),
     NewCoin = (\<lambda>d n. if n < 0 then Panic (Msg ''negative coin amount'') else Ret (d, n)),
     NewCoins = (\<lambda>cs. Ret (filter (\<lambda>(d, n). n \<noteq> 0) cs)),
     IntMul = (\<lambda>a b. if \<bar>a * b\<bar> < 2 ^ 256 then Ret (a * b) else Panic (Msg ''integer overflow'')) \<rparr>"

lemma example_sdk_arith: "sdk_arith example_sdk"
  by (auto simp: sdk_arith_def example_sdk_def split: if_splits)

definition sdk_client ::
  "(sdk_msg, bytes \<times> SignatureV2 option, bytes \<times> SignatureV2 option, uint64 \<times> nat) Client" where
  "sdk_client = \<lparr> cl_ChainID = ''stressinj-1337'', cl_TxConfig = example_txcfg, cl_Keys = example_keys,
     cl_Node = example_node, cl_Errors = example_errors \<rparr>"

definition bank_provider :: bankSendProvider where
  "bank_provider = \<lparr> bs_sendAmount = (''inj'', 7), bs_minGasPrice = (''inj'', 7), bs_maxGasLimit = 150000, bs_memoAttach = [] \<rparr>"

definition bank_env :: "bankSendProvider prep_env" where
  "bank_env = \<lparr> pr_gen = bankSend_GenerateTx example_keys, pr_sign = bankSend_BuildAndSignTx example_sdk sdk_client,
     pr_accounts = [[1]], pr_numTxs = 1, pr_numCPU = 1, pr_fetch = (\<lambda>i. Inr (3, 5)) \<rparr>"

theorem bank_send_ring_witness:
  "\<exists>t. bankSend_GenerateTx example_keys (request_of [[1], [2]] (zero_account\<lparr>Key := [2]\<rparr>) 1 0) bank_provider
      = (Ret (Inr t), bank_provider) \<and> tx_Msgs t = [MsgSend [2] [1] [(''inj'', 7)]]"
  using bank_send_ring [of 1 "[[1], [2]]" example_keys "zero_account\<lparr>Key := [2]\<rparr>" 0 bank_provider]
  by (simp add: example_keys_def priv_Address_def bank_provider_def)

theorem multi_send_balanced_witness:
  "\<exists>t from n outs. bankMultiSend_GenerateTx example_sdk example_keys (request_of [[1], [2], [3]] (zero_account\<lparr>Key := [2]\<rparr>) 1 0)
        \<lparr> bm_sendAmount = (''inj'', 7), bm_minGasPrice = (''inj'', 7), bm_maxGasLimit = 18000000, bm_memoAttach = [], bm_numTargets = 3 \<rparr>
      = (Ret (Inr t), \<lparr> bm_sendAmount = (''inj'', 7), bm_minGasPrice = (''inj'', 7), bm_maxGasLimit = 18000000, bm_memoAttach = [], bm_numTargets = 3 \<rparr>) \<and>
    tx_Msgs t = [MsgMultiSend (from, [(''inj'', n)]) outs] \<and> n = (\<Sum>(a, cs) \<leftarrow> outs. \<Sum>(d, n) \<leftarrow> cs. n) \<and>
    int (length outs) = 3 \<and> map fst outs = [[3], [1], [1]]"
proof -
  have l: "[1..3::int] = [1, 2, 3]" by code_simp
  show ?thesis
    using multi_send_balanced [OF example_sdk_arith, of "Inr []" "''7inj''" "''7inj''" 3
      "\<lparr> bm_sendAmount = (''inj'', 7), bm_minGasPrice = (''inj'', 7), bm_maxGasLimit = 18000000, bm_memoAttach = [], bm_numTargets = 3 \<rparr>"
      1 "[[1], [2], [3]]" example_keys "zero_account\<lparr>Key := [2]\<rparr>" 0]
    by (simp add: l NewBankMultiSendProvider_def parse_coin_def example_sdk_def hex_encode_def example_keys_def priv_Address_def)
qed

theorem query_counts_all_pages_witness:
  "queryLastWasmContractID (\<lambda>key. if key = [] then Inr (100, [9]) else Inr (7, [])) 0 [] = Some (Inr 107)"
  using query_counts_all_pages [of "\<lambda>key. if key = [] then Inr (100, [9]) else Inr (7, [])" "[]" "[100, 7]" 0]
  by (simp add: u64_of_int_def)

theorem checksum_json_roundtrip_witness:
  "WasmChecksum_UnmarshalJSON Inr (WasmChecksum_MarshalJSON id (replicate 32 7)) = Inr (replicate 32 7)"
  using checksum_json_roundtrip [of Inr id "replicate 32 7"] by simp

lemma bank_env_provider: "tx_provider (pr_gen bank_env) (pr_sign bank_env)"
  by (simp add: bank_env_def bankSend.tx_provider_axioms)

definition bank_sender :: "nat \<Rightarrow> Account" where
  "bank_sender j = \<lparr> Name = ''sender-0'', Key = [1], Number = 3, Sequence = 5 + of_nat j \<rparr>"

definition bank_tx :: "bytes \<Rightarrow> baseTx" where
  "bank_tx bs = \<lparr> base_from = bank_sender 0, base_msgs = [MsgSend [1] [1] [(''inj'', 7)]], base_txBytes = bs,
     base_fromIdx = 0, base_txIdx = 0 \<rparr>"

definition bank_end :: "bankSendProvider prep_state" where
  "bank_end = \<lparr> tasks = [Generating 1 (bank_sender 1)], txQueue = [], hands = [], txSignedQueue = [],
     signedTxs = [[[5]]], initialAccountSequences = [5], collected = 1, prov = bank_provider \<rparr>"

lemmas bank_defs = bank_env_def bank_end_def bank_tx_def bank_sender_def prep_init_def bank_provider_def

lemma bank_generates:
  "pr_gen bank_env (tx_request bank_env 0 0 (bank_sender 0)) bank_provider = (Ret (Inr (BankSendTx (bank_tx []) [1])), bank_provider)"
  by (simp add: go_index_def bank_defs bankSend_GenerateTx_def next_index_def tx_request_def key_at_def int_range_def Let_def
      priv_Address_def example_keys_def new_baseTx_def)

lemma bank_signs:
  "pr_sign bank_env (BankSendTx (bank_tx []) [1]) bank_provider = (Ret (Inr (BaseTx (bank_tx [5]))), bank_provider)"
  by (simp add: bank_defs bankSend_BuildAndSignTx_def sign_with_fee_def example_sdk_def BuildAndSignTx_def buildAndSignTx_def
      signTx_def Encode_def sdk_client_def example_txcfg_def example_keys_def tx_methods)

lemma bank_stored: "store_signed [[[]]] (BaseTx (bank_tx [5])) = Some [[[5]]]"
proof -
  have "tx_FromIdx (BaseTx (bank_tx [5])) = 0" "tx_TxIdx (BaseTx (bank_tx [5])) = 0" "tx_Bytes (BaseTx (bank_tx [5])) = [5]"
    by (simp_all add: tx_methods bank_tx_def)
  then show ?thesis by (simp add: store_signed_def go_index_def)
qed

lemma bank_run: "prep_reach bank_env (prep_init bank_env bank_provider) bank_end"
proof -
  let ?s = "\<lambda>ts q h sq m sqs n. \<lparr> tasks = ts, txQueue = q, hands = h, txSignedQueue = sq, signedTxs = m,
     initialAccountSequences = sqs, collected = n, prov = bank_provider \<rparr>"
  let ?t = "BankSendTx (bank_tx []) [1]" and ?u = "BaseTx (bank_tx [5])" and ?g = "[Generating 1 (bank_sender 1)]"
  have init: "prep_init bank_env bank_provider = ?s [Submitted] [] [] [] [[[]]] [0] 0"
    by (simp add: bank_defs)
  have 1: "prep_step bank_env (?s [Submitted] [] [] [] [[[]]] [0] 0) (Going (?s [Generating 0 (bank_sender 0)] [] [] [] [[[]]] [5] 0))"
    using start [of 0 "?s [Submitted] [] [] [] [[[]]] [0] 0" bank_env 3 5]
    by (simp add: bank_env_def running_def sender_account_def bank_sender_def show_nat.simps go_simps)
  have 2: "prep_step bank_env (?s [Generating 0 (bank_sender 0)] [] [] [] [[[]]] [5] 0) (Going (?s ?g [?t] [] [] [[[]]] [5] 0))"
    using generate [of 0 "?s [Generating 0 (bank_sender 0)] [] [] [] [[[]]] [5] 0" 0 "bank_sender 0" bank_env ?t bank_provider]
      bank_generates by (simp add: queue_cap_def bank_env_def bank_sender_def)
  have 3: "prep_step bank_env (?s ?g [?t] [] [] [[[]]] [5] 0) (Going (?s ?g [] [?u] [] [[[]]] [5] 0))"
    using sign [of "?s ?g [?t] [] [] [[[]]] [5] 0" bank_env ?t "[]" ?u bank_provider] bank_signs by (simp add: bank_env_def)
  have 4: "prep_step bank_env (?s ?g [] [?u] [] [[[]]] [5] 0) (Going (?s ?g [] [] [?u] [[[]]] [5] 0))"
    using put [of "?s ?g [] [?u] [] [[[]]] [5] 0" "[]" ?u "[]" bank_env] by (simp add: queue_cap_def)
  have 5: "prep_step bank_env (?s ?g [] [] [?u] [[[]]] [5] 0) (Going bank_end)"
    using collect [of "?s ?g [] [] [?u] [[[]]] [5] 0" bank_env ?u "[]" "[[[5]]]"] bank_stored
    by (simp add: bank_env_def bank_end_def)
  show ?thesis unfolding init
    by (rule prep_reach.step [OF prep_reach.step [OF prep_reach.step [OF prep_reach.step [OF
      prep_reach.step [OF prep_reach.refl 1] 2] 3] 4] 5])
qed

theorem matrix_complete_witness:
  "(\<exists>t'. signed_for bank_env 0 0 t' \<and> signedTxs bank_end ! 0 ! 0 = tx_Bytes t') \<and>
   (\<exists>num. pr_fetch bank_env 0 = Inr (num, initialAccountSequences bank_end ! 0))"
  by (rule matrix_complete [OF bank_env_provider bank_run]) (simp_all add: prep_done_def bank_env_def bank_end_def)

lemma bank_env_succeeds: "provider_succeeds bank_env (\<lambda>p. p = bank_provider)"
proof -
  have "account_at bank_env 0 0 = bank_sender 0"
    by (simp add: account_at_def bank_env_def sender_account_def bank_sender_def show_nat.simps go_simps)
  then have gen: "\<exists>t. pr_gen bank_env (tx_request bank_env 0 0 (account_at bank_env 0 0)) bank_provider = (Ret (Inr t), bank_provider)"
    using bank_generates by simp
  have sign: "\<exists>t'. pr_sign bank_env t bank_provider = (Ret (Inr t'), bank_provider)" for t
    by (simp add: bank_defs bankSend_BuildAndSignTx_def sign_with_fee_def example_sdk_def BuildAndSignTx_def buildAndSignTx_def
        signTx_def Encode_def sdk_client_def example_txcfg_def example_keys_def)
  show ?thesis unfolding provider_succeeds_def
    using gen sign by (auto simp: bank_env_def)
qed

theorem preparation_ends_witness:
  "(\<forall>e. \<not> prep_step bank_env (prep_init bank_env bank_provider) (Died e)) \<and>
   (\<exists>s'. prep_step bank_env (prep_init bank_env bank_provider) (Going s') \<and>
      work bank_env s' < work bank_env (prep_init bank_env bank_provider))"
proof -
  have "accounts_fetched bank_env" "0 < pr_numCPU bank_env" "\<not> prep_done bank_env (prep_init bank_env bank_provider)"
    by (simp_all add: prep_done_def bank_env_def prep_init_def accounts_fetched_def)
  with preparation_ends [OF bank_env_provider prep_reach.refl bank_env_succeeds HOL.refl] show ?thesis by blast
qed

end
