(* ===== verification/User_Op.thy ===== *)
theory User_Op
  imports Chain_Types
begin

text \<open>
  User operations of EIP-4337: \<^verbatim>\<open>eth/aa/userop.go\<close> and \<^verbatim>\<open>eth/aa/signer.go\<close>. Big integers are \<open>int\<close>,
  fixed byte arrays are byte lists. The Keccak hash, the ABI encoder and the checksummed printing of
  addresses are fields of \<open>aa_lib\<close>, a parameter; the ABI encoder is given the values with their types.
\<close>

subsection \<open>Big-endian numbers\<close>

text \<open>\<^verbatim>\<open>(*big.Int).Bytes\<close>: the absolute value, most significant byte first, no leading zero.\<close>

fun be_bytes :: "nat \<Rightarrow> bytes" where
  "be_bytes n = (if n = 0 then [] else be_bytes (n div 256) @ [of_nat (n mod 256)])"

declare be_bytes.simps [simp del]

definition big_Bytes :: "int \<Rightarrow> bytes" where
  "big_Bytes x = be_bytes (nat \<bar>x\<bar>)"

definition be_nat :: "bytes \<Rightarrow> nat" where
  "be_nat bs = foldl (\<lambda>a b. a * 256 + unat b) 0 bs"

lemma be_bytes_0 [simp]: "be_bytes 0 = []"
  by (simp add: be_bytes.simps)

lemma be_nat_snoc [simp]: "be_nat (bs @ [b]) = be_nat bs * 256 + unat b"
  by (simp add: be_nat_def)

lemma be_nat_be_bytes [simp]: "be_nat (be_bytes n) = n"
proof (induction n rule: be_bytes.induct)
  case (1 n)
  have "unat (of_nat (n mod 256) :: byte) = n mod 256" by (simp add: unat_of_nat)
  with 1 show ?case by (cases "n = 0") (simp add: be_nat_def, subst be_bytes.simps, simp)
qed

lemma be_nat_zeros [simp]: "be_nat (replicate k 0 @ bs) = be_nat bs"
  by (induction k) (simp_all add: be_nat_def)

lemma length_be_bytes: "length (be_bytes n) \<le> k \<longleftrightarrow> n < 256 ^ k"
proof (induction k arbitrary: n)
  case 0
  show ?case by (cases "n = 0") (simp, subst be_bytes.simps, simp)
next
  case (Suc k)
  show ?case
  proof (cases "n = 0")
    case False
    then have "length (be_bytes n) \<le> Suc k \<longleftrightarrow> n div 256 < 256 ^ k"
      using Suc [of "n div 256"] by (subst be_bytes.simps) simp
    also have "\<dots> \<longleftrightarrow> n < 256 ^ Suc k"
      using div_less_iff_less_mult [of 256 n "256 ^ k"] by (simp add: mult.commute)
    finally show ?thesis .
  qed simp
qed

text \<open>\<^verbatim>\<open>hexutil.EncodeBig\<close> and \<^verbatim>\<open>hexutil.Encode\<close>.\<close>

definition EncodeBig :: "int \<Rightarrow> string" where
  "EncodeBig x = (if x < 0 then ''-0x'' @ show_hex (nat (- x)) else ''0x'' @ show_hex (nat x))"

definition hexutil_Encode :: "bytes \<Rightarrow> string" where
  "hexutil_Encode bs = ''0x'' @ hex_encode bs"

subsection \<open>Operations\<close>

definition zero_address :: eth_address where
  "zero_address = replicate 20 0"

record UserOperation =
  uo_Sender :: eth_address
  uo_Nonce :: int
  uo_InitCode :: bytes
  uo_CallData :: bytes
  uo_CallGasLimit :: int
  uo_VerificationGasLimit :: int
  uo_PreVerificationGas :: int
  uo_MaxFeePerGas :: int
  uo_MaxPriorityFeePerGas :: int
  uo_Paymaster :: eth_address
  uo_PaymasterVerificationGasLimit :: int
  uo_PaymasterPostOpGasLimit :: int
  uo_PaymasterData :: bytes
  uo_Signature :: bytes

record PackedUserOperation =
  pu_Sender :: eth_address
  pu_Nonce :: int
  pu_InitCode :: bytes
  pu_CallData :: bytes
  pu_AccountGasLimits :: bytes
  pu_PreVerificationGas :: int
  pu_GasFees :: bytes
  pu_PaymasterAndData :: bytes
  pu_Signature :: bytes

record UserOperationGasEstimates =
  ge_CallGasLimit :: int
  ge_VerificationGasLimit :: int
  ge_PreVerificationGas :: int
  ge_MaxFeePerGas :: int
  ge_MaxPriorityFeePerGas :: int

record IEntryPointUserOpsPerAggregator =
  ag_UserOps :: "PackedUserOperation list"
  ag_Aggregator :: eth_address
  ag_Signature :: bytes

record IStakeManagerDepositInfo =
  di_Deposit :: int
  di_Staked :: bool
  di_Stake :: int
  di_UnstakeDelaySec :: uint32
  di_WithdrawTime :: int

text \<open>
  The Go values that the ABI encoder takes and the decoder makes, one constructor per Go type: \<open>AbiUint256\<close>
  is a big integer, \<open>AbiBytesN\<close> an array of the given number of bytes.
\<close>

datatype abi_value =
    AbiAddress eth_address
  | AbiUint256 int
  | AbiBytes32 bytes
  | AbiBytes bytes
  | AbiOp PackedUserOperation
  | AbiOps "PackedUserOperation list"
  | AbiUint32 uint32
  | AbiUint64 uint64
  | AbiBool bool
  | AbiString string
  | AbiBytesN nat bytes
  | AbiAddresses "eth_address list"
  | AbiUint256s "int list"
  | AbiBytess "bytes list"
  | AbiOpsPerAggregator "IEntryPointUserOpsPerAggregator list"
  | AbiDepositInfo IStakeManagerDepositInfo

record aa_lib =
  Keccak256Hash :: "bytes \<Rightarrow> bytes"
  abi_Pack :: "abi_value list \<Rightarrow> bytes go"
  address_String :: "eth_address \<Rightarrow> string"

definition GetFactory :: "UserOperation \<Rightarrow> eth_address" where
  "GetFactory op = (if length (uo_InitCode op) < 20 then zero_address
     else BytesToAddress (take 20 (uo_InitCode op)))"

definition GetFactoryData :: "UserOperation \<Rightarrow> bytes" where
  "GetFactoryData op = (if length (uo_InitCode op) < 20 then [] else drop 20 (uo_InitCode op))"

definition GetMaxGasAvailable :: "UserOperation \<Rightarrow> int" where
  "GetMaxGasAvailable op = (let mul = (if uo_Paymaster op \<noteq> zero_address then 3 else 1) in
     uo_VerificationGasLimit op * mul + (uo_PreVerificationGas op + uo_CallGasLimit op))"

definition GetMaxPrefund :: "UserOperation \<Rightarrow> int" where
  "GetMaxPrefund op = GetMaxGasAvailable op * uo_MaxFeePerGas op"

definition GetDynamicGasPrice :: "UserOperation \<Rightarrow> int option \<Rightarrow> int" where
  "GetDynamicGasPrice op basefee = (let bf = (case basefee of None \<Rightarrow> 0 | Some b \<Rightarrow> b);
       gp = bf + uo_MaxPriorityFeePerGas op
     in if gp > uo_MaxFeePerGas op then uo_MaxFeePerGas op else gp)"

subsection \<open>Packing\<close>

definition packAccountGasLimits :: "int \<Rightarrow> int \<Rightarrow> bytes" where
  "packAccountGasLimits verificationGasLimit callGasLimit =
     left_pad 16 (big_Bytes verificationGasLimit) @ left_pad 16 (big_Bytes callGasLimit)"

definition packGasFees :: "int \<Rightarrow> int \<Rightarrow> bytes" where
  "packGasFees maxPriorityFeePerGas maxFeePerGas =
     left_pad 16 (big_Bytes maxPriorityFeePerGas) @ left_pad 16 (big_Bytes maxFeePerGas)"

definition packPaymasterData :: "eth_address \<Rightarrow> int \<Rightarrow> int \<Rightarrow> bytes \<Rightarrow> bytes" where
  "packPaymasterData paymaster verificationGasLimit postOpGasLimit paymasterData =
     paymaster @ left_pad 16 (big_Bytes verificationGasLimit) @ left_pad 16 (big_Bytes postOpGasLimit) @ paymasterData"

definition uo_Pack :: "UserOperation \<Rightarrow> PackedUserOperation res" where
  "uo_Pack op =
     (let accountGasLimits = packAccountGasLimits (uo_VerificationGasLimit op) (uo_CallGasLimit op) in
      if length accountGasLimits \<noteq> 32 then Panic (Msg ''accountGasLimits must be 32 bytes'')
      else let gasFees = packGasFees (uo_MaxPriorityFeePerGas op) (uo_MaxFeePerGas op) in
      if length gasFees \<noteq> 32 then Panic (Msg ''gasFees must be 32 bytes'')
      else let paymasterAndData = (if uo_Paymaster op \<noteq> zero_address
             then packPaymasterData (uo_Paymaster op) (uo_PaymasterVerificationGasLimit op)
               (uo_PaymasterPostOpGasLimit op) (uo_PaymasterData op)
             else []) in
      Ret \<lparr> pu_Sender = uo_Sender op, pu_Nonce = uo_Nonce op, pu_InitCode = uo_InitCode op, pu_CallData = uo_CallData op,
        pu_AccountGasLimits = BytesToHash accountGasLimits, pu_PreVerificationGas = uo_PreVerificationGas op,
        pu_GasFees = BytesToHash gasFees, pu_PaymasterAndData = paymasterAndData, pu_Signature = uo_Signature op \<rparr>)"

subsection \<open>Hashing and signing\<close>

definition EncodeForSignature :: "aa_lib \<Rightarrow> PackedUserOperation \<Rightarrow> bytes" where
  "EncodeForSignature al op =
     (case abi_Pack al [AbiAddress (pu_Sender op), AbiUint256 (pu_Nonce op),
        AbiBytes32 (Keccak256Hash al (pu_InitCode op)), AbiBytes32 (Keccak256Hash al (pu_CallData op)),
        AbiBytes32 (pu_AccountGasLimits op), AbiUint256 (pu_PreVerificationGas op), AbiBytes32 (pu_GasFees op),
        AbiBytes32 (Keccak256Hash al (pu_PaymasterAndData op))]
      of Inl _ \<Rightarrow> [] | Inr packed \<Rightarrow> packed)"

definition uo_Encode :: "aa_lib \<Rightarrow> UserOperation \<Rightarrow> bytes res" where
  "uo_Encode al op = res_bind (uo_Pack op) (\<lambda>packedUO.
     Ret (case abi_Pack al [AbiOp packedUO] of Inl _ \<Rightarrow> [] | Inr encoded \<Rightarrow> encoded))"

definition GetUserOpHash :: "aa_lib \<Rightarrow> eth_address \<Rightarrow> int \<Rightarrow> PackedUserOperation \<Rightarrow> bytes res" where
  "GetUserOpHash al entryPoint chainID op =
     (let userOpHash = Keccak256Hash al (EncodeForSignature al op) in
      res_bind (orPanic (abi_Pack al [AbiBytes32 userOpHash, AbiAddress entryPoint, AbiUint256 chainID]))
        (\<lambda>packed. Ret (Keccak256Hash al packed)))"

record signer =
  sg_entryPointAddress :: eth_address
  sg_chainID :: int
  sg_personalSignFn :: "eth_address \<Rightarrow> bytes \<Rightarrow> bytes go"
  sg_signerAddress :: eth_address

definition NewSigner ::
  "eth_address \<Rightarrow> int \<Rightarrow> (eth_address \<Rightarrow> bytes \<Rightarrow> bytes go) \<Rightarrow> eth_address \<Rightarrow> signer" where
  "NewSigner entryPointAddress chainID personalSignFn signerAddress =
     \<lparr> sg_entryPointAddress = entryPointAddress, sg_chainID = chainID, sg_personalSignFn = personalSignFn,
       sg_signerAddress = signerAddress \<rparr>"

definition LightAccountSignatureTypeEoa :: byte where
  "LightAccountSignatureTypeEoa = 0"

text \<open>The 65th byte is the recovery identifier; a shorter signature is an index out of range.\<close>

definition ecSigToRPC :: "bytes \<Rightarrow> bytes res" where
  "ecSigToRPC sig = (if length sig \<le> 64 then Panic (Msg ''runtime error: index out of range'')
     else Ret (sig[64 := sig ! 64 + 27]))"

text \<open>The text of a personal message, as bytes: the prefix, the length 32 in decimal, the hash.\<close>

definition ascii :: "string \<Rightarrow> bytes" where
  "ascii s = map of_char s"

definition personal_message :: "bytes \<Rightarrow> bytes" where
  "personal_message opHash =
     ascii (CHR 0x19 # ''Ethereum Signed Message:'' @ [CHR 0x0A] @ ''32'') @ take 32 opHash"

definition SignUserOperation ::
  "aa_lib \<Rightarrow> signer \<Rightarrow> UserOperation \<Rightarrow> (PackedUserOperation \<times> bytes) go res" where
  "SignUserOperation al s userOperation =
     res_bind (uo_Pack userOperation) (\<lambda>packedUO.
     res_bind (GetUserOpHash al (sg_entryPointAddress s) (sg_chainID s) packedUO) (\<lambda>opHash.
     case sg_personalSignFn s (sg_signerAddress s) (personal_message opHash) of
       Inl err \<Rightarrow> Ret (Inl (Wrap ''failed to sign user operation with personal signer'' err))
     | Inr uoSig \<Rightarrow> res_bind (ecSigToRPC uoSig) (\<lambda>sig.
         Ret (Inr (packedUO\<lparr>pu_Signature := LightAccountSignatureTypeEoa # sig\<rparr>, opHash)))))"

subsection \<open>JSON\<close>

definition json_object :: "(string \<times> string) list \<Rightarrow> string" where
  "json_object kvs = ''{'' @ str_join '','' (map (\<lambda>(k, v). go_quote k @ '':'' @ go_quote v) kvs) @ ''}''"

definition uo_fields :: "aa_lib \<Rightarrow> UserOperation \<Rightarrow> (string \<times> string) list" where
  "uo_fields al op =
     [(''sender'', address_String al (uo_Sender op)), (''nonce'', EncodeBig (uo_Nonce op)),
      (''initCode'', hexutil_Encode (uo_InitCode op)), (''callData'', hexutil_Encode (uo_CallData op)),
      (''callGasLimit'', EncodeBig (uo_CallGasLimit op)),
      (''verificationGasLimit'', EncodeBig (uo_VerificationGasLimit op)),
      (''preVerificationGas'', EncodeBig (uo_PreVerificationGas op)),
      (''maxFeePerGas'', EncodeBig (uo_MaxFeePerGas op)),
      (''maxPriorityFeePerGas'', EncodeBig (uo_MaxPriorityFeePerGas op)),
      (''paymaster'', address_String al (uo_Paymaster op)),
      (''paymasterVerificationGasLimit'', EncodeBig (uo_PaymasterVerificationGasLimit op)),
      (''paymasterPostOpGasLimit'', EncodeBig (uo_PaymasterPostOpGasLimit op)),
      (''paymasterData'', hexutil_Encode (uo_PaymasterData op)),
      (''signature'', hexutil_Encode (uo_Signature op))]"

definition uo_MarshalJSON :: "aa_lib \<Rightarrow> UserOperation \<Rightarrow> string" where
  "uo_MarshalJSON al op = json_object (uo_fields al op)"

definition pu_fields :: "aa_lib \<Rightarrow> PackedUserOperation \<Rightarrow> (string \<times> string) list" where
  "pu_fields al op =
     [(''sender'', address_String al (pu_Sender op)), (''nonce'', EncodeBig (pu_Nonce op)),
      (''initCode'', hexutil_Encode (pu_InitCode op)), (''callData'', hexutil_Encode (pu_CallData op)),
      (''accountGasLimits'', hexutil_Encode (pu_AccountGasLimits op)),
      (''preVerificationGas'', EncodeBig (pu_PreVerificationGas op)),
      (''gasFees'', hexutil_Encode (pu_GasFees op)),
      (''paymasterAndData'', hexutil_Encode (pu_PaymasterAndData op)),
      (''signature'', hexutil_Encode (pu_Signature op))]"

definition pu_MarshalJSON :: "aa_lib \<Rightarrow> PackedUserOperation \<Rightarrow> string" where
  "pu_MarshalJSON al op = json_object (pu_fields al op)"

text \<open>
  \<^verbatim>\<open>json.Unmarshal\<close> of an object of strings into a map: a member is two quoted strings around a
  colon; the escapes are those of a quote and a backslash. The last member of a key counts.
\<close>

fun scan_string :: "string \<Rightarrow> (string \<times> string) option" where
  "scan_string [] = None"
| "scan_string (c # s) =
     (if c = CHR 0x22 then Some ([], s)
      else if c = CHR 0x5C then (case s of [] \<Rightarrow> None
        | d # s' \<Rightarrow> if d = CHR 0x22 \<or> d = CHR 0x5C then map_option (\<lambda>(x, r). (d # x, r)) (scan_string s') else None)
      else map_option (\<lambda>(x, r). (c # x, r)) (scan_string s))"

definition scan_quoted :: "string \<Rightarrow> (string \<times> string) option" where
  "scan_quoted s = (case s of [] \<Rightarrow> None | c # r \<Rightarrow> if c = CHR 0x22 then scan_string r else None)"

definition scan_member :: "string \<Rightarrow> ((string \<times> string) \<times> string) option" where
  "scan_member s = Option.bind (scan_quoted s) (\<lambda>(k, r). case r of [] \<Rightarrow> None
     | c # r' \<Rightarrow> if c = CHR '':'' then map_option (\<lambda>(v, q). ((k, v), q)) (scan_quoted r') else None)"

fun scan_members :: "nat \<Rightarrow> string \<Rightarrow> (string \<times> string) list option" where
  "scan_members 0 s = None"
| "scan_members (Suc n) s = Option.bind (scan_member s) (\<lambda>(kv, r).
     if r = ''}'' then Some [kv]
     else case r of [] \<Rightarrow> None | c # r' \<Rightarrow> if c = CHR '','' then map_option ((#) kv) (scan_members n r') else None)"

definition json_strings :: "string \<Rightarrow> (string \<times> string) list go" where
  "json_strings s = (case s of
     c # r \<Rightarrow> if c = CHR ''{'' then
         (if r = ''}'' then Inr []
          else case scan_members (length r) r of None \<Rightarrow> Inl (Msg ''invalid character'') | Some kvs \<Rightarrow> Inr kvs)
       else Inl (Msg ''invalid character'')
   | [] \<Rightarrow> Inl (Msg ''unexpected end of JSON input''))"

definition uo_ToMap :: "aa_lib \<Rightarrow> UserOperation \<Rightarrow> (string \<rightharpoonup> string) go" where
  "uo_ToMap al op = go_bind (json_strings (uo_MarshalJSON al op)) (\<lambda>kvs. Inr (map_of (rev kvs)))"

definition pu_ToMap :: "aa_lib \<Rightarrow> PackedUserOperation \<Rightarrow> (string \<rightharpoonup> string) go" where
  "pu_ToMap al op = go_bind (json_strings (pu_MarshalJSON al op)) (\<lambda>kvs. Inr (map_of (rev kvs)))"

lemma scan_string_quoted: "scan_string (concat (map (\<lambda>c. if c = CHR 0x22 \<or> c = CHR 0x5C then [CHR 0x5C, c] else [c]) s)
    @ CHR 0x22 # r) = Some (s, r)"
  by (induction s) auto

lemma scan_quoted_quote [simp]: "scan_quoted (go_quote s @ r) = Some (s, r)"
  using scan_string_quoted [of s r] by (simp add: scan_quoted_def go_quote_def)

lemma scan_member_pair [simp]: "scan_member (go_quote k @ CHR '':'' # go_quote v @ r) = Some ((k, v), r)"
  by (simp add: scan_member_def)

lemma scan_members_list:
  assumes "length kvs \<le> n" and "kvs \<noteq> []"
  shows "scan_members n (str_join '','' (map (\<lambda>(k, v). go_quote k @ '':'' @ go_quote v) kvs) @ ''}'') = Some kvs"
  using assms
proof (induction kvs arbitrary: n)
  case (Cons kv kvs)
  obtain k v m where kv: "kv = (k, v)" and n: "n = Suc m" using Cons.prems by (cases kv; cases n) auto
  show ?case
  proof (cases kvs)
    case Nil
    then show ?thesis unfolding kv n by simp
  next
    case (Cons kv' kvs')
    have "length kvs \<le> m" using Cons.prems n by simp
    then show ?thesis using Cons.IH [of m] Cons unfolding kv n by simp
  qed
qed simp

lemma length_join: "length kvs \<le> length (str_join '','' (map (\<lambda>(k, v). go_quote k @ '':'' @ go_quote v) kvs) @ ''}'')"
  by (induction kvs rule: induct_list012) (auto simp: go_quote_def)

lemma json_strings_object: "json_strings (json_object kvs) = Inr kvs"
proof (cases "kvs = []")
  case False
  have "str_join '','' (map (\<lambda>(k, v). go_quote k @ '':'' @ go_quote v) kvs) @ ''}'' \<noteq> ''}''"
    using False by (induction kvs rule: induct_list012) (auto simp: go_quote_def)
  then show ?thesis
    using scan_members_list [OF length_join False] by (simp add: json_strings_def json_object_def)
qed (simp add: json_strings_def json_object_def)

subsection \<open>What the encodings promise\<close>


lemma length_padded_pair:
  "length (left_pad 16 (big_Bytes a) @ left_pad 16 (big_Bytes b)) = 32 \<longleftrightarrow> \<bar>a\<bar> < 2 ^ 128 \<and> \<bar>b\<bar> < 2 ^ 128"
proof -
  have fit: "length (big_Bytes x) \<le> 16 \<longleftrightarrow> \<bar>x\<bar> < 2 ^ 128" for x
    using length_be_bytes [of "nat \<bar>x\<bar>" 16] by (simp add: big_Bytes_def nat_less_iff)
  have "length (left_pad 16 bs) = max 16 (length bs)" for bs by (simp add: left_pad_def)
  then have "length (left_pad 16 (big_Bytes a) @ left_pad 16 (big_Bytes b)) = 32 \<longleftrightarrow>
      length (big_Bytes a) \<le> 16 \<and> length (big_Bytes b) \<le> 16" by auto
  then show ?thesis unfolding fit .
qed

lemma padded_halves:
  assumes "0 \<le> a" "a < 2 ^ 128" "0 \<le> b" "b < 2 ^ 128"
  shows "int (be_nat (take 16 (left_pad 16 (big_Bytes a) @ left_pad 16 (big_Bytes b)))) = a"
    and "int (be_nat (drop 16 (left_pad 16 (big_Bytes a) @ left_pad 16 (big_Bytes b)))) = b"
proof -
  have "length (big_Bytes a) \<le> 16"
    using assms length_be_bytes [of "nat \<bar>a\<bar>" 16] by (simp add: big_Bytes_def nat_less_iff)
  then have l: "length (left_pad 16 (big_Bytes a)) = 16" by (rule length_left_pad)
  show "int (be_nat (take 16 (left_pad 16 (big_Bytes a) @ left_pad 16 (big_Bytes b)))) = a"
    using assms(1) by (simp add: l) (simp add: left_pad_def big_Bytes_def)
  show "int (be_nat (drop 16 (left_pad 16 (big_Bytes a) @ left_pad 16 (big_Bytes b)))) = b"
    using assms(3) by (simp add: l) (simp add: left_pad_def big_Bytes_def)
qed


text \<open>
  What the ABI encoder documents of the static types: values in range are encoded, and different
  values of the same types differently.
\<close>

fun abi_static :: "abi_value \<Rightarrow> bool" where
  "abi_static (AbiAddress a) = (length a = 20)"
| "abi_static (AbiUint256 n) = (0 \<le> n \<and> n < 2 ^ 256)"
| "abi_static (AbiBytes32 b) = (length b = 32)"
| "abi_static _ = False"

fun abi_kind :: "abi_value \<Rightarrow> nat" where
  "abi_kind (AbiAddress a) = 0"
| "abi_kind (AbiUint256 n) = 1"
| "abi_kind (AbiBytes32 b) = 2"
| "abi_kind _ = 3"

definition abi_encodes_static :: "aa_lib \<Rightarrow> bool" where
  "abi_encodes_static al \<longleftrightarrow> (\<forall>vs ws. list_all abi_static vs \<longrightarrow> list_all abi_static ws \<longrightarrow>
     map abi_kind vs = map abi_kind ws \<longrightarrow> (\<exists>b. abi_Pack al vs = Inr b) \<and>
     (abi_Pack al vs = abi_Pack al ws \<longrightarrow> vs = ws))"

definition packed_ok :: "PackedUserOperation \<Rightarrow> bool" where
  "packed_ok op \<longleftrightarrow> length (pu_Sender op) = 20 \<and> 0 \<le> pu_Nonce op \<and> pu_Nonce op < 2 ^ 256 \<and>
     length (pu_AccountGasLimits op) = 32 \<and> 0 \<le> pu_PreVerificationGas op \<and> pu_PreVerificationGas op < 2 ^ 256 \<and>
     length (pu_GasFees op) = 32"

lemma EncodeForSignature_inj:
  assumes "abi_encodes_static al" and "\<forall>x. length (Keccak256Hash al x) = 32" and "packed_ok op" "packed_ok op'"
    and "EncodeForSignature al op = EncodeForSignature al op'"
  shows "pu_Sender op' = pu_Sender op \<and> pu_Nonce op' = pu_Nonce op \<and>
    Keccak256Hash al (pu_InitCode op') = Keccak256Hash al (pu_InitCode op) \<and>
    Keccak256Hash al (pu_CallData op') = Keccak256Hash al (pu_CallData op) \<and>
    pu_AccountGasLimits op' = pu_AccountGasLimits op \<and> pu_PreVerificationGas op' = pu_PreVerificationGas op \<and>
    pu_GasFees op' = pu_GasFees op \<and> Keccak256Hash al (pu_PaymasterAndData op') = Keccak256Hash al (pu_PaymasterAndData op)"
proof -
  let ?v = "\<lambda>op. [AbiAddress (pu_Sender op), AbiUint256 (pu_Nonce op),
        AbiBytes32 (Keccak256Hash al (pu_InitCode op)), AbiBytes32 (Keccak256Hash al (pu_CallData op)),
        AbiBytes32 (pu_AccountGasLimits op), AbiUint256 (pu_PreVerificationGas op), AbiBytes32 (pu_GasFees op),
        AbiBytes32 (Keccak256Hash al (pu_PaymasterAndData op))]"
  have st: "list_all abi_static (?v op)" "list_all abi_static (?v op')"
    using assms(2-4) by (simp_all add: packed_ok_def)
  obtain b b' where b: "abi_Pack al (?v op) = Inr b" "abi_Pack al (?v op') = Inr b'"
    using assms(1) st unfolding abi_encodes_static_def by metis
  with assms(5) have "abi_Pack al (?v op) = abi_Pack al (?v op')" by (simp add: EncodeForSignature_def)
  moreover have "map abi_kind (?v op) = map abi_kind (?v op')" by simp
  ultimately have "?v op = ?v op'" using assms(1) st unfolding abi_encodes_static_def by blast
  then show ?thesis by simp
qed


text \<open>C32: A signed operation carries the account's signature of its own hash: the hash returned is the one
  of the packed operation for the signer's entry point and chain, and the signature is the type byte of an
  externally owned account, then the signature of the personal message over that hash with 27 added to its
  recovery byte.\<close>

theorem signed_userop_signature:
  assumes "SignUserOperation al s op = Ret (Inr (p, h))"
  shows "GetUserOpHash al (sg_entryPointAddress s) (sg_chainID s) p = Ret h \<and>
    (\<exists>sig. sg_personalSignFn s (sg_signerAddress s) (personal_message h) = Inr sig \<and>
       pu_Signature p = 0 # sig[64 := sig ! 64 + 27] \<and> length (pu_Signature p) = Suc (length sig))"
proof -
  have "GetUserOpHash al ep cid (q\<lparr>pu_Signature := x\<rparr>) = GetUserOpHash al ep cid q" for q x ep cid
    by (simp add: GetUserOpHash_def EncodeForSignature_def)
  with assms show ?thesis
    by (auto simp: SignUserOperation_def ecSigToRPC_def LightAccountSignatureTypeEoa_def split: sum.splits if_splits)
qed

subsection \<open>A worked instance\<close>

text \<open>An encoder of the static types as 32-byte words, and a hash that keeps the first 32 bytes.\<close>

fun abi_word :: "abi_value \<Rightarrow> bytes" where
  "abi_word (AbiAddress a) = left_pad 32 a"
| "abi_word (AbiUint256 n) = left_pad 32 (big_Bytes n)"
| "abi_word (AbiBytes32 b) = b"
| "abi_word _ = []"

definition example_aa :: aa_lib where
  "example_aa = \<lparr> Keccak256Hash = (\<lambda>bs. left_pad 32 (take 32 bs)),
     abi_Pack = (\<lambda>vs. if list_all abi_static vs then Inr (concat (map abi_word vs)) else Inl (Msg ''abi: unsupported'')),
     address_String = hexutil_Encode \<rparr>"

lemma left_pad_inj: "left_pad n a = left_pad n b \<Longrightarrow> length a = length b \<Longrightarrow> a = b"
  by (simp add: left_pad_def)

lemma abi_word_static:
  assumes "abi_static v"
  shows "length (abi_word v) = 32" and "abi_static w \<Longrightarrow> abi_kind v = abi_kind w \<Longrightarrow> abi_word v = abi_word w \<Longrightarrow> v = w"
proof -
  have len: "0 \<le> n \<Longrightarrow> n < 2 ^ 256 \<Longrightarrow> length (big_Bytes n) \<le> 32" for n :: int
    using length_be_bytes [of "nat \<bar>n\<bar>" 32] by (simp add: big_Bytes_def nat_less_iff)
  show "length (abi_word v) = 32" using assms by (cases v) (auto simp: length_left_pad len)
  have val: "int (be_nat (left_pad 32 (big_Bytes n))) = n" if "0 \<le> n" for n
    using that by (simp add: left_pad_def big_Bytes_def)
  show "abi_static w \<Longrightarrow> abi_kind v = abi_kind w \<Longrightarrow> abi_word v = abi_word w \<Longrightarrow> v = w"
    using assms by (cases v; cases w) (auto dest: left_pad_inj, metis val)
qed

lemma abi_word_map_inj:
  assumes "list_all abi_static vs" "list_all abi_static ws" "map abi_kind vs = map abi_kind ws"
    "map abi_word vs = map abi_word ws"
  shows "vs = ws"
  using assms
proof (induction vs arbitrary: ws)
  case (Cons v vs)
  then obtain w us where ws: "ws = w # us" by (cases ws) auto
  with Cons have "v = w" by (intro abi_word_static(2)) simp_all
  with Cons ws show ?case by simp
qed simp

lemma example_aa_static: "abi_encodes_static example_aa"
proof -
  have "vs = ws" if "list_all abi_static vs" "list_all abi_static ws" "map abi_kind vs = map abi_kind ws"
      "concat (map abi_word vs) = concat (map abi_word ws)" for vs ws
  proof -
    have l: "length vs = length ws" using that(3) by (metis length_map)
    have "length (abi_word v) = 32" if "v \<in> set vs \<union> set ws" for v
      using that \<open>list_all abi_static vs\<close> \<open>list_all abi_static ws\<close> abi_word_static(1) by (auto simp: list_all_iff)
    then have "map abi_word vs = map abi_word ws"
      using that(4) l by (subst concat_eq_concat_iff [symmetric]) (auto simp: zip_map1 zip_map2, metis set_zip_leftD set_zip_rightD)
    with that show ?thesis by (intro abi_word_map_inj)
  qed
  then show ?thesis unfolding abi_encodes_static_def example_aa_def by auto
qed

definition example_op :: UserOperation where
  "example_op = \<lparr> uo_Sender = replicate 20 7, uo_Nonce = 3, uo_InitCode = [], uo_CallData = [1, 2], uo_CallGasLimit = 22000,
     uo_VerificationGasLimit = 75000, uo_PreVerificationGas = 21000, uo_MaxFeePerGas = 0, uo_MaxPriorityFeePerGas = 0,
     uo_Paymaster = zero_address, uo_PaymasterVerificationGasLimit = 300000, uo_PaymasterPostOpGasLimit = 0,
     uo_PaymasterData = [], uo_Signature = [] \<rparr>"

definition example_packed :: "bytes \<Rightarrow> PackedUserOperation" where
  "example_packed sig = \<lparr> pu_Sender = replicate 20 7, pu_Nonce = 3, pu_InitCode = [], pu_CallData = [1, 2],
     pu_AccountGasLimits = BytesToHash (packAccountGasLimits 75000 22000), pu_PreVerificationGas = 21000,
     pu_GasFees = BytesToHash (packGasFees 0 0), pu_PaymasterAndData = [], pu_Signature = sig \<rparr>"

lemma example_op_pack: "uo_Pack example_op = Ret (example_packed [])"
proof -
  have "length (packAccountGasLimits 75000 22000) = 32" "length (packGasFees 0 0) = 32"
    unfolding packAccountGasLimits_def packGasFees_def length_padded_pair by simp_all
  then show ?thesis by (simp add: uo_Pack_def example_op_def example_packed_def)
qed

lemma example_hash: "\<exists>h. length h = 32 \<and> (\<forall>sig. GetUserOpHash example_aa zero_address 1337 (example_packed sig) = Ret h)"
proof -
  have "length (Keccak256Hash example_aa x) = 32" for x by (simp add: example_aa_def length_left_pad)
  moreover obtain b where "abi_Pack example_aa [AbiBytes32 (Keccak256Hash example_aa (EncodeForSignature example_aa (example_packed []))),
      AbiAddress zero_address, AbiUint256 1337] = Inr b"
    using calculation by (simp add: example_aa_def zero_address_def length_left_pad)
  moreover from this have "GetUserOpHash example_aa zero_address 1337 (example_packed []) = Ret (Keccak256Hash example_aa b)"
    by (simp add: GetUserOpHash_def)
  moreover have "GetUserOpHash example_aa zero_address 1337 (example_packed sig)
      = GetUserOpHash example_aa zero_address 1337 (example_packed [])" for sig
    by (simp add: GetUserOpHash_def EncodeForSignature_def example_packed_def)
  ultimately show ?thesis by metis
qed



definition example_signer :: signer where
  "example_signer = NewSigner zero_address 1337 (\<lambda>a data. Inr (replicate 65 1)) zero_address"

theorem signed_userop_signature_witness:
  "\<exists>p h. SignUserOperation example_aa example_signer example_op = Ret (Inr (p, h)) \<and>
    GetUserOpHash example_aa zero_address 1337 p = Ret h \<and> pu_Signature p = 0 # (replicate 65 1)[64 := 28]"
proof -
  obtain h where h: "\<And>sig. GetUserOpHash example_aa zero_address 1337 (example_packed sig) = Ret h"
    using example_hash by blast
  have run: "SignUserOperation example_aa example_signer example_op
      = Ret (Inr ((example_packed [])\<lparr>pu_Signature := 0 # (replicate 65 1)[64 := 28]\<rparr>, h))"
    using h [of "[]"] by (simp add: SignUserOperation_def example_op_pack example_signer_def NewSigner_def ecSigToRPC_def
        LightAccountSignatureTypeEoa_def)
  from signed_userop_signature [OF run] run show ?thesis by (simp add: example_signer_def NewSigner_def)
qed

end
