(* ===== verification/Contract_Abi.thy ===== *)
theory Contract_Abi
  imports User_Op
begin

text \<open>
  The interfaces of the contracts as the generated bindings under \<^verbatim>\<open>eth/solidity\<close> carry them: the JSON of
  a \<^verbatim>\<open>MetaData\<close> is the list of its entries. The methods of an interface have the names under which
  go-ethereum registers them, where an overloaded one gets a number, and \<open>accepts\<close> is its check of the Go
  types of the arguments.
\<close>

subsection \<open>Interfaces\<close>

datatype abi_type =
    TAddress
  | TUint nat
  | TBool
  | TString
  | TBytes
  | TFixed nat
  | TArray abi_type
  | TTuple "abi_type list"

type_synonym abi_params = "(string \<times> abi_type) list"

text \<open>The inputs of an event are marked when they are indexed.\<close>

datatype abi_entry =
    AbiConstructor abi_params
  | AbiReceive
  | AbiFunction string abi_params abi_params
  | AbiEvent string "(string \<times> abi_type \<times> bool) list"
  | AbiError string abi_params

record MetaData =
  MetaData_ABI :: "abi_entry list"
  MetaData_Bin :: string

text \<open>The struct of a packed user operation in the interfaces of the entry point and the accounts.\<close>

definition packed_op_type :: abi_type where
  "packed_op_type = TTuple [TAddress, TUint 256, TBytes, TBytes, TFixed 32, TUint 256, TFixed 32, TBytes, TBytes]"

definition deposit_info_type :: abi_type where
  "deposit_info_type = TTuple [TUint 256, TBool, TUint 112, TUint 32, TUint 48]"

subsection \<open>Names of methods\<close>

text \<open>The first of the names \<open>m\<close>, \<open>m0\<close>, \<open>m1\<close>, \dots\ that is not taken.\<close>

fun free_name :: "string list \<Rightarrow> string \<Rightarrow> nat \<Rightarrow> nat \<Rightarrow> string" where
  "free_name used m k 0 = m @ itoa (int k)"
| "free_name used m k (Suc n) = (if m @ itoa (int k) \<in> set used then free_name used m (Suc k) n else m @ itoa (int k))"

definition overloaded_name :: "string list \<Rightarrow> string \<Rightarrow> string" where
  "overloaded_name used m = (if m \<in> set used then free_name used m 0 (length used) else m)"

fun methods_from :: "(string \<times> abi_type list \<times> abi_type list) list \<Rightarrow> abi_entry list \<Rightarrow> (string \<times> abi_type list \<times> abi_type list) list" where
  "methods_from ms [] = ms"
| "methods_from ms (AbiFunction m ins outs # es) =
     methods_from (ms @ [(overloaded_name (map fst ms) m, map snd ins, map snd outs)]) es"
| "methods_from ms (_ # es) = methods_from ms es"

definition abi_methods :: "MetaData \<Rightarrow> (string \<times> abi_type list \<times> abi_type list) list" where
  "abi_methods md = methods_from [] (MetaData_ABI md)"

fun event_types :: "abi_entry list \<Rightarrow> string \<Rightarrow> abi_type list option" where
  "event_types [] ev = None"
| "event_types (AbiEvent e ins # es) ev = (if e = ev then Some (map (\<lambda>(n, t, i). t) ins) else event_types es ev)"
| "event_types (_ # es) ev = event_types es ev"

subsection \<open>Go types\<close>

text \<open>A Go value of the type that go-ethereum uses for a type of the interface.\<close>

fun go_typed :: "abi_value \<Rightarrow> abi_type \<Rightarrow> bool" where
  "go_typed (AbiAddress a) t \<longleftrightarrow> t = TAddress"
| "go_typed (AbiUint256 n) t \<longleftrightarrow> (case t of TUint w \<Rightarrow> w \<notin> {8, 16, 32, 64} | _ \<Rightarrow> False)"
| "go_typed (AbiUint32 n) t \<longleftrightarrow> t = TUint 32"
| "go_typed (AbiUint64 n) t \<longleftrightarrow> t = TUint 64"
| "go_typed (AbiBool b) t \<longleftrightarrow> t = TBool"
| "go_typed (AbiString s) t \<longleftrightarrow> t = TString"
| "go_typed (AbiBytes b) t \<longleftrightarrow> t = TBytes"
| "go_typed (AbiBytes32 b) t \<longleftrightarrow> t = TFixed 32"
| "go_typed (AbiBytesN n b) t \<longleftrightarrow> t = TFixed n \<and> n \<noteq> 32"
| "go_typed (AbiAddresses as) t \<longleftrightarrow> t = TArray TAddress"
| "go_typed (AbiUint256s ns) t \<longleftrightarrow> t = TArray (TUint 256)"
| "go_typed (AbiBytess bs) t \<longleftrightarrow> t = TArray TBytes"
| "go_typed (AbiOp u) t \<longleftrightarrow> t = packed_op_type"
| "go_typed (AbiOps us) t \<longleftrightarrow> t = TArray packed_op_type"
| "go_typed (AbiOpsPerAggregator us) t \<longleftrightarrow> t = TArray (TTuple [TArray packed_op_type, TAddress, TBytes])"
| "go_typed (AbiDepositInfo d) t \<longleftrightarrow> t = deposit_info_type"

definition all_typed :: "abi_value list \<Rightarrow> abi_type list \<Rightarrow> bool" where
  "all_typed vs ts \<longleftrightarrow> list_all2 go_typed vs ts"

text \<open>What the encoder takes: a method of the interface and arguments of its types.\<close>

definition accepts :: "MetaData \<Rightarrow> string \<Rightarrow> abi_value list \<Rightarrow> bool" where
  "accepts md m vs \<longleftrightarrow> (case map_of (abi_methods md) m of None \<Rightarrow> False | Some (ins, outs) \<Rightarrow> all_typed vs ins)"

definition returns :: "MetaData \<Rightarrow> string \<Rightarrow> abi_value list \<Rightarrow> bool" where
  "returns md m vs \<longleftrightarrow> (case map_of (abi_methods md) m of None \<Rightarrow> False | Some (ins, outs) \<Rightarrow> all_typed vs outs)"

lemma all_typed_simps [simp]:
  "all_typed [] []" "\<not> all_typed (v # vs) []" "\<not> all_typed [] (t # ts)"
  "all_typed (v # vs) (t # ts) \<longleftrightarrow> go_typed v t \<and> all_typed vs ts"
  by (simp_all add: all_typed_def)

lemma all_typed_Nil [simp]: "all_typed vs [] \<longleftrightarrow> vs = []"
  by (cases vs) simp_all

lemma all_typed_Cons: "all_typed vs (t # ts) \<longleftrightarrow> (\<exists>w ws. vs = w # ws \<and> go_typed w t \<and> all_typed ws ts)"
  by (cases vs) simp_all

text \<open>The decoded value of a type.\<close>

lemma go_typed_iff [simp]:
  "go_typed v TAddress \<longleftrightarrow> (\<exists>a. v = AbiAddress a)" "go_typed v TBool \<longleftrightarrow> (\<exists>b. v = AbiBool b)"
  "go_typed v TString \<longleftrightarrow> (\<exists>s. v = AbiString s)" "go_typed v TBytes \<longleftrightarrow> (\<exists>b. v = AbiBytes b)"
  "go_typed v (TArray (TUint 256)) \<longleftrightarrow> (\<exists>ns. v = AbiUint256s ns)"
  "go_typed v deposit_info_type \<longleftrightarrow> (\<exists>d. v = AbiDepositInfo d)"
  "go_typed v (TFixed n) \<longleftrightarrow> (\<exists>b. v = (if n = 32 then AbiBytes32 b else AbiBytesN n b))"
  "go_typed v (TUint w) \<longleftrightarrow> w \<notin> {8, 16} \<and>
     (if w = 32 then \<exists>n. v = AbiUint32 n else if w = 64 then \<exists>n. v = AbiUint64 n else \<exists>n. v = AbiUint256 n)"
  by (cases v; auto simp add: packed_op_type_def deposit_info_type_def)+

end
