(* ===== verification/Eth_Client.thy ===== *)
theory Eth_Client
  imports Payload_Base User_Op
begin

text \<open>
  The wrapper of the Ethereum client, \<^verbatim>\<open>eth/client/ethclient.go\<close>: sending a transaction and returning its
  hash, and the function that completes, signs and sends a contract transaction. The node behind the
  connection answers through the parameter \<open>eth_node\<close>, whose state every call may change; \<open>'s\<close> is a
  signed transaction.
\<close>

record CallMsg =
  cm_From :: eth_address
  cm_To :: "eth_address option"
  cm_GasPrice :: int
  cm_Value :: int
  cm_Data :: bytes

record ('s, 'w) eth_node =
  PendingNonceAt :: "eth_address \<Rightarrow> 'w \<Rightarrow> uint64 go \<times> 'w"
  SuggestGasPrice :: "'w \<Rightarrow> int go \<times> 'w"
  PendingCodeAt :: "eth_address \<Rightarrow> 'w \<Rightarrow> bytes go \<times> 'w"
  EstimateGas :: "CallMsg \<Rightarrow> 'w \<Rightarrow> uint64 go \<times> 'w"
  sendRawTransaction :: "string \<Rightarrow> 'w \<Rightarrow> bytes go \<times> 'w"
  rlp_EncodeToBytes :: "'s \<Rightarrow> bytes go"

record 's TransactOpts =
  to_From :: eth_address
  to_Nonce :: "int option"
  to_Signer :: "(eth_address \<Rightarrow> LegacyTx \<Rightarrow> 's go) option"
  to_Value :: "int option"
  to_GasPrice :: "int option"
  to_GasLimit :: uint64

text \<open>A call that may fail, followed by another: the state passes on, the first error ends the sequence.\<close>

definition then_call :: "('w \<Rightarrow> 'a go \<times> 'w) \<Rightarrow> ('a \<Rightarrow> 'w \<Rightarrow> 'b go \<times> 'w) \<Rightarrow> 'w \<Rightarrow> 'b go \<times> 'w" where
  "then_call f g w = (case f w of (Inl err, w1) \<Rightarrow> (Inl err, w1) | (Inr x, w1) \<Rightarrow> g x w1)"

definition pure_call :: "'a go \<Rightarrow> 'w \<Rightarrow> 'a go \<times> 'w" where
  "pure_call r w = (r, w)"

text \<open>\<^verbatim>\<open>errors.Errorf\<close> with the text of the error.\<close>

definition explain :: "string \<Rightarrow> ('w \<Rightarrow> 'a go \<times> 'w) \<Rightarrow> 'w \<Rightarrow> 'a go \<times> 'w" where
  "explain what f w = (case f w of (Inl err, w1) \<Rightarrow> (Inl (Msg (what @ '': '' @ error_text err)), w1) | (Inr x, w1) \<Rightarrow> (Inr x, w1))"

definition ErrNoCode :: go_error where
  "ErrNoCode = Sentinel ''no contract code at given address''"

definition SendTransactionWithRet :: "('s, 'w) eth_node \<Rightarrow> 's \<Rightarrow> 'w \<Rightarrow> bytes go \<times> 'w" where
  "SendTransactionWithRet p tx =
     then_call (pure_call (rlp_EncodeToBytes p tx)) (\<lambda>data. sendRawTransaction p (hexutil_Encode data))"

definition resolve_nonce :: "('s, 'w) eth_node \<Rightarrow> 's TransactOpts \<Rightarrow> 'w \<Rightarrow> uint64 go \<times> 'w" where
  "resolve_nonce p opts = (case to_Nonce opts of
     None \<Rightarrow> explain ''failed to retrieve account nonce'' (PendingNonceAt p (to_From opts))
   | Some n \<Rightarrow> pure_call (Inr (word_of_int \<bar>n\<bar>)))"

definition resolve_gas_price :: "('s, 'w) eth_node \<Rightarrow> 's TransactOpts \<Rightarrow> 'w \<Rightarrow> int go \<times> 'w" where
  "resolve_gas_price p opts = (case to_GasPrice opts of
     None \<Rightarrow> explain ''failed to suggest gas price'' (SuggestGasPrice p)
   | Some g \<Rightarrow> pure_call (Inr g))"

definition resolve_gas_limit ::
  "('s, 'w) eth_node \<Rightarrow> 's TransactOpts \<Rightarrow> eth_address \<Rightarrow> eth_address option \<Rightarrow> int \<Rightarrow> int \<Rightarrow> bytes \<Rightarrow> 'w \<Rightarrow> uint64 go \<times> 'w" where
  "resolve_gas_limit p opts contractAddress contract value gasPrice input =
     (if to_GasLimit opts = 0
      then then_call (if contract \<noteq> None
               then then_call (PendingCodeAt p contractAddress) (\<lambda>code. pure_call (if code = [] then Inl ErrNoCode else Inr ()))
               else pure_call (Inr ()))
             (\<lambda>_. explain ''failed to estimate gas needed'' (EstimateGas p
               \<lparr> cm_From = to_From opts, cm_To = contract, cm_GasPrice = gasPrice, cm_Value = value, cm_Data = input \<rparr>))
      else pure_call (Inr (to_GasLimit opts)))"

definition NewContractCreation :: "uint64 \<Rightarrow> int \<Rightarrow> uint64 \<Rightarrow> int \<Rightarrow> bytes \<Rightarrow> LegacyTx" where
  "NewContractCreation nonce amount gasLimit gasPrice data =
     \<lparr> Nonce = nonce, To = None, Value = amount, Gas = gasLimit, GasPrice = gasPrice, Data = data \<rparr>"

definition NewTransaction :: "uint64 \<Rightarrow> eth_address \<Rightarrow> int \<Rightarrow> uint64 \<Rightarrow> int \<Rightarrow> bytes \<Rightarrow> LegacyTx" where
  "NewTransaction nonce to amount gasLimit gasPrice data =
     \<lparr> Nonce = nonce, To = Some to, Value = amount, Gas = gasLimit, GasPrice = gasPrice, Data = data \<rparr>"

definition sign_and_send :: "('s, 'w) eth_node \<Rightarrow> 's TransactOpts \<Rightarrow> LegacyTx \<Rightarrow> 'w \<Rightarrow> ('s \<times> bytes) go \<times> 'w" where
  "sign_and_send p opts rawTx = (case to_Signer opts of
     None \<Rightarrow> pure_call (Inl (Msg ''no signer to authorize the transaction with''))
   | Some sg \<Rightarrow> then_call (pure_call (sg (to_From opts) rawTx)) (\<lambda>signedTx.
       then_call (SendTransactionWithRet p signedTx) (\<lambda>txHash. pure_call (Inr (signedTx, txHash)))))"

text \<open>The transaction with its nonce, gas and price settled; the address in it is the one of the closure.\<close>

definition complete_tx ::
  "('s, 'w) eth_node \<Rightarrow> eth_address \<Rightarrow> 's TransactOpts \<Rightarrow> eth_address option \<Rightarrow> bytes \<Rightarrow> 'w \<Rightarrow> LegacyTx go \<times> 'w" where
  "complete_tx p contractAddress opts contract input =
     (let value = (case to_Value opts of None \<Rightarrow> 0 | Some v \<Rightarrow> v) in
      then_call (resolve_nonce p opts) (\<lambda>nonce.
      then_call (resolve_gas_price p opts) (\<lambda>gasPrice.
      then_call (resolve_gas_limit p opts contractAddress contract value gasPrice input) (\<lambda>gasLimit.
      pure_call (Inr (if contract = None then NewContractCreation nonce value gasLimit gasPrice input
        else NewTransaction nonce contractAddress value gasLimit gasPrice input))))))"

definition TransactFn ::
  "('s, 'w) eth_node \<Rightarrow> eth_address \<Rightarrow> 's TransactOpts \<Rightarrow> eth_address option \<Rightarrow> bytes \<Rightarrow> bytes \<times> 'w \<Rightarrow> 's go \<times> (bytes \<times> 'w)" where
  "TransactFn p contractAddress opts contract input = (\<lambda>(txHashOut, w).
     case then_call (complete_tx p contractAddress opts contract input) (sign_and_send p opts) w of
       (Inl err, w1) \<Rightarrow> (Inl err, (txHashOut, w1))
     | (Inr (signedTx, txHash), w1) \<Rightarrow> (Inr signedTx, (txHash, w1)))"

subsection \<open>What is sent\<close>

lemma then_call_Inr [simp]: "then_call f g w = (Inr y, w') \<longleftrightarrow> (\<exists>x w1. f w = (Inr x, w1) \<and> g x w1 = (Inr y, w'))"
  by (auto simp: then_call_def split: prod.split sum.split)

lemma pure_call_eq [simp]: "pure_call r w = (x, w') \<longleftrightarrow> r = x \<and> w' = w"
  by (auto simp: pure_call_def)

lemma complete_tx_fields:
  assumes "complete_tx p addr opts contract input w = (Inr tx, w')"
  shows "Data tx = input \<and> Value tx = (case to_Value opts of None \<Rightarrow> 0 | Some v \<Rightarrow> v) \<and> To tx = (if contract = None then None else Some addr) \<and>
    (\<forall>n. to_Nonce opts = Some n \<longrightarrow> Nonce tx = word_of_int \<bar>n\<bar>) \<and> (\<forall>g. to_GasPrice opts = Some g \<longrightarrow> GasPrice tx = g) \<and>
    (to_GasLimit opts \<noteq> 0 \<longrightarrow> Gas tx = to_GasLimit opts)"
  using assms
  by (auto simp: complete_tx_def Let_def NewContractCreation_def NewTransaction_def resolve_nonce_def resolve_gas_price_def
    resolve_gas_limit_def split: if_splits)

text \<open>C39: A transaction that is reported as sent is the requested one: its data and value are those given, it creates a
  contract exactly when no contract is named and otherwise goes to the bound address, every option that was
  set (nonce, gas price, gas limit) is kept; what the node received is the signer's signature of it, and the
  hash handed out is the node's answer.\<close>

theorem transact_sends_requested:
  assumes "TransactFn p addr opts contract input (h, w) = (Inr stx, (h', w'))"
  shows "\<exists>sg tx data w1. to_Signer opts = Some sg \<and> sg (to_From opts) tx = Inr stx \<and>
    Data tx = input \<and> Value tx = (case to_Value opts of None \<Rightarrow> 0 | Some v \<Rightarrow> v) \<and> To tx = (if contract = None then None else Some addr) \<and>
    (\<forall>n. to_Nonce opts = Some n \<longrightarrow> Nonce tx = word_of_int \<bar>n\<bar>) \<and> (\<forall>g. to_GasPrice opts = Some g \<longrightarrow> GasPrice tx = g) \<and>
    (to_GasLimit opts \<noteq> 0 \<longrightarrow> Gas tx = to_GasLimit opts) \<and>
    rlp_EncodeToBytes p stx = Inr data \<and> sendRawTransaction p (hexutil_Encode data) w1 = (Inr h', w')"
proof -
  obtain tx w1 where tx: "complete_tx p addr opts contract input w = (Inr tx, w1)"
      and send: "sign_and_send p opts tx w1 = (Inr (stx, h'), w')"
    using assms by (auto simp: TransactFn_def split: prod.split_asm sum.split_asm)
  from send obtain sg data where "to_Signer opts = Some sg" "sg (to_From opts) tx = Inr stx"
      "rlp_EncodeToBytes p stx = Inr data" "sendRawTransaction p (hexutil_Encode data) w1 = (Inr h', w')"
    by (auto simp: sign_and_send_def SendTransactionWithRet_def split: option.split_asm)
  with complete_tx_fields [OF tx] show ?thesis by blast
qed

text \<open>A call that fails leaves the caller's hash as it was; and a call to a contract without code, when the gas has
  to be estimated, fails before anything is signed or sent.\<close>

theorem transact_failure:
  "(\<forall>e. TransactFn p addr opts contract input (h, w) = (Inl e, (h', w')) \<longrightarrow> h' = h) \<and>
   (to_GasLimit opts = 0 \<and> contract \<noteq> None \<and> resolve_nonce p opts w = (Inr n, w1) \<and> resolve_gas_price p opts w1 = (Inr g, w2) \<and>
      PendingCodeAt p addr w2 = (Inr [], w3) \<longrightarrow>
    TransactFn p addr opts contract input (h, w) = (Inl ErrNoCode, (h, w3)))"
  by (auto simp: TransactFn_def complete_tx_def resolve_gas_limit_def then_call_def pure_call_def Let_def split: prod.split_asm sum.split_asm)

subsection \<open>A worked instance\<close>

definition example_eth_node :: "(LegacyTx, nat) eth_node" where
  "example_eth_node = \<lparr> PendingNonceAt = (\<lambda>a w. (Inr 7, w + 1)), SuggestGasPrice = (\<lambda>w. (Inr 5, w + 1)),
     PendingCodeAt = (\<lambda>a w. (Inr (if a = [0] then [] else [96]), w + 1)), EstimateGas = (\<lambda>m w. (Inr 21000, w + 1)),
     sendRawTransaction = (\<lambda>s w. (Inr [of_nat w], w + 1)), rlp_EncodeToBytes = (\<lambda>t. Inr (Data t)) \<rparr>"

definition example_opts :: "LegacyTx TransactOpts" where
  "example_opts = \<lparr> to_From = [3], to_Nonce = None, to_Signer = Some (\<lambda>a t. Inr t), to_Value = None, to_GasPrice = Some 9, to_GasLimit = 0 \<rparr>"

lemmas example_transact_defs = TransactFn_def complete_tx_def resolve_nonce_def resolve_gas_price_def resolve_gas_limit_def
  sign_and_send_def SendTransactionWithRet_def then_call_def pure_call_def explain_def NewTransaction_def
  example_eth_node_def example_opts_def Let_def

lemma example_transact:
  "TransactFn example_eth_node [1] example_opts (Some [1]) [8] ([], 0) =
    (Inr \<lparr> Nonce = 7, To = Some [1], Value = 0, Gas = 21000, GasPrice = 9, Data = [8] \<rparr>, ([3], 4))"
  by (simp add: example_transact_defs)

theorem transact_sends_requested_witness:
  "\<exists>sg tx w1. to_Signer example_opts = Some sg \<and> sg [3] tx = Inr \<lparr> Nonce = 7, To = Some [1], Value = 0, Gas = 21000, GasPrice = 9, Data = [8] \<rparr> \<and>
    Data tx = [8] \<and> To tx = Some [1] \<and> GasPrice tx = 9 \<and> sendRawTransaction example_eth_node (hexutil_Encode [8]) w1 = (Inr [3], 4)"
  using transact_sends_requested [OF example_transact] by (auto simp: example_opts_def example_eth_node_def)

theorem transact_failure_witness:
  "TransactFn example_eth_node [0] example_opts (Some [0]) [8] ([2], 0) = (Inl ErrNoCode, ([2], 2))"
  using transact_failure [of example_eth_node "[0]" example_opts "Some [0]" "[8]" "[2]" 0 "[2]" 2 7 1 9 1 2]
  by (simp add: resolve_nonce_def resolve_gas_price_def explain_def pure_call_def example_eth_node_def example_opts_def)

end
