(* ===== verification/Contract_Binding.thy ===== *)
theory Contract_Binding
  imports Contract_Abi Eth_Client
begin

text \<open>
  What all generated bindings under \<^verbatim>\<open>eth/solidity\<close> have in common: the structs around a bound contract,
  the shape of a call with its conversion of the results, sessions, the iterator over the logs of an event
  and the forwarding of a subscription. The code repeats these for every contract and event; the structs
  of two contracts have the same fields, so they share the records here, and the iterators share one
  definition that takes the conversion into the event's struct. A struct with the bound contract as its
  only field (\<^verbatim>\<open>CounterCaller\<close>, \<^verbatim>\<open>CounterTransactor\<close>, \<^verbatim>\<open>CounterFilterer\<close>) is that contract. The package
  \<^verbatim>\<open>bind\<close> of go-ethereum is the parameter \<open>bind_lib\<close>.
\<close>

named_theorems binding_defs \<open>definitions of the methods of the bindings\<close>

subsection \<open>The library\<close>

type_synonym abi_encoder = "string \<Rightarrow> abi_value list \<Rightarrow> bytes go"

text \<open>A missing backend is a nil interface.\<close>

record 'b BoundContract =
  bc_address :: eth_address
  bc_abi :: abi_encoder
  bc_caller :: "'b option"
  bc_transactor :: "'b option"
  bc_filterer :: "'b option"

record CallOpts =
  co_Pending :: bool
  co_From :: eth_address
  co_BlockNumber :: "int option"

record FilterOpts =
  fo_Start :: uint64
  fo_End :: "uint64 option"

record WatchOpts =
  wo_Start :: "uint64 option"

record Log =
  log_Address :: eth_address
  log_Topics :: "bytes list"
  log_Data :: bytes

text \<open>
  The subscription that a filter query returns: the logs that are still to be received, one after
  the other, and what its error channel yields when the producer has ended.
\<close>

record subscription =
  sub_logs :: "Log list"
  sub_err :: "go_error option"

record ('b, 's) bind_lib =
  GetAbi :: "MetaData \<Rightarrow> abi_encoder go"
  bound_Call :: "'b BoundContract \<Rightarrow> CallOpts \<Rightarrow> string \<Rightarrow> abi_value list \<Rightarrow> abi_value list go"
  bound_Transact :: "'b BoundContract \<Rightarrow> 's TransactOpts \<Rightarrow> string \<Rightarrow> abi_value list \<Rightarrow> 's go"
  bound_RawTransact :: "'b BoundContract \<Rightarrow> 's TransactOpts \<Rightarrow> bytes \<Rightarrow> 's go"
  bound_Transfer :: "'b BoundContract \<Rightarrow> 's TransactOpts \<Rightarrow> 's go"
  FilterLogs :: "'b BoundContract \<Rightarrow> FilterOpts \<Rightarrow> string \<Rightarrow> abi_value list list \<Rightarrow> subscription go"
  WatchLogs :: "'b BoundContract \<Rightarrow> WatchOpts \<Rightarrow> string \<Rightarrow> abi_value list list \<Rightarrow> unit go"
  UnpackLog :: "'b BoundContract \<Rightarrow> string \<Rightarrow> Log \<Rightarrow> abi_value list go"
  DeployContract :: "'s TransactOpts \<Rightarrow> abi_encoder \<Rightarrow> bytes \<Rightarrow> 'b \<Rightarrow> (eth_address \<times> 's \<times> 'b BoundContract) go"
  tx_Hash :: "'s \<Rightarrow> bytes"

definition NewBoundContract ::
  "eth_address \<Rightarrow> abi_encoder \<Rightarrow> 'b option \<Rightarrow> 'b option \<Rightarrow> 'b option \<Rightarrow> 'b BoundContract" where
  "NewBoundContract address parsed caller transactor filterer = \<lparr> bc_address = address, bc_abi = parsed,
     bc_caller = caller, bc_transactor = transactor, bc_filterer = filterer \<rparr>"

subsection \<open>Structs of a binding\<close>

record 'b Binding =
  Caller :: "'b BoundContract"
  Transactor :: "'b BoundContract"
  Filterer :: "'b BoundContract"

record ('b, 's) Session =
  se_Contract :: "'b Binding"
  se_CallOpts :: CallOpts
  se_TransactOpts :: "'s TransactOpts"

record 'b CallerSession =
  cs_Contract :: "'b BoundContract"
  cs_CallOpts :: CallOpts

record ('b, 's) TransactorSession =
  ts_Contract :: "'b BoundContract"
  ts_TransactOpts :: "'s TransactOpts"

definition whole_binding :: "'b BoundContract \<Rightarrow> 'b Binding" where
  "whole_binding contract = \<lparr> Caller = contract, Transactor = contract, Filterer = contract \<rparr>"

type_synonym ('b, 's, 'a) call = "('b, 's) bind_lib \<Rightarrow> 'b BoundContract \<Rightarrow> CallOpts \<Rightarrow> 'a"
type_synonym ('b, 's, 'a) transact = "('b, 's) bind_lib \<Rightarrow> 'b BoundContract \<Rightarrow> 's TransactOpts \<Rightarrow> 'a"
type_synonym ('b, 's, 'a) in_session = "('b, 's) bind_lib \<Rightarrow> ('b, 's) Session \<Rightarrow> 'a"
type_synonym ('b, 's, 'a) in_caller_session = "('b, 's) bind_lib \<Rightarrow> 'b CallerSession \<Rightarrow> 'a"
type_synonym ('b, 's, 'a) in_transactor_session = "('b, 's) bind_lib \<Rightarrow> ('b, 's) TransactorSession \<Rightarrow> 'a"

text \<open>The untyped access of the \<^verbatim>\<open>Raw\<close> structs.\<close>

definition Raw_Call :: "('b, 's) bind_lib \<Rightarrow> 'b Binding \<Rightarrow> CallOpts \<Rightarrow> string \<Rightarrow> abi_value list \<Rightarrow> abi_value list go" where
  "Raw_Call lib b opts = bound_Call lib (Caller b) opts"

definition Raw_Transfer :: "('b, 's) bind_lib \<Rightarrow> 'b Binding \<Rightarrow> 's TransactOpts \<Rightarrow> 's go" where
  "Raw_Transfer lib b opts = bound_Transfer lib (Transactor b) opts"

definition Raw_Transact :: "('b, 's) bind_lib \<Rightarrow> 'b Binding \<Rightarrow> 's TransactOpts \<Rightarrow> string \<Rightarrow> abi_value list \<Rightarrow> 's go" where
  "Raw_Transact lib b opts = bound_Transact lib (Transactor b) opts"

definition CallerRaw_Call :: "('b, 's, string \<Rightarrow> abi_value list \<Rightarrow> abi_value list go) call" where
  "CallerRaw_Call lib c opts = bound_Call lib c opts"

definition TransactorRaw_Transfer :: "('b, 's, 's go) transact" where
  "TransactorRaw_Transfer lib c opts = bound_Transfer lib c opts"

definition TransactorRaw_Transact :: "('b, 's, string \<Rightarrow> abi_value list \<Rightarrow> 's go) transact" where
  "TransactorRaw_Transact lib c opts = bound_Transact lib c opts"

subsection \<open>Results of a call\<close>

text \<open>
  \<^verbatim>\<open>*abi.ConvertType(out[k], new(T)).(*T)\<close>: an index out of range and a value of another type panic.
\<close>

definition convert_panic :: "'a res" where
  "convert_panic = Panic (Msg ''interface conversion'')"

definition out_at :: "(abi_value \<Rightarrow> 'a option) \<Rightarrow> abi_value list \<Rightarrow> nat \<Rightarrow> 'a res" where
  "out_at conv out k = (if k < length out
     then (case conv (out ! k) of None \<Rightarrow> convert_panic | Some x \<Rightarrow> Ret x) else index_panic)"

definition as_bigInt :: "abi_value \<Rightarrow> int option" where
  "as_bigInt v = (case v of AbiUint256 n \<Rightarrow> Some n | _ \<Rightarrow> None)"

definition as_address :: "abi_value \<Rightarrow> eth_address option" where
  "as_address v = (case v of AbiAddress a \<Rightarrow> Some a | _ \<Rightarrow> None)"

definition as_bytes32 :: "abi_value \<Rightarrow> bytes option" where
  "as_bytes32 v = (case v of AbiBytes32 b \<Rightarrow> Some b | _ \<Rightarrow> None)"

definition as_bytesN :: "nat \<Rightarrow> abi_value \<Rightarrow> bytes option" where
  "as_bytesN n v = (case v of AbiBytesN m b \<Rightarrow> if m = n then Some b else None | _ \<Rightarrow> None)"

definition as_bytes :: "abi_value \<Rightarrow> bytes option" where
  "as_bytes v = (case v of AbiBytes b \<Rightarrow> Some b | _ \<Rightarrow> None)"

definition as_bool :: "abi_value \<Rightarrow> bool option" where
  "as_bool v = (case v of AbiBool b \<Rightarrow> Some b | _ \<Rightarrow> None)"

definition as_string :: "abi_value \<Rightarrow> string option" where
  "as_string v = (case v of AbiString s \<Rightarrow> Some s | _ \<Rightarrow> None)"

definition as_uint64 :: "abi_value \<Rightarrow> uint64 option" where
  "as_uint64 v = (case v of AbiUint64 n \<Rightarrow> Some n | _ \<Rightarrow> None)"

definition as_bigInts :: "abi_value \<Rightarrow> int list option" where
  "as_bigInts v = (case v of AbiUint256s ns \<Rightarrow> Some ns | _ \<Rightarrow> None)"

definition as_depositInfo :: "abi_value \<Rightarrow> IStakeManagerDepositInfo option" where
  "as_depositInfo v = (case v of AbiDepositInfo d \<Rightarrow> Some d | _ \<Rightarrow> None)"

lemmas as_defs = as_bigInt_def as_address_def as_bytes32_def as_bytesN_def as_bytes_def as_bool_def as_string_def
  as_uint64_def as_bigInts_def as_depositInfo_def

text \<open>A read-only method: the error of the call, or the converted results.\<close>

definition read_call ::
  "('b, 's) bind_lib \<Rightarrow> 'b BoundContract \<Rightarrow> CallOpts \<Rightarrow> string \<Rightarrow> abi_value list \<Rightarrow> (abi_value list \<Rightarrow> 'a res) \<Rightarrow> 'a go res" where
  "read_call lib c opts m params conv = (case bound_Call lib c opts m params of
     Inl err \<Rightarrow> Ret (Inl err)
   | Inr out \<Rightarrow> res_bind (conv out) (\<lambda>x. Ret (Inr x)))"

subsection \<open>What the library promises\<close>

text \<open>
  The interface parses, and the encoder takes what \<open>accepts\<close> admits. \<open>refused\<close> are the errors of the node
  and of the options: a call of a method of the interface, with arguments of its types, returns values of
  the types of its results or one of these errors; a transaction likewise is made or refused.
\<close>

definition encodes :: "MetaData \<Rightarrow> abi_encoder \<Rightarrow> bool" where
  "encodes md enc \<longleftrightarrow> (\<forall>m vs. accepts md m vs \<longrightarrow> (\<exists>data. enc m vs = Inr data))"

definition parses :: "('b, 's) bind_lib \<Rightarrow> MetaData \<Rightarrow> bool" where
  "parses lib md \<longleftrightarrow> (\<exists>enc. GetAbi lib md = Inr enc \<and> encodes md enc)"

definition bound_to :: "('b, 's) bind_lib \<Rightarrow> MetaData \<Rightarrow> 'b BoundContract \<Rightarrow> bool" where
  "bound_to lib md c \<longleftrightarrow> GetAbi lib md = Inr (bc_abi c)"

definition serves :: "(go_error \<Rightarrow> bool) \<Rightarrow> ('b, 's) bind_lib \<Rightarrow> MetaData \<Rightarrow> bool" where
  "serves refused lib md \<longleftrightarrow> (\<forall>c m vs. bound_to lib md c \<longrightarrow> accepts md m vs \<longrightarrow>
     (\<forall>opts. case bound_Call lib c opts m vs of Inl err \<Rightarrow> refused err | Inr out \<Rightarrow> returns md m out) \<and>
     (\<forall>opts. case bound_Transact lib c opts m vs of Inl err \<Rightarrow> refused err | Inr tx \<Rightarrow> True))"

text \<open>The outcomes a method of a binding may then have: a value or a refusal, never a panic.\<close>

definition answered :: "(go_error \<Rightarrow> bool) \<Rightarrow> 'a go res \<Rightarrow> bool" where
  "answered refused r \<longleftrightarrow> (case r of Ret (Inl err) \<Rightarrow> refused err | Ret (Inr x) \<Rightarrow> True | Panic e \<Rightarrow> False)"

definition sent_or_refused :: "(go_error \<Rightarrow> bool) \<Rightarrow> 's go \<Rightarrow> bool" where
  "sent_or_refused refused r \<longleftrightarrow> (case r of Inl err \<Rightarrow> refused err | Inr tx \<Rightarrow> True)"

lemma read_call_answered:
  assumes "serves refused lib md" and "bound_to lib md c" and "accepts md m vs"
    and "\<And>out. returns md m out \<Longrightarrow> \<exists>x. conv out = Ret x"
  shows "answered refused (read_call lib c opts m vs conv)"
proof -
  have "case bound_Call lib c opts m vs of Inl err \<Rightarrow> refused err | Inr out \<Rightarrow> returns md m out"
    using assms(1-3) unfolding serves_def by blast
  then show ?thesis
    by (cases "bound_Call lib c opts m vs") (auto simp: read_call_def answered_def dest!: assms(4))
qed

lemma transact_answered:
  assumes "serves refused lib md" and "bound_to lib md c" and "accepts md m vs"
  shows "sent_or_refused refused (bound_Transact lib c opts m vs)"
  using assms by (simp add: serves_def sent_or_refused_def)

end
