(* ===== verification/Event_Logs.thy ===== *)
theory Event_Logs
  imports Contract_Binding "HOL-Library.Sublist"
begin

text \<open>
  The events of a binding: the iterator that a \<^verbatim>\<open>Filter\<close> method returns, with its \<^verbatim>\<open>Next\<close>, \<^verbatim>\<open>Error\<close> and
  \<^verbatim>\<open>Close\<close>, and the goroutine of a \<^verbatim>\<open>Watch\<close> method that forwards events to a channel. The generated code has a
  copy per event; \<open>into\<close> makes the struct of an event from the unpacked values and the raw log.
\<close>

type_synonym 'e into = "abi_value list \<Rightarrow> Log \<Rightarrow> 'e option"

definition unpack_event ::
  "('b, 's) bind_lib \<Rightarrow> 'e into \<Rightarrow> 'b BoundContract \<Rightarrow> string \<Rightarrow> Log \<Rightarrow> 'e go" where
  "unpack_event lib into c event log = go_bind (UnpackLog lib c event log) (\<lambda>vs.
     case into vs log of None \<Rightarrow> Inl (Msg ''abi: cannot unmarshal event'') | Some e \<Rightarrow> Inr e)"

named_theorems event_structs \<open>the structs of events, made from the unpacked values\<close>

text \<open>The values of an event of the interface always make its struct.\<close>

definition fits :: "MetaData \<Rightarrow> string \<Rightarrow> 'e into \<Rightarrow> bool" where
  "fits md event into \<longleftrightarrow> (\<forall>ts vs log. event_types (MetaData_ABI md) event = Some ts \<longrightarrow> all_typed vs ts \<longrightarrow>
     into vs log \<noteq> None)"

subsection \<open>Iterators\<close>

record ('b, 'e) Iterator =
  it_Event :: "'e option"
  it_contract :: "'b BoundContract"
  it_event :: string
  it_sub :: subscription
  it_done :: bool
  it_fail :: "go_error option"

definition new_iterator :: "'b BoundContract \<Rightarrow> string \<Rightarrow> subscription \<Rightarrow> ('b, 'e) Iterator" where
  "new_iterator c event sub = \<lparr> it_Event = None, it_contract = c, it_event = event, it_sub = sub, it_done = False, it_fail = None \<rparr>"

text \<open>A received log: unpacked into the event, or the end of the iteration, where the partly filled struct that the
  code leaves in the iterator counts as no event.\<close>

definition deliver :: "('b, 's) bind_lib \<Rightarrow> 'e into \<Rightarrow> Log \<Rightarrow> ('b, 'e) Iterator \<Rightarrow> bool \<times> ('b, 'e) Iterator" where
  "deliver lib into log it = (case unpack_event lib into (it_contract it) (it_event it) log of
     Inl err \<Rightarrow> (False, it\<lparr>it_Event := None, it_fail := Some err\<rparr>)
   | Inr e \<Rightarrow> (True, it\<lparr>it_Event := Some e\<rparr>))"

text \<open>
  The log channel of a filter query is buffered, so the producer may have ended, and the error channel be
  ready, while logs are left. The \<^verbatim>\<open>select\<close> then takes either; \<open>early\<close> is that choice: the end of the
  subscription is received before the remaining logs.
\<close>

function Iterator_Next :: "('b, 's) bind_lib \<Rightarrow> 'e into \<Rightarrow> bool \<Rightarrow> ('b, 'e) Iterator \<Rightarrow> bool \<times> ('b, 'e) Iterator" where
  "Iterator_Next lib into early it =
     (if it_fail it \<noteq> None then (False, it)
      else if it_done it then (case sub_logs (it_sub it) of
          log # logs \<Rightarrow> deliver lib into log (it\<lparr>it_sub := (it_sub it)\<lparr>sub_logs := logs\<rparr>\<rparr>)
        | [] \<Rightarrow> (False, it))
      else case sub_logs (it_sub it) of
          log # logs \<Rightarrow>
            if early then Iterator_Next lib into early (it\<lparr>it_done := True, it_fail := sub_err (it_sub it)\<rparr>)
            else deliver lib into log (it\<lparr>it_sub := (it_sub it)\<lparr>sub_logs := logs\<rparr>\<rparr>)
        | [] \<Rightarrow> Iterator_Next lib into early (it\<lparr>it_done := True, it_fail := sub_err (it_sub it)\<rparr>))"
  by pat_completeness auto
termination by (relation "measure (\<lambda>(lib, into, early, it). if it_done it then 0 else 1)") auto

declare Iterator_Next.simps [simp del]

definition Iterator_Error :: "('b, 'e) Iterator \<Rightarrow> go_error option" where
  "Iterator_Error it = it_fail it"

text \<open>\<^verbatim>\<open>Unsubscribe\<close> stops the producer: only the logs that are in the channel's buffer are left.\<close>

definition Iterator_Close :: "nat \<Rightarrow> ('b, 'e) Iterator \<Rightarrow> ('b, 'e) Iterator" where
  "Iterator_Close buffered it = it\<lparr>it_sub := \<lparr> sub_logs = take buffered (sub_logs (it_sub it)), sub_err = None \<rparr>\<rparr>"

lemma Next_failed [simp]: "it_fail it = Some e \<Longrightarrow> Iterator_Next lib into early it = (False, it)"
  by (simp add: Iterator_Next.simps)

text \<open>With an error channel that is only closed, the choice of the \<^verbatim>\<open>select\<close> shows in the flag alone.\<close>

lemma Next_log:
  "it_fail it = None \<Longrightarrow> sub_err (it_sub it) = None \<Longrightarrow> sub_logs (it_sub it) = log # logs \<Longrightarrow>
    Iterator_Next lib into early it =
      deliver lib into log (it\<lparr>it_done := it_done it \<or> early, it_sub := (it_sub it)\<lparr>sub_logs := logs\<rparr>\<rparr>)"
  by (cases it; cases "it_done it"; cases early) (simp_all add: Iterator_Next.simps)

lemma Next_end:
  "it_fail it = None \<Longrightarrow> sub_logs (it_sub it) = [] \<Longrightarrow> Iterator_Next lib into early it =
    (False, if it_done it then it else it\<lparr>it_done := True, it_fail := sub_err (it_sub it)\<rparr>)"
  by (subst Iterator_Next.simps, cases "sub_err (it_sub it)") (simp_all add: Iterator_Next.simps)

lemma deliver_shrinks:
  "deliver lib into log it = (True, it') \<Longrightarrow> it_sub it' = it_sub it \<and> it_Event it' \<noteq> None"
  by (auto simp: deliver_def split: sum.splits)

lemma Next_shrinks:
  "Iterator_Next lib into early it = (True, it') \<Longrightarrow> length (sub_logs (it_sub it')) < length (sub_logs (it_sub it))"
proof (induction lib into early it rule: Iterator_Next.induct)
  case (1 lib into early it)
  then show ?case
    by (subst (asm) (3) Iterator_Next.simps) (auto dest!: deliver_shrinks split: if_split_asm list.split_asm)
qed

text \<open>The loop over an iterator: the events it delivers, and the iterator after them; \<open>early n\<close> is the choice
  made while \<open>n\<close> logs are left.\<close>

function drain :: "('b, 's) bind_lib \<Rightarrow> 'e into \<Rightarrow> (nat \<Rightarrow> bool) \<Rightarrow> ('b, 'e) Iterator \<Rightarrow> 'e list \<times> ('b, 'e) Iterator" where
  "drain lib into early it = (case Iterator_Next lib into (early (length (sub_logs (it_sub it)))) it of
     (False, it') \<Rightarrow> ([], it')
   | (True, it') \<Rightarrow> (case it_Event it' of
         None \<Rightarrow> ([], it')
       | Some e \<Rightarrow> apfst ((#) e) (drain lib into early it')))"
  by pat_completeness auto
termination by (relation "measure (\<lambda>(lib, into, early, it). length (sub_logs (it_sub it)))") (auto dest!: Next_shrinks [OF sym])

declare drain.simps [simp del]

text \<open>The reference: the events of the logs up to the first that does not unpack, and the error.\<close>

fun unpack_all :: "(Log \<Rightarrow> 'e go) \<Rightarrow> Log list \<Rightarrow> 'e list \<times> go_error option" where
  "unpack_all unpack [] = ([], None)"
| "unpack_all unpack (log # logs) = (case unpack log of
     Inl e \<Rightarrow> ([], Some e)
   | Inr x \<Rightarrow> apfst ((#) x) (unpack_all unpack logs))"

lemma drain_open:
  assumes "it_fail it = None" and "sub_err (it_sub it) = None"
  shows "apsnd Iterator_Error (drain lib into early it) =
      unpack_all (unpack_event lib into (it_contract it) (it_event it)) (sub_logs (it_sub it)) \<and>
    Iterator_Next lib into b (snd (drain lib into early it)) = (False, snd (drain lib into early it))"
  using assms
proof (induction "sub_logs (it_sub it)" arbitrary: it)
  case Nil
  then show ?case by (simp add: drain.simps [of lib into early it] Next_end Iterator_Error_def)
next
  case (Cons log logs)
  let ?it = "it\<lparr>it_done := it_done it \<or> early (length (sub_logs (it_sub it))), it_sub := (it_sub it)\<lparr>sub_logs := logs\<rparr>\<rparr>"
  have "Iterator_Next lib into (early (length (sub_logs (it_sub it)))) it = deliver lib into log ?it"
    using Cons by (intro Next_log) simp_all
  note next_it = this Cons.hyps(2) [symmetric] Cons.prems
  show ?case
  proof (cases "unpack_event lib into (it_contract it) (it_event it) log")
    case (Inl err)
    with next_it show ?thesis by (simp add: drain.simps [of lib into early it] deliver_def Iterator_Error_def)
  next
    case (Inr e)
    obtain es it' where rest: "drain lib into early (?it\<lparr>it_Event := Some e\<rparr>) = (es, it')" by force
    have "logs = sub_logs (it_sub (?it\<lparr>it_Event := Some e\<rparr>))" by simp
    from Cons.hyps(1) [OF this] rest next_it
    have "unpack_all (unpack_event lib into (it_contract it) (it_event it)) logs = (es, Iterator_Error it')"
      "Iterator_Next lib into b it' = (False, it')" by simp_all
    with rest Inr next_it show ?thesis by (simp add: drain.simps [of lib into early it] deliver_def)
  qed
qed

subsection \<open>Forwarding\<close>

text \<open>
  The goroutine of a \<^verbatim>\<open>Watch\<close> method: it waits for a log, offers the event to the channel, or has returned.
  Beside it the node may send logs, end the subscription, and the client may quit. \<open>ws_arrived\<close> records the
  logs sent by the node, \<open>ws_seen\<close> those unpacked, \<open>ws_sink\<close> the events forwarded.
\<close>

datatype 'e watch_phase = Waiting | Offering 'e | Returned "go_error option"

record 'e watch_state =
  ws_phase :: "'e watch_phase"
  ws_logs :: "Log list"
  ws_ended :: "go_error option option"
  ws_quit :: bool
  ws_arrived :: "Log list"
  ws_seen :: "Log list"
  ws_sink :: "'e list"

text \<open>A \<^verbatim>\<open>Watch\<close> method returns its goroutine: the steps it may take and its first state.\<close>

type_synonym 'e watcher = "('e watch_state \<Rightarrow> 'e watch_state \<Rightarrow> bool) \<times> 'e watch_state"

definition watch_start :: "'e watch_state" where
  "watch_start = \<lparr> ws_phase = Waiting, ws_logs = [], ws_ended = None, ws_quit = False, ws_arrived = [], ws_seen = [], ws_sink = [] \<rparr>"

definition running :: "'e watch_state \<Rightarrow> bool" where
  "running s \<longleftrightarrow> (case ws_phase s of Returned _ \<Rightarrow> False | _ \<Rightarrow> True)"

inductive watch_step :: "(Log \<Rightarrow> 'e go) \<Rightarrow> 'e watch_state \<Rightarrow> 'e watch_state \<Rightarrow> bool" for unpack where
  arrive: "watch_step unpack s (s\<lparr>ws_logs := ws_logs s @ [log], ws_arrived := ws_arrived s @ [log]\<rparr>)"
| ends: "ws_ended s = None \<Longrightarrow> watch_step unpack s (s\<lparr>ws_ended := Some err\<rparr>)"
| quit: "watch_step unpack s (s\<lparr>ws_quit := True\<rparr>)"
| event: "ws_phase s = Waiting \<Longrightarrow> ws_logs s = log # logs \<Longrightarrow> unpack log = Inr e \<Longrightarrow>
     watch_step unpack s (s\<lparr>ws_phase := Offering e, ws_logs := logs, ws_seen := ws_seen s @ [log]\<rparr>)"
| bad_log: "ws_phase s = Waiting \<Longrightarrow> ws_logs s = log # logs \<Longrightarrow> unpack log = Inl err \<Longrightarrow>
     watch_step unpack s (s\<lparr>ws_phase := Returned (Some err)\<rparr>)"
| forward: "ws_phase s = Offering e \<Longrightarrow> watch_step unpack s (s\<lparr>ws_phase := Waiting, ws_sink := ws_sink s @ [e]\<rparr>)"
| sub_ended: "running s \<Longrightarrow> ws_ended s = Some err \<Longrightarrow> watch_step unpack s (s\<lparr>ws_phase := Returned err\<rparr>)"
| stopped: "running s \<Longrightarrow> ws_quit s \<Longrightarrow> watch_step unpack s (s\<lparr>ws_phase := Returned None\<rparr>)"

text \<open>The forwarded events, with the one on offer, are those of the logs unpacked, in their order; once
  the goroutine has returned, the one on offer may be missing.\<close>

definition in_flight :: "'e watch_state \<Rightarrow> 'e list set" where
  "in_flight s = (case ws_phase s of Waiting \<Rightarrow> {[]} | Offering e \<Rightarrow> {[e]} | Returned _ \<Rightarrow> insert [] (range (\<lambda>e. [e])))"

definition watch_inv :: "(Log \<Rightarrow> 'e go) \<Rightarrow> 'e watch_state \<Rightarrow> bool" where
  "watch_inv unpack s \<longleftrightarrow> ws_arrived s = ws_seen s @ ws_logs s \<and>
     (\<exists>es \<in> in_flight s. map unpack (ws_seen s) = map Inr (ws_sink s @ es))"

lemma watch_step_inv: "watch_step unpack s s' \<Longrightarrow> watch_inv unpack s \<Longrightarrow> watch_inv unpack s'"
  by (induction rule: watch_step.induct) (auto simp: watch_inv_def in_flight_def running_def split: watch_phase.splits)

lemma watch_reach_inv: "(watch_step unpack)\<^sup>*\<^sup>* watch_start s \<Longrightarrow> watch_inv unpack s"
proof (induction rule: rtranclp_induct)
  case base
  show ?case by (simp add: watch_inv_def in_flight_def watch_start_def)
qed (blast intro: watch_step_inv)

subsection \<open>What the loops deliver\<close>

text \<open>C29: Iterating over a filter query delivers exactly the events of the logs the node returned, each once and in
  their order, up to the first log that does not unpack, whichever ready channel each \<^verbatim>\<open>select\<close> takes;
  afterwards the iterator reports the error of that log, if any, and never delivers again. (The producer of a filter query
  only closes its error channel.)\<close>

theorem iterator_yields_logs:
  assumes "sub_err sub = None"
  shows "apsnd Iterator_Error (drain lib into early (new_iterator c event sub))
     = unpack_all (unpack_event lib into c event) (sub_logs sub) \<and>
   Iterator_Next lib into b (snd (drain lib into early (new_iterator c event sub)))
     = (False, snd (drain lib into early (new_iterator c event sub)))"
  using drain_open [of "new_iterator c event sub" lib into early b] assms by (simp add: new_iterator_def)

text \<open>A query with two logs, the second of which has no data and does not unpack.\<close>

definition some_log :: "bytes \<Rightarrow> Log" where
  "some_log d = \<lparr> log_Address = zero_address, log_Topics = [], log_Data = d \<rparr>"

definition two_logs :: subscription where
  "two_logs = \<lparr> sub_logs = [some_log [1], some_log []], sub_err = None \<rparr>"

definition log_lib :: "(unit, unit) bind_lib" where
  "log_lib = \<lparr> GetAbi = (\<lambda>md. Inr (\<lambda>m vs. Inr [])), bound_Call = (\<lambda>c opts m vs. Inr []), bound_Transact = (\<lambda>c opts m vs. Inr ()),
     bound_RawTransact = (\<lambda>c opts d. Inr ()), bound_Transfer = (\<lambda>c opts. Inr ()), FilterLogs = (\<lambda>c opts e q. Inr two_logs),
     WatchLogs = (\<lambda>c opts e q. Inr ()),
     UnpackLog = (\<lambda>c e log. if log_Data log = [] then Inl (Msg ''no data'') else Inr []),
     DeployContract = (\<lambda>opts a d b. Inl (Msg ''no node'')), tx_Hash = (\<lambda>t. []) \<rparr>"

theorem iterator_yields_logs_witness:
  "sub_err two_logs = None \<and>
   apsnd Iterator_Error (drain log_lib (\<lambda>vs log. Some (log_Data log)) (\<lambda>n. n = 1)
     (new_iterator (NewBoundContract zero_address (\<lambda>m vs. Inr []) None None None) ''Decreased'' two_logs))
     = ([[1]], Some (Msg ''no data''))"
  using iterator_yields_logs [of two_logs log_lib "\<lambda>vs log. Some (log_Data log)" "\<lambda>n. n = 1"
      "NewBoundContract zero_address (\<lambda>m vs. Inr []) None None None" "''Decreased''" False]
  by (simp add: two_logs_def log_lib_def some_log_def unpack_event_def)

text \<open>C30: Whatever happens meanwhile (more logs, the end of the subscription, the client's quit), the events that
  reached the client's channel are those of the first logs the node sent, in their order and without a gap, and
  at most one unpacked log has not been forwarded.\<close>

theorem watch_forwards_in_order:
  assumes "(watch_step unpack)\<^sup>*\<^sup>* watch_start s"
  shows "map unpack (take (length (ws_sink s)) (ws_arrived s)) = map Inr (ws_sink s) \<and>
    length (ws_seen s) \<le> Suc (length (ws_sink s)) \<and> prefix (ws_seen s) (ws_arrived s)"
proof -
  from watch_reach_inv [OF assms] obtain es where inv: "ws_arrived s = ws_seen s @ ws_logs s" "es \<in> in_flight s"
      "map unpack (ws_seen s) = map Inr (ws_sink s @ es)"
    by (auto simp: watch_inv_def)
  from inv(3) have len: "length (ws_seen s) = length (ws_sink s) + length es" by (metis length_append length_map)
  moreover have "length es \<le> 1" using inv(2) by (auto simp: in_flight_def split: watch_phase.splits)
  moreover have "map unpack (take (length (ws_sink s)) (ws_seen s)) = map Inr (ws_sink s)"
    using arg_cong [OF inv(3), of "take (length (ws_sink s))"] by (simp add: take_map)
  ultimately show ?thesis using inv(1) by simp
qed

definition one_log :: Log where
  "one_log = some_log [1]"

definition forwarded_state :: "bytes watch_state" where
  "forwarded_state = \<lparr> ws_phase = Waiting, ws_logs = [], ws_ended = None, ws_quit = False, ws_arrived = [one_log], ws_seen = [one_log],
     ws_sink = [[1]] \<rparr>"

theorem watch_forwards_in_order_witness:
  "(watch_step (\<lambda>log. Inr (log_Data log)))\<^sup>*\<^sup>* watch_start forwarded_state \<and>
   take (length (ws_sink forwarded_state)) (ws_arrived forwarded_state) = [one_log] \<and>
   length (ws_seen forwarded_state) \<le> 2"
proof -
  let ?u = "\<lambda>log. Inr (log_Data log) :: bytes go"
  let ?s1 = "watch_start\<lparr>ws_logs := [one_log], ws_arrived := [one_log]\<rparr>"
  let ?s2 = "?s1\<lparr>ws_phase := Offering [1], ws_logs := [], ws_seen := [one_log]\<rparr>"
  have s1: "watch_step ?u watch_start ?s1" using arrive [of ?u watch_start one_log] by (simp add: watch_start_def)
  have s2: "watch_step ?u ?s1 ?s2" using event [of ?s1 one_log "[]" ?u "[1]"] by (simp add: watch_start_def one_log_def some_log_def)
  have s3: "watch_step ?u ?s2 forwarded_state"
    using forward [of ?s2 "[1]" ?u] by (simp add: watch_start_def forwarded_state_def)
  have run: "(watch_step ?u)\<^sup>*\<^sup>* watch_start forwarded_state"
    using s1 s2 s3 by (blast intro: converse_rtranclp_into_rtranclp)
  from watch_forwards_in_order [OF this] run show ?thesis by (simp add: forwarded_state_def)
qed

end
