(* ===== verification/Binding_Entry_Point.thy ===== *)
theory Binding_Entry_Point
  imports Event_Logs
begin

text \<open>
  The generated binding of the entry point of account abstraction, \<^verbatim>\<open>eth/solidity/IEntryPoint/IEntryPoint.go\<close>, method by method: calls, transactions,
  their forms in a session, and the events. Accounts ask it for their nonce and their deposit.
\<close>

definition IEntryPointMetaData :: MetaData where
  "IEntryPointMetaData = \<lparr> MetaData_ABI = [
     AbiFunction ''addStake'' [(''_unstakeDelaySec'', TUint 32)] [],
     AbiFunction ''balanceOf'' [(''account'', TAddress)] [('''', TUint 256)],
     AbiFunction ''delegateAndRevert'' [(''target'', TAddress), (''data'', TBytes)] [],
     AbiFunction ''depositTo'' [(''account'', TAddress)] [],
     AbiFunction ''getDepositInfo'' [(''account'', TAddress)] [(''info'', deposit_info_type)],
     AbiFunction ''getNonce'' [(''sender'', TAddress), (''key'', TUint 192)] [(''nonce'', TUint 256)],
     AbiFunction ''getSenderAddress'' [(''initCode'', TBytes)] [],
     AbiFunction ''getUserOpHash'' [(''userOp'', packed_op_type)] [('''', TFixed 32)],
     AbiFunction ''handleAggregatedOps'' [(''opsPerAggregator'', TArray (TTuple [TArray packed_op_type, TAddress, TBytes])), (''beneficiary'', TAddress)] [],
     AbiFunction ''handleOps'' [(''ops'', TArray packed_op_type), (''beneficiary'', TAddress)] [],
     AbiFunction ''incrementNonce'' [(''key'', TUint 192)] [],
     AbiFunction ''unlockStake'' [] [],
     AbiFunction ''withdrawStake'' [(''withdrawAddress'', TAddress)] [],
     AbiFunction ''withdrawTo'' [(''withdrawAddress'', TAddress), (''withdrawAmount'', TUint 256)] [],
     AbiEvent ''AccountDeployed'' [(''userOpHash'', TFixed 32, True), (''sender'', TAddress, True), (''factory'', TAddress, False), (''paymaster'', TAddress, False)],
     AbiEvent ''BeforeExecution'' [],
     AbiEvent ''Deposited'' [(''account'', TAddress, True), (''totalDeposit'', TUint 256, False)],
     AbiEvent ''PostOpRevertReason'' [(''userOpHash'', TFixed 32, True), (''sender'', TAddress, True), (''nonce'', TUint 256, False), (''revertReason'', TBytes, False)],
     AbiEvent ''SignatureAggregatorChanged'' [(''aggregator'', TAddress, True)],
     AbiEvent ''StakeLocked'' [(''account'', TAddress, True), (''totalStaked'', TUint 256, False), (''unstakeDelaySec'', TUint 256, False)],
     AbiEvent ''StakeUnlocked'' [(''account'', TAddress, True), (''withdrawTime'', TUint 256, False)],
     AbiEvent ''StakeWithdrawn'' [(''account'', TAddress, True), (''withdrawAddress'', TAddress, False), (''amount'', TUint 256, False)],
     AbiEvent ''UserOperationEvent'' [(''userOpHash'', TFixed 32, True), (''sender'', TAddress, True), (''paymaster'', TAddress, True), (''nonce'', TUint 256, False), (''success'', TBool, False), (''actualGasCost'', TUint 256, False), (''actualGasUsed'', TUint 256, False)],
     AbiEvent ''UserOperationPrefundTooLow'' [(''userOpHash'', TFixed 32, True), (''sender'', TAddress, True), (''nonce'', TUint 256, False)],
     AbiEvent ''UserOperationRevertReason'' [(''userOpHash'', TFixed 32, True), (''sender'', TAddress, True), (''nonce'', TUint 256, False), (''revertReason'', TBytes, False)],
     AbiEvent ''Withdrawn'' [(''account'', TAddress, True), (''withdrawAddress'', TAddress, False), (''amount'', TUint 256, False)],
     AbiError ''DelegateAndRevert'' [(''success'', TBool), (''ret'', TBytes)],
     AbiError ''FailedOp'' [(''opIndex'', TUint 256), (''reason'', TString)],
     AbiError ''FailedOpWithRevert'' [(''opIndex'', TUint 256), (''reason'', TString), (''inner'', TBytes)],
     AbiError ''PostOpReverted'' [(''returnData'', TBytes)],
     AbiError ''SenderAddressResult'' [(''sender'', TAddress)],
     AbiError ''SignatureValidationFailed'' [(''aggregator'', TAddress)]],
     MetaData_Bin = [] \<rparr>"

definition bindIEntryPoint ::
  "('b, 's) bind_lib \<Rightarrow> eth_address \<Rightarrow> 'b option \<Rightarrow> 'b option \<Rightarrow> 'b option \<Rightarrow> 'b BoundContract go" where
  "bindIEntryPoint lib address caller transactor filterer = go_bind (GetAbi lib IEntryPointMetaData) (\<lambda>parsed.
     Inr (NewBoundContract address parsed caller transactor filterer))"

definition NewIEntryPoint :: "('b, 's) bind_lib \<Rightarrow> eth_address \<Rightarrow> 'b \<Rightarrow> 'b Binding go" where
  "NewIEntryPoint lib address backend =
     go_bind (bindIEntryPoint lib address (Some backend) (Some backend) (Some backend)) (\<lambda>contract. Inr (whole_binding contract))"

definition NewIEntryPointCaller :: "('b, 's) bind_lib \<Rightarrow> eth_address \<Rightarrow> 'b \<Rightarrow> 'b BoundContract go" where
  "NewIEntryPointCaller lib address caller = bindIEntryPoint lib address (Some caller) None None"

definition NewIEntryPointTransactor :: "('b, 's) bind_lib \<Rightarrow> eth_address \<Rightarrow> 'b \<Rightarrow> 'b BoundContract go" where
  "NewIEntryPointTransactor lib address transactor = bindIEntryPoint lib address None (Some transactor) None"

definition NewIEntryPointFilterer :: "('b, 's) bind_lib \<Rightarrow> eth_address \<Rightarrow> 'b \<Rightarrow> 'b BoundContract go" where
  "NewIEntryPointFilterer lib address filterer = bindIEntryPoint lib address None None (Some filterer)"

definition IEntryPointCaller_BalanceOf :: "('b, 's, eth_address \<Rightarrow> int go res) call" where [binding_defs]:
  "IEntryPointCaller_BalanceOf lib c opts account =
     read_call lib c opts ''balanceOf'' [AbiAddress account] (\<lambda>out. out_at as_bigInt out 0)"

definition IEntryPointSession_BalanceOf :: "('b, 's, eth_address \<Rightarrow> int go res) in_session" where
  "IEntryPointSession_BalanceOf lib s account =
     IEntryPointCaller_BalanceOf lib (Caller (se_Contract s)) (se_CallOpts s) account"

definition IEntryPointCallerSession_BalanceOf :: "('b, 's, eth_address \<Rightarrow> int go res) in_caller_session" where
  "IEntryPointCallerSession_BalanceOf lib s account =
     IEntryPointCaller_BalanceOf lib (cs_Contract s) (cs_CallOpts s) account"

definition IEntryPointCaller_GetDepositInfo :: "('b, 's, eth_address \<Rightarrow> IStakeManagerDepositInfo go res) call" where [binding_defs]:
  "IEntryPointCaller_GetDepositInfo lib c opts account =
     read_call lib c opts ''getDepositInfo'' [AbiAddress account] (\<lambda>out. out_at as_depositInfo out 0)"

definition IEntryPointSession_GetDepositInfo :: "('b, 's, eth_address \<Rightarrow> IStakeManagerDepositInfo go res) in_session" where
  "IEntryPointSession_GetDepositInfo lib s account =
     IEntryPointCaller_GetDepositInfo lib (Caller (se_Contract s)) (se_CallOpts s) account"

definition IEntryPointCallerSession_GetDepositInfo :: "('b, 's, eth_address \<Rightarrow> IStakeManagerDepositInfo go res) in_caller_session" where
  "IEntryPointCallerSession_GetDepositInfo lib s account =
     IEntryPointCaller_GetDepositInfo lib (cs_Contract s) (cs_CallOpts s) account"

definition IEntryPointCaller_GetNonce :: "('b, 's, eth_address \<Rightarrow> int \<Rightarrow> int go res) call" where [binding_defs]:
  "IEntryPointCaller_GetNonce lib c opts sender key =
     read_call lib c opts ''getNonce'' [AbiAddress sender, AbiUint256 key] (\<lambda>out. out_at as_bigInt out 0)"

definition IEntryPointSession_GetNonce :: "('b, 's, eth_address \<Rightarrow> int \<Rightarrow> int go res) in_session" where
  "IEntryPointSession_GetNonce lib s sender key =
     IEntryPointCaller_GetNonce lib (Caller (se_Contract s)) (se_CallOpts s) sender key"

definition IEntryPointCallerSession_GetNonce :: "('b, 's, eth_address \<Rightarrow> int \<Rightarrow> int go res) in_caller_session" where
  "IEntryPointCallerSession_GetNonce lib s sender key =
     IEntryPointCaller_GetNonce lib (cs_Contract s) (cs_CallOpts s) sender key"

definition IEntryPointCaller_GetUserOpHash :: "('b, 's, PackedUserOperation \<Rightarrow> bytes go res) call" where [binding_defs]:
  "IEntryPointCaller_GetUserOpHash lib c opts userOp =
     read_call lib c opts ''getUserOpHash'' [AbiOp userOp] (\<lambda>out. out_at as_bytes32 out 0)"

definition IEntryPointSession_GetUserOpHash :: "('b, 's, PackedUserOperation \<Rightarrow> bytes go res) in_session" where
  "IEntryPointSession_GetUserOpHash lib s userOp =
     IEntryPointCaller_GetUserOpHash lib (Caller (se_Contract s)) (se_CallOpts s) userOp"

definition IEntryPointCallerSession_GetUserOpHash :: "('b, 's, PackedUserOperation \<Rightarrow> bytes go res) in_caller_session" where
  "IEntryPointCallerSession_GetUserOpHash lib s userOp =
     IEntryPointCaller_GetUserOpHash lib (cs_Contract s) (cs_CallOpts s) userOp"

definition IEntryPointTransactor_AddStake :: "('b, 's, uint32 \<Rightarrow> 's go) transact" where [binding_defs]:
  "IEntryPointTransactor_AddStake lib c opts unstakeDelaySec =
     bound_Transact lib c opts ''addStake'' [AbiUint32 unstakeDelaySec]"

definition IEntryPointSession_AddStake :: "('b, 's, uint32 \<Rightarrow> 's go) in_session" where
  "IEntryPointSession_AddStake lib s unstakeDelaySec =
     IEntryPointTransactor_AddStake lib (Transactor (se_Contract s)) (se_TransactOpts s) unstakeDelaySec"

definition IEntryPointTransactorSession_AddStake :: "('b, 's, uint32 \<Rightarrow> 's go) in_transactor_session" where
  "IEntryPointTransactorSession_AddStake lib s unstakeDelaySec =
     IEntryPointTransactor_AddStake lib (ts_Contract s) (ts_TransactOpts s) unstakeDelaySec"

definition IEntryPointTransactor_DelegateAndRevert :: "('b, 's, eth_address \<Rightarrow> bytes \<Rightarrow> 's go) transact" where [binding_defs]:
  "IEntryPointTransactor_DelegateAndRevert lib c opts target data =
     bound_Transact lib c opts ''delegateAndRevert'' [AbiAddress target, AbiBytes data]"

definition IEntryPointSession_DelegateAndRevert :: "('b, 's, eth_address \<Rightarrow> bytes \<Rightarrow> 's go) in_session" where
  "IEntryPointSession_DelegateAndRevert lib s target data =
     IEntryPointTransactor_DelegateAndRevert lib (Transactor (se_Contract s)) (se_TransactOpts s) target data"

definition IEntryPointTransactorSession_DelegateAndRevert :: "('b, 's, eth_address \<Rightarrow> bytes \<Rightarrow> 's go) in_transactor_session" where
  "IEntryPointTransactorSession_DelegateAndRevert lib s target data =
     IEntryPointTransactor_DelegateAndRevert lib (ts_Contract s) (ts_TransactOpts s) target data"

definition IEntryPointTransactor_DepositTo :: "('b, 's, eth_address \<Rightarrow> 's go) transact" where [binding_defs]:
  "IEntryPointTransactor_DepositTo lib c opts account =
     bound_Transact lib c opts ''depositTo'' [AbiAddress account]"

definition IEntryPointSession_DepositTo :: "('b, 's, eth_address \<Rightarrow> 's go) in_session" where
  "IEntryPointSession_DepositTo lib s account =
     IEntryPointTransactor_DepositTo lib (Transactor (se_Contract s)) (se_TransactOpts s) account"

definition IEntryPointTransactorSession_DepositTo :: "('b, 's, eth_address \<Rightarrow> 's go) in_transactor_session" where
  "IEntryPointTransactorSession_DepositTo lib s account =
     IEntryPointTransactor_DepositTo lib (ts_Contract s) (ts_TransactOpts s) account"

definition IEntryPointTransactor_GetSenderAddress :: "('b, 's, bytes \<Rightarrow> 's go) transact" where [binding_defs]:
  "IEntryPointTransactor_GetSenderAddress lib c opts initCode =
     bound_Transact lib c opts ''getSenderAddress'' [AbiBytes initCode]"

definition IEntryPointSession_GetSenderAddress :: "('b, 's, bytes \<Rightarrow> 's go) in_session" where
  "IEntryPointSession_GetSenderAddress lib s initCode =
     IEntryPointTransactor_GetSenderAddress lib (Transactor (se_Contract s)) (se_TransactOpts s) initCode"

definition IEntryPointTransactorSession_GetSenderAddress :: "('b, 's, bytes \<Rightarrow> 's go) in_transactor_session" where
  "IEntryPointTransactorSession_GetSenderAddress lib s initCode =
     IEntryPointTransactor_GetSenderAddress lib (ts_Contract s) (ts_TransactOpts s) initCode"

definition IEntryPointTransactor_HandleAggregatedOps :: "('b, 's, IEntryPointUserOpsPerAggregator list \<Rightarrow> eth_address \<Rightarrow> 's go) transact" where [binding_defs]:
  "IEntryPointTransactor_HandleAggregatedOps lib c opts opsPerAggregator beneficiary =
     bound_Transact lib c opts ''handleAggregatedOps'' [AbiOpsPerAggregator opsPerAggregator, AbiAddress beneficiary]"

definition IEntryPointSession_HandleAggregatedOps :: "('b, 's, IEntryPointUserOpsPerAggregator list \<Rightarrow> eth_address \<Rightarrow> 's go) in_session" where
  "IEntryPointSession_HandleAggregatedOps lib s opsPerAggregator beneficiary =
     IEntryPointTransactor_HandleAggregatedOps lib (Transactor (se_Contract s)) (se_TransactOpts s) opsPerAggregator beneficiary"

definition IEntryPointTransactorSession_HandleAggregatedOps :: "('b, 's, IEntryPointUserOpsPerAggregator list \<Rightarrow> eth_address \<Rightarrow> 's go) in_transactor_session" where
  "IEntryPointTransactorSession_HandleAggregatedOps lib s opsPerAggregator beneficiary =
     IEntryPointTransactor_HandleAggregatedOps lib (ts_Contract s) (ts_TransactOpts s) opsPerAggregator beneficiary"

definition IEntryPointTransactor_HandleOps :: "('b, 's, PackedUserOperation list \<Rightarrow> eth_address \<Rightarrow> 's go) transact" where [binding_defs]:
  "IEntryPointTransactor_HandleOps lib c opts ops beneficiary =
     bound_Transact lib c opts ''handleOps'' [AbiOps ops, AbiAddress beneficiary]"

definition IEntryPointSession_HandleOps :: "('b, 's, PackedUserOperation list \<Rightarrow> eth_address \<Rightarrow> 's go) in_session" where
  "IEntryPointSession_HandleOps lib s ops beneficiary =
     IEntryPointTransactor_HandleOps lib (Transactor (se_Contract s)) (se_TransactOpts s) ops beneficiary"

definition IEntryPointTransactorSession_HandleOps :: "('b, 's, PackedUserOperation list \<Rightarrow> eth_address \<Rightarrow> 's go) in_transactor_session" where
  "IEntryPointTransactorSession_HandleOps lib s ops beneficiary =
     IEntryPointTransactor_HandleOps lib (ts_Contract s) (ts_TransactOpts s) ops beneficiary"

definition IEntryPointTransactor_IncrementNonce :: "('b, 's, int \<Rightarrow> 's go) transact" where [binding_defs]:
  "IEntryPointTransactor_IncrementNonce lib c opts key =
     bound_Transact lib c opts ''incrementNonce'' [AbiUint256 key]"

definition IEntryPointSession_IncrementNonce :: "('b, 's, int \<Rightarrow> 's go) in_session" where
  "IEntryPointSession_IncrementNonce lib s key =
     IEntryPointTransactor_IncrementNonce lib (Transactor (se_Contract s)) (se_TransactOpts s) key"

definition IEntryPointTransactorSession_IncrementNonce :: "('b, 's, int \<Rightarrow> 's go) in_transactor_session" where
  "IEntryPointTransactorSession_IncrementNonce lib s key =
     IEntryPointTransactor_IncrementNonce lib (ts_Contract s) (ts_TransactOpts s) key"

definition IEntryPointTransactor_UnlockStake :: "('b, 's, 's go) transact" where [binding_defs]:
  "IEntryPointTransactor_UnlockStake lib c opts =
     bound_Transact lib c opts ''unlockStake'' []"

definition IEntryPointSession_UnlockStake :: "('b, 's, 's go) in_session" where
  "IEntryPointSession_UnlockStake lib s =
     IEntryPointTransactor_UnlockStake lib (Transactor (se_Contract s)) (se_TransactOpts s)"

definition IEntryPointTransactorSession_UnlockStake :: "('b, 's, 's go) in_transactor_session" where
  "IEntryPointTransactorSession_UnlockStake lib s =
     IEntryPointTransactor_UnlockStake lib (ts_Contract s) (ts_TransactOpts s)"

definition IEntryPointTransactor_WithdrawStake :: "('b, 's, eth_address \<Rightarrow> 's go) transact" where [binding_defs]:
  "IEntryPointTransactor_WithdrawStake lib c opts withdrawAddress =
     bound_Transact lib c opts ''withdrawStake'' [AbiAddress withdrawAddress]"

definition IEntryPointSession_WithdrawStake :: "('b, 's, eth_address \<Rightarrow> 's go) in_session" where
  "IEntryPointSession_WithdrawStake lib s withdrawAddress =
     IEntryPointTransactor_WithdrawStake lib (Transactor (se_Contract s)) (se_TransactOpts s) withdrawAddress"

definition IEntryPointTransactorSession_WithdrawStake :: "('b, 's, eth_address \<Rightarrow> 's go) in_transactor_session" where
  "IEntryPointTransactorSession_WithdrawStake lib s withdrawAddress =
     IEntryPointTransactor_WithdrawStake lib (ts_Contract s) (ts_TransactOpts s) withdrawAddress"

definition IEntryPointTransactor_WithdrawTo :: "('b, 's, eth_address \<Rightarrow> int \<Rightarrow> 's go) transact" where [binding_defs]:
  "IEntryPointTransactor_WithdrawTo lib c opts withdrawAddress withdrawAmount =
     bound_Transact lib c opts ''withdrawTo'' [AbiAddress withdrawAddress, AbiUint256 withdrawAmount]"

definition IEntryPointSession_WithdrawTo :: "('b, 's, eth_address \<Rightarrow> int \<Rightarrow> 's go) in_session" where
  "IEntryPointSession_WithdrawTo lib s withdrawAddress withdrawAmount =
     IEntryPointTransactor_WithdrawTo lib (Transactor (se_Contract s)) (se_TransactOpts s) withdrawAddress withdrawAmount"

definition IEntryPointTransactorSession_WithdrawTo :: "('b, 's, eth_address \<Rightarrow> int \<Rightarrow> 's go) in_transactor_session" where
  "IEntryPointTransactorSession_WithdrawTo lib s withdrawAddress withdrawAmount =
     IEntryPointTransactor_WithdrawTo lib (ts_Contract s) (ts_TransactOpts s) withdrawAddress withdrawAmount"

record IEntryPointAccountDeployed =
  IEntryPointAccountDeployed_UserOpHash :: bytes
  IEntryPointAccountDeployed_Sender :: eth_address
  IEntryPointAccountDeployed_Factory :: eth_address
  IEntryPointAccountDeployed_Paymaster :: eth_address
  IEntryPointAccountDeployed_Raw :: Log

definition into_IEntryPointAccountDeployed :: "IEntryPointAccountDeployed into" where [event_structs]:
  "into_IEntryPointAccountDeployed vs log = (case vs of [v0, v1, v2, v3] \<Rightarrow>
        Option.bind (as_bytes32 v0) (\<lambda>x0.
        Option.bind (as_address v1) (\<lambda>x1.
        Option.bind (as_address v2) (\<lambda>x2.
        Option.bind (as_address v3) (\<lambda>x3.
        Some \<lparr> IEntryPointAccountDeployed_UserOpHash = x0, IEntryPointAccountDeployed_Sender = x1, IEntryPointAccountDeployed_Factory = x2, IEntryPointAccountDeployed_Paymaster = x3, IEntryPointAccountDeployed_Raw = log \<rparr>))))
      | _ \<Rightarrow> None)"

definition IEntryPointAccountDeployedIterator_Next :: "('b, 's) bind_lib \<Rightarrow> bool \<Rightarrow> ('b, IEntryPointAccountDeployed) Iterator \<Rightarrow> bool \<times> ('b, IEntryPointAccountDeployed) Iterator" where
  "IEntryPointAccountDeployedIterator_Next lib = Iterator_Next lib into_IEntryPointAccountDeployed"

definition IEntryPointFilterer_FilterAccountDeployed ::
  "('b, 's) bind_lib \<Rightarrow> 'b BoundContract \<Rightarrow> FilterOpts \<Rightarrow> bytes list \<Rightarrow> eth_address list \<Rightarrow> ('b, IEntryPointAccountDeployed) Iterator go" where
  "IEntryPointFilterer_FilterAccountDeployed lib c opts userOpHash sender =
     go_bind (FilterLogs lib c opts ''AccountDeployed'' [map AbiBytes32 userOpHash, map AbiAddress sender]) (\<lambda>sub.
     Inr (new_iterator c ''AccountDeployed'' sub))"

definition IEntryPointFilterer_WatchAccountDeployed ::
  "('b, 's) bind_lib \<Rightarrow> 'b BoundContract \<Rightarrow> WatchOpts \<Rightarrow> bytes list \<Rightarrow> eth_address list \<Rightarrow> IEntryPointAccountDeployed watcher go" where
  "IEntryPointFilterer_WatchAccountDeployed lib c opts userOpHash sender =
     go_bind (WatchLogs lib c opts ''AccountDeployed'' [map AbiBytes32 userOpHash, map AbiAddress sender]) (\<lambda>_.
     Inr (watch_step (unpack_event lib into_IEntryPointAccountDeployed c ''AccountDeployed''), watch_start))"

definition IEntryPointFilterer_ParseAccountDeployed :: "('b, 's) bind_lib \<Rightarrow> 'b BoundContract \<Rightarrow> Log \<Rightarrow> IEntryPointAccountDeployed go" where
  "IEntryPointFilterer_ParseAccountDeployed lib c log = unpack_event lib into_IEntryPointAccountDeployed c ''AccountDeployed'' log"

record IEntryPointBeforeExecution =
  IEntryPointBeforeExecution_Raw :: Log

definition into_IEntryPointBeforeExecution :: "IEntryPointBeforeExecution into" where [event_structs]:
  "into_IEntryPointBeforeExecution vs log = (case vs of [] \<Rightarrow>
        Some \<lparr> IEntryPointBeforeExecution_Raw = log \<rparr>
      | _ \<Rightarrow> None)"

definition IEntryPointBeforeExecutionIterator_Next :: "('b, 's) bind_lib \<Rightarrow> bool \<Rightarrow> ('b, IEntryPointBeforeExecution) Iterator \<Rightarrow> bool \<times> ('b, IEntryPointBeforeExecution) Iterator" where
  "IEntryPointBeforeExecutionIterator_Next lib = Iterator_Next lib into_IEntryPointBeforeExecution"

definition IEntryPointFilterer_FilterBeforeExecution ::
  "('b, 's) bind_lib \<Rightarrow> 'b BoundContract \<Rightarrow> FilterOpts \<Rightarrow> ('b, IEntryPointBeforeExecution) Iterator go" where
  "IEntryPointFilterer_FilterBeforeExecution lib c opts =
     go_bind (FilterLogs lib c opts ''BeforeExecution'' []) (\<lambda>sub.
     Inr (new_iterator c ''BeforeExecution'' sub))"

definition IEntryPointFilterer_WatchBeforeExecution ::
  "('b, 's) bind_lib \<Rightarrow> 'b BoundContract \<Rightarrow> WatchOpts \<Rightarrow> IEntryPointBeforeExecution watcher go" where
  "IEntryPointFilterer_WatchBeforeExecution lib c opts =
     go_bind (WatchLogs lib c opts ''BeforeExecution'' []) (\<lambda>_.
     Inr (watch_step (unpack_event lib into_IEntryPointBeforeExecution c ''BeforeExecution''), watch_start))"

definition IEntryPointFilterer_ParseBeforeExecution :: "('b, 's) bind_lib \<Rightarrow> 'b BoundContract \<Rightarrow> Log \<Rightarrow> IEntryPointBeforeExecution go" where
  "IEntryPointFilterer_ParseBeforeExecution lib c log = unpack_event lib into_IEntryPointBeforeExecution c ''BeforeExecution'' log"

record IEntryPointDeposited =
  IEntryPointDeposited_Account :: eth_address
  IEntryPointDeposited_TotalDeposit :: int
  IEntryPointDeposited_Raw :: Log

definition into_IEntryPointDeposited :: "IEntryPointDeposited into" where [event_structs]:
  "into_IEntryPointDeposited vs log = (case vs of [v0, v1] \<Rightarrow>
        Option.bind (as_address v0) (\<lambda>x0.
        Option.bind (as_bigInt v1) (\<lambda>x1.
        Some \<lparr> IEntryPointDeposited_Account = x0, IEntryPointDeposited_TotalDeposit = x1, IEntryPointDeposited_Raw = log \<rparr>))
      | _ \<Rightarrow> None)"

definition IEntryPointDepositedIterator_Next :: "('b, 's) bind_lib \<Rightarrow> bool \<Rightarrow> ('b, IEntryPointDeposited) Iterator \<Rightarrow> bool \<times> ('b, IEntryPointDeposited) Iterator" where
  "IEntryPointDepositedIterator_Next lib = Iterator_Next lib into_IEntryPointDeposited"

definition IEntryPointFilterer_FilterDeposited ::
  "('b, 's) bind_lib \<Rightarrow> 'b BoundContract \<Rightarrow> FilterOpts \<Rightarrow> eth_address list \<Rightarrow> ('b, IEntryPointDeposited) Iterator go" where
  "IEntryPointFilterer_FilterDeposited lib c opts account =
     go_bind (FilterLogs lib c opts ''Deposited'' [map AbiAddress account]) (\<lambda>sub.
     Inr (new_iterator c ''Deposited'' sub))"

definition IEntryPointFilterer_WatchDeposited ::
  "('b, 's) bind_lib \<Rightarrow> 'b BoundContract \<Rightarrow> WatchOpts \<Rightarrow> eth_address list \<Rightarrow> IEntryPointDeposited watcher go" where
  "IEntryPointFilterer_WatchDeposited lib c opts account =
     go_bind (WatchLogs lib c opts ''Deposited'' [map AbiAddress account]) (\<lambda>_.
     Inr (watch_step (unpack_event lib into_IEntryPointDeposited c ''Deposited''), watch_start))"

definition IEntryPointFilterer_ParseDeposited :: "('b, 's) bind_lib \<Rightarrow> 'b BoundContract \<Rightarrow> Log \<Rightarrow> IEntryPointDeposited go" where
  "IEntryPointFilterer_ParseDeposited lib c log = unpack_event lib into_IEntryPointDeposited c ''Deposited'' log"

record IEntryPointPostOpRevertReason =
  IEntryPointPostOpRevertReason_UserOpHash :: bytes
  IEntryPointPostOpRevertReason_Sender :: eth_address
  IEntryPointPostOpRevertReason_Nonce :: int
  IEntryPointPostOpRevertReason_RevertReason :: bytes
  IEntryPointPostOpRevertReason_Raw :: Log

definition into_IEntryPointPostOpRevertReason :: "IEntryPointPostOpRevertReason into" where [event_structs]:
  "into_IEntryPointPostOpRevertReason vs log = (case vs of [v0, v1, v2, v3] \<Rightarrow>
        Option.bind (as_bytes32 v0) (\<lambda>x0.
        Option.bind (as_address v1) (\<lambda>x1.
        Option.bind (as_bigInt v2) (\<lambda>x2.
        Option.bind (as_bytes v3) (\<lambda>x3.
        Some \<lparr> IEntryPointPostOpRevertReason_UserOpHash = x0, IEntryPointPostOpRevertReason_Sender = x1, IEntryPointPostOpRevertReason_Nonce = x2, IEntryPointPostOpRevertReason_RevertReason = x3, IEntryPointPostOpRevertReason_Raw = log \<rparr>))))
      | _ \<Rightarrow> None)"

definition IEntryPointPostOpRevertReasonIterator_Next :: "('b, 's) bind_lib \<Rightarrow> bool \<Rightarrow> ('b, IEntryPointPostOpRevertReason) Iterator \<Rightarrow> bool \<times> ('b, IEntryPointPostOpRevertReason) Iterator" where
  "IEntryPointPostOpRevertReasonIterator_Next lib = Iterator_Next lib into_IEntryPointPostOpRevertReason"

definition IEntryPointFilterer_FilterPostOpRevertReason ::
  "('b, 's) bind_lib \<Rightarrow> 'b BoundContract \<Rightarrow> FilterOpts \<Rightarrow> bytes list \<Rightarrow> eth_address list \<Rightarrow> ('b, IEntryPointPostOpRevertReason) Iterator go" where
  "IEntryPointFilterer_FilterPostOpRevertReason lib c opts userOpHash sender =
     go_bind (FilterLogs lib c opts ''PostOpRevertReason'' [map AbiBytes32 userOpHash, map AbiAddress sender]) (\<lambda>sub.
     Inr (new_iterator c ''PostOpRevertReason'' sub))"

definition IEntryPointFilterer_WatchPostOpRevertReason ::
  "('b, 's) bind_lib \<Rightarrow> 'b BoundContract \<Rightarrow> WatchOpts \<Rightarrow> bytes list \<Rightarrow> eth_address list \<Rightarrow> IEntryPointPostOpRevertReason watcher go" where
  "IEntryPointFilterer_WatchPostOpRevertReason lib c opts userOpHash sender =
     go_bind (WatchLogs lib c opts ''PostOpRevertReason'' [map AbiBytes32 userOpHash, map AbiAddress sender]) (\<lambda>_.
     Inr (watch_step (unpack_event lib into_IEntryPointPostOpRevertReason c ''PostOpRevertReason''), watch_start))"

definition IEntryPointFilterer_ParsePostOpRevertReason :: "('b, 's) bind_lib \<Rightarrow> 'b BoundContract \<Rightarrow> Log \<Rightarrow> IEntryPointPostOpRevertReason go" where
  "IEntryPointFilterer_ParsePostOpRevertReason lib c log = unpack_event lib into_IEntryPointPostOpRevertReason c ''PostOpRevertReason'' log"

record IEntryPointSignatureAggregatorChanged =
  IEntryPointSignatureAggregatorChanged_Aggregator :: eth_address
  IEntryPointSignatureAggregatorChanged_Raw :: Log

definition into_IEntryPointSignatureAggregatorChanged :: "IEntryPointSignatureAggregatorChanged into" where [event_structs]:
  "into_IEntryPointSignatureAggregatorChanged vs log = (case vs of [v0] \<Rightarrow>
        Option.bind (as_address v0) (\<lambda>x0.
        Some \<lparr> IEntryPointSignatureAggregatorChanged_Aggregator = x0, IEntryPointSignatureAggregatorChanged_Raw = log \<rparr>)
      | _ \<Rightarrow> None)"

definition IEntryPointSignatureAggregatorChangedIterator_Next :: "('b, 's) bind_lib \<Rightarrow> bool \<Rightarrow> ('b, IEntryPointSignatureAggregatorChanged) Iterator \<Rightarrow> bool \<times> ('b, IEntryPointSignatureAggregatorChanged) Iterator" where
  "IEntryPointSignatureAggregatorChangedIterator_Next lib = Iterator_Next lib into_IEntryPointSignatureAggregatorChanged"

definition IEntryPointFilterer_FilterSignatureAggregatorChanged ::
  "('b, 's) bind_lib \<Rightarrow> 'b BoundContract \<Rightarrow> FilterOpts \<Rightarrow> eth_address list \<Rightarrow> ('b, IEntryPointSignatureAggregatorChanged) Iterator go" where
  "IEntryPointFilterer_FilterSignatureAggregatorChanged lib c opts aggregator =
     go_bind (FilterLogs lib c opts ''SignatureAggregatorChanged'' [map AbiAddress aggregator]) (\<lambda>sub.
     Inr (new_iterator c ''SignatureAggregatorChanged'' sub))"

definition IEntryPointFilterer_WatchSignatureAggregatorChanged ::
  "('b, 's) bind_lib \<Rightarrow> 'b BoundContract \<Rightarrow> WatchOpts \<Rightarrow> eth_address list \<Rightarrow> IEntryPointSignatureAggregatorChanged watcher go" where
  "IEntryPointFilterer_WatchSignatureAggregatorChanged lib c opts aggregator =
     go_bind (WatchLogs lib c opts ''SignatureAggregatorChanged'' [map AbiAddress aggregator]) (\<lambda>_.
     Inr (watch_step (unpack_event lib into_IEntryPointSignatureAggregatorChanged c ''SignatureAggregatorChanged''), watch_start))"

definition IEntryPointFilterer_ParseSignatureAggregatorChanged :: "('b, 's) bind_lib \<Rightarrow> 'b BoundContract \<Rightarrow> Log \<Rightarrow> IEntryPointSignatureAggregatorChanged go" where
  "IEntryPointFilterer_ParseSignatureAggregatorChanged lib c log = unpack_event lib into_IEntryPointSignatureAggregatorChanged c ''SignatureAggregatorChanged'' log"

record IEntryPointStakeLocked =
  IEntryPointStakeLocked_Account :: eth_address
  IEntryPointStakeLocked_TotalStaked :: int
  IEntryPointStakeLocked_UnstakeDelaySec :: int
  IEntryPointStakeLocked_Raw :: Log

definition into_IEntryPointStakeLocked :: "IEntryPointStakeLocked into" where [event_structs]:
  "into_IEntryPointStakeLocked vs log = (case vs of [v0, v1, v2] \<Rightarrow>
        Option.bind (as_address v0) (\<lambda>x0.
        Option.bind (as_bigInt v1) (\<lambda>x1.
        Option.bind (as_bigInt v2) (\<lambda>x2.
        Some \<lparr> IEntryPointStakeLocked_Account = x0, IEntryPointStakeLocked_TotalStaked = x1, IEntryPointStakeLocked_UnstakeDelaySec = x2, IEntryPointStakeLocked_Raw = log \<rparr>)))
      | _ \<Rightarrow> None)"

definition IEntryPointStakeLockedIterator_Next :: "('b, 's) bind_lib \<Rightarrow> bool \<Rightarrow> ('b, IEntryPointStakeLocked) Iterator \<Rightarrow> bool \<times> ('b, IEntryPointStakeLocked) Iterator" where
  "IEntryPointStakeLockedIterator_Next lib = Iterator_Next lib into_IEntryPointStakeLocked"

definition IEntryPointFilterer_FilterStakeLocked ::
  "('b, 's) bind_lib \<Rightarrow> 'b BoundContract \<Rightarrow> FilterOpts \<Rightarrow> eth_address list \<Rightarrow> ('b, IEntryPointStakeLocked) Iterator go" where
  "IEntryPointFilterer_FilterStakeLocked lib c opts account =
     go_bind (FilterLogs lib c opts ''StakeLocked'' [map AbiAddress account]) (\<lambda>sub.
     Inr (new_iterator c ''StakeLocked'' sub))"

definition IEntryPointFilterer_WatchStakeLocked ::
  "('b, 's) bind_lib \<Rightarrow> 'b BoundContract \<Rightarrow> WatchOpts \<Rightarrow> eth_address list \<Rightarrow> IEntryPointStakeLocked watcher go" where
  "IEntryPointFilterer_WatchStakeLocked lib c opts account =
     go_bind (WatchLogs lib c opts ''StakeLocked'' [map AbiAddress account]) (\<lambda>_.
     Inr (watch_step (unpack_event lib into_IEntryPointStakeLocked c ''StakeLocked''), watch_start))"

definition IEntryPointFilterer_ParseStakeLocked :: "('b, 's) bind_lib \<Rightarrow> 'b BoundContract \<Rightarrow> Log \<Rightarrow> IEntryPointStakeLocked go" where
  "IEntryPointFilterer_ParseStakeLocked lib c log = unpack_event lib into_IEntryPointStakeLocked c ''StakeLocked'' log"

record IEntryPointStakeUnlocked =
  IEntryPointStakeUnlocked_Account :: eth_address
  IEntryPointStakeUnlocked_WithdrawTime :: int
  IEntryPointStakeUnlocked_Raw :: Log

definition into_IEntryPointStakeUnlocked :: "IEntryPointStakeUnlocked into" where [event_structs]:
  "into_IEntryPointStakeUnlocked vs log = (case vs of [v0, v1] \<Rightarrow>
        Option.bind (as_address v0) (\<lambda>x0.
        Option.bind (as_bigInt v1) (\<lambda>x1.
        Some \<lparr> IEntryPointStakeUnlocked_Account = x0, IEntryPointStakeUnlocked_WithdrawTime = x1, IEntryPointStakeUnlocked_Raw = log \<rparr>))
      | _ \<Rightarrow> None)"

definition IEntryPointStakeUnlockedIterator_Next :: "('b, 's) bind_lib \<Rightarrow> bool \<Rightarrow> ('b, IEntryPointStakeUnlocked) Iterator \<Rightarrow> bool \<times> ('b, IEntryPointStakeUnlocked) Iterator" where
  "IEntryPointStakeUnlockedIterator_Next lib = Iterator_Next lib into_IEntryPointStakeUnlocked"

definition IEntryPointFilterer_FilterStakeUnlocked ::
  "('b, 's) bind_lib \<Rightarrow> 'b BoundContract \<Rightarrow> FilterOpts \<Rightarrow> eth_address list \<Rightarrow> ('b, IEntryPointStakeUnlocked) Iterator go" where
  "IEntryPointFilterer_FilterStakeUnlocked lib c opts account =
     go_bind (FilterLogs lib c opts ''StakeUnlocked'' [map AbiAddress account]) (\<lambda>sub.
     Inr (new_iterator c ''StakeUnlocked'' sub))"

definition IEntryPointFilterer_WatchStakeUnlocked ::
  "('b, 's) bind_lib \<Rightarrow> 'b BoundContract \<Rightarrow> WatchOpts \<Rightarrow> eth_address list \<Rightarrow> IEntryPointStakeUnlocked watcher go" where
  "IEntryPointFilterer_WatchStakeUnlocked lib c opts account =
     go_bind (WatchLogs lib c opts ''StakeUnlocked'' [map AbiAddress account]) (\<lambda>_.
     Inr (watch_step (unpack_event lib into_IEntryPointStakeUnlocked c ''StakeUnlocked''), watch_start))"

definition IEntryPointFilterer_ParseStakeUnlocked :: "('b, 's) bind_lib \<Rightarrow> 'b BoundContract \<Rightarrow> Log \<Rightarrow> IEntryPointStakeUnlocked go" where
  "IEntryPointFilterer_ParseStakeUnlocked lib c log = unpack_event lib into_IEntryPointStakeUnlocked c ''StakeUnlocked'' log"

record IEntryPointStakeWithdrawn =
  IEntryPointStakeWithdrawn_Account :: eth_address
  IEntryPointStakeWithdrawn_WithdrawAddress :: eth_address
  IEntryPointStakeWithdrawn_Amount :: int
  IEntryPointStakeWithdrawn_Raw :: Log

definition into_IEntryPointStakeWithdrawn :: "IEntryPointStakeWithdrawn into" where [event_structs]:
  "into_IEntryPointStakeWithdrawn vs log = (case vs of [v0, v1, v2] \<Rightarrow>
        Option.bind (as_address v0) (\<lambda>x0.
        Option.bind (as_address v1) (\<lambda>x1.
        Option.bind (as_bigInt v2) (\<lambda>x2.
        Some \<lparr> IEntryPointStakeWithdrawn_Account = x0, IEntryPointStakeWithdrawn_WithdrawAddress = x1, IEntryPointStakeWithdrawn_Amount = x2, IEntryPointStakeWithdrawn_Raw = log \<rparr>)))
      | _ \<Rightarrow> None)"

definition IEntryPointStakeWithdrawnIterator_Next :: "('b, 's) bind_lib \<Rightarrow> bool \<Rightarrow> ('b, IEntryPointStakeWithdrawn) Iterator \<Rightarrow> bool \<times> ('b, IEntryPointStakeWithdrawn) Iterator" where
  "IEntryPointStakeWithdrawnIterator_Next lib = Iterator_Next lib into_IEntryPointStakeWithdrawn"

definition IEntryPointFilterer_FilterStakeWithdrawn ::
  "('b, 's) bind_lib \<Rightarrow> 'b BoundContract \<Rightarrow> FilterOpts \<Rightarrow> eth_address list \<Rightarrow> ('b, IEntryPointStakeWithdrawn) Iterator go" where
  "IEntryPointFilterer_FilterStakeWithdrawn lib c opts account =
     go_bind (FilterLogs lib c opts ''StakeWithdrawn'' [map AbiAddress account]) (\<lambda>sub.
     Inr (new_iterator c ''StakeWithdrawn'' sub))"

definition IEntryPointFilterer_WatchStakeWithdrawn ::
  "('b, 's) bind_lib \<Rightarrow> 'b BoundContract \<Rightarrow> WatchOpts \<Rightarrow> eth_address list \<Rightarrow> IEntryPointStakeWithdrawn watcher go" where
  "IEntryPointFilterer_WatchStakeWithdrawn lib c opts account =
     go_bind (WatchLogs lib c opts ''StakeWithdrawn'' [map AbiAddress account]) (\<lambda>_.
     Inr (watch_step (unpack_event lib into_IEntryPointStakeWithdrawn c ''StakeWithdrawn''), watch_start))"

definition IEntryPointFilterer_ParseStakeWithdrawn :: "('b, 's) bind_lib \<Rightarrow> 'b BoundContract \<Rightarrow> Log \<Rightarrow> IEntryPointStakeWithdrawn go" where
  "IEntryPointFilterer_ParseStakeWithdrawn lib c log = unpack_event lib into_IEntryPointStakeWithdrawn c ''StakeWithdrawn'' log"

record IEntryPointUserOperationEvent =
  IEntryPointUserOperationEvent_UserOpHash :: bytes
  IEntryPointUserOperationEvent_Sender :: eth_address
  IEntryPointUserOperationEvent_Paymaster :: eth_address
  IEntryPointUserOperationEvent_Nonce :: int
  IEntryPointUserOperationEvent_Success :: bool
  IEntryPointUserOperationEvent_ActualGasCost :: int
  IEntryPointUserOperationEvent_ActualGasUsed :: int
  IEntryPointUserOperationEvent_Raw :: Log

definition into_IEntryPointUserOperationEvent :: "IEntryPointUserOperationEvent into" where [event_structs]:
  "into_IEntryPointUserOperationEvent vs log = (case vs of [v0, v1, v2, v3, v4, v5, v6] \<Rightarrow>
        Option.bind (as_bytes32 v0) (\<lambda>x0.
        Option.bind (as_address v1) (\<lambda>x1.
        Option.bind (as_address v2) (\<lambda>x2.
        Option.bind (as_bigInt v3) (\<lambda>x3.
        Option.bind (as_bool v4) (\<lambda>x4.
        Option.bind (as_bigInt v5) (\<lambda>x5.
        Option.bind (as_bigInt v6) (\<lambda>x6.
        Some \<lparr> IEntryPointUserOperationEvent_UserOpHash = x0, IEntryPointUserOperationEvent_Sender = x1, IEntryPointUserOperationEvent_Paymaster = x2, IEntryPointUserOperationEvent_Nonce = x3, IEntryPointUserOperationEvent_Success = x4, IEntryPointUserOperationEvent_ActualGasCost = x5, IEntryPointUserOperationEvent_ActualGasUsed = x6, IEntryPointUserOperationEvent_Raw = log \<rparr>)))))))
      | _ \<Rightarrow> None)"

definition IEntryPointUserOperationEventIterator_Next :: "('b, 's) bind_lib \<Rightarrow> bool \<Rightarrow> ('b, IEntryPointUserOperationEvent) Iterator \<Rightarrow> bool \<times> ('b, IEntryPointUserOperationEvent) Iterator" where
  "IEntryPointUserOperationEventIterator_Next lib = Iterator_Next lib into_IEntryPointUserOperationEvent"

definition IEntryPointFilterer_FilterUserOperationEvent ::
  "('b, 's) bind_lib \<Rightarrow> 'b BoundContract \<Rightarrow> FilterOpts \<Rightarrow> bytes list \<Rightarrow> eth_address list \<Rightarrow> eth_address list \<Rightarrow> ('b, IEntryPointUserOperationEvent) Iterator go" where
  "IEntryPointFilterer_FilterUserOperationEvent lib c opts userOpHash sender paymaster =
     go_bind (FilterLogs lib c opts ''UserOperationEvent'' [map AbiBytes32 userOpHash, map AbiAddress sender, map AbiAddress paymaster]) (\<lambda>sub.
     Inr (new_iterator c ''UserOperationEvent'' sub))"

definition IEntryPointFilterer_WatchUserOperationEvent ::
  "('b, 's) bind_lib \<Rightarrow> 'b BoundContract \<Rightarrow> WatchOpts \<Rightarrow> bytes list \<Rightarrow> eth_address list \<Rightarrow> eth_address list \<Rightarrow> IEntryPointUserOperationEvent watcher go" where
  "IEntryPointFilterer_WatchUserOperationEvent lib c opts userOpHash sender paymaster =
     go_bind (WatchLogs lib c opts ''UserOperationEvent'' [map AbiBytes32 userOpHash, map AbiAddress sender, map AbiAddress paymaster]) (\<lambda>_.
     Inr (watch_step (unpack_event lib into_IEntryPointUserOperationEvent c ''UserOperationEvent''), watch_start))"

definition IEntryPointFilterer_ParseUserOperationEvent :: "('b, 's) bind_lib \<Rightarrow> 'b BoundContract \<Rightarrow> Log \<Rightarrow> IEntryPointUserOperationEvent go" where
  "IEntryPointFilterer_ParseUserOperationEvent lib c log = unpack_event lib into_IEntryPointUserOperationEvent c ''UserOperationEvent'' log"

record IEntryPointUserOperationPrefundTooLow =
  IEntryPointUserOperationPrefundTooLow_UserOpHash :: bytes
  IEntryPointUserOperationPrefundTooLow_Sender :: eth_address
  IEntryPointUserOperationPrefundTooLow_Nonce :: int
  IEntryPointUserOperationPrefundTooLow_Raw :: Log

definition into_IEntryPointUserOperationPrefundTooLow :: "IEntryPointUserOperationPrefundTooLow into" where [event_structs]:
  "into_IEntryPointUserOperationPrefundTooLow vs log = (case vs of [v0, v1, v2] \<Rightarrow>
        Option.bind (as_bytes32 v0) (\<lambda>x0.
        Option.bind (as_address v1) (\<lambda>x1.
        Option.bind (as_bigInt v2) (\<lambda>x2.
        Some \<lparr> IEntryPointUserOperationPrefundTooLow_UserOpHash = x0, IEntryPointUserOperationPrefundTooLow_Sender = x1, IEntryPointUserOperationPrefundTooLow_Nonce = x2, IEntryPointUserOperationPrefundTooLow_Raw = log \<rparr>)))
      | _ \<Rightarrow> None)"

definition IEntryPointUserOperationPrefundTooLowIterator_Next :: "('b, 's) bind_lib \<Rightarrow> bool \<Rightarrow> ('b, IEntryPointUserOperationPrefundTooLow) Iterator \<Rightarrow> bool \<times> ('b, IEntryPointUserOperationPrefundTooLow) Iterator" where
  "IEntryPointUserOperationPrefundTooLowIterator_Next lib = Iterator_Next lib into_IEntryPointUserOperationPrefundTooLow"

definition IEntryPointFilterer_FilterUserOperationPrefundTooLow ::
  "('b, 's) bind_lib \<Rightarrow> 'b BoundContract \<Rightarrow> FilterOpts \<Rightarrow> bytes list \<Rightarrow> eth_address list \<Rightarrow> ('b, IEntryPointUserOperationPrefundTooLow) Iterator go" where
  "IEntryPointFilterer_FilterUserOperationPrefundTooLow lib c opts userOpHash sender =
     go_bind (FilterLogs lib c opts ''UserOperationPrefundTooLow'' [map AbiBytes32 userOpHash, map AbiAddress sender]) (\<lambda>sub.
     Inr (new_iterator c ''UserOperationPrefundTooLow'' sub))"

definition IEntryPointFilterer_WatchUserOperationPrefundTooLow ::
  "('b, 's) bind_lib \<Rightarrow> 'b BoundContract \<Rightarrow> WatchOpts \<Rightarrow> bytes list \<Rightarrow> eth_address list \<Rightarrow> IEntryPointUserOperationPrefundTooLow watcher go" where
  "IEntryPointFilterer_WatchUserOperationPrefundTooLow lib c opts userOpHash sender =
     go_bind (WatchLogs lib c opts ''UserOperationPrefundTooLow'' [map AbiBytes32 userOpHash, map AbiAddress sender]) (\<lambda>_.
     Inr (watch_step (unpack_event lib into_IEntryPointUserOperationPrefundTooLow c ''UserOperationPrefundTooLow''), watch_start))"

definition IEntryPointFilterer_ParseUserOperationPrefundTooLow :: "('b, 's) bind_lib \<Rightarrow> 'b BoundContract \<Rightarrow> Log \<Rightarrow> IEntryPointUserOperationPrefundTooLow go" where
  "IEntryPointFilterer_ParseUserOperationPrefundTooLow lib c log = unpack_event lib into_IEntryPointUserOperationPrefundTooLow c ''UserOperationPrefundTooLow'' log"

record IEntryPointUserOperationRevertReason =
  IEntryPointUserOperationRevertReason_UserOpHash :: bytes
  IEntryPointUserOperationRevertReason_Sender :: eth_address
  IEntryPointUserOperationRevertReason_Nonce :: int
  IEntryPointUserOperationRevertReason_RevertReason :: bytes
  IEntryPointUserOperationRevertReason_Raw :: Log

definition into_IEntryPointUserOperationRevertReason :: "IEntryPointUserOperationRevertReason into" where [event_structs]:
  "into_IEntryPointUserOperationRevertReason vs log = (case vs of [v0, v1, v2, v3] \<Rightarrow>
        Option.bind (as_bytes32 v0) (\<lambda>x0.
        Option.bind (as_address v1) (\<lambda>x1.
        Option.bind (as_bigInt v2) (\<lambda>x2.
        Option.bind (as_bytes v3) (\<lambda>x3.
        Some \<lparr> IEntryPointUserOperationRevertReason_UserOpHash = x0, IEntryPointUserOperationRevertReason_Sender = x1, IEntryPointUserOperationRevertReason_Nonce = x2, IEntryPointUserOperationRevertReason_RevertReason = x3, IEntryPointUserOperationRevertReason_Raw = log \<rparr>))))
      | _ \<Rightarrow> None)"

definition IEntryPointUserOperationRevertReasonIterator_Next :: "('b, 's) bind_lib \<Rightarrow> bool \<Rightarrow> ('b, IEntryPointUserOperationRevertReason) Iterator \<Rightarrow> bool \<times> ('b, IEntryPointUserOperationRevertReason) Iterator" where
  "IEntryPointUserOperationRevertReasonIterator_Next lib = Iterator_Next lib into_IEntryPointUserOperationRevertReason"

definition IEntryPointFilterer_FilterUserOperationRevertReason ::
  "('b, 's) bind_lib \<Rightarrow> 'b BoundContract \<Rightarrow> FilterOpts \<Rightarrow> bytes list \<Rightarrow> eth_address list \<Rightarrow> ('b, IEntryPointUserOperationRevertReason) Iterator go" where
  "IEntryPointFilterer_FilterUserOperationRevertReason lib c opts userOpHash sender =
     go_bind (FilterLogs lib c opts ''UserOperationRevertReason'' [map AbiBytes32 userOpHash, map AbiAddress sender]) (\<lambda>sub.
     Inr (new_iterator c ''UserOperationRevertReason'' sub))"

definition IEntryPointFilterer_WatchUserOperationRevertReason ::
  "('b, 's) bind_lib \<Rightarrow> 'b BoundContract \<Rightarrow> WatchOpts \<Rightarrow> bytes list \<Rightarrow> eth_address list \<Rightarrow> IEntryPointUserOperationRevertReason watcher go" where
  "IEntryPointFilterer_WatchUserOperationRevertReason lib c opts userOpHash sender =
     go_bind (WatchLogs lib c opts ''UserOperationRevertReason'' [map AbiBytes32 userOpHash, map AbiAddress sender]) (\<lambda>_.
     Inr (watch_step (unpack_event lib into_IEntryPointUserOperationRevertReason c ''UserOperationRevertReason''), watch_start))"

definition IEntryPointFilterer_ParseUserOperationRevertReason :: "('b, 's) bind_lib \<Rightarrow> 'b BoundContract \<Rightarrow> Log \<Rightarrow> IEntryPointUserOperationRevertReason go" where
  "IEntryPointFilterer_ParseUserOperationRevertReason lib c log = unpack_event lib into_IEntryPointUserOperationRevertReason c ''UserOperationRevertReason'' log"

record IEntryPointWithdrawn =
  IEntryPointWithdrawn_Account :: eth_address
  IEntryPointWithdrawn_WithdrawAddress :: eth_address
  IEntryPointWithdrawn_Amount :: int
  IEntryPointWithdrawn_Raw :: Log

definition into_IEntryPointWithdrawn :: "IEntryPointWithdrawn into" where [event_structs]:
  "into_IEntryPointWithdrawn vs log = (case vs of [v0, v1, v2] \<Rightarrow>
        Option.bind (as_address v0) (\<lambda>x0.
        Option.bind (as_address v1) (\<lambda>x1.
        Option.bind (as_bigInt v2) (\<lambda>x2.
        Some \<lparr> IEntryPointWithdrawn_Account = x0, IEntryPointWithdrawn_WithdrawAddress = x1, IEntryPointWithdrawn_Amount = x2, IEntryPointWithdrawn_Raw = log \<rparr>)))
      | _ \<Rightarrow> None)"

definition IEntryPointWithdrawnIterator_Next :: "('b, 's) bind_lib \<Rightarrow> bool \<Rightarrow> ('b, IEntryPointWithdrawn) Iterator \<Rightarrow> bool \<times> ('b, IEntryPointWithdrawn) Iterator" where
  "IEntryPointWithdrawnIterator_Next lib = Iterator_Next lib into_IEntryPointWithdrawn"

definition IEntryPointFilterer_FilterWithdrawn ::
  "('b, 's) bind_lib \<Rightarrow> 'b BoundContract \<Rightarrow> FilterOpts \<Rightarrow> eth_address list \<Rightarrow> ('b, IEntryPointWithdrawn) Iterator go" where
  "IEntryPointFilterer_FilterWithdrawn lib c opts account =
     go_bind (FilterLogs lib c opts ''Withdrawn'' [map AbiAddress account]) (\<lambda>sub.
     Inr (new_iterator c ''Withdrawn'' sub))"

definition IEntryPointFilterer_WatchWithdrawn ::
  "('b, 's) bind_lib \<Rightarrow> 'b BoundContract \<Rightarrow> WatchOpts \<Rightarrow> eth_address list \<Rightarrow> IEntryPointWithdrawn watcher go" where
  "IEntryPointFilterer_WatchWithdrawn lib c opts account =
     go_bind (WatchLogs lib c opts ''Withdrawn'' [map AbiAddress account]) (\<lambda>_.
     Inr (watch_step (unpack_event lib into_IEntryPointWithdrawn c ''Withdrawn''), watch_start))"

definition IEntryPointFilterer_ParseWithdrawn :: "('b, 's) bind_lib \<Rightarrow> 'b BoundContract \<Rightarrow> Log \<Rightarrow> IEntryPointWithdrawn go" where
  "IEntryPointFilterer_ParseWithdrawn lib c log = unpack_event lib into_IEntryPointWithdrawn c ''Withdrawn'' log"

subsection \<open>The binding fits the interface\<close>

lemma IEntryPoint_methods:
  "abi_methods IEntryPointMetaData = [
     (''addStake'', [TUint 32], []),
     (''balanceOf'', [TAddress], [TUint 256]),
     (''delegateAndRevert'', [TAddress, TBytes], []),
     (''depositTo'', [TAddress], []),
     (''getDepositInfo'', [TAddress], [deposit_info_type]),
     (''getNonce'', [TAddress, TUint 192], [TUint 256]),
     (''getSenderAddress'', [TBytes], []),
     (''getUserOpHash'', [packed_op_type], [TFixed 32]),
     (''handleAggregatedOps'', [TArray (TTuple [TArray packed_op_type, TAddress, TBytes]), TAddress], []),
     (''handleOps'', [TArray packed_op_type, TAddress], []),
     (''incrementNonce'', [TUint 192], []),
     (''unlockStake'', [], []),
     (''withdrawStake'', [TAddress], []),
     (''withdrawTo'', [TAddress, TUint 256], [])]"
  by code_simp

text \<open>No read-only method can panic: the conversions are those of the types of the interface.\<close>

lemma IEntryPoint_calls_answered:
  assumes "serves refused lib IEntryPointMetaData" and "bound_to lib IEntryPointMetaData c"
  shows "answered refused (IEntryPointCaller_BalanceOf lib c opts account)"
    "answered refused (IEntryPointCaller_GetDepositInfo lib c opts account)"
    "answered refused (IEntryPointCaller_GetNonce lib c opts sender key)"
    "answered refused (IEntryPointCaller_GetUserOpHash lib c opts userOp)"
  unfolding binding_defs
  by (rule read_call_answered [OF assms];
      auto simp: accepts_def returns_def IEntryPoint_methods all_typed_Cons out_at_def as_defs)+

lemma IEntryPoint_transactions_sent:
  assumes "serves refused lib IEntryPointMetaData" and "bound_to lib IEntryPointMetaData c"
  shows "sent_or_refused refused (IEntryPointTransactor_AddStake lib c opts unstakeDelaySec)"
    "sent_or_refused refused (IEntryPointTransactor_DelegateAndRevert lib c opts target data)"
    "sent_or_refused refused (IEntryPointTransactor_DepositTo lib c opts account)"
    "sent_or_refused refused (IEntryPointTransactor_GetSenderAddress lib c opts initCode)"
    "sent_or_refused refused (IEntryPointTransactor_HandleAggregatedOps lib c opts opsPerAggregator beneficiary)"
    "sent_or_refused refused (IEntryPointTransactor_HandleOps lib c opts ops beneficiary)"
    "sent_or_refused refused (IEntryPointTransactor_IncrementNonce lib c opts key)"
    "sent_or_refused refused (IEntryPointTransactor_UnlockStake lib c opts)"
    "sent_or_refused refused (IEntryPointTransactor_WithdrawStake lib c opts withdrawAddress)"
    "sent_or_refused refused (IEntryPointTransactor_WithdrawTo lib c opts withdrawAddress withdrawAmount)"
  unfolding binding_defs
  by (rule transact_answered [OF assms]; simp add: accepts_def IEntryPoint_methods)+

text \<open>The values of an event always fit its struct.\<close>

lemma IEntryPoint_events_fit:
  "fits IEntryPointMetaData ''AccountDeployed'' into_IEntryPointAccountDeployed"
  "fits IEntryPointMetaData ''BeforeExecution'' into_IEntryPointBeforeExecution"
  "fits IEntryPointMetaData ''Deposited'' into_IEntryPointDeposited"
  "fits IEntryPointMetaData ''PostOpRevertReason'' into_IEntryPointPostOpRevertReason"
  "fits IEntryPointMetaData ''SignatureAggregatorChanged'' into_IEntryPointSignatureAggregatorChanged"
  "fits IEntryPointMetaData ''StakeLocked'' into_IEntryPointStakeLocked"
  "fits IEntryPointMetaData ''StakeUnlocked'' into_IEntryPointStakeUnlocked"
  "fits IEntryPointMetaData ''StakeWithdrawn'' into_IEntryPointStakeWithdrawn"
  "fits IEntryPointMetaData ''UserOperationEvent'' into_IEntryPointUserOperationEvent"
  "fits IEntryPointMetaData ''UserOperationPrefundTooLow'' into_IEntryPointUserOperationPrefundTooLow"
  "fits IEntryPointMetaData ''UserOperationRevertReason'' into_IEntryPointUserOperationRevertReason"
  "fits IEntryPointMetaData ''Withdrawn'' into_IEntryPointWithdrawn"
  by (auto simp: fits_def IEntryPointMetaData_def all_typed_Cons as_defs event_structs)

end
