(* ===== verification/Binding_Factory.thy ===== *)
theory Binding_Factory
  imports Event_Logs
begin

text \<open>
  The generated binding of the factory of light accounts, \<^verbatim>\<open>eth/solidity/LightAccountFactory/LightAccountFactory.go\<close>, method by method: calls, transactions,
  their forms in a session, and the events. Accounts use its interface for the call that creates them.
\<close>

definition LightAccountFactoryMetaData :: MetaData where
  "LightAccountFactoryMetaData = \<lparr> MetaData_ABI = [
     AbiConstructor [(''owner'', TAddress), (''entryPoint'', TAddress)],
     AbiReceive,
     AbiFunction ''ACCOUNT_IMPLEMENTATION'' [] [('''', TAddress)],
     AbiFunction ''ENTRY_POINT'' [] [('''', TAddress)],
     AbiFunction ''acceptOwnership'' [] [],
     AbiFunction ''addStake'' [(''unstakeDelay'', TUint 32), (''amount'', TUint 256)] [],
     AbiFunction ''createAccount'' [(''owner'', TAddress), (''salt'', TUint 256)] [(''account'', TAddress)],
     AbiFunction ''getAddress'' [(''owner'', TAddress), (''salt'', TUint 256)] [('''', TAddress)],
     AbiFunction ''owner'' [] [('''', TAddress)],
     AbiFunction ''pendingOwner'' [] [('''', TAddress)],
     AbiFunction ''renounceOwnership'' [] [],
     AbiFunction ''transferOwnership'' [(''newOwner'', TAddress)] [],
     AbiFunction ''unlockStake'' [] [],
     AbiFunction ''withdraw'' [(''to'', TAddress), (''token'', TAddress), (''amount'', TUint 256)] [],
     AbiFunction ''withdrawStake'' [(''to'', TAddress)] [],
     AbiEvent ''OwnershipTransferStarted'' [(''previousOwner'', TAddress, True), (''newOwner'', TAddress, True)],
     AbiEvent ''OwnershipTransferred'' [(''previousOwner'', TAddress, True), (''newOwner'', TAddress, True)],
     AbiError ''AddressEmptyCode'' [(''target'', TAddress)],
     AbiError ''AddressInsufficientBalance'' [(''account'', TAddress)],
     AbiError ''FailedInnerCall'' [],
     AbiError ''InvalidAction'' [],
     AbiError ''InvalidEntryPoint'' [(''entryPoint'', TAddress)],
     AbiError ''OwnableInvalidOwner'' [(''owner'', TAddress)],
     AbiError ''OwnableUnauthorizedAccount'' [(''account'', TAddress)],
     AbiError ''SafeERC20FailedOperation'' [(''token'', TAddress)],
     AbiError ''TransferFailed'' [],
     AbiError ''ZeroAddressNotAllowed'' []],
     MetaData_Bin = [] \<rparr>"

definition bindLightAccountFactory ::
  "('b, 's) bind_lib \<Rightarrow> eth_address \<Rightarrow> 'b option \<Rightarrow> 'b option \<Rightarrow> 'b option \<Rightarrow> 'b BoundContract go" where
  "bindLightAccountFactory lib address caller transactor filterer = go_bind (GetAbi lib LightAccountFactoryMetaData) (\<lambda>parsed.
     Inr (NewBoundContract address parsed caller transactor filterer))"

definition NewLightAccountFactory :: "('b, 's) bind_lib \<Rightarrow> eth_address \<Rightarrow> 'b \<Rightarrow> 'b Binding go" where
  "NewLightAccountFactory lib address backend =
     go_bind (bindLightAccountFactory lib address (Some backend) (Some backend) (Some backend)) (\<lambda>contract. Inr (whole_binding contract))"

definition NewLightAccountFactoryCaller :: "('b, 's) bind_lib \<Rightarrow> eth_address \<Rightarrow> 'b \<Rightarrow> 'b BoundContract go" where
  "NewLightAccountFactoryCaller lib address caller = bindLightAccountFactory lib address (Some caller) None None"

definition NewLightAccountFactoryTransactor :: "('b, 's) bind_lib \<Rightarrow> eth_address \<Rightarrow> 'b \<Rightarrow> 'b BoundContract go" where
  "NewLightAccountFactoryTransactor lib address transactor = bindLightAccountFactory lib address None (Some transactor) None"

definition NewLightAccountFactoryFilterer :: "('b, 's) bind_lib \<Rightarrow> eth_address \<Rightarrow> 'b \<Rightarrow> 'b BoundContract go" where
  "NewLightAccountFactoryFilterer lib address filterer = bindLightAccountFactory lib address None None (Some filterer)"

definition LightAccountFactoryCaller_ACCOUNTIMPLEMENTATION :: "('b, 's, eth_address go res) call" where [binding_defs]:
  "LightAccountFactoryCaller_ACCOUNTIMPLEMENTATION lib c opts =
     read_call lib c opts ''ACCOUNT_IMPLEMENTATION'' [] (\<lambda>out. out_at as_address out 0)"

definition LightAccountFactorySession_ACCOUNTIMPLEMENTATION :: "('b, 's, eth_address go res) in_session" where
  "LightAccountFactorySession_ACCOUNTIMPLEMENTATION lib s =
     LightAccountFactoryCaller_ACCOUNTIMPLEMENTATION lib (Caller (se_Contract s)) (se_CallOpts s)"

definition LightAccountFactoryCallerSession_ACCOUNTIMPLEMENTATION :: "('b, 's, eth_address go res) in_caller_session" where
  "LightAccountFactoryCallerSession_ACCOUNTIMPLEMENTATION lib s =
     LightAccountFactoryCaller_ACCOUNTIMPLEMENTATION lib (cs_Contract s) (cs_CallOpts s)"

definition LightAccountFactoryCaller_ENTRYPOINT :: "('b, 's, eth_address go res) call" where [binding_defs]:
  "LightAccountFactoryCaller_ENTRYPOINT lib c opts =
     read_call lib c opts ''ENTRY_POINT'' [] (\<lambda>out. out_at as_address out 0)"

definition LightAccountFactorySession_ENTRYPOINT :: "('b, 's, eth_address go res) in_session" where
  "LightAccountFactorySession_ENTRYPOINT lib s =
     LightAccountFactoryCaller_ENTRYPOINT lib (Caller (se_Contract s)) (se_CallOpts s)"

definition LightAccountFactoryCallerSession_ENTRYPOINT :: "('b, 's, eth_address go res) in_caller_session" where
  "LightAccountFactoryCallerSession_ENTRYPOINT lib s =
     LightAccountFactoryCaller_ENTRYPOINT lib (cs_Contract s) (cs_CallOpts s)"

definition LightAccountFactoryCaller_GetAddress :: "('b, 's, eth_address \<Rightarrow> int \<Rightarrow> eth_address go res) call" where [binding_defs]:
  "LightAccountFactoryCaller_GetAddress lib c opts owner salt =
     read_call lib c opts ''getAddress'' [AbiAddress owner, AbiUint256 salt] (\<lambda>out. out_at as_address out 0)"

definition LightAccountFactorySession_GetAddress :: "('b, 's, eth_address \<Rightarrow> int \<Rightarrow> eth_address go res) in_session" where
  "LightAccountFactorySession_GetAddress lib s owner salt =
     LightAccountFactoryCaller_GetAddress lib (Caller (se_Contract s)) (se_CallOpts s) owner salt"

definition LightAccountFactoryCallerSession_GetAddress :: "('b, 's, eth_address \<Rightarrow> int \<Rightarrow> eth_address go res) in_caller_session" where
  "LightAccountFactoryCallerSession_GetAddress lib s owner salt =
     LightAccountFactoryCaller_GetAddress lib (cs_Contract s) (cs_CallOpts s) owner salt"

definition LightAccountFactoryCaller_Owner :: "('b, 's, eth_address go res) call" where [binding_defs]:
  "LightAccountFactoryCaller_Owner lib c opts =
     read_call lib c opts ''owner'' [] (\<lambda>out. out_at as_address out 0)"

definition LightAccountFactorySession_Owner :: "('b, 's, eth_address go res) in_session" where
  "LightAccountFactorySession_Owner lib s =
     LightAccountFactoryCaller_Owner lib (Caller (se_Contract s)) (se_CallOpts s)"

definition LightAccountFactoryCallerSession_Owner :: "('b, 's, eth_address go res) in_caller_session" where
  "LightAccountFactoryCallerSession_Owner lib s =
     LightAccountFactoryCaller_Owner lib (cs_Contract s) (cs_CallOpts s)"

definition LightAccountFactoryCaller_PendingOwner :: "('b, 's, eth_address go res) call" where [binding_defs]:
  "LightAccountFactoryCaller_PendingOwner lib c opts =
     read_call lib c opts ''pendingOwner'' [] (\<lambda>out. out_at as_address out 0)"

definition LightAccountFactorySession_PendingOwner :: "('b, 's, eth_address go res) in_session" where
  "LightAccountFactorySession_PendingOwner lib s =
     LightAccountFactoryCaller_PendingOwner lib (Caller (se_Contract s)) (se_CallOpts s)"

definition LightAccountFactoryCallerSession_PendingOwner :: "('b, 's, eth_address go res) in_caller_session" where
  "LightAccountFactoryCallerSession_PendingOwner lib s =
     LightAccountFactoryCaller_PendingOwner lib (cs_Contract s) (cs_CallOpts s)"

definition LightAccountFactoryCaller_RenounceOwnership :: "('b, 's, unit go res) call" where [binding_defs]:
  "LightAccountFactoryCaller_RenounceOwnership lib c opts =
     read_call lib c opts ''renounceOwnership'' [] (\<lambda>out. Ret ())"

definition LightAccountFactorySession_RenounceOwnership :: "('b, 's, unit go res) in_session" where
  "LightAccountFactorySession_RenounceOwnership lib s =
     LightAccountFactoryCaller_RenounceOwnership lib (Caller (se_Contract s)) (se_CallOpts s)"

definition LightAccountFactoryCallerSession_RenounceOwnership :: "('b, 's, unit go res) in_caller_session" where
  "LightAccountFactoryCallerSession_RenounceOwnership lib s =
     LightAccountFactoryCaller_RenounceOwnership lib (cs_Contract s) (cs_CallOpts s)"

definition LightAccountFactoryTransactor_AcceptOwnership :: "('b, 's, 's go) transact" where [binding_defs]:
  "LightAccountFactoryTransactor_AcceptOwnership lib c opts =
     bound_Transact lib c opts ''acceptOwnership'' []"

definition LightAccountFactorySession_AcceptOwnership :: "('b, 's, 's go) in_session" where
  "LightAccountFactorySession_AcceptOwnership lib s =
     LightAccountFactoryTransactor_AcceptOwnership lib (Transactor (se_Contract s)) (se_TransactOpts s)"

definition LightAccountFactoryTransactorSession_AcceptOwnership :: "('b, 's, 's go) in_transactor_session" where
  "LightAccountFactoryTransactorSession_AcceptOwnership lib s =
     LightAccountFactoryTransactor_AcceptOwnership lib (ts_Contract s) (ts_TransactOpts s)"

definition LightAccountFactoryTransactor_AddStake :: "('b, 's, uint32 \<Rightarrow> int \<Rightarrow> 's go) transact" where [binding_defs]:
  "LightAccountFactoryTransactor_AddStake lib c opts unstakeDelay amount =
     bound_Transact lib c opts ''addStake'' [AbiUint32 unstakeDelay, AbiUint256 amount]"

definition LightAccountFactorySession_AddStake :: "('b, 's, uint32 \<Rightarrow> int \<Rightarrow> 's go) in_session" where
  "LightAccountFactorySession_AddStake lib s unstakeDelay amount =
     LightAccountFactoryTransactor_AddStake lib (Transactor (se_Contract s)) (se_TransactOpts s) unstakeDelay amount"

definition LightAccountFactoryTransactorSession_AddStake :: "('b, 's, uint32 \<Rightarrow> int \<Rightarrow> 's go) in_transactor_session" where
  "LightAccountFactoryTransactorSession_AddStake lib s unstakeDelay amount =
     LightAccountFactoryTransactor_AddStake lib (ts_Contract s) (ts_TransactOpts s) unstakeDelay amount"

definition LightAccountFactoryTransactor_CreateAccount :: "('b, 's, eth_address \<Rightarrow> int \<Rightarrow> 's go) transact" where [binding_defs]:
  "LightAccountFactoryTransactor_CreateAccount lib c opts owner salt =
     bound_Transact lib c opts ''createAccount'' [AbiAddress owner, AbiUint256 salt]"

definition LightAccountFactorySession_CreateAccount :: "('b, 's, eth_address \<Rightarrow> int \<Rightarrow> 's go) in_session" where
  "LightAccountFactorySession_CreateAccount lib s owner salt =
     LightAccountFactoryTransactor_CreateAccount lib (Transactor (se_Contract s)) (se_TransactOpts s) owner salt"

definition LightAccountFactoryTransactorSession_CreateAccount :: "('b, 's, eth_address \<Rightarrow> int \<Rightarrow> 's go) in_transactor_session" where
  "LightAccountFactoryTransactorSession_CreateAccount lib s owner salt =
     LightAccountFactoryTransactor_CreateAccount lib (ts_Contract s) (ts_TransactOpts s) owner salt"

definition LightAccountFactoryTransactor_TransferOwnership :: "('b, 's, eth_address \<Rightarrow> 's go) transact" where [binding_defs]:
  "LightAccountFactoryTransactor_TransferOwnership lib c opts newOwner =
     bound_Transact lib c opts ''transferOwnership'' [AbiAddress newOwner]"

definition LightAccountFactorySession_TransferOwnership :: "('b, 's, eth_address \<Rightarrow> 's go) in_session" where
  "LightAccountFactorySession_TransferOwnership lib s newOwner =
     LightAccountFactoryTransactor_TransferOwnership lib (Transactor (se_Contract s)) (se_TransactOpts s) newOwner"

definition LightAccountFactoryTransactorSession_TransferOwnership :: "('b, 's, eth_address \<Rightarrow> 's go) in_transactor_session" where
  "LightAccountFactoryTransactorSession_TransferOwnership lib s newOwner =
     LightAccountFactoryTransactor_TransferOwnership lib (ts_Contract s) (ts_TransactOpts s) newOwner"

definition LightAccountFactoryTransactor_UnlockStake :: "('b, 's, 's go) transact" where [binding_defs]:
  "LightAccountFactoryTransactor_UnlockStake lib c opts =
     bound_Transact lib c opts ''unlockStake'' []"

definition LightAccountFactorySession_UnlockStake :: "('b, 's, 's go) in_session" where
  "LightAccountFactorySession_UnlockStake lib s =
     LightAccountFactoryTransactor_UnlockStake lib (Transactor (se_Contract s)) (se_TransactOpts s)"

definition LightAccountFactoryTransactorSession_UnlockStake :: "('b, 's, 's go) in_transactor_session" where
  "LightAccountFactoryTransactorSession_UnlockStake lib s =
     LightAccountFactoryTransactor_UnlockStake lib (ts_Contract s) (ts_TransactOpts s)"

definition LightAccountFactoryTransactor_Withdraw :: "('b, 's, eth_address \<Rightarrow> eth_address \<Rightarrow> int \<Rightarrow> 's go) transact" where [binding_defs]:
  "LightAccountFactoryTransactor_Withdraw lib c opts to token amount =
     bound_Transact lib c opts ''withdraw'' [AbiAddress to, AbiAddress token, AbiUint256 amount]"

definition LightAccountFactorySession_Withdraw :: "('b, 's, eth_address \<Rightarrow> eth_address \<Rightarrow> int \<Rightarrow> 's go) in_session" where
  "LightAccountFactorySession_Withdraw lib s to token amount =
     LightAccountFactoryTransactor_Withdraw lib (Transactor (se_Contract s)) (se_TransactOpts s) to token amount"

definition LightAccountFactoryTransactorSession_Withdraw :: "('b, 's, eth_address \<Rightarrow> eth_address \<Rightarrow> int \<Rightarrow> 's go) in_transactor_session" where
  "LightAccountFactoryTransactorSession_Withdraw lib s to token amount =
     LightAccountFactoryTransactor_Withdraw lib (ts_Contract s) (ts_TransactOpts s) to token amount"

definition LightAccountFactoryTransactor_WithdrawStake :: "('b, 's, eth_address \<Rightarrow> 's go) transact" where [binding_defs]:
  "LightAccountFactoryTransactor_WithdrawStake lib c opts to =
     bound_Transact lib c opts ''withdrawStake'' [AbiAddress to]"

definition LightAccountFactorySession_WithdrawStake :: "('b, 's, eth_address \<Rightarrow> 's go) in_session" where
  "LightAccountFactorySession_WithdrawStake lib s to =
     LightAccountFactoryTransactor_WithdrawStake lib (Transactor (se_Contract s)) (se_TransactOpts s) to"

definition LightAccountFactoryTransactorSession_WithdrawStake :: "('b, 's, eth_address \<Rightarrow> 's go) in_transactor_session" where
  "LightAccountFactoryTransactorSession_WithdrawStake lib s to =
     LightAccountFactoryTransactor_WithdrawStake lib (ts_Contract s) (ts_TransactOpts s) to"

definition LightAccountFactoryTransactor_Receive :: "('b, 's, 's go) transact" where [binding_defs]:
  "LightAccountFactoryTransactor_Receive lib c opts =
     bound_RawTransact lib c opts []"

definition LightAccountFactorySession_Receive :: "('b, 's, 's go) in_session" where
  "LightAccountFactorySession_Receive lib s =
     LightAccountFactoryTransactor_Receive lib (Transactor (se_Contract s)) (se_TransactOpts s)"

definition LightAccountFactoryTransactorSession_Receive :: "('b, 's, 's go) in_transactor_session" where
  "LightAccountFactoryTransactorSession_Receive lib s =
     LightAccountFactoryTransactor_Receive lib (ts_Contract s) (ts_TransactOpts s)"

record LightAccountFactoryOwnershipTransferStarted =
  LightAccountFactoryOwnershipTransferStarted_PreviousOwner :: eth_address
  LightAccountFactoryOwnershipTransferStarted_NewOwner :: eth_address
  LightAccountFactoryOwnershipTransferStarted_Raw :: Log

definition into_LightAccountFactoryOwnershipTransferStarted :: "LightAccountFactoryOwnershipTransferStarted into" where [event_structs]:
  "into_LightAccountFactoryOwnershipTransferStarted vs log = (case vs of [v0, v1] \<Rightarrow>
        Option.bind (as_address v0) (\<lambda>x0.
        Option.bind (as_address v1) (\<lambda>x1.
        Some \<lparr> LightAccountFactoryOwnershipTransferStarted_PreviousOwner = x0, LightAccountFactoryOwnershipTransferStarted_NewOwner = x1, LightAccountFactoryOwnershipTransferStarted_Raw = log \<rparr>))
      | _ \<Rightarrow> None)"

definition LightAccountFactoryOwnershipTransferStartedIterator_Next :: "('b, 's) bind_lib \<Rightarrow> bool \<Rightarrow> ('b, LightAccountFactoryOwnershipTransferStarted) Iterator \<Rightarrow> bool \<times> ('b, LightAccountFactoryOwnershipTransferStarted) Iterator" where
  "LightAccountFactoryOwnershipTransferStartedIterator_Next lib = Iterator_Next lib into_LightAccountFactoryOwnershipTransferStarted"

definition LightAccountFactoryFilterer_FilterOwnershipTransferStarted ::
  "('b, 's) bind_lib \<Rightarrow> 'b BoundContract \<Rightarrow> FilterOpts \<Rightarrow> eth_address list \<Rightarrow> eth_address list \<Rightarrow> ('b, LightAccountFactoryOwnershipTransferStarted) Iterator go" where
  "LightAccountFactoryFilterer_FilterOwnershipTransferStarted lib c opts previousOwner newOwner =
     go_bind (FilterLogs lib c opts ''OwnershipTransferStarted'' [map AbiAddress previousOwner, map AbiAddress newOwner]) (\<lambda>sub.
     Inr (new_iterator c ''OwnershipTransferStarted'' sub))"

definition LightAccountFactoryFilterer_WatchOwnershipTransferStarted ::
  "('b, 's) bind_lib \<Rightarrow> 'b BoundContract \<Rightarrow> WatchOpts \<Rightarrow> eth_address list \<Rightarrow> eth_address list \<Rightarrow> LightAccountFactoryOwnershipTransferStarted watcher go" where
  "LightAccountFactoryFilterer_WatchOwnershipTransferStarted lib c opts previousOwner newOwner =
     go_bind (WatchLogs lib c opts ''OwnershipTransferStarted'' [map AbiAddress previousOwner, map AbiAddress newOwner]) (\<lambda>_.
     Inr (watch_step (unpack_event lib into_LightAccountFactoryOwnershipTransferStarted c ''OwnershipTransferStarted''), watch_start))"

definition LightAccountFactoryFilterer_ParseOwnershipTransferStarted :: "('b, 's) bind_lib \<Rightarrow> 'b BoundContract \<Rightarrow> Log \<Rightarrow> LightAccountFactoryOwnershipTransferStarted go" where
  "LightAccountFactoryFilterer_ParseOwnershipTransferStarted lib c log = unpack_event lib into_LightAccountFactoryOwnershipTransferStarted c ''OwnershipTransferStarted'' log"

record LightAccountFactoryOwnershipTransferred =
  LightAccountFactoryOwnershipTransferred_PreviousOwner :: eth_address
  LightAccountFactoryOwnershipTransferred_NewOwner :: eth_address
  LightAccountFactoryOwnershipTransferred_Raw :: Log

definition into_LightAccountFactoryOwnershipTransferred :: "LightAccountFactoryOwnershipTransferred into" where [event_structs]:
  "into_LightAccountFactoryOwnershipTransferred vs log = (case vs of [v0, v1] \<Rightarrow>
        Option.bind (as_address v0) (\<lambda>x0.
        Option.bind (as_address v1) (\<lambda>x1.
        Some \<lparr> LightAccountFactoryOwnershipTransferred_PreviousOwner = x0, LightAccountFactoryOwnershipTransferred_NewOwner = x1, LightAccountFactoryOwnershipTransferred_Raw = log \<rparr>))
      | _ \<Rightarrow> None)"

definition LightAccountFactoryOwnershipTransferredIterator_Next :: "('b, 's) bind_lib \<Rightarrow> bool \<Rightarrow> ('b, LightAccountFactoryOwnershipTransferred) Iterator \<Rightarrow> bool \<times> ('b, LightAccountFactoryOwnershipTransferred) Iterator" where
  "LightAccountFactoryOwnershipTransferredIterator_Next lib = Iterator_Next lib into_LightAccountFactoryOwnershipTransferred"

definition LightAccountFactoryFilterer_FilterOwnershipTransferred ::
  "('b, 's) bind_lib \<Rightarrow> 'b BoundContract \<Rightarrow> FilterOpts \<Rightarrow> eth_address list \<Rightarrow> eth_address list \<Rightarrow> ('b, LightAccountFactoryOwnershipTransferred) Iterator go" where
  "LightAccountFactoryFilterer_FilterOwnershipTransferred lib c opts previousOwner newOwner =
     go_bind (FilterLogs lib c opts ''OwnershipTransferred'' [map AbiAddress previousOwner, map AbiAddress newOwner]) (\<lambda>sub.
     Inr (new_iterator c ''OwnershipTransferred'' sub))"

definition LightAccountFactoryFilterer_WatchOwnershipTransferred ::
  "('b, 's) bind_lib \<Rightarrow> 'b BoundContract \<Rightarrow> WatchOpts \<Rightarrow> eth_address list \<Rightarrow> eth_address list \<Rightarrow> LightAccountFactoryOwnershipTransferred watcher go" where
  "LightAccountFactoryFilterer_WatchOwnershipTransferred lib c opts previousOwner newOwner =
     go_bind (WatchLogs lib c opts ''OwnershipTransferred'' [map AbiAddress previousOwner, map AbiAddress newOwner]) (\<lambda>_.
     Inr (watch_step (unpack_event lib into_LightAccountFactoryOwnershipTransferred c ''OwnershipTransferred''), watch_start))"

definition LightAccountFactoryFilterer_ParseOwnershipTransferred :: "('b, 's) bind_lib \<Rightarrow> 'b BoundContract \<Rightarrow> Log \<Rightarrow> LightAccountFactoryOwnershipTransferred go" where
  "LightAccountFactoryFilterer_ParseOwnershipTransferred lib c log = unpack_event lib into_LightAccountFactoryOwnershipTransferred c ''OwnershipTransferred'' log"

subsection \<open>The binding fits the interface\<close>

lemma LightAccountFactory_methods:
  "abi_methods LightAccountFactoryMetaData = [
     (''ACCOUNT_IMPLEMENTATION'', [], [TAddress]),
     (''ENTRY_POINT'', [], [TAddress]),
     (''acceptOwnership'', [], []),
     (''addStake'', [TUint 32, TUint 256], []),
     (''createAccount'', [TAddress, TUint 256], [TAddress]),
     (''getAddress'', [TAddress, TUint 256], [TAddress]),
     (''owner'', [], [TAddress]),
     (''pendingOwner'', [], [TAddress]),
     (''renounceOwnership'', [], []),
     (''transferOwnership'', [TAddress], []),
     (''unlockStake'', [], []),
     (''withdraw'', [TAddress, TAddress, TUint 256], []),
     (''withdrawStake'', [TAddress], [])]"
  by code_simp

text \<open>No read-only method can panic: the conversions are those of the types of the interface.\<close>

lemma LightAccountFactory_calls_answered:
  assumes "serves refused lib LightAccountFactoryMetaData" and "bound_to lib LightAccountFactoryMetaData c"
  shows "answered refused (LightAccountFactoryCaller_ACCOUNTIMPLEMENTATION lib c opts)"
    "answered refused (LightAccountFactoryCaller_ENTRYPOINT lib c opts)"
    "answered refused (LightAccountFactoryCaller_GetAddress lib c opts owner salt)"
    "answered refused (LightAccountFactoryCaller_Owner lib c opts)"
    "answered refused (LightAccountFactoryCaller_PendingOwner lib c opts)"
    "answered refused (LightAccountFactoryCaller_RenounceOwnership lib c opts)"
  unfolding binding_defs
  by (rule read_call_answered [OF assms];
      auto simp: accepts_def returns_def LightAccountFactory_methods all_typed_Cons out_at_def as_defs)+

lemma LightAccountFactory_transactions_sent:
  assumes "serves refused lib LightAccountFactoryMetaData" and "bound_to lib LightAccountFactoryMetaData c"
  shows "sent_or_refused refused (LightAccountFactoryTransactor_AcceptOwnership lib c opts)"
    "sent_or_refused refused (LightAccountFactoryTransactor_AddStake lib c opts unstakeDelay amount)"
    "sent_or_refused refused (LightAccountFactoryTransactor_CreateAccount lib c opts owner salt)"
    "sent_or_refused refused (LightAccountFactoryTransactor_TransferOwnership lib c opts newOwner)"
    "sent_or_refused refused (LightAccountFactoryTransactor_UnlockStake lib c opts)"
    "sent_or_refused refused (LightAccountFactoryTransactor_Withdraw lib c opts to token amount)"
    "sent_or_refused refused (LightAccountFactoryTransactor_WithdrawStake lib c opts to)"
  unfolding binding_defs
  by (rule transact_answered [OF assms]; simp add: accepts_def LightAccountFactory_methods)+

text \<open>The values of an event always fit its struct.\<close>

lemma LightAccountFactory_events_fit:
  "fits LightAccountFactoryMetaData ''OwnershipTransferStarted'' into_LightAccountFactoryOwnershipTransferStarted"
  "fits LightAccountFactoryMetaData ''OwnershipTransferred'' into_LightAccountFactoryOwnershipTransferred"
  by (auto simp: fits_def LightAccountFactoryMetaData_def all_typed_Cons as_defs event_structs)

end
