(* ===== verification/Binding_Account.thy ===== *)
theory Binding_Account
  imports Event_Logs
begin

text \<open>
  The generated binding of light accounts, \<^verbatim>\<open>eth/solidity/LightAccount/LightAccount.go\<close>, method by method: calls, transactions,
  their forms in a session, and the events. User operations use its interface for the call to execute.
\<close>

definition LightAccountMetaData :: MetaData where
  "LightAccountMetaData = \<lparr> MetaData_ABI = [
     AbiConstructor [(''entryPoint_'', TAddress)],
     AbiReceive,
     AbiFunction ''addDeposit'' [] [],
     AbiFunction ''eip712Domain'' [] [(''fields'', TFixed 1), (''name'', TString), (''version'', TString), (''chainId'', TUint 256), (''verifyingContract'', TAddress), (''salt'', TFixed 32), (''extensions'', TArray (TUint 256))],
     AbiFunction ''entryPoint'' [] [('''', TAddress)],
     AbiFunction ''execute'' [(''dest'', TAddress), (''value'', TUint 256), (''func'', TBytes)] [],
     AbiFunction ''executeBatch'' [(''dest'', TArray TAddress), (''func'', TArray TBytes)] [],
     AbiFunction ''executeBatch'' [(''dest'', TArray TAddress), (''value'', TArray (TUint 256)), (''func'', TArray TBytes)] [],
     AbiFunction ''getDeposit'' [] [('''', TUint 256)],
     AbiFunction ''getMessageHash'' [(''message'', TBytes)] [('''', TFixed 32)],
     AbiFunction ''getNonce'' [] [('''', TUint 256)],
     AbiFunction ''initialize'' [(''owner_'', TAddress)] [],
     AbiFunction ''isValidSignature'' [(''hash'', TFixed 32), (''signature'', TBytes)] [('''', TFixed 4)],
     AbiFunction ''onERC1155BatchReceived'' [('''', TAddress), ('''', TAddress), ('''', TArray (TUint 256)), ('''', TArray (TUint 256)), ('''', TBytes)] [('''', TFixed 4)],
     AbiFunction ''onERC1155Received'' [('''', TAddress), ('''', TAddress), ('''', TUint 256), ('''', TUint 256), ('''', TBytes)] [('''', TFixed 4)],
     AbiFunction ''onERC721Received'' [('''', TAddress), ('''', TAddress), ('''', TUint 256), ('''', TBytes)] [('''', TFixed 4)],
     AbiFunction ''owner'' [] [('''', TAddress)],
     AbiFunction ''performCreate'' [(''value'', TUint 256), (''initCode'', TBytes)] [(''createdAddr'', TAddress)],
     AbiFunction ''performCreate2'' [(''value'', TUint 256), (''initCode'', TBytes), (''salt'', TFixed 32)] [(''createdAddr'', TAddress)],
     AbiFunction ''proxiableUUID'' [] [('''', TFixed 32)],
     AbiFunction ''supportsInterface'' [(''interfaceId'', TFixed 4)] [('''', TBool)],
     AbiFunction ''transferOwnership'' [(''newOwner'', TAddress)] [],
     AbiFunction ''upgradeToAndCall'' [(''newImplementation'', TAddress), (''data'', TBytes)] [],
     AbiFunction ''validateUserOp'' [(''userOp'', packed_op_type), (''userOpHash'', TFixed 32), (''missingAccountFunds'', TUint 256)] [(''validationData'', TUint 256)],
     AbiFunction ''withdrawDepositTo'' [(''withdrawAddress'', TAddress), (''amount'', TUint 256)] [],
     AbiEvent ''Initialized'' [(''version'', TUint 64, False)],
     AbiEvent ''LightAccountInitialized'' [(''entryPoint'', TAddress, True), (''owner'', TAddress, True)],
     AbiEvent ''OwnershipTransferred'' [(''previousOwner'', TAddress, True), (''newOwner'', TAddress, True)],
     AbiEvent ''Upgraded'' [(''implementation'', TAddress, True)],
     AbiError ''ArrayLengthMismatch'' [],
     AbiError ''CreateFailed'' [],
     AbiError ''ECDSAInvalidSignature'' [],
     AbiError ''ECDSAInvalidSignatureLength'' [(''length'', TUint 256)],
     AbiError ''ECDSAInvalidSignatureS'' [(''s'', TFixed 32)],
     AbiError ''InvalidInitialization'' [],
     AbiError ''InvalidOwner'' [(''owner'', TAddress)],
     AbiError ''InvalidSignatureType'' [],
     AbiError ''NotAuthorized'' [(''caller'', TAddress)],
     AbiError ''NotInitializing'' [],
     AbiError ''UnauthorizedCallContext'' [],
     AbiError ''UpgradeFailed'' [],
     AbiError ''ZeroAddressNotAllowed'' []],
     MetaData_Bin = [] \<rparr>"

definition bindLightAccount ::
  "('b, 's) bind_lib \<Rightarrow> eth_address \<Rightarrow> 'b option \<Rightarrow> 'b option \<Rightarrow> 'b option \<Rightarrow> 'b BoundContract go" where
  "bindLightAccount lib address caller transactor filterer = go_bind (GetAbi lib LightAccountMetaData) (\<lambda>parsed.
     Inr (NewBoundContract address parsed caller transactor filterer))"

definition NewLightAccount_contract :: "('b, 's) bind_lib \<Rightarrow> eth_address \<Rightarrow> 'b \<Rightarrow> 'b Binding go" where
  "NewLightAccount_contract lib address backend =
     go_bind (bindLightAccount lib address (Some backend) (Some backend) (Some backend)) (\<lambda>contract. Inr (whole_binding contract))"

definition NewLightAccountCaller :: "('b, 's) bind_lib \<Rightarrow> eth_address \<Rightarrow> 'b \<Rightarrow> 'b BoundContract go" where
  "NewLightAccountCaller lib address caller = bindLightAccount lib address (Some caller) None None"

definition NewLightAccountTransactor :: "('b, 's) bind_lib \<Rightarrow> eth_address \<Rightarrow> 'b \<Rightarrow> 'b BoundContract go" where
  "NewLightAccountTransactor lib address transactor = bindLightAccount lib address None (Some transactor) None"

definition NewLightAccountFilterer :: "('b, 's) bind_lib \<Rightarrow> eth_address \<Rightarrow> 'b \<Rightarrow> 'b BoundContract go" where
  "NewLightAccountFilterer lib address filterer = bindLightAccount lib address None None (Some filterer)"

record LightAccount_Eip712Domain =
  LightAccount_Eip712Domain_Fields :: bytes
  LightAccount_Eip712Domain_Name :: string
  LightAccount_Eip712Domain_Version :: string
  LightAccount_Eip712Domain_ChainId :: int
  LightAccount_Eip712Domain_VerifyingContract :: eth_address
  LightAccount_Eip712Domain_Salt :: bytes
  LightAccount_Eip712Domain_Extensions :: "int list"

definition LightAccountCaller_Eip712Domain :: "('b, 's, LightAccount_Eip712Domain go res) call" where [binding_defs]:
  "LightAccountCaller_Eip712Domain lib c opts =
     read_call lib c opts ''eip712Domain'' [] (\<lambda>out.
     res_bind (out_at (as_bytesN 1) out 0) (\<lambda>x0.
     res_bind (out_at as_string out 1) (\<lambda>x1.
     res_bind (out_at as_string out 2) (\<lambda>x2.
     res_bind (out_at as_bigInt out 3) (\<lambda>x3.
     res_bind (out_at as_address out 4) (\<lambda>x4.
     res_bind (out_at as_bytes32 out 5) (\<lambda>x5.
     res_bind (out_at as_bigInts out 6) (\<lambda>x6.
     Ret \<lparr> LightAccount_Eip712Domain_Fields = x0, LightAccount_Eip712Domain_Name = x1, LightAccount_Eip712Domain_Version = x2, LightAccount_Eip712Domain_ChainId = x3, LightAccount_Eip712Domain_VerifyingContract = x4, LightAccount_Eip712Domain_Salt = x5, LightAccount_Eip712Domain_Extensions = x6 \<rparr>))))))))"

definition LightAccountSession_Eip712Domain :: "('b, 's, LightAccount_Eip712Domain go res) in_session" where
  "LightAccountSession_Eip712Domain lib s =
     LightAccountCaller_Eip712Domain lib (Caller (se_Contract s)) (se_CallOpts s)"

definition LightAccountCallerSession_Eip712Domain :: "('b, 's, LightAccount_Eip712Domain go res) in_caller_session" where
  "LightAccountCallerSession_Eip712Domain lib s =
     LightAccountCaller_Eip712Domain lib (cs_Contract s) (cs_CallOpts s)"

definition LightAccountCaller_EntryPoint :: "('b, 's, eth_address go res) call" where [binding_defs]:
  "LightAccountCaller_EntryPoint lib c opts =
     read_call lib c opts ''entryPoint'' [] (\<lambda>out. out_at as_address out 0)"

definition LightAccountSession_EntryPoint :: "('b, 's, eth_address go res) in_session" where
  "LightAccountSession_EntryPoint lib s =
     LightAccountCaller_EntryPoint lib (Caller (se_Contract s)) (se_CallOpts s)"

definition LightAccountCallerSession_EntryPoint :: "('b, 's, eth_address go res) in_caller_session" where
  "LightAccountCallerSession_EntryPoint lib s =
     LightAccountCaller_EntryPoint lib (cs_Contract s) (cs_CallOpts s)"

definition LightAccountCaller_GetDeposit :: "('b, 's, int go res) call" where [binding_defs]:
  "LightAccountCaller_GetDeposit lib c opts =
     read_call lib c opts ''getDeposit'' [] (\<lambda>out. out_at as_bigInt out 0)"

definition LightAccountSession_GetDeposit :: "('b, 's, int go res) in_session" where
  "LightAccountSession_GetDeposit lib s =
     LightAccountCaller_GetDeposit lib (Caller (se_Contract s)) (se_CallOpts s)"

definition LightAccountCallerSession_GetDeposit :: "('b, 's, int go res) in_caller_session" where
  "LightAccountCallerSession_GetDeposit lib s =
     LightAccountCaller_GetDeposit lib (cs_Contract s) (cs_CallOpts s)"

definition LightAccountCaller_GetMessageHash :: "('b, 's, bytes \<Rightarrow> bytes go res) call" where [binding_defs]:
  "LightAccountCaller_GetMessageHash lib c opts message =
     read_call lib c opts ''getMessageHash'' [AbiBytes message] (\<lambda>out. out_at as_bytes32 out 0)"

definition LightAccountSession_GetMessageHash :: "('b, 's, bytes \<Rightarrow> bytes go res) in_session" where
  "LightAccountSession_GetMessageHash lib s message =
     LightAccountCaller_GetMessageHash lib (Caller (se_Contract s)) (se_CallOpts s) message"

definition LightAccountCallerSession_GetMessageHash :: "('b, 's, bytes \<Rightarrow> bytes go res) in_caller_session" where
  "LightAccountCallerSession_GetMessageHash lib s message =
     LightAccountCaller_GetMessageHash lib (cs_Contract s) (cs_CallOpts s) message"

definition LightAccountCaller_GetNonce :: "('b, 's, int go res) call" where [binding_defs]:
  "LightAccountCaller_GetNonce lib c opts =
     read_call lib c opts ''getNonce'' [] (\<lambda>out. out_at as_bigInt out 0)"

definition LightAccountSession_GetNonce :: "('b, 's, int go res) in_session" where
  "LightAccountSession_GetNonce lib s =
     LightAccountCaller_GetNonce lib (Caller (se_Contract s)) (se_CallOpts s)"

definition LightAccountCallerSession_GetNonce :: "('b, 's, int go res) in_caller_session" where
  "LightAccountCallerSession_GetNonce lib s =
     LightAccountCaller_GetNonce lib (cs_Contract s) (cs_CallOpts s)"

definition LightAccountCaller_IsValidSignature :: "('b, 's, bytes \<Rightarrow> bytes \<Rightarrow> bytes go res) call" where [binding_defs]:
  "LightAccountCaller_IsValidSignature lib c opts hash signature =
     read_call lib c opts ''isValidSignature'' [AbiBytes32 hash, AbiBytes signature] (\<lambda>out. out_at (as_bytesN 4) out 0)"

definition LightAccountSession_IsValidSignature :: "('b, 's, bytes \<Rightarrow> bytes \<Rightarrow> bytes go res) in_session" where
  "LightAccountSession_IsValidSignature lib s hash signature =
     LightAccountCaller_IsValidSignature lib (Caller (se_Contract s)) (se_CallOpts s) hash signature"

definition LightAccountCallerSession_IsValidSignature :: "('b, 's, bytes \<Rightarrow> bytes \<Rightarrow> bytes go res) in_caller_session" where
  "LightAccountCallerSession_IsValidSignature lib s hash signature =
     LightAccountCaller_IsValidSignature lib (cs_Contract s) (cs_CallOpts s) hash signature"

definition LightAccountCaller_OnERC1155BatchReceived :: "('b, 's, eth_address \<Rightarrow> eth_address \<Rightarrow> int list \<Rightarrow> int list \<Rightarrow> bytes \<Rightarrow> bytes go res) call" where [binding_defs]:
  "LightAccountCaller_OnERC1155BatchReceived lib c opts arg0 arg1 arg2 arg3 arg4 =
     read_call lib c opts ''onERC1155BatchReceived'' [AbiAddress arg0, AbiAddress arg1, AbiUint256s arg2, AbiUint256s arg3, AbiBytes arg4] (\<lambda>out. out_at (as_bytesN 4) out 0)"

definition LightAccountSession_OnERC1155BatchReceived :: "('b, 's, eth_address \<Rightarrow> eth_address \<Rightarrow> int list \<Rightarrow> int list \<Rightarrow> bytes \<Rightarrow> bytes go res) in_session" where
  "LightAccountSession_OnERC1155BatchReceived lib s arg0 arg1 arg2 arg3 arg4 =
     LightAccountCaller_OnERC1155BatchReceived lib (Caller (se_Contract s)) (se_CallOpts s) arg0 arg1 arg2 arg3 arg4"

definition LightAccountCallerSession_OnERC1155BatchReceived :: "('b, 's, eth_address \<Rightarrow> eth_address \<Rightarrow> int list \<Rightarrow> int list \<Rightarrow> bytes \<Rightarrow> bytes go res) in_caller_session" where
  "LightAccountCallerSession_OnERC1155BatchReceived lib s arg0 arg1 arg2 arg3 arg4 =
     LightAccountCaller_OnERC1155BatchReceived lib (cs_Contract s) (cs_CallOpts s) arg0 arg1 arg2 arg3 arg4"

definition LightAccountCaller_OnERC1155Received :: "('b, 's, eth_address \<Rightarrow> eth_address \<Rightarrow> int \<Rightarrow> int \<Rightarrow> bytes \<Rightarrow> bytes go res) call" where [binding_defs]:
  "LightAccountCaller_OnERC1155Received lib c opts arg0 arg1 arg2 arg3 arg4 =
     read_call lib c opts ''onERC1155Received'' [AbiAddress arg0, AbiAddress arg1, AbiUint256 arg2, AbiUint256 arg3, AbiBytes arg4] (\<lambda>out. out_at (as_bytesN 4) out 0)"

definition LightAccountSession_OnERC1155Received :: "('b, 's, eth_address \<Rightarrow> eth_address \<Rightarrow> int \<Rightarrow> int \<Rightarrow> bytes \<Rightarrow> bytes go res) in_session" where
  "LightAccountSession_OnERC1155Received lib s arg0 arg1 arg2 arg3 arg4 =
     LightAccountCaller_OnERC1155Received lib (Caller (se_Contract s)) (se_CallOpts s) arg0 arg1 arg2 arg3 arg4"

definition LightAccountCallerSession_OnERC1155Received :: "('b, 's, eth_address \<Rightarrow> eth_address \<Rightarrow> int \<Rightarrow> int \<Rightarrow> bytes \<Rightarrow> bytes go res) in_caller_session" where
  "LightAccountCallerSession_OnERC1155Received lib s arg0 arg1 arg2 arg3 arg4 =
     LightAccountCaller_OnERC1155Received lib (cs_Contract s) (cs_CallOpts s) arg0 arg1 arg2 arg3 arg4"

definition LightAccountCaller_OnERC721Received :: "('b, 's, eth_address \<Rightarrow> eth_address \<Rightarrow> int \<Rightarrow> bytes \<Rightarrow> bytes go res) call" where [binding_defs]:
  "LightAccountCaller_OnERC721Received lib c opts arg0 arg1 arg2 arg3 =
     read_call lib c opts ''onERC721Received'' [AbiAddress arg0, AbiAddress arg1, AbiUint256 arg2, AbiBytes arg3] (\<lambda>out. out_at (as_bytesN 4) out 0)"

definition LightAccountSession_OnERC721Received :: "('b, 's, eth_address \<Rightarrow> eth_address \<Rightarrow> int \<Rightarrow> bytes \<Rightarrow> bytes go res) in_session" where
  "LightAccountSession_OnERC721Received lib s arg0 arg1 arg2 arg3 =
     LightAccountCaller_OnERC721Received lib (Caller (se_Contract s)) (se_CallOpts s) arg0 arg1 arg2 arg3"

definition LightAccountCallerSession_OnERC721Received :: "('b, 's, eth_address \<Rightarrow> eth_address \<Rightarrow> int \<Rightarrow> bytes \<Rightarrow> bytes go res) in_caller_session" where
  "LightAccountCallerSession_OnERC721Received lib s arg0 arg1 arg2 arg3 =
     LightAccountCaller_OnERC721Received lib (cs_Contract s) (cs_CallOpts s) arg0 arg1 arg2 arg3"

definition LightAccountCaller_Owner :: "('b, 's, eth_address go res) call" where [binding_defs]:
  "LightAccountCaller_Owner lib c opts =
     read_call lib c opts ''owner'' [] (\<lambda>out. out_at as_address out 0)"

definition LightAccountSession_Owner :: "('b, 's, eth_address go res) in_session" where
  "LightAccountSession_Owner lib s =
     LightAccountCaller_Owner lib (Caller (se_Contract s)) (se_CallOpts s)"

definition LightAccountCallerSession_Owner :: "('b, 's, eth_address go res) in_caller_session" where
  "LightAccountCallerSession_Owner lib s =
     LightAccountCaller_Owner lib (cs_Contract s) (cs_CallOpts s)"

definition LightAccountCaller_ProxiableUUID :: "('b, 's, bytes go res) call" where [binding_defs]:
  "LightAccountCaller_ProxiableUUID lib c opts =
     read_call lib c opts ''proxiableUUID'' [] (\<lambda>out. out_at as_bytes32 out 0)"

definition LightAccountSession_ProxiableUUID :: "('b, 's, bytes go res) in_session" where
  "LightAccountSession_ProxiableUUID lib s =
     LightAccountCaller_ProxiableUUID lib (Caller (se_Contract s)) (se_CallOpts s)"

definition LightAccountCallerSession_ProxiableUUID :: "('b, 's, bytes go res) in_caller_session" where
  "LightAccountCallerSession_ProxiableUUID lib s =
     LightAccountCaller_ProxiableUUID lib (cs_Contract s) (cs_CallOpts s)"

definition LightAccountCaller_SupportsInterface :: "('b, 's, bytes \<Rightarrow> bool go res) call" where [binding_defs]:
  "LightAccountCaller_SupportsInterface lib c opts interfaceId =
     read_call lib c opts ''supportsInterface'' [AbiBytesN 4 interfaceId] (\<lambda>out. out_at as_bool out 0)"

definition LightAccountSession_SupportsInterface :: "('b, 's, bytes \<Rightarrow> bool go res) in_session" where
  "LightAccountSession_SupportsInterface lib s interfaceId =
     LightAccountCaller_SupportsInterface lib (Caller (se_Contract s)) (se_CallOpts s) interfaceId"

definition LightAccountCallerSession_SupportsInterface :: "('b, 's, bytes \<Rightarrow> bool go res) in_caller_session" where
  "LightAccountCallerSession_SupportsInterface lib s interfaceId =
     LightAccountCaller_SupportsInterface lib (cs_Contract s) (cs_CallOpts s) interfaceId"

definition LightAccountTransactor_AddDeposit :: "('b, 's, 's go) transact" where [binding_defs]:
  "LightAccountTransactor_AddDeposit lib c opts =
     bound_Transact lib c opts ''addDeposit'' []"

definition LightAccountSession_AddDeposit :: "('b, 's, 's go) in_session" where
  "LightAccountSession_AddDeposit lib s =
     LightAccountTransactor_AddDeposit lib (Transactor (se_Contract s)) (se_TransactOpts s)"

definition LightAccountTransactorSession_AddDeposit :: "('b, 's, 's go) in_transactor_session" where
  "LightAccountTransactorSession_AddDeposit lib s =
     LightAccountTransactor_AddDeposit lib (ts_Contract s) (ts_TransactOpts s)"

definition LightAccountTransactor_Execute :: "('b, 's, eth_address \<Rightarrow> int \<Rightarrow> bytes \<Rightarrow> 's go) transact" where [binding_defs]:
  "LightAccountTransactor_Execute lib c opts dest value arg2 =
     bound_Transact lib c opts ''execute'' [AbiAddress dest, AbiUint256 value, AbiBytes arg2]"

definition LightAccountSession_Execute :: "('b, 's, eth_address \<Rightarrow> int \<Rightarrow> bytes \<Rightarrow> 's go) in_session" where
  "LightAccountSession_Execute lib s dest value arg2 =
     LightAccountTransactor_Execute lib (Transactor (se_Contract s)) (se_TransactOpts s) dest value arg2"

definition LightAccountTransactorSession_Execute :: "('b, 's, eth_address \<Rightarrow> int \<Rightarrow> bytes \<Rightarrow> 's go) in_transactor_session" where
  "LightAccountTransactorSession_Execute lib s dest value arg2 =
     LightAccountTransactor_Execute lib (ts_Contract s) (ts_TransactOpts s) dest value arg2"

definition LightAccountTransactor_ExecuteBatch :: "('b, 's, eth_address list \<Rightarrow> bytes list \<Rightarrow> 's go) transact" where [binding_defs]:
  "LightAccountTransactor_ExecuteBatch lib c opts dest arg1 =
     bound_Transact lib c opts ''executeBatch'' [AbiAddresses dest, AbiBytess arg1]"

definition LightAccountSession_ExecuteBatch :: "('b, 's, eth_address list \<Rightarrow> bytes list \<Rightarrow> 's go) in_session" where
  "LightAccountSession_ExecuteBatch lib s dest arg1 =
     LightAccountTransactor_ExecuteBatch lib (Transactor (se_Contract s)) (se_TransactOpts s) dest arg1"

definition LightAccountTransactorSession_ExecuteBatch :: "('b, 's, eth_address list \<Rightarrow> bytes list \<Rightarrow> 's go) in_transactor_session" where
  "LightAccountTransactorSession_ExecuteBatch lib s dest arg1 =
     LightAccountTransactor_ExecuteBatch lib (ts_Contract s) (ts_TransactOpts s) dest arg1"

definition LightAccountTransactor_ExecuteBatch0 :: "('b, 's, eth_address list \<Rightarrow> int list \<Rightarrow> bytes list \<Rightarrow> 's go) transact" where [binding_defs]:
  "LightAccountTransactor_ExecuteBatch0 lib c opts dest value arg2 =
     bound_Transact lib c opts ''executeBatch0'' [AbiAddresses dest, AbiUint256s value, AbiBytess arg2]"

definition LightAccountSession_ExecuteBatch0 :: "('b, 's, eth_address list \<Rightarrow> int list \<Rightarrow> bytes list \<Rightarrow> 's go) in_session" where
  "LightAccountSession_ExecuteBatch0 lib s dest value arg2 =
     LightAccountTransactor_ExecuteBatch0 lib (Transactor (se_Contract s)) (se_TransactOpts s) dest value arg2"

definition LightAccountTransactorSession_ExecuteBatch0 :: "('b, 's, eth_address list \<Rightarrow> int list \<Rightarrow> bytes list \<Rightarrow> 's go) in_transactor_session" where
  "LightAccountTransactorSession_ExecuteBatch0 lib s dest value arg2 =
     LightAccountTransactor_ExecuteBatch0 lib (ts_Contract s) (ts_TransactOpts s) dest value arg2"

definition LightAccountTransactor_Initialize :: "('b, 's, eth_address \<Rightarrow> 's go) transact" where [binding_defs]:
  "LightAccountTransactor_Initialize lib c opts owner =
     bound_Transact lib c opts ''initialize'' [AbiAddress owner]"

definition LightAccountSession_Initialize :: "('b, 's, eth_address \<Rightarrow> 's go) in_session" where
  "LightAccountSession_Initialize lib s owner =
     LightAccountTransactor_Initialize lib (Transactor (se_Contract s)) (se_TransactOpts s) owner"

definition LightAccountTransactorSession_Initialize :: "('b, 's, eth_address \<Rightarrow> 's go) in_transactor_session" where
  "LightAccountTransactorSession_Initialize lib s owner =
     LightAccountTransactor_Initialize lib (ts_Contract s) (ts_TransactOpts s) owner"

definition LightAccountTransactor_PerformCreate :: "('b, 's, int \<Rightarrow> bytes \<Rightarrow> 's go) transact" where [binding_defs]:
  "LightAccountTransactor_PerformCreate lib c opts value initCode =
     bound_Transact lib c opts ''performCreate'' [AbiUint256 value, AbiBytes initCode]"

definition LightAccountSession_PerformCreate :: "('b, 's, int \<Rightarrow> bytes \<Rightarrow> 's go) in_session" where
  "LightAccountSession_PerformCreate lib s value initCode =
     LightAccountTransactor_PerformCreate lib (Transactor (se_Contract s)) (se_TransactOpts s) value initCode"

definition LightAccountTransactorSession_PerformCreate :: "('b, 's, int \<Rightarrow> bytes \<Rightarrow> 's go) in_transactor_session" where
  "LightAccountTransactorSession_PerformCreate lib s value initCode =
     LightAccountTransactor_PerformCreate lib (ts_Contract s) (ts_TransactOpts s) value initCode"

definition LightAccountTransactor_PerformCreate2 :: "('b, 's, int \<Rightarrow> bytes \<Rightarrow> bytes \<Rightarrow> 's go) transact" where [binding_defs]:
  "LightAccountTransactor_PerformCreate2 lib c opts value initCode salt =
     bound_Transact lib c opts ''performCreate2'' [AbiUint256 value, AbiBytes initCode, AbiBytes32 salt]"

definition LightAccountSession_PerformCreate2 :: "('b, 's, int \<Rightarrow> bytes \<Rightarrow> bytes \<Rightarrow> 's go) in_session" where
  "LightAccountSession_PerformCreate2 lib s value initCode salt =
     LightAccountTransactor_PerformCreate2 lib (Transactor (se_Contract s)) (se_TransactOpts s) value initCode salt"

definition LightAccountTransactorSession_PerformCreate2 :: "('b, 's, int \<Rightarrow> bytes \<Rightarrow> bytes \<Rightarrow> 's go) in_transactor_session" where
  "LightAccountTransactorSession_PerformCreate2 lib s value initCode salt =
     LightAccountTransactor_PerformCreate2 lib (ts_Contract s) (ts_TransactOpts s) value initCode salt"

definition LightAccountTransactor_TransferOwnership :: "('b, 's, eth_address \<Rightarrow> 's go) transact" where [binding_defs]:
  "LightAccountTransactor_TransferOwnership lib c opts newOwner =
     bound_Transact lib c opts ''transferOwnership'' [AbiAddress newOwner]"

definition LightAccountSession_TransferOwnership :: "('b, 's, eth_address \<Rightarrow> 's go) in_session" where
  "LightAccountSession_TransferOwnership lib s newOwner =
     LightAccountTransactor_TransferOwnership lib (Transactor (se_Contract s)) (se_TransactOpts s) newOwner"

definition LightAccountTransactorSession_TransferOwnership :: "('b, 's, eth_address \<Rightarrow> 's go) in_transactor_session" where
  "LightAccountTransactorSession_TransferOwnership lib s newOwner =
     LightAccountTransactor_TransferOwnership lib (ts_Contract s) (ts_TransactOpts s) newOwner"

definition LightAccountTransactor_UpgradeToAndCall :: "('b, 's, eth_address \<Rightarrow> bytes \<Rightarrow> 's go) transact" where [binding_defs]:
  "LightAccountTransactor_UpgradeToAndCall lib c opts newImplementation data =
     bound_Transact lib c opts ''upgradeToAndCall'' [AbiAddress newImplementation, AbiBytes data]"

definition LightAccountSession_UpgradeToAndCall :: "('b, 's, eth_address \<Rightarrow> bytes \<Rightarrow> 's go) in_session" where
  "LightAccountSession_UpgradeToAndCall lib s newImplementation data =
     LightAccountTransactor_UpgradeToAndCall lib (Transactor (se_Contract s)) (se_TransactOpts s) newImplementation data"

definition LightAccountTransactorSession_UpgradeToAndCall :: "('b, 's, eth_address \<Rightarrow> bytes \<Rightarrow> 's go) in_transactor_session" where
  "LightAccountTransactorSession_UpgradeToAndCall lib s newImplementation data =
     LightAccountTransactor_UpgradeToAndCall lib (ts_Contract s) (ts_TransactOpts s) newImplementation data"

definition LightAccountTransactor_ValidateUserOp :: "('b, 's, PackedUserOperation \<Rightarrow> bytes \<Rightarrow> int \<Rightarrow> 's go) transact" where [binding_defs]:
  "LightAccountTransactor_ValidateUserOp lib c opts userOp userOpHash missingAccountFunds =
     bound_Transact lib c opts ''validateUserOp'' [AbiOp userOp, AbiBytes32 userOpHash, AbiUint256 missingAccountFunds]"

definition LightAccountSession_ValidateUserOp :: "('b, 's, PackedUserOperation \<Rightarrow> bytes \<Rightarrow> int \<Rightarrow> 's go) in_session" where
  "LightAccountSession_ValidateUserOp lib s userOp userOpHash missingAccountFunds =
     LightAccountTransactor_ValidateUserOp lib (Transactor (se_Contract s)) (se_TransactOpts s) userOp userOpHash missingAccountFunds"

definition LightAccountTransactorSession_ValidateUserOp :: "('b, 's, PackedUserOperation \<Rightarrow> bytes \<Rightarrow> int \<Rightarrow> 's go) in_transactor_session" where
  "LightAccountTransactorSession_ValidateUserOp lib s userOp userOpHash missingAccountFunds =
     LightAccountTransactor_ValidateUserOp lib (ts_Contract s) (ts_TransactOpts s) userOp userOpHash missingAccountFunds"

definition LightAccountTransactor_WithdrawDepositTo :: "('b, 's, eth_address \<Rightarrow> int \<Rightarrow> 's go) transact" where [binding_defs]:
  "LightAccountTransactor_WithdrawDepositTo lib c opts withdrawAddress amount =
     bound_Transact lib c opts ''withdrawDepositTo'' [AbiAddress withdrawAddress, AbiUint256 amount]"

definition LightAccountSession_WithdrawDepositTo :: "('b, 's, eth_address \<Rightarrow> int \<Rightarrow> 's go) in_session" where
  "LightAccountSession_WithdrawDepositTo lib s withdrawAddress amount =
     LightAccountTransactor_WithdrawDepositTo lib (Transactor (se_Contract s)) (se_TransactOpts s) withdrawAddress amount"

definition LightAccountTransactorSession_WithdrawDepositTo :: "('b, 's, eth_address \<Rightarrow> int \<Rightarrow> 's go) in_transactor_session" where
  "LightAccountTransactorSession_WithdrawDepositTo lib s withdrawAddress amount =
     LightAccountTransactor_WithdrawDepositTo lib (ts_Contract s) (ts_TransactOpts s) withdrawAddress amount"

definition LightAccountTransactor_Receive :: "('b, 's, 's go) transact" where [binding_defs]:
  "LightAccountTransactor_Receive lib c opts =
     bound_RawTransact lib c opts []"

definition LightAccountSession_Receive :: "('b, 's, 's go) in_session" where
  "LightAccountSession_Receive lib s =
     LightAccountTransactor_Receive lib (Transactor (se_Contract s)) (se_TransactOpts s)"

definition LightAccountTransactorSession_Receive :: "('b, 's, 's go) in_transactor_session" where
  "LightAccountTransactorSession_Receive lib s =
     LightAccountTransactor_Receive lib (ts_Contract s) (ts_TransactOpts s)"

record LightAccountInitialized =
  LightAccountInitialized_Version :: uint64
  LightAccountInitialized_Raw :: Log

definition into_LightAccountInitialized :: "LightAccountInitialized into" where [event_structs]:
  "into_LightAccountInitialized vs log = (case vs of [v0] \<Rightarrow>
        Option.bind (as_uint64 v0) (\<lambda>x0.
        Some \<lparr> LightAccountInitialized_Version = x0, LightAccountInitialized_Raw = log \<rparr>)
      | _ \<Rightarrow> None)"

definition LightAccountInitializedIterator_Next :: "('b, 's) bind_lib \<Rightarrow> bool \<Rightarrow> ('b, LightAccountInitialized) Iterator \<Rightarrow> bool \<times> ('b, LightAccountInitialized) Iterator" where
  "LightAccountInitializedIterator_Next lib = Iterator_Next lib into_LightAccountInitialized"

definition LightAccountFilterer_FilterInitialized ::
  "('b, 's) bind_lib \<Rightarrow> 'b BoundContract \<Rightarrow> FilterOpts \<Rightarrow> ('b, LightAccountInitialized) Iterator go" where
  "LightAccountFilterer_FilterInitialized lib c opts =
     go_bind (FilterLogs lib c opts ''Initialized'' []) (\<lambda>sub.
     Inr (new_iterator c ''Initialized'' sub))"

definition LightAccountFilterer_WatchInitialized ::
  "('b, 's) bind_lib \<Rightarrow> 'b BoundContract \<Rightarrow> WatchOpts \<Rightarrow> LightAccountInitialized watcher go" where
  "LightAccountFilterer_WatchInitialized lib c opts =
     go_bind (WatchLogs lib c opts ''Initialized'' []) (\<lambda>_.
     Inr (watch_step (unpack_event lib into_LightAccountInitialized c ''Initialized''), watch_start))"

definition LightAccountFilterer_ParseInitialized :: "('b, 's) bind_lib \<Rightarrow> 'b BoundContract \<Rightarrow> Log \<Rightarrow> LightAccountInitialized go" where
  "LightAccountFilterer_ParseInitialized lib c log = unpack_event lib into_LightAccountInitialized c ''Initialized'' log"

record LightAccountLightAccountInitialized =
  LightAccountLightAccountInitialized_EntryPoint :: eth_address
  LightAccountLightAccountInitialized_Owner :: eth_address
  LightAccountLightAccountInitialized_Raw :: Log

definition into_LightAccountLightAccountInitialized :: "LightAccountLightAccountInitialized into" where [event_structs]:
  "into_LightAccountLightAccountInitialized vs log = (case vs of [v0, v1] \<Rightarrow>
        Option.bind (as_address v0) (\<lambda>x0.
        Option.bind (as_address v1) (\<lambda>x1.
        Some \<lparr> LightAccountLightAccountInitialized_EntryPoint = x0, LightAccountLightAccountInitialized_Owner = x1, LightAccountLightAccountInitialized_Raw = log \<rparr>))
      | _ \<Rightarrow> None)"

definition LightAccountLightAccountInitializedIterator_Next :: "('b, 's) bind_lib \<Rightarrow> bool \<Rightarrow> ('b, LightAccountLightAccountInitialized) Iterator \<Rightarrow> bool \<times> ('b, LightAccountLightAccountInitialized) Iterator" where
  "LightAccountLightAccountInitializedIterator_Next lib = Iterator_Next lib into_LightAccountLightAccountInitialized"

definition LightAccountFilterer_FilterLightAccountInitialized ::
  "('b, 's) bind_lib \<Rightarrow> 'b BoundContract \<Rightarrow> FilterOpts \<Rightarrow> eth_address list \<Rightarrow> eth_address list \<Rightarrow> ('b, LightAccountLightAccountInitialized) Iterator go" where
  "LightAccountFilterer_FilterLightAccountInitialized lib c opts entryPoint owner =
     go_bind (FilterLogs lib c opts ''LightAccountInitialized'' [map AbiAddress entryPoint, map AbiAddress owner]) (\<lambda>sub.
     Inr (new_iterator c ''LightAccountInitialized'' sub))"

definition LightAccountFilterer_WatchLightAccountInitialized ::
  "('b, 's) bind_lib \<Rightarrow> 'b BoundContract \<Rightarrow> WatchOpts \<Rightarrow> eth_address list \<Rightarrow> eth_address list \<Rightarrow> LightAccountLightAccountInitialized watcher go" where
  "LightAccountFilterer_WatchLightAccountInitialized lib c opts entryPoint owner =
     go_bind (WatchLogs lib c opts ''LightAccountInitialized'' [map AbiAddress entryPoint, map AbiAddress owner]) (\<lambda>_.
     Inr (watch_step (unpack_event lib into_LightAccountLightAccountInitialized c ''LightAccountInitialized''), watch_start))"

definition LightAccountFilterer_ParseLightAccountInitialized :: "('b, 's) bind_lib \<Rightarrow> 'b BoundContract \<Rightarrow> Log \<Rightarrow> LightAccountLightAccountInitialized go" where
  "LightAccountFilterer_ParseLightAccountInitialized lib c log = unpack_event lib into_LightAccountLightAccountInitialized c ''LightAccountInitialized'' log"

record LightAccountOwnershipTransferred =
  LightAccountOwnershipTransferred_PreviousOwner :: eth_address
  LightAccountOwnershipTransferred_NewOwner :: eth_address
  LightAccountOwnershipTransferred_Raw :: Log

definition into_LightAccountOwnershipTransferred :: "LightAccountOwnershipTransferred into" where [event_structs]:
  "into_LightAccountOwnershipTransferred vs log = (case vs of [v0, v1] \<Rightarrow>
        Option.bind (as_address v0) (\<lambda>x0.
        Option.bind (as_address v1) (\<lambda>x1.
        Some \<lparr> LightAccountOwnershipTransferred_PreviousOwner = x0, LightAccountOwnershipTransferred_NewOwner = x1, LightAccountOwnershipTransferred_Raw = log \<rparr>))
      | _ \<Rightarrow> None)"

definition LightAccountOwnershipTransferredIterator_Next :: "('b, 's) bind_lib \<Rightarrow> bool \<Rightarrow> ('b, LightAccountOwnershipTransferred) Iterator \<Rightarrow> bool \<times> ('b, LightAccountOwnershipTransferred) Iterator" where
  "LightAccountOwnershipTransferredIterator_Next lib = Iterator_Next lib into_LightAccountOwnershipTransferred"

definition LightAccountFilterer_FilterOwnershipTransferred ::
  "('b, 's) bind_lib \<Rightarrow> 'b BoundContract \<Rightarrow> FilterOpts \<Rightarrow> eth_address list \<Rightarrow> eth_address list \<Rightarrow> ('b, LightAccountOwnershipTransferred) Iterator go" where
  "LightAccountFilterer_FilterOwnershipTransferred lib c opts previousOwner newOwner =
     go_bind (FilterLogs lib c opts ''OwnershipTransferred'' [map AbiAddress previousOwner, map AbiAddress newOwner]) (\<lambda>sub.
     Inr (new_iterator c ''OwnershipTransferred'' sub))"

definition LightAccountFilterer_WatchOwnershipTransferred ::
  "('b, 's) bind_lib \<Rightarrow> 'b BoundContract \<Rightarrow> WatchOpts \<Rightarrow> eth_address list \<Rightarrow> eth_address list \<Rightarrow> LightAccountOwnershipTransferred watcher go" where
  "LightAccountFilterer_WatchOwnershipTransferred lib c opts previousOwner newOwner =
     go_bind (WatchLogs lib c opts ''OwnershipTransferred'' [map AbiAddress previousOwner, map AbiAddress newOwner]) (\<lambda>_.
     Inr (watch_step (unpack_event lib into_LightAccountOwnershipTransferred c ''OwnershipTransferred''), watch_start))"

definition LightAccountFilterer_ParseOwnershipTransferred :: "('b, 's) bind_lib \<Rightarrow> 'b BoundContract \<Rightarrow> Log \<Rightarrow> LightAccountOwnershipTransferred go" where
  "LightAccountFilterer_ParseOwnershipTransferred lib c log = unpack_event lib into_LightAccountOwnershipTransferred c ''OwnershipTransferred'' log"

record LightAccountUpgraded =
  LightAccountUpgraded_Implementation :: eth_address
  LightAccountUpgraded_Raw :: Log

definition into_LightAccountUpgraded :: "LightAccountUpgraded into" where [event_structs]:
  "into_LightAccountUpgraded vs log = (case vs of [v0] \<Rightarrow>
        Option.bind (as_address v0) (\<lambda>x0.
        Some \<lparr> LightAccountUpgraded_Implementation = x0, LightAccountUpgraded_Raw = log \<rparr>)
      | _ \<Rightarrow> None)"

definition LightAccountUpgradedIterator_Next :: "('b, 's) bind_lib \<Rightarrow> bool \<Rightarrow> ('b, LightAccountUpgraded) Iterator \<Rightarrow> bool \<times> ('b, LightAccountUpgraded) Iterator" where
  "LightAccountUpgradedIterator_Next lib = Iterator_Next lib into_LightAccountUpgraded"

definition LightAccountFilterer_FilterUpgraded ::
  "('b, 's) bind_lib \<Rightarrow> 'b BoundContract \<Rightarrow> FilterOpts \<Rightarrow> eth_address list \<Rightarrow> ('b, LightAccountUpgraded) Iterator go" where
  "LightAccountFilterer_FilterUpgraded lib c opts implementation =
     go_bind (FilterLogs lib c opts ''Upgraded'' [map AbiAddress implementation]) (\<lambda>sub.
     Inr (new_iterator c ''Upgraded'' sub))"

definition LightAccountFilterer_WatchUpgraded ::
  "('b, 's) bind_lib \<Rightarrow> 'b BoundContract \<Rightarrow> WatchOpts \<Rightarrow> eth_address list \<Rightarrow> LightAccountUpgraded watcher go" where
  "LightAccountFilterer_WatchUpgraded lib c opts implementation =
     go_bind (WatchLogs lib c opts ''Upgraded'' [map AbiAddress implementation]) (\<lambda>_.
     Inr (watch_step (unpack_event lib into_LightAccountUpgraded c ''Upgraded''), watch_start))"

definition LightAccountFilterer_ParseUpgraded :: "('b, 's) bind_lib \<Rightarrow> 'b BoundContract \<Rightarrow> Log \<Rightarrow> LightAccountUpgraded go" where
  "LightAccountFilterer_ParseUpgraded lib c log = unpack_event lib into_LightAccountUpgraded c ''Upgraded'' log"

subsection \<open>The binding fits the interface\<close>

lemma LightAccount_methods:
  "abi_methods LightAccountMetaData = [
     (''addDeposit'', [], []),
     (''eip712Domain'', [], [TFixed 1, TString, TString, TUint 256, TAddress, TFixed 32, TArray (TUint 256)]),
     (''entryPoint'', [], [TAddress]),
     (''execute'', [TAddress, TUint 256, TBytes], []),
     (''executeBatch'', [TArray TAddress, TArray TBytes], []),
     (''executeBatch0'', [TArray TAddress, TArray (TUint 256), TArray TBytes], []),
     (''getDeposit'', [], [TUint 256]),
     (''getMessageHash'', [TBytes], [TFixed 32]),
     (''getNonce'', [], [TUint 256]),
     (''initialize'', [TAddress], []),
     (''isValidSignature'', [TFixed 32, TBytes], [TFixed 4]),
     (''onERC1155BatchReceived'', [TAddress, TAddress, TArray (TUint 256), TArray (TUint 256), TBytes], [TFixed 4]),
     (''onERC1155Received'', [TAddress, TAddress, TUint 256, TUint 256, TBytes], [TFixed 4]),
     (''onERC721Received'', [TAddress, TAddress, TUint 256, TBytes], [TFixed 4]),
     (''owner'', [], [TAddress]),
     (''performCreate'', [TUint 256, TBytes], [TAddress]),
     (''performCreate2'', [TUint 256, TBytes, TFixed 32], [TAddress]),
     (''proxiableUUID'', [], [TFixed 32]),
     (''supportsInterface'', [TFixed 4], [TBool]),
     (''transferOwnership'', [TAddress], []),
     (''upgradeToAndCall'', [TAddress, TBytes], []),
     (''validateUserOp'', [packed_op_type, TFixed 32, TUint 256], [TUint 256]),
     (''withdrawDepositTo'', [TAddress, TUint 256], [])]"
  by code_simp

text \<open>No read-only method can panic: the conversions are those of the types of the interface.\<close>

lemma LightAccount_calls_answered:
  assumes "serves refused lib LightAccountMetaData" and "bound_to lib LightAccountMetaData c"
  shows "answered refused (LightAccountCaller_Eip712Domain lib c opts)"
    "answered refused (LightAccountCaller_EntryPoint lib c opts)"
    "answered refused (LightAccountCaller_GetDeposit lib c opts)"
    "answered refused (LightAccountCaller_GetMessageHash lib c opts message)"
    "answered refused (LightAccountCaller_GetNonce lib c opts)"
    "answered refused (LightAccountCaller_IsValidSignature lib c opts hash signature)"
    "answered refused (LightAccountCaller_OnERC1155BatchReceived lib c opts arg0 arg1 arg2 arg3 arg4)"
    "answered refused (LightAccountCaller_OnERC1155Received lib c opts arg0 arg1 arg2' arg3' arg4)"
    "answered refused (LightAccountCaller_OnERC721Received lib c opts arg0 arg1 arg2' arg3'')"
    "answered refused (LightAccountCaller_Owner lib c opts)"
    "answered refused (LightAccountCaller_ProxiableUUID lib c opts)"
    "answered refused (LightAccountCaller_SupportsInterface lib c opts interfaceId)"
  unfolding binding_defs
  by (rule read_call_answered [OF assms];
      auto simp: accepts_def returns_def LightAccount_methods all_typed_Cons out_at_def as_defs)+

lemma LightAccount_transactions_sent:
  assumes "serves refused lib LightAccountMetaData" and "bound_to lib LightAccountMetaData c"
  shows "sent_or_refused refused (LightAccountTransactor_AddDeposit lib c opts)"
    "sent_or_refused refused (LightAccountTransactor_Execute lib c opts dest value arg2'')"
    "sent_or_refused refused (LightAccountTransactor_ExecuteBatch lib c opts dest' arg1')"
    "sent_or_refused refused (LightAccountTransactor_ExecuteBatch0 lib c opts dest' value' arg2''')"
    "sent_or_refused refused (LightAccountTransactor_Initialize lib c opts owner)"
    "sent_or_refused refused (LightAccountTransactor_PerformCreate lib c opts value initCode)"
    "sent_or_refused refused (LightAccountTransactor_PerformCreate2 lib c opts value initCode salt)"
    "sent_or_refused refused (LightAccountTransactor_TransferOwnership lib c opts newOwner)"
    "sent_or_refused refused (LightAccountTransactor_UpgradeToAndCall lib c opts newImplementation data)"
    "sent_or_refused refused (LightAccountTransactor_ValidateUserOp lib c opts userOp userOpHash missingAccountFunds)"
    "sent_or_refused refused (LightAccountTransactor_WithdrawDepositTo lib c opts withdrawAddress amount)"
  unfolding binding_defs
  by (rule transact_answered [OF assms]; simp add: accepts_def LightAccount_methods)+

text \<open>The values of an event always fit its struct.\<close>

lemma LightAccount_events_fit:
  "fits LightAccountMetaData ''Initialized'' into_LightAccountInitialized"
  "fits LightAccountMetaData ''LightAccountInitialized'' into_LightAccountLightAccountInitialized"
  "fits LightAccountMetaData ''OwnershipTransferred'' into_LightAccountOwnershipTransferred"
  "fits LightAccountMetaData ''Upgraded'' into_LightAccountUpgraded"
  by (auto simp: fits_def LightAccountMetaData_def all_typed_Cons as_defs event_structs)

end
