(* ===== verification/Light_Account.thy ===== *)
theory Light_Account
  imports Binding_Entry_Point Binding_Factory Binding_Account
begin

text \<open>
  Smart accounts and their counterparts on chain: \<^verbatim>\<open>eth/aa/light_account.go\<close>, \<^verbatim>\<open>eth/aa/entrypoint.go\<close>
  use the generated bindings of the entry point, the factory and the account. The node behind the RPC
  connection and the library of the bindings are the parameter \<open>aa_env\<close>; its fields answer as the node
  does at the time of the call.
\<close>

record aa_env =
  rpc_Dial :: "string \<Rightarrow> unit go"
  rpc_ChainID :: "int go"
  rpc_CallContract :: "eth_address \<Rightarrow> eth_address \<Rightarrow> bytes \<Rightarrow> bytes go"
  rpc_CodeAt :: "eth_address \<Rightarrow> bytes go"
  aa_bind :: "(unit, bytes) bind_lib"

text \<open>The options that set a context only.\<close>

definition context_CallOpts :: CallOpts where
  "context_CallOpts = \<lparr> co_Pending = False, co_From = zero_address, co_BlockNumber = None \<rparr>"

definition context_TransactOpts :: "bytes TransactOpts" where
  "context_TransactOpts = \<lparr> to_From = zero_address, to_Nonce = None, to_Signer = None, to_Value = None, to_GasPrice = None,
     to_GasLimit = 0 \<rparr>"

subsection \<open>Light accounts\<close>

record lightAccount =
  la_chainID :: int
  la_entrypointAddress :: eth_address
  la_accountFactoryAddress :: eth_address
  la_accountAddress :: eth_address
  la_eoaOwner :: eth_address
  la_salt :: uint64
  la_isDeployed :: bool
  la_accountFactoryABI :: abi_encoder
  la_accountFactoryContract :: "unit Binding"
  la_accountABI :: abi_encoder
  la_accountContract :: "unit Binding"
  la_entrypointABI :: abi_encoder
  la_entrypointContract :: "unit Binding"

definition createAccountCallData :: "lightAccount \<Rightarrow> eth_address \<Rightarrow> uint64 \<Rightarrow> bytes res" where
  "createAccountCallData la eoaOwner salt =
     (let saltBig = (if salt \<noteq> 0 then int_of_u64 (la_salt la) else 0) in
      orPanic (wrap_err ''failed to pack factory data''
        (la_accountFactoryABI la ''createAccount'' [AbiAddress eoaOwner, AbiUint256 saltBig])))"

definition getNonceCallData :: "lightAccount \<Rightarrow> bytes res" where
  "getNonceCallData la = orPanic (wrap_err ''failed to pack calldata for LightAccount getNonce method''
     (la_accountABI la ''getNonce'' []))"

definition executeCallData :: "lightAccount \<Rightarrow> eth_address \<Rightarrow> bytes \<Rightarrow> bytes res" where
  "executeCallData la contractAddress callData =
     orPanic (wrap_err ''failed to pack calldata for LightAccount execute method''
       (la_accountABI la ''execute'' [AbiAddress contractAddress, AbiUint256 0, AbiBytes callData]))"

definition initCode :: "lightAccount \<Rightarrow> bytes res" where
  "initCode la = res_bind (createAccountCallData la (la_eoaOwner la) (la_salt la)) (\<lambda>factoryCallData.
     Ret (la_accountFactoryAddress la @ factoryCallData))"

definition la_Nonce :: "aa_env \<Rightarrow> lightAccount \<Rightarrow> int \<Rightarrow> uint64 go res" where
  "la_Nonce env la key =
     res_bind (IEntryPointCaller_GetNonce (aa_bind env) (Caller (la_entrypointContract la)) context_CallOpts (la_accountAddress la) key) (\<lambda>r.
     Ret (go_bind (wrap_err ''failed to get nonce'' r) (\<lambda>n. Inr (word_of_int n))))"

text \<open>The address is asked of the factory once and then kept.\<close>

definition la_Address :: "aa_env \<Rightarrow> lightAccount \<Rightarrow> (eth_address go \<times> lightAccount) res" where
  "la_Address env la =
     (if la_accountAddress la \<noteq> zero_address then Ret (Inr (la_accountAddress la), la)
      else res_bind (createAccountCallData la (la_eoaOwner la) (la_salt la)) (\<lambda>callData.
        case rpc_CallContract env (la_eoaOwner la) (la_accountFactoryAddress la) callData of
          Inl err \<Rightarrow> Ret (Inl (Wrap ''failed to read light account address from factory'' err), la)
        | Inr r \<Rightarrow> Ret (Inr (BytesToAddress r), la\<lparr>la_accountAddress := BytesToAddress r\<rparr>)))"

definition la_Balance :: "aa_env \<Rightarrow> lightAccount \<Rightarrow> int go res" where
  "la_Balance env la =
     res_bind (IEntryPointCaller_BalanceOf (aa_bind env) (Caller (la_entrypointContract la)) context_CallOpts (la_eoaOwner la)) (\<lambda>balance.
     Ret (wrap_err ''failed to get balance'' balance))"

definition DepositToEntrypointCallData :: "lightAccount \<Rightarrow> bytes go" where
  "DepositToEntrypointCallData la = wrap_err ''failed to pack depositToEntrypoint call data''
     (la_entrypointABI la ''depositTo'' [AbiAddress (la_eoaOwner la)])"

definition la_Code :: "aa_env \<Rightarrow> lightAccount \<Rightarrow> bytes go" where
  "la_Code env la =
     (if la_accountAddress la = zero_address
      then Inl (Msg ''light account address is not set (it has to be derived from factory)'')
      else wrap_err ''failed to get code'' (rpc_CodeAt env (la_accountAddress la)))"

definition la_IsDeployed :: "aa_env \<Rightarrow> lightAccount \<Rightarrow> bool go \<times> lightAccount" where
  "la_IsDeployed env la =
     (if la_isDeployed la then (Inr True, la)
      else case la_Code env la of
        Inl err \<Rightarrow> (Inl err, la)
      | Inr codeBytes \<Rightarrow> (Inr (codeBytes \<noteq> []), la\<lparr>la_isDeployed := codeBytes \<noteq> []\<rparr>))"

definition newUserOperation ::
  "lightAccount \<Rightarrow> eth_address \<Rightarrow> bytes \<Rightarrow> uint64 \<Rightarrow> UserOperationGasEstimates list \<Rightarrow> UserOperation go res" where
  "newUserOperation la contractAddress callData nonce gasEstimates =
     (case gasEstimates of [] \<Rightarrow> Ret (Inl (Msg ''no gas estimates provided''))
      | g # _ \<Rightarrow>
          res_bind (executeCallData la contractAddress callData) (\<lambda>executeData.
          res_bind (if \<not> la_isDeployed la \<and> nonce = 0 then initCode la else Ret []) (\<lambda>initCode.
          Ret (Inr \<lparr> uo_Sender = la_accountAddress la, uo_Nonce = int_of_u64 nonce, uo_InitCode = initCode,
            uo_CallData = executeData, uo_CallGasLimit = ge_CallGasLimit g,
            uo_VerificationGasLimit = ge_VerificationGasLimit g, uo_PreVerificationGas = ge_PreVerificationGas g,
            uo_MaxFeePerGas = ge_MaxFeePerGas g, uo_MaxPriorityFeePerGas = ge_MaxPriorityFeePerGas g,
            uo_Paymaster = zero_address, uo_PaymasterVerificationGasLimit = 300000,
            uo_PaymasterPostOpGasLimit = 0, uo_PaymasterData = [], uo_Signature = [] \<rparr>))))"

definition NewUserOperation ::
  "aa_env \<Rightarrow> lightAccount \<Rightarrow> eth_address \<Rightarrow> bytes \<Rightarrow> UserOperationGasEstimates list \<Rightarrow> UserOperation go res" where
  "NewUserOperation env la contractAddress callData gasEstimates =
     res_bind (la_Nonce env la 0) (\<lambda>r. case r of
       Inl err \<Rightarrow> Ret (Inl (Wrap ''failed to get account nonce'' err))
     | Inr dynamicNonce \<Rightarrow> newUserOperation la contractAddress callData dynamicNonce gasEstimates)"

definition NewUserOperationWithNonce ::
  "lightAccount \<Rightarrow> eth_address \<Rightarrow> bytes \<Rightarrow> uint64 \<Rightarrow> UserOperationGasEstimates list \<Rightarrow> UserOperation go res" where
  "NewUserOperationWithNonce la contractAddress callData nonce gasEstimates =
     newUserOperation la contractAddress callData nonce gasEstimates"

definition chain_id_mismatch :: "int \<Rightarrow> int \<Rightarrow> go_error" where
  "chain_id_mismatch want got = Msg (''chain ID mismatch: expected '' @ itoa want @ '', got '' @ itoa got)"

text \<open>The account before its address is known: the contracts bound and the chain checked.\<close>

definition bind_contracts ::
  "aa_env \<Rightarrow> string \<Rightarrow> int \<Rightarrow> eth_address \<Rightarrow> eth_address \<Rightarrow> eth_address \<Rightarrow> uint64 \<Rightarrow> lightAccount go" where
  "bind_contracts env ethRPCURL chainID entrypointAddress accountFactoryAddress eoaOwner salt =
     go_bind (wrap_err ''failed to dial eth RPC endpoint'' (rpc_Dial env ethRPCURL)) (\<lambda>_.
     go_bind (wrap_err ''failed to wrap LightAccountFactory contract'' (NewLightAccountFactory (aa_bind env) accountFactoryAddress ())) (\<lambda>factoryContract.
     go_bind (wrap_err ''failed to get LightAccountFactory contract ABI bindings'' (GetAbi (aa_bind env) LightAccountFactoryMetaData)) (\<lambda>factoryABI.
     go_bind (wrap_err ''failed to wrap LightAccount contract'' (NewLightAccount_contract (aa_bind env) zero_address ())) (\<lambda>accountContract.
     go_bind (wrap_err ''failed to get LightAccount contract ABI bindings'' (GetAbi (aa_bind env) LightAccountMetaData)) (\<lambda>accountABI.
     go_bind (wrap_err ''failed to wrap IEntryPoint contract'' (NewIEntryPoint (aa_bind env) entrypointAddress ())) (\<lambda>entrypointContract.
     go_bind (wrap_err ''failed to get IEntryPoint contract ABI bindings'' (GetAbi (aa_bind env) IEntryPointMetaData)) (\<lambda>entrypointABI.
     go_bind (wrap_err ''failed to get chain ID from RPC'' (rpc_ChainID env)) (\<lambda>rpcChainID.
     if rpcChainID \<noteq> chainID then Inl (chain_id_mismatch chainID rpcChainID)
     else Inr \<lparr> la_chainID = chainID, la_entrypointAddress = entrypointAddress,
       la_accountFactoryAddress = accountFactoryAddress, la_accountAddress = zero_address, la_eoaOwner = eoaOwner,
       la_salt = salt, la_isDeployed = False, la_accountFactoryABI = factoryABI,
       la_accountFactoryContract = factoryContract, la_accountABI = accountABI, la_accountContract = accountContract,
       la_entrypointABI = entrypointABI, la_entrypointContract = entrypointContract \<rparr>))))))))"

definition NewLightAccount ::
  "aa_env \<Rightarrow> string \<Rightarrow> int \<Rightarrow> eth_address \<Rightarrow> eth_address \<Rightarrow> eth_address \<Rightarrow> uint64 \<Rightarrow> lightAccount go res" where
  "NewLightAccount env ethRPCURL chainID entrypointAddress accountFactoryAddress eoaOwner salt =
     (case bind_contracts env ethRPCURL chainID entrypointAddress accountFactoryAddress eoaOwner salt of
        Inl err \<Rightarrow> Ret (Inl err)
      | Inr la \<Rightarrow> res_bind (la_Address env la) (\<lambda>(r, la1). case r of
            Inl err \<Rightarrow> Ret (Inl (Wrap ''post-check after light account init: failed to get address (even optimistically)'' err))
          | Inr _ \<Rightarrow> (case la_IsDeployed env la1 of
                (Inl err, _) \<Rightarrow> Ret (Inl (Wrap ''post-check after light account init: failed to check if account is deployed'' err))
              | (Inr _, la2) \<Rightarrow> Ret (Inr la2))))"

subsection \<open>The entry point\<close>

record entrypoint =
  en_entrypointAddress :: eth_address
  en_beneficiaryAddress :: eth_address
  en_chainID :: int
  en_entrypointContract :: "unit Binding"
  en_entrypointABI :: abi_encoder

definition NewEntrypoint :: "aa_env \<Rightarrow> string \<Rightarrow> int \<Rightarrow> eth_address \<Rightarrow> eth_address \<Rightarrow> entrypoint go" where
  "NewEntrypoint env ethRPCURL chainID entrypointAddress beneficiaryAddress =
     go_bind (wrap_err ''failed to dial eth RPC endpoint'' (rpc_Dial env ethRPCURL)) (\<lambda>_.
     go_bind (wrap_err ''failed to wrap IEntryPoint contract'' (NewIEntryPoint (aa_bind env) entrypointAddress ())) (\<lambda>entrypointContract.
     go_bind (wrap_err ''failed to get IEntryPoint contract ABI bindings'' (GetAbi (aa_bind env) IEntryPointMetaData)) (\<lambda>entrypointABI.
     go_bind (wrap_err ''failed to get chain ID from RPC'' (rpc_ChainID env)) (\<lambda>rpcChainID.
     if rpcChainID \<noteq> chainID then Inl (chain_id_mismatch chainID rpcChainID)
     else Inr \<lparr> en_entrypointAddress = entrypointAddress, en_beneficiaryAddress = beneficiaryAddress,
       en_chainID = chainID, en_entrypointContract = entrypointContract, en_entrypointABI = entrypointABI \<rparr>))))"

definition HandleOps :: "aa_env \<Rightarrow> entrypoint \<Rightarrow> PackedUserOperation list \<Rightarrow> bytes go" where
  "HandleOps env e userOps = go_bind (wrap_err ''failed to handle user operations''
     (IEntryPointTransactor_HandleOps (aa_bind env) (Transactor (en_entrypointContract e)) context_TransactOpts userOps
        (en_beneficiaryAddress e))) (\<lambda>tx. Inr (tx_Hash (aa_bind env) tx))"

definition HandleOpsCallData :: "entrypoint \<Rightarrow> PackedUserOperation list \<Rightarrow> eth_address \<Rightarrow> bytes go" where
  "HandleOpsCallData e userOps beneficiaryAddress = wrap_err ''failed to pack handleOps call data''
     (en_entrypointABI e ''handleOps'' [AbiOps userOps, AbiAddress beneficiaryAddress])"

subsection \<open>What they promise\<close>

lemma la_AddressD:
  "la_Address env la = Ret (Inr a, la1) \<Longrightarrow> la1 = la\<lparr>la_accountAddress := a\<rparr> \<and> (length (la_accountAddress la) = 20 \<longrightarrow> length a = 20)"
  by (cases "createAccountCallData la (la_eoaOwner la) (la_salt la)")
    (auto simp: la_Address_def split: if_splits sum.split_asm)

lemma bind_contractsD:
  "bind_contracts env url cid ep fac eoa salt = Inr la \<Longrightarrow> rpc_ChainID env = Inr cid \<and> la_eoaOwner la = eoa \<and> la_salt la = salt \<and>
    la_accountFactoryAddress la = fac \<and> la_entrypointAddress la = ep \<and> \<not> la_isDeployed la \<and>
    length (la_accountAddress la) = 20"
  by (auto simp: bind_contracts_def zero_address_def split: if_splits)

lemma la_IsDeployedD:
  "la_IsDeployed env la = (Inr d, la2) \<Longrightarrow> \<not> la_isDeployed la \<Longrightarrow>
    \<exists>code. la_accountAddress la \<noteq> zero_address \<and> rpc_CodeAt env (la_accountAddress la) = Inr code \<and>
      la2 = la\<lparr>la_isDeployed := (code \<noteq> [])\<rparr>"
  by (auto simp: la_IsDeployed_def la_Code_def split: if_splits sum.splits)

lemma new_light_account_steps:
  assumes "NewLightAccount env url cid ep fac eoa salt = Ret (Inr la)"
  obtains la0 a la1 d where "bind_contracts env url cid ep fac eoa salt = Inr la0"
    "la_Address env la0 = Ret (Inr a, la1)" "la_IsDeployed env la1 = (Inr d, la)"
proof -
  obtain la0 where la0: "bind_contracts env url cid ep fac eoa salt = Inr la0"
    using assms by (cases "bind_contracts env url cid ep fac eoa salt") (simp_all add: NewLightAccount_def)
  moreover obtain r la1 where "la_Address env la0 = Ret (r, la1)"
    using assms la0 by (cases "la_Address env la0") (auto simp: NewLightAccount_def)
  moreover obtain x la2 where "la_IsDeployed env la1 = (x, la2)" by force
  ultimately show thesis
    using that assms by (cases r; cases x) (auto simp: NewLightAccount_def)
qed

lemma new_light_account_state:
  assumes "NewLightAccount env url cid ep fac eoa salt = Ret (Inr la)"
  shows "la_eoaOwner la = eoa" "la_salt la = salt" "la_accountFactoryAddress la = fac" "la_entrypointAddress la = ep"
    "rpc_ChainID env = Inr cid" "la_accountAddress la \<noteq> zero_address"
    "\<exists>code. rpc_CodeAt env (la_accountAddress la) = Inr code \<and> (la_isDeployed la \<longleftrightarrow> code \<noteq> [])"
    "length (la_accountAddress la) = 20"
proof -
  from assms obtain la0 a la1 d where la0: "bind_contracts env url cid ep fac eoa salt = Inr la0"
    and steps: "la_Address env la0 = Ret (Inr a, la1)" "la_IsDeployed env la1 = (Inr d, la)"
    by (rule new_light_account_steps)
  note la0 = bind_contractsD [OF la0]
  from la_AddressD [OF steps(1)] la0 la_IsDeployedD [OF steps(2)] obtain code
    where "la1 = la0\<lparr>la_accountAddress := a\<rparr>" "length a = 20" "la_accountAddress la1 \<noteq> zero_address"
      "rpc_CodeAt env (la_accountAddress la1) = Inr code" "la = la1\<lparr>la_isDeployed := (code \<noteq> [])\<rparr>" by auto
  with la0 show "la_eoaOwner la = eoa" "la_salt la = salt" "la_accountFactoryAddress la = fac" "la_entrypointAddress la = ep"
    "rpc_ChainID env = Inr cid" "la_accountAddress la \<noteq> zero_address"
    "\<exists>code. rpc_CodeAt env (la_accountAddress la) = Inr code \<and> (la_isDeployed la \<longleftrightarrow> code \<noteq> [])" "length (la_accountAddress la) = 20"
    by auto
qed

lemmas new_bindings = NewLightAccountFactory_def bindLightAccountFactory_def NewLightAccount_contract_def bindLightAccount_def
  NewIEntryPoint_def bindIEntryPoint_def

text \<open>What the account keeps of its bindings.\<close>

lemma bind_contracts_bound:
  assumes "bind_contracts env url cid ep fac eoa salt = Inr la"
  shows "GetAbi (aa_bind env) LightAccountFactoryMetaData = Inr (la_accountFactoryABI la)"
    "GetAbi (aa_bind env) LightAccountMetaData = Inr (la_accountABI la)"
    "GetAbi (aa_bind env) IEntryPointMetaData = Inr (la_entrypointABI la)"
    "bc_abi (Caller (la_entrypointContract la)) = la_entrypointABI la"
    "bc_address (Caller (la_entrypointContract la)) = la_entrypointAddress la"
  using assms by (auto simp: bind_contracts_def new_bindings NewBoundContract_def whole_binding_def split: if_splits)

lemma parsesD: "parses lib md \<Longrightarrow> GetAbi lib md = Inr enc \<Longrightarrow> accepts md m vs \<Longrightarrow> \<exists>data. enc m vs = Inr data"
  by (auto simp: parses_def encodes_def)

lemma factory_accepts: "accepts LightAccountFactoryMetaData ''createAccount'' [AbiAddress owner, AbiUint256 salt]"
  by (simp add: accepts_def LightAccountFactory_methods)

lemma account_accepts: "accepts LightAccountMetaData ''getNonce'' []"
    "accepts LightAccountMetaData ''execute'' [AbiAddress dest, AbiUint256 amount, AbiBytes func]"
  by (simp_all add: accepts_def LightAccount_methods)

lemma entry_point_accepts: "accepts IEntryPointMetaData ''depositTo'' [AbiAddress account]"
    "accepts IEntryPointMetaData ''handleOps'' [AbiOps ops, AbiAddress beneficiary]"
  by (simp_all add: accepts_def IEntryPoint_methods)

definition aa_parses :: "aa_env \<Rightarrow> bool" where
  "aa_parses env \<longleftrightarrow> parses (aa_bind env) LightAccountFactoryMetaData \<and> parses (aa_bind env) LightAccountMetaData \<and>
     parses (aa_bind env) IEntryPointMetaData"

definition encoders_ok :: "lightAccount \<Rightarrow> bool" where
  "encoders_ok la \<longleftrightarrow> encodes LightAccountFactoryMetaData (la_accountFactoryABI la) \<and>
     encodes LightAccountMetaData (la_accountABI la) \<and> encodes IEntryPointMetaData (la_entrypointABI la)"

lemma bind_contracts_encoders:
  assumes "bind_contracts env url cid ep fac eoa salt = Inr la" and "aa_parses env"
  shows "encoders_ok la"
  using bind_contracts_bound [OF assms(1)] assms(2) by (auto simp: aa_parses_def parses_def encoders_ok_def)

lemma call_data_total:
  assumes "encoders_ok la"
  shows "\<exists>d. createAccountCallData la owner salt = Ret d" "\<exists>d. getNonceCallData la = Ret d"
    "\<exists>d. executeCallData la dest data = Ret d" "\<exists>d. initCode la = Ret d" "\<exists>d. DepositToEntrypointCallData la = Inr d"
proof -
  from assms have enc: "\<exists>d. la_accountFactoryABI la ''createAccount'' [AbiAddress a, AbiUint256 n] = Inr d"
      "\<exists>d. la_accountABI la ''getNonce'' [] = Inr d" "\<exists>d. la_accountABI la ''execute'' [AbiAddress a, AbiUint256 n, AbiBytes b] = Inr d"
      "\<exists>d. la_entrypointABI la ''depositTo'' [AbiAddress a] = Inr d" for a n b
    unfolding encoders_ok_def encodes_def using factory_accepts account_accepts entry_point_accepts by blast+
  have ok: "\<exists>x. r = Inr x \<Longrightarrow> \<exists>d. orPanic (wrap_err m r) = Ret d" "\<exists>x. r = Inr x \<Longrightarrow> \<exists>d. wrap_err m r = Inr d" for m and r :: "bytes go"
    by (auto simp: orPanic_def)
  show create: "\<exists>d. createAccountCallData la owner salt = Ret d" for owner salt
    unfolding createAccountCallData_def Let_def by (rule ok(1) [OF enc(1)])
  show "\<exists>d. getNonceCallData la = Ret d" "\<exists>d. executeCallData la dest data = Ret d" "\<exists>d. DepositToEntrypointCallData la = Inr d"
    unfolding getNonceCallData_def executeCallData_def DepositToEntrypointCallData_def
    by (rule ok(1) [OF enc(2)], rule ok(1) [OF enc(3)], rule ok(2) [OF enc(4)])
  show "\<exists>d. initCode la = Ret d" using create [of "la_eoaOwner la" "la_salt la"] by (auto simp: initCode_def)
qed

lemma new_light_account_contracts:
  assumes "NewLightAccount env url cid ep fac eoa salt = Ret (Inr la)"
  obtains la0 a d where "bind_contracts env url cid ep fac eoa salt = Inr la0" "la = la0\<lparr>la_accountAddress := a, la_isDeployed := d\<rparr>"
proof -
  from assms obtain la0 a la1 d where la0: "bind_contracts env url cid ep fac eoa salt = Inr la0"
    and steps: "la_Address env la0 = Ret (Inr a, la1)" "la_IsDeployed env la1 = (Inr d, la)"
    by (rule new_light_account_steps)
  from la_AddressD [OF steps(1)] have la1: "la1 = la0\<lparr>la_accountAddress := a\<rparr>" by blast
  then have "\<not> la_isDeployed la1" using bind_contractsD [OF la0] by simp
  from la_IsDeployedD [OF steps(2) this] la1 la0 that show thesis by blast
qed

lemma answered_returns: "answered refused r \<Longrightarrow> \<exists>x. r = Ret x"
  by (cases r) (simp_all add: answered_def)

lemma nonce_answered:
  assumes "serves refused (aa_bind env) IEntryPointMetaData" and "bound_to (aa_bind env) IEntryPointMetaData (Caller (la_entrypointContract la))"
  shows "\<exists>r. la_Nonce env la key = Ret r" "\<exists>r. la_Balance env la = Ret r"
  using answered_returns [OF IEntryPoint_calls_answered(3) [OF assms, of context_CallOpts "la_accountAddress la" key]]
    answered_returns [OF IEntryPoint_calls_answered(1) [OF assms, of context_CallOpts "la_eoaOwner la"]]
  by (auto simp: la_Nonce_def la_Balance_def)

lemma new_light_account_returns:
  assumes "aa_parses env"
  shows "\<exists>r. NewLightAccount env url cid ep fac eoa salt = Ret r"
proof (cases "bind_contracts env url cid ep fac eoa salt")
  case (Inr la0)
  obtain cd where "createAccountCallData la0 (la_eoaOwner la0) (la_salt la0) = Ret cd"
    using call_data_total(1) [OF bind_contracts_encoders [OF Inr assms]] by blast
  then have "\<exists>r la1. la_Address env la0 = Ret (r, la1)" by (simp add: la_Address_def split: sum.split)
  then obtain r la1 where addr: "la_Address env la0 = Ret (r, la1)" by blast
  obtain x la2 where "la_IsDeployed env la1 = (x, la2)" by force
  with Inr addr show ?thesis by (cases r; cases x) (simp_all add: NewLightAccount_def)
qed (simp add: NewLightAccount_def)

text \<open>C27: Smart accounts never panic on their contracts: when the interfaces that the bindings carry parse and the node answers
  calls of the entry point with values of their types, setting up an account returns, and every operation of the
  account does, whatever the arguments: the data of each call is of a method of the interface, with arguments
  of its types, and each result has the type that it is converted to.\<close>

theorem accounts_never_panic:
  assumes "aa_parses env" and "serves refused (aa_bind env) IEntryPointMetaData"
  shows "(\<exists>r. NewLightAccount env url cid ep fac eoa salt = Ret r) \<and>
    (\<forall>la. NewLightAccount env url cid ep fac eoa salt = Ret (Inr la) \<longrightarrow>
      (\<exists>r. newUserOperation la contract callData nonce gs = Ret r) \<and> (\<exists>r. NewUserOperation env la contract callData gs = Ret r) \<and>
      (\<exists>r. la_Nonce env la key = Ret r) \<and> (\<exists>r. la_Balance env la = Ret r) \<and> (\<exists>d. getNonceCallData la = Ret d) \<and>
      (\<exists>d. DepositToEntrypointCallData la = Inr d))"
proof (intro conjI allI impI)
  show "\<exists>r. NewLightAccount env url cid ep fac eoa salt = Ret r" using assms(1) by (rule new_light_account_returns)
next
  fix la
  assume "NewLightAccount env url cid ep fac eoa salt = Ret (Inr la)"
  then obtain la0 a d where la: "bind_contracts env url cid ep fac eoa salt = Inr la0" "la = la0\<lparr>la_accountAddress := a, la_isDeployed := d\<rparr>"
    by (rule new_light_account_contracts)
  have enc: "encoders_ok la" using bind_contracts_encoders [OF la(1) assms(1)] la(2) by (simp add: encoders_ok_def)
  have bound: "bound_to (aa_bind env) IEntryPointMetaData (Caller (la_entrypointContract la))"
    using bind_contracts_bound [OF la(1)] la(2) by (simp add: bound_to_def)
  note data = call_data_total [OF enc]
  show op: "\<exists>r. newUserOperation la contract callData nonce gs = Ret r" for contract callData nonce gs
    using data(3) [of contract callData] data(4) by (cases gs) (auto simp: newUserOperation_def)
  show "\<exists>r. la_Nonce env la key = Ret r" "\<exists>r. la_Balance env la = Ret r" for key
    by (rule nonce_answered [OF assms(2) bound])+
  obtain n where "la_Nonce env la 0 = Ret n" using nonce_answered(1) [OF assms(2) bound] by blast
  with op show "\<exists>r. NewUserOperation env la contract callData gs = Ret r" by (cases n) (simp_all add: NewUserOperation_def)
  show "\<exists>d. getNonceCallData la = Ret d" "\<exists>d. DepositToEntrypointCallData la = Inr d" using data by blast+
qed

text \<open>\<^verbatim>\<open>HandleOps\<close> passes options without a signer, which the library refuses for every transaction, so it never
  succeeds.\<close>

definition needs_signer :: "('b, 's) bind_lib \<Rightarrow> bool" where
  "needs_signer lib \<longleftrightarrow> (\<forall>c opts m vs. to_Signer opts = None \<longrightarrow> (\<exists>err. bound_Transact lib c opts m vs = Inl err))"

theorem handle_ops_always_fails:
  assumes "needs_signer (aa_bind env)"
  shows "\<exists>err. HandleOps env e ops = Inl (Wrap ''failed to handle user operations'' err)"
proof -
  have "to_Signer context_TransactOpts = None" by (simp add: context_TransactOpts_def)
  with assms obtain err where "IEntryPointTransactor_HandleOps (aa_bind env) (Transactor (en_entrypointContract e)) context_TransactOpts ops
      (en_beneficiaryAddress e) = Inl err"
    unfolding needs_signer_def IEntryPointTransactor_HandleOps_def by blast
  then show ?thesis by (simp add: HandleOps_def wrap_err_def)
qed

text \<open>C31: An account is deployed with its first operation and only then: the operation made for an account
  starts with the factory's address and its call to create this owner's account exactly when the account
  has no code and the nonce is zero; otherwise it has no init code. The sender is the address the factory
  announced, which is never the zero address.\<close>

theorem init_code_once:
  assumes "NewLightAccount env url cid ep fac eoa salt = Ret (Inr la)" and "length fac = 20"
    and "newUserOperation la contract callData nonce gs = Ret (Inr op)"
  shows "\<exists>code. rpc_CodeAt env (uo_Sender op) = Inr code \<and> uo_Sender op = la_accountAddress la \<and> uo_Sender op \<noteq> zero_address \<and>
    (if code = [] \<and> nonce = 0
     then GetFactory op = fac \<and> createAccountCallData la eoa salt = Ret (GetFactoryData op)
     else uo_InitCode op = [])"
proof -
  note st = new_light_account_state [OF assms(1)]
  from st(7) obtain code where code: "rpc_CodeAt env (la_accountAddress la) = Inr code" "la_isDeployed la \<longleftrightarrow> code \<noteq> []"
    by blast
  have op: "uo_Sender op = la_accountAddress la"
      "(if code = [] \<and> nonce = 0 then initCode la = Ret (uo_InitCode op) else uo_InitCode op = [])"
    using assms(3) code(2) by (auto simp: newUserOperation_def split: list.splits if_splits)
  show ?thesis
  proof (cases "code = [] \<and> nonce = 0")
    case True
    with op(2) st obtain d where d: "createAccountCallData la eoa salt = Ret d" "uo_InitCode op = fac @ d"
      by (auto simp: initCode_def)
    then have "GetFactory op = fac" "GetFactoryData op = d"
      using assms(2) by (simp_all add: GetFactory_def GetFactoryData_def BytesToAddress_id)
    with True d code op st(6) show ?thesis by auto
  qed (use code op st(6) in auto)
qed


definition example_gas :: UserOperationGasEstimates where
  "example_gas = \<lparr> ge_CallGasLimit = 22000, ge_VerificationGasLimit = 75000, ge_PreVerificationGas = 21000, ge_MaxFeePerGas = 0,
     ge_MaxPriorityFeePerGas = 0 \<rparr>"

text \<open>A library whose encoder takes everything and whose node answers every call with values of the right types.\<close>

definition no_signer :: go_error where
  "no_signer = Msg ''no signer to authorize the transaction with''"

definition example_encoder :: abi_encoder where [simp]:
  "example_encoder m vs = Inr [0x5f]"

definition example_bind :: "(unit, bytes) bind_lib" where
  "example_bind = \<lparr> GetAbi = (\<lambda>md. Inr example_encoder),
     bound_Call = (\<lambda>c opts m vs. Inr (if m = ''getNonce'' \<or> m = ''balanceOf'' then [AbiUint256 0]
       else if m = ''getUserOpHash'' then [AbiBytes32 (replicate 32 0)]
       else if m = ''getDepositInfo'' then [AbiDepositInfo \<lparr> di_Deposit = 0, di_Staked = False, di_Stake = 0, di_UnstakeDelaySec = 0, di_WithdrawTime = 0 \<rparr>]
       else [])),
     bound_Transact = (\<lambda>c opts m vs. if to_Signer opts = None then Inl no_signer else Inr [2]),
     bound_RawTransact = (\<lambda>c opts data. Inl no_signer), bound_Transfer = (\<lambda>c opts. Inl no_signer),
     FilterLogs = (\<lambda>c opts event rules. Inr \<lparr> sub_logs = [], sub_err = None \<rparr>), WatchLogs = (\<lambda>c opts event rules. Inr ()),
     UnpackLog = (\<lambda>c event log. Inr []), DeployContract = (\<lambda>auth parsed code backend. Inl no_signer), tx_Hash = id \<rparr>"

definition example_aa_env :: aa_env where
  "example_aa_env = \<lparr> rpc_Dial = (\<lambda>_. Inr ()), rpc_ChainID = Inr 1337, rpc_CallContract = (\<lambda>from to data. Inr (replicate 12 0 @ replicate 20 9)),
     rpc_CodeAt = (\<lambda>a. Inr []), aa_bind = example_bind \<rparr>"

definition example_binding :: "eth_address \<Rightarrow> unit Binding" where
  "example_binding a = whole_binding (NewBoundContract a example_encoder (Some ()) (Some ()) (Some ()))"

definition example_account :: lightAccount where
  "example_account = \<lparr> la_chainID = 1337, la_entrypointAddress = replicate 20 4, la_accountFactoryAddress = replicate 20 3,
     la_accountAddress = replicate 20 9, la_eoaOwner = replicate 20 1, la_salt = 1, la_isDeployed = False,
     la_accountFactoryABI = example_encoder, la_accountFactoryContract = example_binding (replicate 20 3),
     la_accountABI = example_encoder, la_accountContract = example_binding zero_address,
     la_entrypointABI = example_encoder, la_entrypointContract = example_binding (replicate 20 4) \<rparr>"

lemma BytesToAddress_word: "BytesToAddress (replicate 12 0 @ replicate 20 9) = replicate 20 9"
  by (simp add: BytesToAddress_def left_pad_def)

lemma example_account_new:
  "NewLightAccount example_aa_env ''http://localhost:8545'' 1337 (replicate 20 4) (replicate 20 3) (replicate 20 1) 1
    = Ret (Inr example_account)"
  by (simp add: NewLightAccount_def bind_contracts_def example_aa_env_def example_account_def la_Address_def la_IsDeployed_def la_Code_def
      createAccountCallData_def BytesToAddress_word new_bindings example_bind_def example_binding_def example_encoder_def [abs_def])
      (simp add: zero_address_def)

theorem init_code_once_witness:
  "\<exists>op. newUserOperation example_account (replicate 20 2) [] 0 [\<lparr> ge_CallGasLimit = 22000, ge_VerificationGasLimit = 75000,
        ge_PreVerificationGas = 21000, ge_MaxFeePerGas = 0, ge_MaxPriorityFeePerGas = 0 \<rparr>] = Ret (Inr op) \<and>
    GetFactory op = replicate 20 3 \<and> GetFactoryData op = [0x5f]"
proof -
  obtain op where run: "newUserOperation example_account (replicate 20 2) [] 0 [\<lparr> ge_CallGasLimit = 22000, ge_VerificationGasLimit = 75000,
        ge_PreVerificationGas = 21000, ge_MaxFeePerGas = 0, ge_MaxPriorityFeePerGas = 0 \<rparr>] = Ret (Inr op)"
    by (simp add: newUserOperation_def example_account_def executeCallData_def initCode_def createAccountCallData_def example_encoder_def)
  have "createAccountCallData example_account (replicate 20 1) 1 = Ret [0x5f]"
    by (simp add: example_account_def createAccountCallData_def example_encoder_def)
  moreover have "rpc_CodeAt example_aa_env a = Inr []" for a by (simp add: example_aa_env_def)
  ultimately show ?thesis using init_code_once [OF example_account_new _ run] run by auto
qed

lemma example_hash_total: "\<exists>h. GetUserOpHash example_aa zero_address 1337 p = Ret h"
  by (simp add: GetUserOpHash_def example_aa_def zero_address_def length_left_pad Let_def)


lemma example_parses: "parses example_bind md"
  by (simp add: parses_def encodes_def example_bind_def example_encoder_def)

lemma example_serves: "serves (\<lambda>e. e = no_signer) example_bind IEntryPointMetaData"
  by (auto simp: serves_def example_bind_def accepts_def returns_def IEntryPoint_methods split: if_splits)



theorem accounts_never_panic_witness:
  "(\<exists>r. NewUserOperation example_aa_env example_account (replicate 20 2) [1] [example_gas] = Ret r) \<and>
   (\<exists>r. la_Nonce example_aa_env example_account 0 = Ret r)"
proof -
  have "aa_parses example_aa_env" "serves (\<lambda>e. e = no_signer) (aa_bind example_aa_env) IEntryPointMetaData"
    by (simp_all add: aa_parses_def example_aa_env_def example_parses example_serves)
  from accounts_never_panic [OF this] example_account_new show ?thesis by blast
qed

theorem handle_ops_always_fails_witness:
  "needs_signer (aa_bind example_aa_env) \<and>
   (\<exists>err. HandleOps example_aa_env \<lparr> en_entrypointAddress = replicate 20 4, en_beneficiaryAddress = replicate 20 5, en_chainID = 1337,
     en_entrypointContract = example_binding (replicate 20 4), en_entrypointABI = example_encoder \<rparr> [] = Inl err)"
proof -
  have "needs_signer (aa_bind example_aa_env)" by (simp add: needs_signer_def example_aa_env_def example_bind_def)
  with handle_ops_always_fails [OF this] show ?thesis by blast
qed

end
