(* ===== verification/Binding_Counter.thy ===== *)
theory Binding_Counter
  imports Event_Logs
begin

text \<open>
  The generated binding of the counter contract, \<^verbatim>\<open>eth/solidity/Counter/Counter.go\<close>, method by method: calls, transactions,
  their forms in a session, and the events. It is the contract that the deploying, calling and user operation payloads deploy and call.
\<close>

definition CounterBin :: string where
  "CounterBin =
     ''0x608060405234801561000f575f80fd5b505f80556101cd806100205f395ff3fe608060405234801561000f575f80fd'' @
     ''5b506004361061003f575f3560e01c8063a87d942c14610043578063d732d95514610057578063e8927fbc1461006157'' @
     ''5b5f80fd5b5f5460405190815260200160405180910390f35b61005f610069565b005b61005f610126565b5f80541161'' @
     ''00d7576040517f08c379a000000000000000000000000000000000000000000000000000000000815260206004820152'' @
     ''601860248201527f436f756e742063616e6e6f74206265206e6567617469766500000000000000006044820152606401'' @
     ''60405180910390fd5b60015f808282546100e8919061016b565b90915550505f5460405190815233907f4ba55dd84e65'' @
     ''5ba313508593f2799ef522dc77c7e8c3cd83a198fb9709ee415c9060200160405180910390a2565b60015f8082825461'' @
     ''01379190610184565b9091555050565b7f4e487b71000000000000000000000000000000000000000000000000000000'' @
     ''005f52601160045260245ffd5b8181038181111561017e5761017e61013e565b92915050565b8082018082111561017e'' @
     ''5761017e61013e56fea26469706673582212209f4c245d30d6e370608928cd01ee6d7a332ee0950d0d1b0fa8887bb3cd'' @
     ''21592864736f6c63430008170033''"

definition CounterMetaData :: MetaData where
  "CounterMetaData = \<lparr> MetaData_ABI = [
     AbiConstructor [],
     AbiEvent ''Decreased'' [(''sender'', TAddress, True), (''newValue'', TUint 256, False)],
     AbiEvent ''Increased'' [(''sender'', TAddress, True), (''newValue'', TUint 256, False)],
     AbiFunction ''decrease'' [] [],
     AbiFunction ''getCount'' [] [('''', TUint 256)],
     AbiFunction ''increase'' [] []],
     MetaData_Bin = CounterBin \<rparr>"

definition DeployCounter ::
  "('b, 's) bind_lib \<Rightarrow> 's TransactOpts \<Rightarrow> 'b \<Rightarrow> (eth_address \<times> 's \<times> 'b Binding) go" where
  "DeployCounter lib auth backend = go_bind (GetAbi lib CounterMetaData) (\<lambda>parsed.
     go_bind (DeployContract lib auth parsed (FromHex CounterBin) backend) (\<lambda>(address, tx, contract).
     Inr (address, tx, whole_binding contract)))"

definition bindCounter ::
  "('b, 's) bind_lib \<Rightarrow> eth_address \<Rightarrow> 'b option \<Rightarrow> 'b option \<Rightarrow> 'b option \<Rightarrow> 'b BoundContract go" where
  "bindCounter lib address caller transactor filterer = go_bind (GetAbi lib CounterMetaData) (\<lambda>parsed.
     Inr (NewBoundContract address parsed caller transactor filterer))"

definition NewCounter :: "('b, 's) bind_lib \<Rightarrow> eth_address \<Rightarrow> 'b \<Rightarrow> 'b Binding go" where
  "NewCounter lib address backend =
     go_bind (bindCounter lib address (Some backend) (Some backend) (Some backend)) (\<lambda>contract. Inr (whole_binding contract))"

definition NewCounterCaller :: "('b, 's) bind_lib \<Rightarrow> eth_address \<Rightarrow> 'b \<Rightarrow> 'b BoundContract go" where
  "NewCounterCaller lib address caller = bindCounter lib address (Some caller) None None"

definition NewCounterTransactor :: "('b, 's) bind_lib \<Rightarrow> eth_address \<Rightarrow> 'b \<Rightarrow> 'b BoundContract go" where
  "NewCounterTransactor lib address transactor = bindCounter lib address None (Some transactor) None"

definition NewCounterFilterer :: "('b, 's) bind_lib \<Rightarrow> eth_address \<Rightarrow> 'b \<Rightarrow> 'b BoundContract go" where
  "NewCounterFilterer lib address filterer = bindCounter lib address None None (Some filterer)"

definition CounterCaller_GetCount :: "('b, 's, int go res) call" where [binding_defs]:
  "CounterCaller_GetCount lib c opts =
     read_call lib c opts ''getCount'' [] (\<lambda>out. out_at as_bigInt out 0)"

definition CounterSession_GetCount :: "('b, 's, int go res) in_session" where
  "CounterSession_GetCount lib s =
     CounterCaller_GetCount lib (Caller (se_Contract s)) (se_CallOpts s)"

definition CounterCallerSession_GetCount :: "('b, 's, int go res) in_caller_session" where
  "CounterCallerSession_GetCount lib s =
     CounterCaller_GetCount lib (cs_Contract s) (cs_CallOpts s)"

definition CounterTransactor_Decrease :: "('b, 's, 's go) transact" where [binding_defs]:
  "CounterTransactor_Decrease lib c opts =
     bound_Transact lib c opts ''decrease'' []"

definition CounterSession_Decrease :: "('b, 's, 's go) in_session" where
  "CounterSession_Decrease lib s =
     CounterTransactor_Decrease lib (Transactor (se_Contract s)) (se_TransactOpts s)"

definition CounterTransactorSession_Decrease :: "('b, 's, 's go) in_transactor_session" where
  "CounterTransactorSession_Decrease lib s =
     CounterTransactor_Decrease lib (ts_Contract s) (ts_TransactOpts s)"

definition CounterTransactor_Increase :: "('b, 's, 's go) transact" where [binding_defs]:
  "CounterTransactor_Increase lib c opts =
     bound_Transact lib c opts ''increase'' []"

definition CounterSession_Increase :: "('b, 's, 's go) in_session" where
  "CounterSession_Increase lib s =
     CounterTransactor_Increase lib (Transactor (se_Contract s)) (se_TransactOpts s)"

definition CounterTransactorSession_Increase :: "('b, 's, 's go) in_transactor_session" where
  "CounterTransactorSession_Increase lib s =
     CounterTransactor_Increase lib (ts_Contract s) (ts_TransactOpts s)"

record CounterDecreased =
  CounterDecreased_Sender :: eth_address
  CounterDecreased_NewValue :: int
  CounterDecreased_Raw :: Log

definition into_CounterDecreased :: "CounterDecreased into" where [event_structs]:
  "into_CounterDecreased vs log = (case vs of [v0, v1] \<Rightarrow>
        Option.bind (as_address v0) (\<lambda>x0.
        Option.bind (as_bigInt v1) (\<lambda>x1.
        Some \<lparr> CounterDecreased_Sender = x0, CounterDecreased_NewValue = x1, CounterDecreased_Raw = log \<rparr>))
      | _ \<Rightarrow> None)"

definition CounterDecreasedIterator_Next :: "('b, 's) bind_lib \<Rightarrow> bool \<Rightarrow> ('b, CounterDecreased) Iterator \<Rightarrow> bool \<times> ('b, CounterDecreased) Iterator" where
  "CounterDecreasedIterator_Next lib = Iterator_Next lib into_CounterDecreased"

definition CounterFilterer_FilterDecreased ::
  "('b, 's) bind_lib \<Rightarrow> 'b BoundContract \<Rightarrow> FilterOpts \<Rightarrow> eth_address list \<Rightarrow> ('b, CounterDecreased) Iterator go" where
  "CounterFilterer_FilterDecreased lib c opts sender =
     go_bind (FilterLogs lib c opts ''Decreased'' [map AbiAddress sender]) (\<lambda>sub.
     Inr (new_iterator c ''Decreased'' sub))"

definition CounterFilterer_WatchDecreased ::
  "('b, 's) bind_lib \<Rightarrow> 'b BoundContract \<Rightarrow> WatchOpts \<Rightarrow> eth_address list \<Rightarrow> CounterDecreased watcher go" where
  "CounterFilterer_WatchDecreased lib c opts sender =
     go_bind (WatchLogs lib c opts ''Decreased'' [map AbiAddress sender]) (\<lambda>_.
     Inr (watch_step (unpack_event lib into_CounterDecreased c ''Decreased''), watch_start))"

definition CounterFilterer_ParseDecreased :: "('b, 's) bind_lib \<Rightarrow> 'b BoundContract \<Rightarrow> Log \<Rightarrow> CounterDecreased go" where
  "CounterFilterer_ParseDecreased lib c log = unpack_event lib into_CounterDecreased c ''Decreased'' log"

record CounterIncreased =
  CounterIncreased_Sender :: eth_address
  CounterIncreased_NewValue :: int
  CounterIncreased_Raw :: Log

definition into_CounterIncreased :: "CounterIncreased into" where [event_structs]:
  "into_CounterIncreased vs log = (case vs of [v0, v1] \<Rightarrow>
        Option.bind (as_address v0) (\<lambda>x0.
        Option.bind (as_bigInt v1) (\<lambda>x1.
        Some \<lparr> CounterIncreased_Sender = x0, CounterIncreased_NewValue = x1, CounterIncreased_Raw = log \<rparr>))
      | _ \<Rightarrow> None)"

definition CounterIncreasedIterator_Next :: "('b, 's) bind_lib \<Rightarrow> bool \<Rightarrow> ('b, CounterIncreased) Iterator \<Rightarrow> bool \<times> ('b, CounterIncreased) Iterator" where
  "CounterIncreasedIterator_Next lib = Iterator_Next lib into_CounterIncreased"

definition CounterFilterer_FilterIncreased ::
  "('b, 's) bind_lib \<Rightarrow> 'b BoundContract \<Rightarrow> FilterOpts \<Rightarrow> eth_address list \<Rightarrow> ('b, CounterIncreased) Iterator go" where
  "CounterFilterer_FilterIncreased lib c opts sender =
     go_bind (FilterLogs lib c opts ''Increased'' [map AbiAddress sender]) (\<lambda>sub.
     Inr (new_iterator c ''Increased'' sub))"

definition CounterFilterer_WatchIncreased ::
  "('b, 's) bind_lib \<Rightarrow> 'b BoundContract \<Rightarrow> WatchOpts \<Rightarrow> eth_address list \<Rightarrow> CounterIncreased watcher go" where
  "CounterFilterer_WatchIncreased lib c opts sender =
     go_bind (WatchLogs lib c opts ''Increased'' [map AbiAddress sender]) (\<lambda>_.
     Inr (watch_step (unpack_event lib into_CounterIncreased c ''Increased''), watch_start))"

definition CounterFilterer_ParseIncreased :: "('b, 's) bind_lib \<Rightarrow> 'b BoundContract \<Rightarrow> Log \<Rightarrow> CounterIncreased go" where
  "CounterFilterer_ParseIncreased lib c log = unpack_event lib into_CounterIncreased c ''Increased'' log"

subsection \<open>The binding fits the interface\<close>

lemma Counter_methods:
  "abi_methods CounterMetaData = [
     (''decrease'', [], []),
     (''getCount'', [], [TUint 256]),
     (''increase'', [], [])]"
  by code_simp

text \<open>No read-only method can panic: the conversions are those of the types of the interface.\<close>

lemma Counter_calls_answered:
  assumes "serves refused lib CounterMetaData" and "bound_to lib CounterMetaData c"
  shows "answered refused (CounterCaller_GetCount lib c opts)"
  unfolding binding_defs
  by (rule read_call_answered [OF assms];
      auto simp: accepts_def returns_def Counter_methods all_typed_Cons out_at_def as_defs)+

lemma Counter_transactions_sent:
  assumes "serves refused lib CounterMetaData" and "bound_to lib CounterMetaData c"
  shows "sent_or_refused refused (CounterTransactor_Decrease lib c opts)"
    "sent_or_refused refused (CounterTransactor_Increase lib c opts)"
  unfolding binding_defs
  by (rule transact_answered [OF assms]; simp add: accepts_def Counter_methods)+

text \<open>The values of an event always fit its struct.\<close>

lemma Counter_events_fit:
  "fits CounterMetaData ''Decreased'' into_CounterDecreased"
  "fits CounterMetaData ''Increased'' into_CounterIncreased"
  by (auto simp: fits_def CounterMetaData_def all_typed_Cons as_defs event_structs)

end
