(* ===== verification/Binding_Benchmark.thy ===== *)
theory Binding_Benchmark
  imports Event_Logs
begin

text \<open>
  The generated binding of the benchmark contract with its inner contract, \<^verbatim>\<open>eth/solidity/BenchmarkInternalCall/BenchmarkInternalCall.go\<close>, method by method: calls, transactions,
  their forms in a session, and the events. The payload of internal calls deploys and calls it.
\<close>

definition BenchmarkInternalCallBin :: string where
  "BenchmarkInternalCallBin =
     ''0x608060405234801561000f575f80fd5b5060405161001c9061005a565b604051809103905ff080158015610035573d'' @
     ''5f803e3d5ffd5b505f80546001600160a01b0319166001600160a01b0392909216919091179055610066565b60d48061'' @
     ''021b83390190565b6101a8806100735f395ff3fe608060405234801561000f575f80fd5b5060043610610029575f3560'' @
     ''e01c8063ff04d8061461002d575b5f80fd5b61004061003b366004610106565b610052565b6040519081526020016040'' @
     ''5180910390f35b5f80805b838110156100ff575f8054906101000a900473ffffffffffffffffffffffffffffffffffff'' @
     ''ffff1673ffffffffffffffffffffffffffffffffffffffff1663f8a8fd6d6040518163ffffffff1660e01b8152600401'' @
     ''6020604051808303815f875af11580156100c7573d5f803e3d5ffd5b505050506040513d601f19601f82011682018060'' @
     ''4052508101906100eb919061011d565b6100f59083610134565b9150600101610056565b5092915050565b5f60208284'' @
     ''031215610116575f80fd5b5035919050565b5f6020828403121561012d575f80fd5b5051919050565b80820180821115'' @
     ''61016c577f4e487b71000000000000000000000000000000000000000000000000000000005f52601160045260245ffd'' @
     ''5b9291505056fea26469706673582212200a948c146a4a71a1358978b29421a804a22a49807e9b27f36c7bcd90f1868a'' @
     ''b064736f6c63430008170033608060405234801561000f575f80fd5b5060b88061001c5f395ff3fe6080604052348015'' @
     ''600e575f80fd5b50600436106026575f3560e01c8063f8a8fd6d14602a575b5f80fd5b60306042565b60405190815260'' @
     ''200160405180910390f35b5f7f1440c4dd67b4344ea1905ec0318995133b550f168b4ee959a0da6b503d7d2414602a60'' @
     ''4051607491815260200190565b60405180910390a150602a9056fea264697066735822122069b5123c635adafc8d2ff9'' @
     ''742374307e345a89a93484467e96b0e12d9d93ad3a64736f6c63430008170033''"

definition BenchmarkInternalCallMetaData :: MetaData where
  "BenchmarkInternalCallMetaData = \<lparr> MetaData_ABI = [
     AbiConstructor [],
     AbiFunction ''benchmarkInternalCall'' [(''iterations'', TUint 256)] [('''', TUint 256)]],
     MetaData_Bin = BenchmarkInternalCallBin \<rparr>"

definition DeployBenchmarkInternalCall ::
  "('b, 's) bind_lib \<Rightarrow> 's TransactOpts \<Rightarrow> 'b \<Rightarrow> (eth_address \<times> 's \<times> 'b Binding) go" where
  "DeployBenchmarkInternalCall lib auth backend = go_bind (GetAbi lib BenchmarkInternalCallMetaData) (\<lambda>parsed.
     go_bind (DeployContract lib auth parsed (FromHex BenchmarkInternalCallBin) backend) (\<lambda>(address, tx, contract).
     Inr (address, tx, whole_binding contract)))"

definition bindBenchmarkInternalCall ::
  "('b, 's) bind_lib \<Rightarrow> eth_address \<Rightarrow> 'b option \<Rightarrow> 'b option \<Rightarrow> 'b option \<Rightarrow> 'b BoundContract go" where
  "bindBenchmarkInternalCall lib address caller transactor filterer = go_bind (GetAbi lib BenchmarkInternalCallMetaData) (\<lambda>parsed.
     Inr (NewBoundContract address parsed caller transactor filterer))"

definition NewBenchmarkInternalCall :: "('b, 's) bind_lib \<Rightarrow> eth_address \<Rightarrow> 'b \<Rightarrow> 'b Binding go" where
  "NewBenchmarkInternalCall lib address backend =
     go_bind (bindBenchmarkInternalCall lib address (Some backend) (Some backend) (Some backend)) (\<lambda>contract. Inr (whole_binding contract))"

definition NewBenchmarkInternalCallCaller :: "('b, 's) bind_lib \<Rightarrow> eth_address \<Rightarrow> 'b \<Rightarrow> 'b BoundContract go" where
  "NewBenchmarkInternalCallCaller lib address caller = bindBenchmarkInternalCall lib address (Some caller) None None"

definition NewBenchmarkInternalCallTransactor :: "('b, 's) bind_lib \<Rightarrow> eth_address \<Rightarrow> 'b \<Rightarrow> 'b BoundContract go" where
  "NewBenchmarkInternalCallTransactor lib address transactor = bindBenchmarkInternalCall lib address None (Some transactor) None"

definition NewBenchmarkInternalCallFilterer :: "('b, 's) bind_lib \<Rightarrow> eth_address \<Rightarrow> 'b \<Rightarrow> 'b BoundContract go" where
  "NewBenchmarkInternalCallFilterer lib address filterer = bindBenchmarkInternalCall lib address None None (Some filterer)"

definition BenchmarkInternalCallTransactor_BenchmarkInternalCall :: "('b, 's, int \<Rightarrow> 's go) transact" where [binding_defs]:
  "BenchmarkInternalCallTransactor_BenchmarkInternalCall lib c opts iterations =
     bound_Transact lib c opts ''benchmarkInternalCall'' [AbiUint256 iterations]"

definition BenchmarkInternalCallSession_BenchmarkInternalCall :: "('b, 's, int \<Rightarrow> 's go) in_session" where
  "BenchmarkInternalCallSession_BenchmarkInternalCall lib s iterations =
     BenchmarkInternalCallTransactor_BenchmarkInternalCall lib (Transactor (se_Contract s)) (se_TransactOpts s) iterations"

definition BenchmarkInternalCallTransactorSession_BenchmarkInternalCall :: "('b, 's, int \<Rightarrow> 's go) in_transactor_session" where
  "BenchmarkInternalCallTransactorSession_BenchmarkInternalCall lib s iterations =
     BenchmarkInternalCallTransactor_BenchmarkInternalCall lib (ts_Contract s) (ts_TransactOpts s) iterations"

definition InnerBin :: string where
  "InnerBin =
     ''0x608060405234801561000f575f80fd5b5060b88061001c5f395ff3fe6080604052348015600e575f80fd5b50600436'' @
     ''106026575f3560e01c8063f8a8fd6d14602a575b5f80fd5b60306042565b60405190815260200160405180910390f35b'' @
     ''5f7f1440c4dd67b4344ea1905ec0318995133b550f168b4ee959a0da6b503d7d2414602a604051607491815260200190'' @
     ''565b60405180910390a150602a9056fea264697066735822122069b5123c635adafc8d2ff9742374307e345a89a93484'' @
     ''467e96b0e12d9d93ad3a64736f6c63430008170033''"

definition InnerMetaData :: MetaData where
  "InnerMetaData = \<lparr> MetaData_ABI = [
     AbiEvent ''TestEvent'' [('''', TUint 256, False)],
     AbiFunction ''test'' [] [('''', TUint 256)]],
     MetaData_Bin = InnerBin \<rparr>"

definition DeployInner ::
  "('b, 's) bind_lib \<Rightarrow> 's TransactOpts \<Rightarrow> 'b \<Rightarrow> (eth_address \<times> 's \<times> 'b Binding) go" where
  "DeployInner lib auth backend = go_bind (GetAbi lib InnerMetaData) (\<lambda>parsed.
     go_bind (DeployContract lib auth parsed (FromHex InnerBin) backend) (\<lambda>(address, tx, contract).
     Inr (address, tx, whole_binding contract)))"

definition bindInner ::
  "('b, 's) bind_lib \<Rightarrow> eth_address \<Rightarrow> 'b option \<Rightarrow> 'b option \<Rightarrow> 'b option \<Rightarrow> 'b BoundContract go" where
  "bindInner lib address caller transactor filterer = go_bind (GetAbi lib InnerMetaData) (\<lambda>parsed.
     Inr (NewBoundContract address parsed caller transactor filterer))"

definition NewInner :: "('b, 's) bind_lib \<Rightarrow> eth_address \<Rightarrow> 'b \<Rightarrow> 'b Binding go" where
  "NewInner lib address backend =
     go_bind (bindInner lib address (Some backend) (Some backend) (Some backend)) (\<lambda>contract. Inr (whole_binding contract))"

definition NewInnerCaller :: "('b, 's) bind_lib \<Rightarrow> eth_address \<Rightarrow> 'b \<Rightarrow> 'b BoundContract go" where
  "NewInnerCaller lib address caller = bindInner lib address (Some caller) None None"

definition NewInnerTransactor :: "('b, 's) bind_lib \<Rightarrow> eth_address \<Rightarrow> 'b \<Rightarrow> 'b BoundContract go" where
  "NewInnerTransactor lib address transactor = bindInner lib address None (Some transactor) None"

definition NewInnerFilterer :: "('b, 's) bind_lib \<Rightarrow> eth_address \<Rightarrow> 'b \<Rightarrow> 'b BoundContract go" where
  "NewInnerFilterer lib address filterer = bindInner lib address None None (Some filterer)"

definition InnerTransactor_Test :: "('b, 's, 's go) transact" where [binding_defs]:
  "InnerTransactor_Test lib c opts =
     bound_Transact lib c opts ''test'' []"

definition InnerSession_Test :: "('b, 's, 's go) in_session" where
  "InnerSession_Test lib s =
     InnerTransactor_Test lib (Transactor (se_Contract s)) (se_TransactOpts s)"

definition InnerTransactorSession_Test :: "('b, 's, 's go) in_transactor_session" where
  "InnerTransactorSession_Test lib s =
     InnerTransactor_Test lib (ts_Contract s) (ts_TransactOpts s)"

record InnerTestEvent =
  InnerTestEvent_Arg0 :: int
  InnerTestEvent_Raw :: Log

definition into_InnerTestEvent :: "InnerTestEvent into" where [event_structs]:
  "into_InnerTestEvent vs log = (case vs of [v0] \<Rightarrow>
        Option.bind (as_bigInt v0) (\<lambda>x0.
        Some \<lparr> InnerTestEvent_Arg0 = x0, InnerTestEvent_Raw = log \<rparr>)
      | _ \<Rightarrow> None)"

definition InnerTestEventIterator_Next :: "('b, 's) bind_lib \<Rightarrow> bool \<Rightarrow> ('b, InnerTestEvent) Iterator \<Rightarrow> bool \<times> ('b, InnerTestEvent) Iterator" where
  "InnerTestEventIterator_Next lib = Iterator_Next lib into_InnerTestEvent"

definition InnerFilterer_FilterTestEvent ::
  "('b, 's) bind_lib \<Rightarrow> 'b BoundContract \<Rightarrow> FilterOpts \<Rightarrow> ('b, InnerTestEvent) Iterator go" where
  "InnerFilterer_FilterTestEvent lib c opts =
     go_bind (FilterLogs lib c opts ''TestEvent'' []) (\<lambda>sub.
     Inr (new_iterator c ''TestEvent'' sub))"

definition InnerFilterer_WatchTestEvent ::
  "('b, 's) bind_lib \<Rightarrow> 'b BoundContract \<Rightarrow> WatchOpts \<Rightarrow> InnerTestEvent watcher go" where
  "InnerFilterer_WatchTestEvent lib c opts =
     go_bind (WatchLogs lib c opts ''TestEvent'' []) (\<lambda>_.
     Inr (watch_step (unpack_event lib into_InnerTestEvent c ''TestEvent''), watch_start))"

definition InnerFilterer_ParseTestEvent :: "('b, 's) bind_lib \<Rightarrow> 'b BoundContract \<Rightarrow> Log \<Rightarrow> InnerTestEvent go" where
  "InnerFilterer_ParseTestEvent lib c log = unpack_event lib into_InnerTestEvent c ''TestEvent'' log"

subsection \<open>The binding fits the interface\<close>

lemma BenchmarkInternalCall_methods:
  "abi_methods BenchmarkInternalCallMetaData = [
     (''benchmarkInternalCall'', [TUint 256], [TUint 256])]"
  by code_simp

lemma BenchmarkInternalCall_transactions_sent:
  assumes "serves refused lib BenchmarkInternalCallMetaData" and "bound_to lib BenchmarkInternalCallMetaData c"
  shows "sent_or_refused refused (BenchmarkInternalCallTransactor_BenchmarkInternalCall lib c opts iterations)"
  unfolding binding_defs
  by (rule transact_answered [OF assms]; simp add: accepts_def BenchmarkInternalCall_methods)+

lemma Inner_methods:
  "abi_methods InnerMetaData = [
     (''test'', [], [TUint 256])]"
  by code_simp

lemma Inner_transactions_sent:
  assumes "serves refused lib InnerMetaData" and "bound_to lib InnerMetaData c"
  shows "sent_or_refused refused (InnerTransactor_Test lib c opts)"
  unfolding binding_defs
  by (rule transact_answered [OF assms]; simp add: accepts_def Inner_methods)+

text \<open>The values of an event always fit its struct.\<close>

lemma Inner_events_fit:
  "fits InnerMetaData ''TestEvent'' into_InnerTestEvent"
  by (auto simp: fits_def InnerMetaData_def all_typed_Cons as_defs event_structs)

end
