(* ===== verification/Payload_Eth.thy ===== *)
theory Payload_Eth
  imports Payload_Native Light_Account Binding_Counter Binding_Benchmark
begin

text \<open>
  The providers of EVM transactions and the signer they share: \<^verbatim>\<open>payload/eth_signer.go\<close>,
  \<^verbatim>\<open>eth_send_stress.go\<close>, \<^verbatim>\<open>eth_call_stress.go\<close>, \<^verbatim>\<open>eth_deploy_stress.go\<close>,
  \<^verbatim>\<open>eth_internal_call_stress.go\<close>, \<^verbatim>\<open>eth_userop_stress.go\<close>. Each interprets \<open>tx_provider\<close>. The hash and
  signature of a transaction, the address of a new contract, and the message's own transaction builder
  are fields of the parameter \<open>eth_lib\<close>; the contracts are those of the generated
  bindings, whose interfaces the parameter \<open>getAbi\<close> parses (\<^verbatim>\<open>MetaData.GetAbi\<close>).
\<close>

record ('b, 't) eth_lib =
  signer_Hash :: "int \<Rightarrow> LegacyTx \<Rightarrow> bytes"
  ToECDSA :: "bytes \<Rightarrow> bytes go"
  ec_Sign :: "bytes \<Rightarrow> bytes \<Rightarrow> bytes go"
  WithSignature :: "int \<Rightarrow> LegacyTx \<Rightarrow> bytes \<Rightarrow> bytes go"
  NewExtensionAny :: "unit go"
  SetExtensionOptions :: "'b \<Rightarrow> 'b option"
  BuildEthTx :: "'b \<Rightarrow> sdk_msg \<Rightarrow> string \<Rightarrow> 't go"
  CreateAddress :: "eth_address \<Rightarrow> uint64 \<Rightarrow> eth_address"

subsection \<open>Signing\<close>

record ethTxBuilderAndSigner =
  es_chainID :: int
  es_feeDenom :: string

text \<open>
  The message is changed in place, so the signed copy of the transaction carries it too.
\<close>

definition sign_eth_msg ::
  "('b, 't) eth_lib \<Rightarrow> key_lib \<Rightarrow> ethTxBuilderAndSigner \<Rightarrow> Secp256k1PrivateKey \<Rightarrow> LegacyTx \<Rightarrow> sdk_msg go" where
  "sign_eth_msg el kl s key raw =
     go_bind (wrap_err ''failed to sign tx hash'' (ec_Sign el (signer_Hash el (es_chainID s) raw) key)) (\<lambda>sig.
     go_bind (wrap_err ''failed to update tx with signature'' (WithSignature el (es_chainID s) raw sig)) (\<lambda>sig'.
     Inr (MsgEthereumTx raw (Some sig') (priv_Address kl key))))"

definition build_eth_tx :: "('b, 't) eth_lib \<Rightarrow> string \<Rightarrow> 'b \<Rightarrow> sdk_msg \<Rightarrow> 't go" where
  "build_eth_tx el feeDenom txBuilder ethTxMsg =
     (case NewExtensionAny el of
        Inl err \<Rightarrow> Inl (Msg ''failed to init NewAnyWithValue for ExtensionOptionsEthereumTx'')
      | Inr _ \<Rightarrow> (case SetExtensionOptions el txBuilder of
          None \<Rightarrow> Inl (Msg (''txBuilder isn'' @ [CHR 0x27] @ ''t authtx.ExtensionOptionsTxBuilder''))
        | Some builder \<Rightarrow> wrap_err ''failed to build MsgEthereumTx'' (BuildEthTx el builder ethTxMsg feeDenom)))"

definition eth_BuildAndSignTx ::
  "('b, 't) eth_lib \<Rightarrow> key_lib \<Rightarrow> ethTxBuilderAndSigner \<Rightarrow> (sdk_msg, 'b, 't, 'w) Client \<Rightarrow> Tx \<Rightarrow> Tx go res" where
  "eth_BuildAndSignTx el kl s client unsignedTx =
     (case embedded unsignedTx of None \<Rightarrow> index_panic
      | Some b \<Rightarrow> (case base_msgs b of [] \<Rightarrow> index_panic
        | MsgEthereumTx raw sig0 from0 # rest \<Rightarrow>
            (case sign_eth_msg el kl s (Key (tx_From unsignedTx)) raw of
               Inl err \<Rightarrow> Ret (Inl err)
             | Inr ethTxMsg \<Rightarrow>
                 (case build_eth_tx el (es_feeDenom s) (NewTxBuilder (cl_TxConfig client)) ethTxMsg of
                    Inl err \<Rightarrow> Ret (Inl err)
                  | Inr tx \<Rightarrow> res_bind (Encode client tx) (\<lambda>bs.
                      Ret (Inr (baseTx_WithBytes (b\<lparr>base_msgs := ethTxMsg # rest\<rparr>) bs)))))
        | _ # _ \<Rightarrow> Panic (Msg ''interface conversion: sdk.Msg is not *types.MsgEthereumTx'')))"

subsection \<open>Common parts\<close>

definition eip1559InitialBaseFee :: int where
  "eip1559InitialBaseFee = 1000000000"

definition eth_gas_price :: "sdk_lib \<Rightarrow> string \<Rightarrow> coin go" where
  "eth_gas_price sl minGasPrice = go_bind (parse_coin sl ''minGasPrice'' minGasPrice) (\<lambda>(d, n).
     Inr (d, if n < eip1559InitialBaseFee then eip1559InitialBaseFee else n))"

definition NewTxWithData ::
  "TxRequest \<Rightarrow> eth_address option \<Rightarrow> int \<Rightarrow> uint64 \<Rightarrow> coin \<Rightarrow> bytes \<Rightarrow> sdk_msg" where
  "NewTxWithData req to value gas gasPrice data = MsgEthereumTx \<lparr> Nonce = Sequence (req_From req), To = to, Value = value,
     Gas = gas, GasPrice = snd gasPrice, Data = data \<rparr> None []"

text \<open>\<^verbatim>\<open>ethcmn.Address(b)\<close>: the first twenty bytes; a shorter slice panics.\<close>

definition slice_address :: "bytes \<Rightarrow> eth_address res" where
  "slice_address b = (if length b < 20 then Panic (Msg ''runtime error: cannot convert slice to array'') else Ret (take 20 b))"

subsection \<open>Transfers\<close>

record ethSendProvider =
  ets_signer :: ethTxBuilderAndSigner
  ets_sendAmount :: coin
  ets_minGasPrice :: coin
  ets_maxGasLimit :: uint64

definition NewEthSendProvider :: "sdk_lib \<Rightarrow> int \<Rightarrow> string \<Rightarrow> string \<Rightarrow> ethSendProvider go" where
  "NewEthSendProvider sl ethChainID minGasPrice sendAmount =
     go_bind (parse_coin sl ''amount'' sendAmount) (\<lambda>parsedAmount.
     go_bind (eth_gas_price sl minGasPrice) (\<lambda>parsedMinGasPrice.
     Inr \<lparr> ets_signer = \<lparr> es_chainID = ethChainID, es_feeDenom = fst parsedMinGasPrice \<rparr>,
       ets_sendAmount = parsedAmount, ets_minGasPrice = parsedMinGasPrice, ets_maxGasLimit = 21000 \<rparr>))"

definition ethSend_GenerateTx :: "key_lib \<Rightarrow> ethSendProvider gen" where
  "ethSend_GenerateTx kl req p =
     (res_bind (key_at (req_Keys req) (next_index req 1)) (\<lambda>key.
      let to = priv_Address kl key in
      res_bind (slice_address to) (\<lambda>toEth.
      Ret (Inr (EthSendTx (new_baseTx req
        [NewTxWithData req (Some toEth) (snd (ets_sendAmount p)) (ets_maxGasLimit p) (ets_minGasPrice p) []]) to)))), p)"

definition ethSend_BuildAndSignTx ::
  "('b, 't) eth_lib \<Rightarrow> key_lib \<Rightarrow> (sdk_msg, 'b, 't, 'w) Client \<Rightarrow> ethSendProvider sign" where
  "ethSend_BuildAndSignTx el kl client t p = (eth_BuildAndSignTx el kl (ets_signer p) client t, p)"

definition ethSend_GenerateInitialTx :: "ethSendProvider gen_initial" where
  "ethSend_GenerateInitialTx req p = (Ret (Inr None), p)"

subsection \<open>Calls\<close>

record ethCallProvider =
  etc_signer :: ethTxBuilderAndSigner
  etc_minGasPrice :: coin
  etc_maxGasLimit :: uint64
  etc_maxGasLimitDeployment :: uint64
  etc_contractMetaData :: MetaData
  etc_contractABI :: abi_encoder
  etc_contractAddress :: eth_address

definition NewEthCallProvider :: "sdk_lib \<Rightarrow> (MetaData \<Rightarrow> abi_encoder go) \<Rightarrow> int \<Rightarrow> string \<Rightarrow> ethCallProvider go" where
  "NewEthCallProvider sl getAbi ethChainID minGasPrice =
     go_bind (eth_gas_price sl minGasPrice) (\<lambda>parsedMinGasPrice.
     go_bind (wrap_err ''failed to parse Counter contract ABI'' (getAbi CounterMetaData)) (\<lambda>contractABI.
     Inr \<lparr> etc_signer = \<lparr> es_chainID = ethChainID, es_feeDenom = fst parsedMinGasPrice \<rparr>,
       etc_minGasPrice = parsedMinGasPrice, etc_maxGasLimit = 50000, etc_maxGasLimitDeployment = 230000,
       etc_contractMetaData = CounterMetaData, etc_contractABI = contractABI, etc_contractAddress = zero_address \<rparr>))"

definition ethCall_GenerateTx :: "ethCallProvider gen" where
  "ethCall_GenerateTx req p =
     ((if etc_contractAddress p = zero_address then Ret (Inl (Msg ''contract address is not set''))
       else case etc_contractABI p ''increase'' [] of
         Inl err \<Rightarrow> Ret (Inl (Wrap ''failed to pack contract call data'' err))
       | Inr callData \<Rightarrow> Ret (Inr (EthCallTx (new_baseTx req
           [NewTxWithData req (Some (etc_contractAddress p)) 0 (etc_maxGasLimit p) (etc_minGasPrice p) callData])
           (etc_contractAddress p)))), p)"

definition ethCall_BuildAndSignTx ::
  "('b, 't) eth_lib \<Rightarrow> key_lib \<Rightarrow> (sdk_msg, 'b, 't, 'w) Client \<Rightarrow> ethCallProvider sign" where
  "ethCall_BuildAndSignTx el kl client t p = (eth_BuildAndSignTx el kl (etc_signer p) client t, p)"

definition ethCall_GenerateInitialTx :: "('b, 't) eth_lib \<Rightarrow> key_lib \<Rightarrow> ethCallProvider gen_initial" where
  "ethCall_GenerateInitialTx el kl req p =
     (if req_FromIdx req \<noteq> 0 \<or> req_TxIdx req \<noteq> 0 then (Ret (Inr None), p)
      else (Ret (Inr (Some (EthCallTx (new_baseTx req
          [NewTxWithData req None 0 (etc_maxGasLimitDeployment p) (etc_minGasPrice p) (FromHex (MetaData_Bin (etc_contractMetaData p)))])
          zero_address))),
        p\<lparr>etc_contractAddress := CreateAddress el (Account_EthAddress kl (req_From req)) (Sequence (req_From req))\<rparr>))"

subsection \<open>Deployments\<close>

record ethDeployProvider =
  etd_signer :: ethTxBuilderAndSigner
  etd_minGasPrice :: coin
  etd_maxGasLimit :: uint64
  etd_contractMetaData :: MetaData

definition NewEthDeployProvider :: "sdk_lib \<Rightarrow> (MetaData \<Rightarrow> abi_encoder go) \<Rightarrow> int \<Rightarrow> string \<Rightarrow> ethDeployProvider go" where
  "NewEthDeployProvider sl getAbi ethChainID minGasPrice =
     go_bind (eth_gas_price sl minGasPrice) (\<lambda>parsedMinGasPrice.
     go_bind (wrap_err ''failed to parse Counter contract ABI'' (getAbi CounterMetaData)) (\<lambda>_.
     Inr \<lparr> etd_signer = \<lparr> es_chainID = ethChainID, es_feeDenom = fst parsedMinGasPrice \<rparr>,
       etd_minGasPrice = parsedMinGasPrice, etd_maxGasLimit = 230000, etd_contractMetaData = CounterMetaData \<rparr>))"

definition ethDeploy_GenerateTx :: "ethDeployProvider gen" where
  "ethDeploy_GenerateTx req p = (Ret (Inr (EthDeployTx (new_baseTx req
     [NewTxWithData req None 0 (etd_maxGasLimit p) (etd_minGasPrice p) (FromHex (MetaData_Bin (etd_contractMetaData p)))]))), p)"

definition ethDeploy_BuildAndSignTx ::
  "('b, 't) eth_lib \<Rightarrow> key_lib \<Rightarrow> (sdk_msg, 'b, 't, 'w) Client \<Rightarrow> ethDeployProvider sign" where
  "ethDeploy_BuildAndSignTx el kl client t p = (eth_BuildAndSignTx el kl (etd_signer p) client t, p)"

definition ethDeploy_GenerateInitialTx :: "ethDeployProvider gen_initial" where
  "ethDeploy_GenerateInitialTx req p = (Ret (Inr None), p)"

subsection \<open>Internal calls\<close>

record ethInternalCallProvider =
  eti_signer :: ethTxBuilderAndSigner
  eti_minGasPrice :: coin
  eti_maxGasLimit :: uint64
  eti_maxGasLimitDeployment :: uint64
  eti_iterations :: uint64
  eti_contractMetaData :: MetaData
  eti_contractABI :: abi_encoder
  eti_contractAddress :: eth_address

definition defaultEthInternalCallIterations :: uint64 where
  "defaultEthInternalCallIterations = 100"

definition NewEthInternalCallProvider ::
  "sdk_lib \<Rightarrow> (MetaData \<Rightarrow> abi_encoder go) \<Rightarrow> int \<Rightarrow> string \<Rightarrow> uint64 \<Rightarrow> ethInternalCallProvider go" where
  "NewEthInternalCallProvider sl getAbi ethChainID minGasPrice iterations0 =
     (let iterations = (if iterations0 = 0 then defaultEthInternalCallIterations else iterations0) in
      go_bind (eth_gas_price sl minGasPrice) (\<lambda>parsedMinGasPrice.
      go_bind (wrap_err ''failed to parse BenchmarkInternalCall contract ABI'' (getAbi BenchmarkInternalCallMetaData)) (\<lambda>contractABI.
      Inr \<lparr> eti_signer = \<lparr> es_chainID = ethChainID, es_feeDenom = fst parsedMinGasPrice \<rparr>,
        eti_minGasPrice = parsedMinGasPrice, eti_maxGasLimit = 28809 + 2500 * iterations,
        eti_maxGasLimitDeployment = 320000, eti_iterations = iterations, eti_contractMetaData = BenchmarkInternalCallMetaData,
        eti_contractABI = contractABI, eti_contractAddress = zero_address \<rparr>)))"

definition ethInternalCall_GenerateTx :: "ethInternalCallProvider gen" where
  "ethInternalCall_GenerateTx req p =
     ((if eti_contractAddress p = zero_address then Ret (Inl (Msg ''contract address is not set''))
       else case eti_contractABI p ''benchmarkInternalCall'' [AbiUint256 (int_of_u64 (eti_iterations p))] of
         Inl err \<Rightarrow> Ret (Inl (Wrap ''failed to pack contract call data'' err))
       | Inr callData \<Rightarrow> Ret (Inr (EthInternalCallTx (new_baseTx req
           [NewTxWithData req (Some (eti_contractAddress p)) 0 (eti_maxGasLimit p) (eti_minGasPrice p) callData])
           (eti_contractAddress p)))), p)"

definition ethInternalCall_BuildAndSignTx ::
  "('b, 't) eth_lib \<Rightarrow> key_lib \<Rightarrow> (sdk_msg, 'b, 't, 'w) Client \<Rightarrow> ethInternalCallProvider sign" where
  "ethInternalCall_BuildAndSignTx el kl client t p = (eth_BuildAndSignTx el kl (eti_signer p) client t, p)"

definition ethInternalCall_GenerateInitialTx :: "('b, 't) eth_lib \<Rightarrow> key_lib \<Rightarrow> ethInternalCallProvider gen_initial" where
  "ethInternalCall_GenerateInitialTx el kl req p =
     (if req_FromIdx req \<noteq> 0 \<or> req_TxIdx req \<noteq> 0 then (Ret (Inr None), p)
      else (Ret (Inr (Some (BaseTx (new_baseTx req
          [NewTxWithData req None 0 (eti_maxGasLimitDeployment p) (eti_minGasPrice p) (FromHex (MetaData_Bin (eti_contractMetaData p)))])))),
        p\<lparr>eti_contractAddress := CreateAddress el (Account_EthAddress kl (req_From req)) (Sequence (req_From req))\<rparr>))"

subsection \<open>User operations\<close>

record ethUserOpProvider =
  etu_signer :: ethTxBuilderAndSigner
  etu_minGasPrice :: coin
  etu_maxGasLimitPerUserOp :: uint64
  etu_maxGasLimitInitialTx :: uint64
  etu_ethRPCURL :: string
  etu_chainID :: int
  etu_entrypoint :: entrypoint
  etu_entrypointAddress :: eth_address
  etu_accountFactoryAddress :: eth_address
  etu_lightAccounts :: "int \<rightharpoonup> lightAccount"
  etu_lightAccountNonces :: "int \<rightharpoonup> uint64"
  etu_counterContractMetaData :: MetaData
  etu_counterContractABI :: abi_encoder
  etu_counterContractAddress :: eth_address
  etu_uoSigned :: nat

text \<open>The chain identifier is cut to an \<^verbatim>\<open>int64\<close>; the pace counter is the number of signed operations.\<close>

definition NewEthUserOpProvider ::
  "sdk_lib \<Rightarrow> aa_env \<Rightarrow> string \<Rightarrow> int \<Rightarrow> string \<Rightarrow> nat \<Rightarrow> eth_address \<Rightarrow> eth_address \<Rightarrow> eth_address \<Rightarrow> eth_address
    \<Rightarrow> ethUserOpProvider go" where
  "NewEthUserOpProvider sl env ethRPCURL ethChainID minGasPrice uoSignedPace entrypointAddress beneficiaryAddress
      accountFactoryAddress counterContractAddress =
     go_bind (eth_gas_price sl minGasPrice) (\<lambda>parsedMinGasPrice.
     go_bind (wrap_err ''failed to create entrypoint''
       (NewEntrypoint env ethRPCURL (wrap_int ethChainID) accountFactoryAddress beneficiaryAddress)) (\<lambda>entrypoint.
     go_bind (wrap_err ''failed to parse Counter contract ABI'' (GetAbi (aa_bind env) CounterMetaData)) (\<lambda>contractABI.
     Inr \<lparr> etu_signer = \<lparr> es_chainID = ethChainID, es_feeDenom = fst parsedMinGasPrice \<rparr>,
       etu_minGasPrice = parsedMinGasPrice, etu_maxGasLimitPerUserOp = 42000, etu_maxGasLimitInitialTx = 230000,
       etu_ethRPCURL = ethRPCURL, etu_chainID = wrap_int ethChainID, etu_entrypoint = entrypoint,
       etu_entrypointAddress = entrypointAddress, etu_accountFactoryAddress = accountFactoryAddress,
       etu_lightAccounts = Map.empty, etu_lightAccountNonces = Map.empty, etu_counterContractMetaData = CounterMetaData,
       etu_counterContractABI = contractABI, etu_counterContractAddress = counterContractAddress,
       etu_uoSigned = uoSignedPace \<rparr>)))"

definition opsPerTx :: nat where
  "opsPerTx = 50"

definition userop_gas :: UserOperationGasEstimates where
  "userop_gas = \<lparr> ge_CallGasLimit = 22000, ge_VerificationGasLimit = 75000, ge_PreVerificationGas = 21000,
     ge_MaxFeePerGas = 0, ge_MaxPriorityFeePerGas = 0 \<rparr>"

definition personalSignFn :: "aa_lib \<Rightarrow> ('b, 't) eth_lib \<Rightarrow> Secp256k1PrivateKey \<Rightarrow> eth_address \<Rightarrow> bytes \<Rightarrow> bytes go" where
  "personalSignFn al el key a data = go_bind (ToECDSA el key) (\<lambda>pk. ec_Sign el (Keccak256Hash al data) pk)"

definition next_nonce :: "ethUserOpProvider \<Rightarrow> int \<Rightarrow> uint64" where
  "next_nonce p idx = (case etu_lightAccountNonces p idx of None \<Rightarrow> 0 | Some n \<Rightarrow> n)"

text \<open>
  The loop, with the operations still to make: an operation takes the next nonce of the account, which
  is advanced before it is signed.
\<close>

fun sign_user_ops ::
  "aa_lib \<Rightarrow> signer \<Rightarrow> lightAccount \<Rightarrow> bytes \<Rightarrow> int \<Rightarrow> nat \<Rightarrow> ethUserOpProvider
    \<Rightarrow> PackedUserOperation list go res \<times> ethUserOpProvider" where
  "sign_user_ops al sg la callData idx 0 p = (Ret (Inr []), p)"
| "sign_user_ops al sg la callData idx (Suc n) p =
     (let nonce = next_nonce p idx in
      case NewUserOperationWithNonce la (etu_counterContractAddress p) callData nonce [userop_gas] of
        Panic e \<Rightarrow> (Panic e, p)
      | Ret (Inl err) \<Rightarrow> (Ret (Inl (Wrap ''failed to create user operation'' err)), p)
      | Ret (Inr userOp) \<Rightarrow>
          (let p1 = p\<lparr>etu_lightAccountNonces := (etu_lightAccountNonces p)(idx \<mapsto> nonce + 1)\<rparr> in
           case SignUserOperation al sg userOp of
             Panic e \<Rightarrow> (Panic e, p1)
           | Ret (Inl err) \<Rightarrow> (Ret (Inl (Wrap (''failed to sign user operation (idx: '' @ show_nat (opsPerTx - Suc n) @ '', account: '' @
                 itoa idx @ '', nonce: '' @ show_nat (unat nonce) @ '')'') err)), p1)
           | Ret (Inr (packedUO, _)) \<Rightarrow>
               (let (r, p2) = sign_user_ops al sg la callData idx n (p1\<lparr>etu_uoSigned := Suc (etu_uoSigned p1)\<rparr>) in
                (case r of Ret (Inr ops) \<Rightarrow> Ret (Inr (packedUO # ops)) | _ \<Rightarrow> r, p2))))"

definition ethUserOp_GenerateTx :: "aa_lib \<Rightarrow> ('b, 't) eth_lib \<Rightarrow> key_lib \<Rightarrow> ethUserOpProvider gen" where
  "ethUserOp_GenerateTx al el kl req p =
     (if etu_counterContractAddress p = zero_address then (Ret (Inl (Msg ''counter contract address is not set'')), p)
      else case etu_counterContractABI p ''increase'' [] of
        Inl err \<Rightarrow> (Ret (Inl (Wrap ''failed to pack counter call calldata'' err)), p)
      | Inr counterCallData \<Rightarrow> (case etu_lightAccounts p (req_FromIdx req) of
          None \<Rightarrow> (Ret (Inl (Msg (''light account not found for '' @ itoa (req_FromIdx req) @ '' ('' @ Name (req_From req) @ '')''))), p)
        | Some lightAccount \<Rightarrow>
            (let sg = NewSigner (etu_entrypointAddress p) (es_chainID (etu_signer p))
                   (personalSignFn al el (Key (req_From req))) zero_address in
             case sign_user_ops al sg lightAccount counterCallData (req_FromIdx req) opsPerTx p of
               (Panic e, p1) \<Rightarrow> (Panic e, p1)
             | (Ret (Inl err), p1) \<Rightarrow> (Ret (Inl err), p1)
             | (Ret (Inr userOps), p1) \<Rightarrow>
                 (case HandleOpsCallData (etu_entrypoint p1) userOps (Account_EthAddress kl (req_From req)) of
                    Inl err \<Rightarrow> (Ret (Inl (Wrap ''failed to pack handleOps calldata'' err)), p1)
                  | Inr handleOpsCallData \<Rightarrow> (Ret (Inr (EthUserOpTx (new_baseTx req
                      [NewTxWithData req (Some (etu_entrypointAddress p1)) 0
                         (etu_maxGasLimitPerUserOp p1 * of_nat (length userOps)) (etu_minGasPrice p1) handleOpsCallData])
                      (etu_entrypointAddress p1))), p1)))))"

definition ethUserOp_BuildAndSignTx ::
  "('b, 't) eth_lib \<Rightarrow> key_lib \<Rightarrow> (sdk_msg, 'b, 't, 'w) Client \<Rightarrow> ethUserOpProvider sign" where
  "ethUserOp_BuildAndSignTx el kl client t p = (eth_BuildAndSignTx el kl (etu_signer p) client t, p)"

definition defaultAccountSalt :: uint64 where
  "defaultAccountSalt = 1"

definition minAccountBalanceOnEndpoint :: int where
  "minAccountBalanceOnEndpoint = 10 ^ 18"

definition endpointAccountBalanceTopup :: int where
  "endpointAccountBalanceTopup = 15 * 10 ^ 17"

definition account_error :: "string \<Rightarrow> TxRequest \<Rightarrow> go_error \<Rightarrow> go_error" where
  "account_error what req err = Wrap (''failed to '' @ what @ '' light account (idx: '' @ itoa (req_FromIdx req) @ ''; account: '' @
     Name (req_From req) @ '')'') err"

definition ethUserOp_GenerateInitialTx :: "aa_env \<Rightarrow> key_lib \<Rightarrow> ethUserOpProvider gen_initial" where
  "ethUserOp_GenerateInitialTx env kl req p =
     (case NewLightAccount env (etu_ethRPCURL p) (etu_chainID p) (etu_entrypointAddress p) (etu_accountFactoryAddress p)
        (Account_EthAddress kl (req_From req)) defaultAccountSalt of
        Panic e \<Rightarrow> (Panic e, p)
      | Ret (Inl err) \<Rightarrow> (Ret (Inl (account_error ''create'' req err)), p)
      | Ret (Inr la) \<Rightarrow>
          (let p1 = p\<lparr>etu_lightAccounts := (etu_lightAccounts p)(req_FromIdx req \<mapsto> la)\<rparr> in
           case la_Nonce env la 0 of
             Panic e \<Rightarrow> (Panic e, p1)
           | Ret (Inl err) \<Rightarrow> (Ret (Inl (account_error ''sync nonce for'' req err)), p1)
           | Ret (Inr nonce) \<Rightarrow>
               (let p2 = p1\<lparr>etu_lightAccountNonces := (etu_lightAccountNonces p1)(req_FromIdx req \<mapsto> nonce)\<rparr> in
                case la_Balance env la of
                  Panic e \<Rightarrow> (Panic e, p2)
                | Ret (Inl err) \<Rightarrow> (Ret (Inl (account_error ''get balance for'' req err)), p2)
                | Ret (Inr balance) \<Rightarrow>
                    if balance \<ge> minAccountBalanceOnEndpoint then (Ret (Inr None), p2)
                    else case DepositToEntrypointCallData la of
                      Inl err \<Rightarrow> (Ret (Inl (account_error ''get deposit to entrypoint call data for'' req err)), p2)
                    | Inr depositCallData \<Rightarrow> (Ret (Inr (Some (BaseTx (new_baseTx req
                        [NewTxWithData req (Some (etu_entrypointAddress p2)) endpointAccountBalanceTopup
                           (etu_maxGasLimitInitialTx p2) (etu_minGasPrice p2) depositCallData])))), p2))))"

subsection \<open>All of them are providers\<close>

lemma sign_eth_msgD:
  "sign_eth_msg el kl s key raw = Inr m \<Longrightarrow> \<exists>sig sig'. ec_Sign el (signer_Hash el (es_chainID s) raw) key = Inr sig \<and>
    WithSignature el (es_chainID s) raw sig = Inr sig' \<and> m = MsgEthereumTx raw (Some sig') (priv_Address kl key)"
  by (auto simp: sign_eth_msg_def)

lemma eth_BuildAndSignTxD:
  assumes "eth_BuildAndSignTx el kl s client t = Ret (Inr t')"
  shows "\<exists>b raw sig0 from0 rest m bs. embedded t = Some b \<and> base_msgs b = MsgEthereumTx raw sig0 from0 # rest \<and>
    sign_eth_msg el kl s (Key (tx_From t)) raw = Inr m \<and> t' = baseTx_WithBytes (b\<lparr>base_msgs := m # rest\<rparr>) bs"
proof -
  obtain b where b: "embedded t = Some b" using assms by (cases "embedded t") (auto simp: eth_BuildAndSignTx_def index_panic_def)
  obtain m0 rest where m0: "base_msgs b = m0 # rest"
    using assms b by (cases "base_msgs b") (auto simp: eth_BuildAndSignTx_def index_panic_def)
  obtain raw sig0 from0 where raw: "m0 = MsgEthereumTx raw sig0 from0"
    using assms b m0 by (cases m0) (auto simp: eth_BuildAndSignTx_def)
  then show ?thesis using assms b m0 by (auto simp: eth_BuildAndSignTx_def)
qed

lemma eth_sign_keeps:
  "eth_BuildAndSignTx el kl s client t = Ret (Inr t') \<Longrightarrow>
    tx_From t' = tx_From t \<and> tx_FromIdx t' = tx_FromIdx t \<and> tx_TxIdx t' = tx_TxIdx t"
  by (auto dest!: eth_BuildAndSignTxD simp: tx_methods)

lemmas eth_provider_defs =
  ethSend_GenerateTx_def ethSend_BuildAndSignTx_def ethCall_GenerateTx_def ethCall_BuildAndSignTx_def
  ethDeploy_GenerateTx_def ethDeploy_BuildAndSignTx_def ethInternalCall_GenerateTx_def ethInternalCall_BuildAndSignTx_def

interpretation ethSend: plain_provider "ethSend_GenerateTx kl" "ethSend_BuildAndSignTx el kl client" ethSend_GenerateInitialTx
  for kl el and client :: "(sdk_msg, 'b, 't, 'w) Client"
  by unfold_locales (auto simp: eth_provider_defs ethSend_GenerateInitialTx_def tx_methods Let_def dest: eth_sign_keeps)

interpretation ethCall: tx_provider ethCall_GenerateTx "ethCall_BuildAndSignTx el kl client"
  for kl el and client :: "(sdk_msg, 'b, 't, 'w) Client"
  by unfold_locales (auto simp: eth_provider_defs tx_methods split: if_splits sum.split_asm dest: eth_sign_keeps)

interpretation ethDeploy: plain_provider ethDeploy_GenerateTx "ethDeploy_BuildAndSignTx el kl client" ethDeploy_GenerateInitialTx
  for kl el and client :: "(sdk_msg, 'b, 't, 'w) Client"
  by unfold_locales (auto simp: eth_provider_defs ethDeploy_GenerateInitialTx_def tx_methods dest: eth_sign_keeps)

interpretation ethInternalCall: tx_provider ethInternalCall_GenerateTx "ethInternalCall_BuildAndSignTx el kl client"
  for kl el and client :: "(sdk_msg, 'b, 't, 'w) Client"
  by unfold_locales (auto simp: eth_provider_defs tx_methods split: if_splits sum.split_asm dest: eth_sign_keeps)

lemma ethUserOp_GenerateTxD:
  assumes "ethUserOp_GenerateTx al el kl req p = (Ret (Inr t), p')"
  shows "\<exists>la callData ops data. etu_lightAccounts p (req_FromIdx req) = Some la \<and>
    etu_counterContractABI p ''increase'' [] = Inr callData \<and>
    sign_user_ops al (NewSigner (etu_entrypointAddress p) (es_chainID (etu_signer p)) (personalSignFn al el (Key (req_From req))) zero_address)
      la callData (req_FromIdx req) opsPerTx p = (Ret (Inr ops), p') \<and>
    HandleOpsCallData (etu_entrypoint p') ops (Account_EthAddress kl (req_From req)) = Inr data \<and>
    t = EthUserOpTx (new_baseTx req [NewTxWithData req (Some (etu_entrypointAddress p')) 0
         (etu_maxGasLimitPerUserOp p' * of_nat (length ops)) (etu_minGasPrice p') data]) (etu_entrypointAddress p')"
  using assms
  by (auto simp: ethUserOp_GenerateTx_def Let_def split: if_split_asm option.split_asm sum.split_asm res.split_asm prod.split_asm)

interpretation ethUserOp: tx_provider "ethUserOp_GenerateTx al el kl" "ethUserOp_BuildAndSignTx el kl client"
  for al kl el and client :: "(sdk_msg, 'b, 't, 'w) Client"
  by unfold_locales (auto simp: ethUserOp_BuildAndSignTx_def tx_methods dest!: ethUserOp_GenerateTxD dest: eth_sign_keeps)

subsection \<open>What they promise\<close>


text \<open>C26: The calls go to the contract that the initial transaction deploys, and call it right: after the initial
  transaction of the first account, which carries the counter's bytecode and the nonce and owner the address is
  derived from, every request gives a call to that address, with the sender's sequence as nonce and the encoding
  of a method that the counter's interface has.\<close>

theorem eth_calls_reach_deployed:
  assumes "NewEthCallProvider sl getAbi cid minGasPrice = Inr p"
    and "getAbi CounterMetaData = Inr enc" "encodes CounterMetaData enc"
    and "ethCall_GenerateInitialTx el kl req0 p = (Ret (Inr (Some t0)), p1)"
    and "CreateAddress el (Account_EthAddress kl (req_From req0)) (Sequence (req_From req0)) \<noteq> zero_address"
  shows "\<exists>deploy. tx_Msgs t0 = [MsgEthereumTx deploy None []] \<and> To deploy = None \<and> Data deploy = FromHex CounterBin \<and>
    tx_From t0 = req_From req0 \<and>
    (\<exists>t call. ethCall_GenerateTx req p1 = (Ret (Inr t), p1) \<and> tx_Msgs t = [MsgEthereumTx call None []] \<and>
       To call = Some (CreateAddress el (Account_EthAddress kl (tx_From t0)) (Nonce deploy)) \<and>
       Nonce call = Sequence (req_From req) \<and> enc ''increase'' [] = Inr (Data call))"
proof -
  have p: "etc_contractABI p = enc" "MetaData_Bin (etc_contractMetaData p) = CounterBin"
    using assms(1,2) by (auto simp: NewEthCallProvider_def CounterMetaData_def)
  have "accepts CounterMetaData ''increase'' []" by (simp add: accepts_def Counter_methods)
  with assms(3) obtain callData where "enc ''increase'' [] = Inr callData" unfolding encodes_def by blast
  with p assms(4,5) show ?thesis
    by (auto simp: ethCall_GenerateInitialTx_def ethCall_GenerateTx_def NewTxWithData_def tx_methods split: if_split_asm)
qed

lemma sign_user_ops_nonces:
  assumes "sign_user_ops al sg la callData idx n p = (Ret (Inr ops), p')"
  shows "map pu_Nonce ops = map (\<lambda>i. int_of_u64 (next_nonce p idx + of_nat i)) [0..<n]"
    and "next_nonce p' idx = next_nonce p idx + of_nat n"
    and "\<forall>j. j \<noteq> idx \<longrightarrow> next_nonce p' j = next_nonce p j" and "etu_uoSigned p' = etu_uoSigned p + n"
proof -
  have "map pu_Nonce ops = map (\<lambda>i. int_of_u64 (next_nonce p idx + of_nat i)) [0..<n] \<and>
      next_nonce p' idx = next_nonce p idx + of_nat n \<and>
      (\<forall>j. j \<noteq> idx \<longrightarrow> next_nonce p' j = next_nonce p j) \<and> etu_uoSigned p' = etu_uoSigned p + n"
    using assms
  proof (induction n arbitrary: p ops)
    case (Suc n)
    let ?nonce = "next_nonce p idx"
    let ?p = "p\<lparr>etu_lightAccountNonces := (etu_lightAccountNonces p)(idx \<mapsto> ?nonce + 1), etu_uoSigned := Suc (etu_uoSigned p)\<rparr>"
    obtain uo u ops' where uo: "NewUserOperationWithNonce la (etu_counterContractAddress p) callData ?nonce [userop_gas] = Ret (Inr uo)"
        "\<exists>h. SignUserOperation al sg uo = Ret (Inr (u, h))"
        and rec: "sign_user_ops al sg la callData idx n ?p = (Ret (Inr ops'), p')" "ops = u # ops'"
      using Suc.prems
      by (auto simp: Let_def split: res.split_asm sum.split_asm prod.split_asm)
    have nonce: "pu_Nonce u = int_of_u64 ?nonce"
      using uo by (auto simp: NewUserOperationWithNonce_def newUserOperation_def SignUserOperation_def uo_Pack_def Let_def
          split: if_split_asm sum.split_asm)
    have "next_nonce ?p idx = ?nonce + 1" "j \<noteq> idx \<Longrightarrow> next_nonce ?p j = next_nonce p j" for j
      by (simp_all add: next_nonce_def)
    with Suc.IH [OF rec(1)] rec(2) nonce show ?case
      by (simp add: upt_conv_Cons map_Suc_upt [symmetric] comp_def add.assoc del: upt_Suc)
  qed simp
  then show "map pu_Nonce ops = map (\<lambda>i. int_of_u64 (next_nonce p idx + of_nat i)) [0..<n]"
    "next_nonce p' idx = next_nonce p idx + of_nat n"
    "\<forall>j. j \<noteq> idx \<longrightarrow> next_nonce p' j = next_nonce p j" "etu_uoSigned p' = etu_uoSigned p + n" by blast+
qed

lemma sign_user_ops_entrypoint:
  "sign_user_ops al sg la callData idx n p = (r, p') \<Longrightarrow> etu_entrypoint p' = etu_entrypoint p"
  by (induction n arbitrary: p r)
    (auto simp: Let_def split: res.split_asm sum.split_asm prod.split_asm)

text \<open>A run of the generator over a sequence of requests, of any accounts in any order.\<close>

fun generate_run :: "'p gen \<Rightarrow> TxRequest list \<Rightarrow> 'p \<Rightarrow> (Tx list \<times> 'p) option" where
  "generate_run gen [] p = Some ([], p)"
| "generate_run gen (req # reqs) p = (case gen req p of
     (Ret (Inr t), p1) \<Rightarrow> map_option (\<lambda>(ts, p2). (t # ts, p2)) (generate_run gen reqs p1) | _ \<Rightarrow> None)"

definition nonces_of :: "int \<Rightarrow> (TxRequest \<times> PackedUserOperation list) list \<Rightarrow> int list" where
  "nonces_of idx ros = concat (map (\<lambda>(r, ops). if req_FromIdx r = idx then map pu_Nonce ops else []) ros)"

definition carries_ops :: "key_lib \<Rightarrow> ethUserOpProvider \<Rightarrow> TxRequest \<Rightarrow> Tx \<Rightarrow> PackedUserOperation list \<Rightarrow> bool" where
  "carries_ops kl p req t ops \<longleftrightarrow> (\<exists>call. tx_Msgs t = [MsgEthereumTx call None []] \<and> Nonce call = Sequence (req_From req) \<and>
     HandleOpsCallData (etu_entrypoint p) ops (Account_EthAddress kl (req_From req)) = Inr (Data call))"

lemma upt_nonces_append:
  "map (\<lambda>i. int_of_u64 (n + of_nat i)) [0..<a] @ map (\<lambda>i. int_of_u64 (n + of_nat a + of_nat i)) [0..<b]
    = map (\<lambda>i. int_of_u64 (n + of_nat i)) [0..<a + b]"
proof -
  have "map (\<lambda>i. int_of_u64 (n + of_nat a + of_nat i)) [0..<b] = map (\<lambda>i. int_of_u64 (n + of_nat i)) [a..<a + b]"
    by (rule nth_equalityI) (simp_all add: add.assoc)
  then show ?thesis using upt_add_eq_append [of 0 a b] by simp
qed

text \<open>C19: The user operations of an account have consecutive nonces over a whole run, whatever other accounts
  do in between: the transactions of the run carry fifty operations each, and those of account \<open>i\<close>, in the
  order they were generated, are numbered from the account's nonce on without a gap or a repetition.\<close>

theorem userop_nonces_consecutive:
  assumes "generate_run (ethUserOp_GenerateTx al el kl) reqs p = Some (ts, p')"
  shows "\<exists>opss. length opss = length reqs \<and> list_all (\<lambda>ops. length ops = 50) opss \<and>
    list_all (\<lambda>((req, ops), t). carries_ops kl p req t ops) (zip (zip reqs opss) ts) \<and>
    (\<forall>idx. nonces_of idx (zip reqs opss) = map (\<lambda>i. int_of_u64 (next_nonce p idx + of_nat i))
       [0..<50 * length (filter (\<lambda>r. req_FromIdx r = idx) reqs)])"
  using assms
proof (induction reqs arbitrary: p ts)
  case (Cons req reqs)
  then obtain t p1 ts' where gen: "ethUserOp_GenerateTx al el kl req p = (Ret (Inr t), p1)"
      and rec: "generate_run (ethUserOp_GenerateTx al el kl) reqs p1 = Some (ts', p')" and ts: "ts = t # ts'"
    by (auto split: res.split_asm sum.split_asm prod.split_asm)
  from ethUserOp_GenerateTxD [OF gen] obtain la cd ops data sg where
    loop: "sign_user_ops al sg la cd (req_FromIdx req) 50 p = (Ret (Inr ops), p1)"
    and data: "HandleOpsCallData (etu_entrypoint p1) ops (Account_EthAddress kl (req_From req)) = Inr data"
    and t: "t = EthUserOpTx (new_baseTx req [NewTxWithData req (Some (etu_entrypointAddress p1)) 0
         (etu_maxGasLimitPerUserOp p1 * of_nat (length ops)) (etu_minGasPrice p1) data]) (etu_entrypointAddress p1)"
    by (auto simp: opsPerTx_def)
  note nonces = sign_user_ops_nonces [OF loop]
  have ep: "etu_entrypoint p1 = etu_entrypoint p" by (rule sign_user_ops_entrypoint [OF loop])
  have len: "length ops = 50" using arg_cong [OF nonces(1), of length] by simp
  have carried: "carries_ops kl p req t ops"
    using data by (simp add: carries_ops_def t NewTxWithData_def tx_methods ep)
  from Cons.IH [OF rec] obtain opss where opss: "length opss = length reqs" "list_all (\<lambda>ops. length ops = 50) opss"
      "list_all (\<lambda>((req, ops), t). carries_ops kl p1 req t ops) (zip (zip reqs opss) ts')"
      "\<And>idx. nonces_of idx (zip reqs opss) = map (\<lambda>i. int_of_u64 (next_nonce p1 idx + of_nat i))
         [0..<50 * length (filter (\<lambda>r. req_FromIdx r = idx) reqs)]" by blast
  have "nonces_of idx (zip (req # reqs) (ops # opss)) = map (\<lambda>i. int_of_u64 (next_nonce p idx + of_nat i))
       [0..<50 * length (filter (\<lambda>r. req_FromIdx r = idx) (req # reqs))]" for idx
  proof (cases "req_FromIdx req = idx")
    case True
    then have "nonces_of idx (zip (req # reqs) (ops # opss)) = map pu_Nonce ops @ nonces_of idx (zip reqs opss)"
      by (simp add: nonces_of_def)
    then show ?thesis using True nonces(1,2) opss(4) [of idx] upt_nonces_append [of "next_nonce p idx" 50] by simp
  next
    case False
    then show ?thesis using nonces(3) opss(4) [of idx] by (simp add: nonces_of_def)
  qed
  moreover have "carries_ops kl p1 = carries_ops kl p" by (intro ext) (simp add: carries_ops_def ep)
  ultimately show ?case using opss(1-3) len carried ts by (intro exI [of _ "ops # opss"]) simp
qed (simp add: nonces_of_def)

subsection \<open>A worked instance\<close>

definition example_eth :: "(bytes \<times> SignatureV2 option, bytes \<times> SignatureV2 option) eth_lib" where
  "example_eth = \<lparr> signer_Hash = (\<lambda>cid raw. [of_int cid, ucast (Nonce raw)]), ToECDSA = Inr,
     ec_Sign = (\<lambda>h k. Inr (h @ k @ replicate 65 0)), WithSignature = (\<lambda>cid raw sig. Inr sig), NewExtensionAny = Inr (),
     SetExtensionOptions = Some,
     BuildEthTx = (\<lambda>b m denom. Inr ([9], Some \<lparr> sig_PubKey = None, sig_Signature = None, sig_Sequence = 5 \<rparr>)),
     CreateAddress = (\<lambda>a n. take 19 a @ [ucast n + 1]) \<rparr>"

definition eth_request :: "nat \<Rightarrow> TxRequest" where
  "eth_request i = request_of [[1], [2]] (zero_account\<lparr>Key := [of_nat i + 1], Sequence := 5\<rparr>) i 0"


definition example_call_provider :: ethCallProvider where
  "example_call_provider = \<lparr> etc_signer = \<lparr> es_chainID = 7, es_feeDenom = ''inj'' \<rparr>, etc_minGasPrice = (''inj'', eip1559InitialBaseFee),
     etc_maxGasLimit = 50000, etc_maxGasLimitDeployment = 230000,
     etc_contractMetaData = CounterMetaData,
     etc_contractABI = (\<lambda>m vs. Inr [0xe8]), etc_contractAddress = zero_address \<rparr>"

lemma example_call_provider_new:
  "NewEthCallProvider example_sdk (\<lambda>md. Inr (\<lambda>m vs. Inr [0xe8])) 7 ''7inj'' = Inr example_call_provider"
  by (simp add: NewEthCallProvider_def eth_gas_price_def parse_coin_def example_sdk_def example_call_provider_def eip1559InitialBaseFee_def)

theorem eth_calls_reach_deployed_witness:
  "\<exists>t0 p1 deploy t call. ethCall_GenerateInitialTx example_eth example_keys (eth_request 0) example_call_provider = (Ret (Inr (Some t0)), p1) \<and>
    tx_Msgs t0 = [MsgEthereumTx deploy None []] \<and> ethCall_GenerateTx (eth_request 1) p1 = (Ret (Inr t), p1) \<and>
    tx_Msgs t = [MsgEthereumTx call None []] \<and> To call = Some (replicate 19 0 @ [6])"
proof -
  have req: "req_FromIdx (eth_request 0) = 0" "req_TxIdx (eth_request 0) = 0" by (simp_all add: eth_request_def request_of_def)
  have addr: "Account_EthAddress example_keys (req_From (eth_request 0)) = replicate 19 0 @ [1]" "Sequence (req_From (eth_request 0)) = 5"
    by (simp_all add: eth_request_def request_of_def Account_EthAddress_def pub_Address_def PubKey_def example_keys_def
        BytesToAddress_def left_pad_def)
  have create: "CreateAddress example_eth (replicate 19 0 @ [1]) 5 = replicate 19 0 @ [6]" by (simp add: example_eth_def)
  have nz: "replicate 19 0 @ [6] \<noteq> zero_address" 
  proof
    assume "replicate 19 0 @ [6] = zero_address"
    then have "last (replicate 19 0 @ [6 :: byte]) = last zero_address" by (rule arg_cong)
    then show False by (simp add: zero_address_def)
  qed
  obtain t0 p1 where run: "ethCall_GenerateInitialTx example_eth example_keys (eth_request 0) example_call_provider = (Ret (Inr (Some t0)), p1)"
    using req by (simp add: ethCall_GenerateInitialTx_def)
  have msgs: "tx_From t0 = req_From (eth_request 0)" "\<And>d. tx_Msgs t0 = [MsgEthereumTx d None []] \<Longrightarrow> Nonce d = 5"
    using run req addr by (auto simp: ethCall_GenerateInitialTx_def tx_methods NewTxWithData_def)
  have enc: "encodes CounterMetaData (\<lambda>m vs. Inr [0xe8])" by (simp add: encodes_def)
  from eth_calls_reach_deployed [OF example_call_provider_new HOL.refl enc run, of "eth_request 1"] nz create addr msgs run show ?thesis by (fastforce simp: addr)
qed

definition example_userop_provider :: ethUserOpProvider where
  "example_userop_provider = \<lparr> etu_signer = \<lparr> es_chainID = 1337, es_feeDenom = ''inj'' \<rparr>, etu_minGasPrice = (''inj'', 7),
     etu_maxGasLimitPerUserOp = 42000, etu_maxGasLimitInitialTx = 230000, etu_ethRPCURL = [], etu_chainID = 1337,
     etu_entrypoint = \<lparr> en_entrypointAddress = replicate 20 3, en_beneficiaryAddress = replicate 20 5, en_chainID = 1337,
       en_entrypointContract = example_binding (replicate 20 3), en_entrypointABI = example_encoder \<rparr>,
     etu_entrypointAddress = replicate 20 4, etu_accountFactoryAddress = replicate 20 3,
     etu_lightAccounts = (\<lambda>i. Some example_account), etu_lightAccountNonces = [0 \<mapsto> 9],
     etu_counterContractMetaData = CounterMetaData,
     etu_counterContractABI = (\<lambda>m vs. Inr [0xe8]), etu_counterContractAddress = replicate 20 2, etu_uoSigned = 0 \<rparr>"

lemma example_ops_succeed:
  "\<exists>ops p'. sign_user_ops example_aa (NewSigner (replicate 20 4) 1337 (personalSignFn example_aa example_eth key) zero_address)
     example_account cd idx n p = (Ret (Inr ops), p')"
proof (induction n arbitrary: p)
  case (Suc n)
  have new: "\<exists>op. NewUserOperationWithNonce example_account c cd nonce [userop_gas] = Ret (Inr op) \<and>
      uo_VerificationGasLimit op = 75000 \<and> uo_CallGasLimit op = 22000 \<and> uo_MaxPriorityFeePerGas op = 0 \<and> uo_MaxFeePerGas op = 0" for c nonce
    by (simp add: NewUserOperationWithNonce_def newUserOperation_def example_account_def executeCallData_def initCode_def
        createAccountCallData_def userop_gas_def)
  have fits: "length (packAccountGasLimits 75000 22000) = 32" "length (packGasFees 0 0) = 32"
    unfolding packAccountGasLimits_def packGasFees_def length_padded_pair by simp_all
  have sign: "\<exists>u h. SignUserOperation example_aa (NewSigner (replicate 20 4) 1337 (personalSignFn example_aa example_eth key) zero_address) op
      = Ret (Inr (u, h))"
    if "uo_VerificationGasLimit op = 75000" "uo_CallGasLimit op = 22000" "uo_MaxPriorityFeePerGas op = 0" "uo_MaxFeePerGas op = 0" for op
  proof -
    have "\<exists>u. uo_Pack op = Ret u" using that fits by (simp add: uo_Pack_def Let_def)
    then obtain u where "uo_Pack op = Ret u" by blast
    moreover have "\<exists>h. GetUserOpHash example_aa (replicate 20 4) 1337 u = Ret h"
      by (simp add: GetUserOpHash_def example_aa_def length_left_pad)
    ultimately show ?thesis
      by (auto simp: SignUserOperation_def NewSigner_def personalSignFn_def ecSigToRPC_def example_eth_def)
  qed
  obtain op where op: "NewUserOperationWithNonce example_account (etu_counterContractAddress p) cd (next_nonce p idx) [userop_gas] = Ret (Inr op)"
      and gas: "uo_VerificationGasLimit op = 75000" "uo_CallGasLimit op = 22000" "uo_MaxPriorityFeePerGas op = 0" "uo_MaxFeePerGas op = 0"
    using new by blast
  obtain u h where s: "SignUserOperation example_aa (NewSigner (replicate 20 4) 1337 (personalSignFn example_aa example_eth key) zero_address) op
      = Ret (Inr (u, h))" using sign [OF gas] by blast
  obtain ops p' where rec: "sign_user_ops example_aa (NewSigner (replicate 20 4) 1337 (personalSignFn example_aa example_eth key) zero_address)
      example_account cd idx n (p\<lparr>etu_lightAccountNonces := (etu_lightAccountNonces p)(idx \<mapsto> next_nonce p idx + 1),
        etu_uoSigned := Suc (etu_uoSigned p)\<rparr>) = (Ret (Inr ops), p')" using Suc.IH by blast
  from op s rec show ?case by (simp add: Let_def)
qed simp

theorem userop_nonces_consecutive_witness:
  "\<exists>ts p' opss. generate_run (ethUserOp_GenerateTx example_aa example_eth example_keys) [eth_request 0] example_userop_provider = Some (ts, p') \<and>
    length opss = 1 \<and> nonces_of 0 (zip [eth_request 0] opss) = map (\<lambda>i. int_of_u64 (9 + of_nat i)) [0..<50]"
proof -
  let ?gen = "ethUserOp_GenerateTx example_aa example_eth example_keys"
  obtain ops p1 where ops: "sign_user_ops example_aa (NewSigner (replicate 20 4) 1337
      (personalSignFn example_aa example_eth (Key (req_From (eth_request 0)))) zero_address) example_account [0xe8] 0 opsPerTx example_userop_provider
      = (Ret (Inr ops), p1)" using example_ops_succeed by blast
  have "etu_entrypoint p1 = etu_entrypoint example_userop_provider" by (rule sign_user_ops_entrypoint [OF ops])
  then obtain t where "?gen (eth_request 0) example_userop_provider = (Ret (Inr t), p1)"
    using ops by (simp add: ethUserOp_GenerateTx_def example_userop_provider_def HandleOpsCallData_def eth_request_def request_of_def
        zero_address_def)
  then have run: "generate_run ?gen [eth_request 0] example_userop_provider = Some ([t], p1)" by simp
  moreover have "req_FromIdx (eth_request 0) = 0" "next_nonce example_userop_provider 0 = 9"
    by (simp_all add: eth_request_def request_of_def next_nonce_def example_userop_provider_def)
  moreover obtain opss where "length opss = 1" "\<And>idx. nonces_of idx (zip [eth_request 0] opss)
      = map (\<lambda>i. int_of_u64 (next_nonce example_userop_provider idx + of_nat i))
         [0..<50 * length (filter (\<lambda>r. req_FromIdx r = idx) [eth_request 0])]"
    using userop_nonces_consecutive [OF run] by auto
  ultimately show ?thesis by (intro exI [of _ "[t]"] exI [of _ p1] exI [of _ opss]) simp
qed

end
