(* ===== verification/Mixed_Payload.thy ===== *)
theory Mixed_Payload
  imports Payload_Eth
begin

text \<open>
  The mixed provider, \<^verbatim>\<open>payload/mixed_payload.go\<close>: its configuration, the construction of the providers
  with a positive frequency, and the weighted random choice that every call makes anew. What the
  providers need of their environment (libraries, contract code, clock readings, queries, random draws
  at the time of the call) is the record \<open>mixed_env\<close>.
\<close>

subsection \<open>Configuration\<close>

record StresserConfig =
  st_ChainID :: string
  st_EthChainID :: int
  st_MinGasPrice :: string
  st_NodeAddress :: string
  st_GRPCAddress :: string
  st_AwaitTxConfirmation :: "bool option"
  st_NumOfTransactions :: int
  st_RateTPS :: float64
  st_RateBytes :: uint64
  st_RateGas :: uint64
  st_RateBurstSize :: int

record BankSendConfig =
  bsc_Frequency :: float64
  bsc_SendAmount :: string

record BankMultiSendConfig =
  bmc_Frequency :: float64
  bmc_SendAmount :: string
  bmc_NumTargets :: int

record EthSendConfig =
  esc_Frequency :: float64
  esc_SendAmount :: string

record EthCallConfig =
  ecc_Frequency :: float64

record EthDeployConfig =
  edc_Frequency :: float64

record ExchangeBatchOrdersConfig =
  ebc_Frequency :: float64
  ebc_SpotMarketIDs :: "string list"
  ebc_DerivativeMarketIDs :: "string list"

record WasmStoreCodeConfig =
  wsc_Frequency :: float64

record WasmInitContractConfig =
  wic_Frequency :: float64

record WasmExecContractConfig =
  wec_Frequency :: float64

record MixedPayloadConfig =
  mc_StresserConfig :: "StresserConfig option"
  mc_BankSend :: "BankSendConfig option"
  mc_BankMultiSend :: "BankMultiSendConfig option"
  mc_EthSend :: "EthSendConfig option"
  mc_EthCall :: "EthCallConfig option"
  mc_EthDeploy :: "EthDeployConfig option"
  mc_ExchangeBatchOrders :: "ExchangeBatchOrdersConfig option"
  mc_WasmStoreCode :: "WasmStoreCodeConfig option"
  mc_WasmInitContract :: "WasmInitContractConfig option"
  mc_WasmExecContract :: "WasmExecContractConfig option"

definition LoadMixedPayloadConfig ::
  "(string \<Rightarrow> bytes go) \<Rightarrow> (bytes \<Rightarrow> MixedPayloadConfig go) \<Rightarrow> string \<Rightarrow> MixedPayloadConfig go" where
  "LoadMixedPayloadConfig readFile unmarshal path =
     go_bind (wrap_err ''failed to read config file'' (readFile path)) (\<lambda>data.
     wrap_err ''failed to parse config file'' (unmarshal data))"

subsection \<open>The providers behind the interface\<close>

datatype provider =
    PBankSend bankSendProvider
  | PBankMultiSend bankMultiSendProvider
  | PEthSend ethSendProvider
  | PEthCall ethCallProvider
  | PEthDeploy ethDeployProvider
  | PExchange exchangeBatchOrdersProvider
  | PWasmStore wasmStoreCodeProvider
  | PWasmInit wasmInitContractProvider
  | PWasmExec wasmExecContractProvider

record ('b, 't) mixed_env =
  mx_sdk :: sdk_lib
  mx_keys :: key_lib
  mx_eth :: "('b, 't) eth_lib"
  mx_getAbi :: "MetaData \<Rightarrow> abi_encoder go"
  mx_cw20 :: bytes
  mx_sha256 :: "bytes \<Rightarrow> bytes"
  mx_codes :: "bytes \<Rightarrow> (nat \<times> bytes) go"
  mx_build :: "string \<Rightarrow> string \<Rightarrow> string \<Rightarrow> string \<Rightarrow> string go"
  mx_memo :: "bytes go"
  mx_salt :: bytes
  mx_now :: string
  mx_dec_mul :: "int \<Rightarrow> int \<Rightarrow> int"
  mx_draws :: exchange_draws

definition over :: "('p \<Rightarrow> provider) \<Rightarrow> 'r \<times> 'p \<Rightarrow> 'r \<times> provider" where
  "over f rp = (fst rp, f (snd rp))"

fun provider_GenerateTx :: "('b, 't) mixed_env \<Rightarrow> provider gen" where
  "provider_GenerateTx E req (PBankSend p) = over PBankSend (bankSend_GenerateTx (mx_keys E) req p)"
| "provider_GenerateTx E req (PBankMultiSend p) = over PBankMultiSend (bankMultiSend_GenerateTx (mx_sdk E) (mx_keys E) req p)"
| "provider_GenerateTx E req (PEthSend p) = over PEthSend (ethSend_GenerateTx (mx_keys E) req p)"
| "provider_GenerateTx E req (PEthCall p) = over PEthCall (ethCall_GenerateTx req p)"
| "provider_GenerateTx E req (PEthDeploy p) = over PEthDeploy (ethDeploy_GenerateTx req p)"
| "provider_GenerateTx E req (PExchange p) = over PExchange (exchange_GenerateTx (mx_dec_mul E) (mx_draws E) (mx_keys E) req p)"
| "provider_GenerateTx E req (PWasmStore p) = over PWasmStore (wasmStore_GenerateTx (mx_cw20 E) (mx_keys E) req p)"
| "provider_GenerateTx E req (PWasmInit p) = over PWasmInit (wasmInit_GenerateTx (mx_now E) (mx_keys E) req p)"
| "provider_GenerateTx E req (PWasmExec p) = over PWasmExec (wasmExec_GenerateTx (mx_keys E) req p)"

fun provider_BuildAndSignTx :: "('b, 't) mixed_env \<Rightarrow> (sdk_msg, 'b, 't, 'w) Client \<Rightarrow> provider sign" where
  "provider_BuildAndSignTx E client t (PBankSend p) = over PBankSend (bankSend_BuildAndSignTx (mx_sdk E) client t p)"
| "provider_BuildAndSignTx E client t (PBankMultiSend p) = over PBankMultiSend (bankMultiSend_BuildAndSignTx (mx_sdk E) client t p)"
| "provider_BuildAndSignTx E client t (PEthSend p) = over PEthSend (ethSend_BuildAndSignTx (mx_eth E) (mx_keys E) client t p)"
| "provider_BuildAndSignTx E client t (PEthCall p) = over PEthCall (ethCall_BuildAndSignTx (mx_eth E) (mx_keys E) client t p)"
| "provider_BuildAndSignTx E client t (PEthDeploy p) = over PEthDeploy (ethDeploy_BuildAndSignTx (mx_eth E) (mx_keys E) client t p)"
| "provider_BuildAndSignTx E client t (PExchange p) = over PExchange (exchange_BuildAndSignTx (mx_sdk E) client t p)"
| "provider_BuildAndSignTx E client t (PWasmStore p) = over PWasmStore (wasmStore_BuildAndSignTx (mx_sdk E) client t p)"
| "provider_BuildAndSignTx E client t (PWasmInit p) = over PWasmInit (wasmInit_BuildAndSignTx (mx_sdk E) client t p)"
| "provider_BuildAndSignTx E client t (PWasmExec p) = over PWasmExec (wasmExec_BuildAndSignTx (mx_sdk E) client t p)"

text \<open>\<open>None\<close>: the query for the last code does not end.\<close>

fun provider_GenerateInitialTx ::
  "('b, 't) mixed_env \<Rightarrow> TxRequest \<Rightarrow> provider \<Rightarrow> (Tx option go res \<times> provider) option" where
  "provider_GenerateInitialTx E req (PBankSend p) = Some (over PBankSend (bankSend_GenerateInitialTx req p))"
| "provider_GenerateInitialTx E req (PBankMultiSend p) = Some (over PBankMultiSend (bankMultiSend_GenerateInitialTx req p))"
| "provider_GenerateInitialTx E req (PEthSend p) = Some (over PEthSend (ethSend_GenerateInitialTx req p))"
| "provider_GenerateInitialTx E req (PEthCall p) = Some (over PEthCall (ethCall_GenerateInitialTx (mx_eth E) (mx_keys E) req p))"
| "provider_GenerateInitialTx E req (PEthDeploy p) = Some (over PEthDeploy (ethDeploy_GenerateInitialTx req p))"
| "provider_GenerateInitialTx E req (PExchange p) = Some (over PExchange (exchange_GenerateInitialTx req p))"
| "provider_GenerateInitialTx E req (PWasmStore p) = Some (over PWasmStore (wasmStore_GenerateInitialTx req p))"
| "provider_GenerateInitialTx E req (PWasmInit p) =
     map_option (over PWasmInit) (wasmInit_GenerateInitialTx (mx_codes E) (mx_cw20 E) (mx_keys E) req p)"
| "provider_GenerateInitialTx E req (PWasmExec p) =
     map_option (over PWasmExec) (wasmExec_GenerateInitialTx (mx_codes E) (mx_build E) (mx_cw20 E) (mx_now E) (mx_keys E) req p)"

subsection \<open>Construction\<close>

record 'g MixedPayloadProvider =
  mp_providers :: "provider list"
  mp_frequencies :: "float64 list"
  mp_rng :: 'g

definition add_provider ::
  "string \<Rightarrow> float64 option \<Rightarrow> provider go \<Rightarrow> (provider \<times> float64) list \<Rightarrow> (provider \<times> float64) list go" where
  "add_provider what freq mk acc = (case freq of None \<Rightarrow> Inr acc
     | Some f \<Rightarrow> if flt fzero f
         then go_bind (wrap_err (''failed to create '' @ what @ '' provider'') mk) (\<lambda>p. Inr (acc @ [(p, f)]))
         else Inr acc)"

definition amount_or_one :: "string \<Rightarrow> string" where
  "amount_or_one a = (if a = [] then ''1'' @ DefaultBondDenom else a)"

definition default_market :: string where
  "default_market = ''0x1422a13427d5eabd4d8de7907c8340f7e58cb15553a9fd4ad5c90406561886f9''"

definition markets_or_default :: "string list \<Rightarrow> string list" where
  "markets_or_default ms = (if ms = [] then [default_market] else ms)"

definition inner :: "('p \<Rightarrow> provider) \<Rightarrow> 'p go \<Rightarrow> provider go" where
  "inner f r = go_bind r (\<lambda>p. Inr (f p))"

definition configured_providers ::
  "('b, 't) mixed_env \<Rightarrow> MixedPayloadConfig \<Rightarrow> string \<Rightarrow> int \<Rightarrow> (provider \<times> float64) list go" where
  "configured_providers E cfg minGasPrice ethChainID =
     go_bind (case mc_BankSend cfg of None \<Rightarrow> Inr [] | Some c \<Rightarrow> add_provider ''bank send'' (Some (bsc_Frequency c))
       (inner PBankSend (NewBankSendProvider (mx_sdk E) minGasPrice (amount_or_one (bsc_SendAmount c)))) []) (\<lambda>a1.
     go_bind (case mc_BankMultiSend cfg of None \<Rightarrow> Inr a1 | Some c \<Rightarrow> add_provider ''bank multi send'' (Some (bmc_Frequency c))
       (inner PBankMultiSend (NewBankMultiSendProvider (mx_sdk E) (mx_memo E) minGasPrice (amount_or_one (bmc_SendAmount c))
         (if bmc_NumTargets c = 0 then 50 else bmc_NumTargets c))) a1) (\<lambda>a2.
     go_bind (case mc_EthSend cfg of None \<Rightarrow> Inr a2 | Some c \<Rightarrow> add_provider ''eth send'' (Some (esc_Frequency c))
       (inner PEthSend (NewEthSendProvider (mx_sdk E) ethChainID minGasPrice (amount_or_one (esc_SendAmount c)))) a2) (\<lambda>a3.
     go_bind (add_provider ''eth call'' (map_option ecc_Frequency (mc_EthCall cfg))
       (inner PEthCall (NewEthCallProvider (mx_sdk E) (mx_getAbi E) ethChainID minGasPrice)) a3) (\<lambda>a4.
     go_bind (add_provider ''eth deploy'' (map_option edc_Frequency (mc_EthDeploy cfg))
       (inner PEthDeploy (NewEthDeployProvider (mx_sdk E) (mx_getAbi E) ethChainID minGasPrice)) a4) (\<lambda>a5.
     go_bind (case mc_ExchangeBatchOrders cfg of None \<Rightarrow> Inr a5 | Some c \<Rightarrow> add_provider ''exchange batch orders'' (Some (ebc_Frequency c))
       (inner PExchange (NewExchangeBatchOrdersProvider (mx_sdk E) minGasPrice (markets_or_default (ebc_SpotMarketIDs c))
         (markets_or_default (ebc_DerivativeMarketIDs c)))) a5) (\<lambda>a6.
     go_bind (add_provider ''wasm store code'' (map_option wsc_Frequency (mc_WasmStoreCode cfg))
       (inner PWasmStore (NewWasmStoreCodeProvider (mx_sdk E) minGasPrice)) a6) (\<lambda>a7.
     go_bind (add_provider ''wasm init contract'' (map_option wic_Frequency (mc_WasmInitContract cfg))
       (inner PWasmInit (NewWasmInitContractProvider (mx_sdk E) minGasPrice)) a7) (\<lambda>a8.
     add_provider ''wasm exec contract'' (map_option wec_Frequency (mc_WasmExecContract cfg))
       (inner PWasmExec (NewWasmExecContractProvider (mx_sdk E) (mx_sha256 E) (mx_cw20 E) (mx_salt E) minGasPrice)) a8))))))))"

definition normalizeFrequencies :: "float64 list \<Rightarrow> float64 list" where
  "normalizeFrequencies frequencies = (let tot = foldl fadd fzero frequencies in
     if feq tot fzero then frequencies else map (\<lambda>freq. fdiv freq tot) frequencies)"

definition NewMixedPayloadProvider ::
  "('b, 't) mixed_env \<Rightarrow> 'g rng \<Rightarrow> int \<Rightarrow> MixedPayloadConfig \<Rightarrow> string \<Rightarrow> int \<Rightarrow> 'g MixedPayloadProvider go" where
  "NewMixedPayloadProvider E r nanos cfg minGasPrice ethChainID =
     go_bind (configured_providers E cfg minGasPrice ethChainID) (\<lambda>pfs.
     if pfs = [] then Inl (Msg ''no payload providers configured with frequency > 0'')
     else Inr \<lparr> mp_providers = map fst pfs, mp_frequencies = normalizeFrequencies (map snd pfs), mp_rng = NewSource r nanos \<rparr>)"

subsection \<open>Choice\<close>

text \<open>The loop over the cumulative frequencies: the index of the first that reaches the draw.\<close>

fun select_loop :: "float64 \<Rightarrow> float64 \<Rightarrow> nat \<Rightarrow> float64 list \<Rightarrow> nat option" where
  "select_loop x cumulative i [] = None"
| "select_loop x cumulative i (freq # fs) =
     (let cumulative' = fadd cumulative freq in
      if fle x cumulative' then Some i else select_loop x cumulative' (Suc i) fs)"

definition selectProvider :: "'g rng \<Rightarrow> 'g MixedPayloadProvider \<Rightarrow> nat \<times> 'g MixedPayloadProvider" where
  "selectProvider r m = (let (x, g) = Float64 r (mp_rng m) in
     (case select_loop x fzero 0 (mp_frequencies m) of Some i \<Rightarrow> i | None \<Rightarrow> length (mp_providers m) - 1, m\<lparr>mp_rng := g\<rparr>))"

definition mixed_Name :: string where
  "mixed_Name = ''mixed-payload''"

definition store_provider :: "nat \<Rightarrow> 'r \<times> provider \<Rightarrow> 'g MixedPayloadProvider \<Rightarrow> 'r \<times> 'g MixedPayloadProvider" where
  "store_provider i rp m = (fst rp, m\<lparr>mp_providers := (mp_providers m)[i := snd rp]\<rparr>)"

definition mixed_GenerateInitialTx ::
  "('b, 't) mixed_env \<Rightarrow> 'g rng \<Rightarrow> TxRequest \<Rightarrow> 'g MixedPayloadProvider \<Rightarrow> (Tx option go res \<times> 'g MixedPayloadProvider) option" where
  "mixed_GenerateInitialTx E r req m = (let (i, m1) = selectProvider r m in
     map_option (\<lambda>rp. store_provider i rp m1) (provider_GenerateInitialTx E req (mp_providers m1 ! i)))"

definition mixed_GenerateTx :: "('b, 't) mixed_env \<Rightarrow> 'g rng \<Rightarrow> 'g MixedPayloadProvider gen" where
  "mixed_GenerateTx E r req m = (let (i, m1) = selectProvider r m in
     store_provider i (provider_GenerateTx E req (mp_providers m1 ! i)) m1)"

definition mixed_BuildAndSignTx ::
  "('b, 't) mixed_env \<Rightarrow> 'g rng \<Rightarrow> (sdk_msg, 'b, 't, 'w) Client \<Rightarrow> 'g MixedPayloadProvider sign" where
  "mixed_BuildAndSignTx E r client unsignedTx m = (let (i, m1) = selectProvider r m in
     store_provider i (provider_BuildAndSignTx E client unsignedTx (mp_providers m1 ! i)) m1)"

subsection \<open>A provider like the others\<close>

lemma over_eq [simp]: "over f rp = (x, p) \<longleftrightarrow> (\<exists>q. rp = (x, q) \<and> p = f q)"
  by (cases rp) (auto simp: over_def)

lemma provider_generate_keeps:
  "provider_GenerateTx E req p = (Ret (Inr t), p') \<Longrightarrow>
    tx_From t = req_From req \<and> tx_FromIdx t = req_FromIdx req \<and> tx_TxIdx t = req_TxIdx req"
  by (cases p) (auto dest: bankSend.generate_keeps bankMultiSend.generate_keeps exchange.generate_keeps
      wasmStore.generate_keeps wasmInit.generate_keeps wasmExec.generate_keeps ethSend.generate_keeps
      ethCall.generate_keeps ethDeploy.generate_keeps)

lemma provider_sign_keeps:
  "provider_BuildAndSignTx E client t p = (Ret (Inr t'), p') \<Longrightarrow>
    tx_From t' = tx_From t \<and> tx_FromIdx t' = tx_FromIdx t \<and> tx_TxIdx t' = tx_TxIdx t"
  by (cases p) (auto dest: bankSend.sign_keeps bankMultiSend.sign_keeps exchange.sign_keeps
      wasmStore.sign_keeps wasmInit.sign_keeps wasmExec.sign_keeps ethSend.sign_keeps
      ethCall.sign_keeps ethDeploy.sign_keeps)

lemma store_provider_eq: "store_provider i rp m = (x, m') \<Longrightarrow> \<exists>p. rp = (x, p)"
  by (cases rp) (simp add: store_provider_def)

interpretation mixed: tx_provider "mixed_GenerateTx E r" "mixed_BuildAndSignTx E r client"
  for E :: "('b, 't) mixed_env" and r :: "'g rng" and client :: "(sdk_msg, 'b, 't, 'w) Client"
  by unfold_locales (auto simp: mixed_GenerateTx_def mixed_BuildAndSignTx_def Let_def split: prod.split_asm
      dest!: store_provider_eq dest: provider_generate_keeps provider_sign_keeps)

subsection \<open>The choice is weighted\<close>

text \<open>States of a mixed provider: made from a configuration, then any sequence of calls.\<close>

inductive mixed_reach ::
  "('b, 't) mixed_env \<Rightarrow> 'g rng \<Rightarrow> (sdk_msg, 'b, 't, 'w) Client \<Rightarrow> MixedPayloadConfig \<Rightarrow> 'g MixedPayloadProvider \<Rightarrow> bool"
  for E r client cfg where
  new: "NewMixedPayloadProvider E r nanos cfg minGasPrice ethChainID = Inr m \<Longrightarrow> mixed_reach E r client cfg m"
| generate: "mixed_reach E r client cfg m \<Longrightarrow> mixed_GenerateTx E r req m = (x, m') \<Longrightarrow> mixed_reach E r client cfg m'"
| initial: "mixed_reach E r client cfg m \<Longrightarrow> mixed_GenerateInitialTx E r req m = Some (y, m') \<Longrightarrow> mixed_reach E r client cfg m'"
| sign: "mixed_reach E r client cfg m \<Longrightarrow> mixed_BuildAndSignTx E r client t m = (z, m') \<Longrightarrow> mixed_reach E r client cfg m'"

definition mixed_ok :: "'g MixedPayloadProvider \<Rightarrow> bool" where
  "mixed_ok m \<longleftrightarrow> mp_providers m \<noteq> [] \<and> length (mp_frequencies m) = length (mp_providers m)"

lemma selectProvider_keeps: "selectProvider r m = (i, m1) \<Longrightarrow>
    mp_providers m1 = mp_providers m \<and> mp_frequencies m1 = mp_frequencies m"
  by (auto simp: selectProvider_def Let_def split: prod.split_asm)

lemma mixed_ok_reach:
  assumes "mixed_reach E r client cfg m"
  shows "mixed_ok m"
  using assms
proof (induction rule: mixed_reach.induct)
  case (new nanos minGasPrice ethChainID m)
  then show ?case
    by (auto simp: NewMixedPayloadProvider_def mixed_ok_def normalizeFrequencies_def Let_def split: if_split_asm)
next
  case (generate m req x m')
  then show ?case
    by (auto simp: mixed_GenerateTx_def store_provider_def mixed_ok_def Let_def split: prod.split_asm dest!: selectProvider_keeps)
next
  case (initial m req y m')
  then show ?case
    by (auto simp: mixed_GenerateInitialTx_def store_provider_def mixed_ok_def Let_def split: prod.split_asm dest!: selectProvider_keeps)
next
  case (sign m t z m')
  then show ?case
    by (auto simp: mixed_BuildAndSignTx_def store_provider_def mixed_ok_def Let_def split: prod.split_asm dest!: selectProvider_keeps)
qed

definition cumulative_frequency :: "float64 list \<Rightarrow> nat \<Rightarrow> float64" where
  "cumulative_frequency fs i = foldl fadd fzero (take (Suc i) fs)"

lemma select_loop_Some:
  "select_loop x c k fs = Some i \<Longrightarrow> k \<le> i \<and> i < k + length fs \<and> fle x (foldl fadd c (take (Suc (i - k)) fs)) \<and>
    (\<forall>j < i - k. \<not> fle x (foldl fadd c (take (Suc j) fs)))"
proof (induction fs arbitrary: c k)
  case (Cons f fs)
  show ?case
  proof (cases "fle x (fadd c f)")
    case False
    with Cons.prems have "select_loop x (fadd c f) (Suc k) fs = Some i" by (simp add: Let_def)
    from Cons.IH [OF this] False show ?thesis
      by (auto simp: Suc_diff_Suc [symmetric] less_Suc_eq_0_disj Suc_le_eq)
  qed (use Cons.prems in \<open>auto simp: Let_def\<close>)
qed simp

lemma select_loop_None:
  "select_loop x c k fs = None \<Longrightarrow> j < length fs \<Longrightarrow> \<not> fle x (foldl fadd c (take (Suc j) fs))"
  by (induction fs arbitrary: c k j) (auto simp: Let_def less_Suc_eq_0_disj split: if_split_asm)

text \<open>C22: The choice of a payload follows the configured frequencies: in every state of a mixed provider made
  from a configuration, a call uses the first provider whose cumulative normalised frequency reaches the
  random draw, or the last one when rounding keeps all of them below it; the choice is always one of the
  providers.\<close>

theorem mixed_choice:
  assumes "mixed_reach E r client cfg m" and "Float64 r (mp_rng m) = (x, g)" and "selectProvider r m = (i, m')"
  shows "i < length (mp_providers m) \<and> (\<forall>j < i. \<not> fle x (cumulative_frequency (mp_frequencies m) j)) \<and>
    (fle x (cumulative_frequency (mp_frequencies m) i) \<or> i = length (mp_providers m) - 1)"
proof -
  have ok: "mp_providers m \<noteq> []" "length (mp_frequencies m) = length (mp_providers m)"
    using mixed_ok_reach [OF assms(1)] by (simp_all add: mixed_ok_def)
  show ?thesis
  proof (cases "select_loop x fzero 0 (mp_frequencies m)")
    case None
    with assms(2,3) have "i = length (mp_providers m) - 1" by (simp add: selectProvider_def)
    with ok select_loop_None [OF None] show ?thesis by (auto simp: cumulative_frequency_def)
  next
    case (Some k)
    with assms(2,3) have "k = i" by (simp add: selectProvider_def)
    with ok select_loop_Some [OF Some] show ?thesis by (simp add: cumulative_frequency_def)
  qed
qed

text \<open>The initial transaction of a mixed run initialises at most the one provider it draws: an Ethereum
  call provider that the draw passes over has no contract afterwards, and every transaction it is then asked
  for fails.\<close>

theorem mixed_initialises_one_provider:
  assumes "mixed_GenerateInitialTx E r req m = Some (x, m')" and "selectProvider r m = (i, m1)"
    and "k \<noteq> i" and "mp_providers m ! k = PEthCall p" and "etc_contractAddress p = zero_address"
  shows "mp_providers m' ! k = PEthCall p \<and>
    provider_GenerateTx E req' (mp_providers m' ! k) = (Ret (Inl (Msg ''contract address is not set'')), PEthCall p)"
  using assms selectProvider_keeps [OF assms(2)]
  by (auto simp: mixed_GenerateInitialTx_def store_provider_def ethCall_GenerateTx_def over_def)

text \<open>Signing draws a provider of its own, so a transaction can meet a signer of another kind: a bank
  transfer that is signed by an EVM provider ends the process.\<close>

theorem mixed_signing_may_panic:
  assumes "selectProvider r m = (i, m1)" and "mp_providers m ! i = PEthSend p"
    and "tx_Msgs t = MsgSend a b cs # rest"
  shows "\<exists>e. fst (mixed_BuildAndSignTx E r client t m) = Panic e"
proof -
  obtain b where "embedded t = Some b" "base_msgs b = tx_Msgs t" using assms(3) by (cases "embedded t") (auto simp: tx_Msgs_def)
  then show ?thesis
    using assms selectProvider_keeps [OF assms(1)]
    by (simp add: mixed_BuildAndSignTx_def store_provider_def over_def ethSend_BuildAndSignTx_def eth_BuildAndSignTx_def)
qed

subsection \<open>A worked instance\<close>

definition example_mixed_env :: "(bytes \<times> SignatureV2 option, bytes \<times> SignatureV2 option) mixed_env" where
  "example_mixed_env = \<lparr> mx_sdk = example_sdk, mx_keys = example_keys, mx_eth = example_eth,
     mx_getAbi = (\<lambda>md. Inr (\<lambda>m vs. Inr [0xe8])), mx_cw20 = [], mx_sha256 = id,
     mx_codes = (\<lambda>_. Inr (0, [])), mx_build = (\<lambda>a b c d. Inr []), mx_memo = Inr [], mx_salt = [], mx_now = [],
     mx_dec_mul = (*), mx_draws = \<lparr> dr_price = 0, dr_quantity = 0, dr_cancelDerivative = False, dr_cancelSpot = False,
       dr_derivativeCid = (\<lambda>_. []), dr_spotCid = (\<lambda>_. []) \<rparr> \<rparr>"

definition example_mixed_config :: MixedPayloadConfig where
  "example_mixed_config = \<lparr> mc_StresserConfig = None, mc_BankSend = Some \<lparr> bsc_Frequency = Fin 1, bsc_SendAmount = ''7inj'' \<rparr>,
     mc_BankMultiSend = None, mc_EthSend = None, mc_EthCall = Some \<lparr> ecc_Frequency = Fin 1 \<rparr>, mc_EthDeploy = None,
     mc_ExchangeBatchOrders = None, mc_WasmStoreCode = None, mc_WasmInitContract = None, mc_WasmExecContract = None \<rparr>"

definition example_mixed :: "unit MixedPayloadProvider" where
  "example_mixed = \<lparr> mp_providers = [PBankSend (bank_provider\<lparr>bs_memoAttach := hex_encode []\<rparr>),
       PEthCall (example_call_provider\<lparr>etc_signer := \<lparr> es_chainID = 7, es_feeDenom = ''inj'' \<rparr>, etc_minGasPrice := (''inj'', 1000000000)\<rparr>)],
     mp_frequencies = [Fin (1 / 2), Fin (1 / 2)], mp_rng = () \<rparr>"

lemma example_floats: "fround 1 = Fin 1" "fround 2 = Fin 2" "fround (1 / 2) = Fin (1 / 2)"
  using is_f64_int [of 1] is_f64_int [of 2] is_f64_half_numeral [of num.One] by (simp_all add: fround_float)

lemma example_mixed_new:
  "NewMixedPayloadProvider example_mixed_env half_rng 0 example_mixed_config ''7inj'' 7 = Inr example_mixed"
  using example_floats
  by (simp add: NewMixedPayloadProvider_def configured_providers_def example_mixed_config_def add_provider_def inner_def flt_def
      example_mixed_env_def NewBankSendProvider_def NewEthCallProvider_def eth_gas_price_def parse_coin_def example_sdk_def
      amount_or_one_def eip1559InitialBaseFee_def normalizeFrequencies_def feq_def half_rng_def example_mixed_def
      bank_provider_def example_call_provider_def)

lemma example_mixed_select: "selectProvider half_rng example_mixed = (0, example_mixed)"
  using example_floats by (simp add: selectProvider_def half_rng_def example_mixed_def Let_def)

theorem mixed_choice_witness:
  "fst (selectProvider half_rng example_mixed) < length (mp_providers example_mixed) \<and>
   fle (Fin (1 / 2)) (cumulative_frequency (mp_frequencies example_mixed) 0)"
proof -
  have "Float64 half_rng (mp_rng example_mixed) = (Fin (1 / 2), ())" by (simp add: half_rng_def example_mixed_def)
  from mixed_choice [OF mixed_reach.new [OF example_mixed_new, where client = sdk_client] this example_mixed_select]
  show ?thesis using example_floats
    by (simp only: example_mixed_select fst_conv) (simp add: cumulative_frequency_def example_mixed_def)
qed

theorem mixed_initialises_one_provider_witness:
  "\<exists>m' p. mixed_GenerateInitialTx example_mixed_env half_rng (eth_request 0) example_mixed = Some (Ret (Inr None), m') \<and>
    provider_GenerateTx example_mixed_env (eth_request 1) (mp_providers m' ! 1) = (Ret (Inl (Msg ''contract address is not set'')), PEthCall p)"
proof -
  obtain m' where run: "mixed_GenerateInitialTx example_mixed_env half_rng (eth_request 0) example_mixed = Some (Ret (Inr None), m')"
    by (simp add: mixed_GenerateInitialTx_def example_mixed_select)
      (simp add: example_mixed_def bankSend_GenerateInitialTx_def store_provider_def over_def)
  obtain p where "mp_providers example_mixed ! 1 = PEthCall p" "etc_contractAddress p = zero_address"
    by (simp add: example_mixed_def example_call_provider_def)
  from mixed_initialises_one_provider [OF run example_mixed_select _ this] run show ?thesis by blast
qed

definition example_eth_only :: "unit MixedPayloadProvider" where
  "example_eth_only = \<lparr> mp_providers = [PEthSend \<lparr> ets_signer = \<lparr> es_chainID = 7, es_feeDenom = ''inj'' \<rparr>, ets_sendAmount = (''inj'', 7),
     ets_minGasPrice = (''inj'', 7), ets_maxGasLimit = 21000 \<rparr>], mp_frequencies = [Fin 1], mp_rng = () \<rparr>"

theorem mixed_signing_may_panic_witness:
  "\<exists>e. fst (mixed_BuildAndSignTx example_mixed_env half_rng sdk_client (BankSendTx (bank_tx []) [1]) example_eth_only) = Panic e"
proof -
  have "selectProvider half_rng example_eth_only = (0, example_eth_only)"
    using example_floats by (simp add: selectProvider_def half_rng_def example_eth_only_def)
  then show ?thesis
    by (rule mixed_signing_may_panic) (simp_all add: example_eth_only_def tx_Msgs_def bank_tx_def)
qed

end
