(* ===== verification/Node_Config.thy ===== *)
theory Node_Config
  imports Chain_Types
begin

text \<open>
  The files of a node: \<^verbatim>\<open>chain/config_node.go\<close>, \<^verbatim>\<open>chain/config_app.go\<close>, \<^verbatim>\<open>chain/docker.go\<close>. The file
  system is a map from paths to contents; a content is what is printed into the file (the values a
  template or a writer of the libraries is given), not its bytes. The parameter \<open>io\<close> says which paths
  cannot be written, which is a panic. The locale \<open>file_store\<close> states the laws of writing and reading.
\<close>

subsection \<open>Files\<close>

definition TxIndexerKV :: string where "TxIndexerKV = ''kv''"
definition TxIndexerDisabled :: string where "TxIndexerDisabled = ''null''"

type_synonym IP = "byte list"

record NodeConfig =
  nc_Home :: string
  nc_Moniker :: string
  nc_PeerID :: string
  nc_IPListen :: IP
  nc_IPAddr :: IP
  nc_Ports :: Ports
  nc_PersistentPeers :: string
  nc_PrivatePeerIds :: string
  nc_NodeKey :: bytes
  nc_ValidatorKey :: "bytes option"
  nc_TxIndexer :: string
  nc_DiscardABCIResponses :: bool
  nc_ProdLike :: bool
  nc_PortsExposed :: bool
  nc_DependsOn :: "int list"

record AppConfig =
  ac_MinimumGasPrices :: string
  ac_EVMEnabled :: bool
  ac_ProdLike :: bool
  ac_IPListen :: IP
  ac_Ports :: Ports
  ac_PortsExposed :: bool

record DockerComposeConfig =
  dc_Image :: string
  dc_Debug :: bool
  dc_LogFile :: string
  dc_ChainID :: string
  dc_Nodes :: "NodeConfig list"
  dc_Subnet :: string

text \<open>The settings of the consensus engine that the code changes, from the library's defaults.\<close>

record bft_config =
  P2P_AddrBookStrict :: bool
  P2P_AllowDuplicateIP :: bool
  P2P_MaxNumOutboundPeers :: int
  P2P_MaxNumInboundPeers :: int
  P2P_PersistentPeers :: string
  P2P_PrivatePeerIDs :: string
  P2P_ListenAddress :: string
  RPC_MaxSubscriptionClients :: int
  RPC_MaxOpenConnections :: int
  RPC_MaxSubscriptionsPerClient :: int
  RPC_ListenAddress :: string
  Mempool_Size :: int
  Mempool_MaxTxsBytes :: int
  Instrumentation_Prometheus :: bool
  Instrumentation_ListenAddr :: string
  bft_Moniker :: string
  TxIndex_Indexer :: string
  Storage_DiscardABCIResponses :: bool

datatype app_template = AppEvm | AppProd | AppPlain

datatype 'gen content =
    NodeKeyFile bytes
  | PrivValidatorKeyFile bytes
  | PrivValidatorStateFile
  | ConfigProdFile NodeConfig
  | ConfigFile bft_config
  | AppFile app_template AppConfig
  | GenesisFile 'gen
  | IdsFile "string list"
  | AccountsFile "bytes list"
  | DockerComposeFile DockerComposeConfig

type_synonym 'gen fs = "string \<rightharpoonup> 'gen content"
type_synonym io = "string \<Rightarrow> go_error option"

text \<open>The file a path names: its elements without the empty ones and the dots.\<close>

fun split_on :: "char \<Rightarrow> string \<Rightarrow> string list" where
  "split_on c [] = [[]]"
| "split_on c (x # xs) = (if x = c then [] # split_on c xs else
     (case split_on c xs of [] \<Rightarrow> [[x]] | y # ys \<Rightarrow> (x # y) # ys))"

definition clean_path :: "string \<Rightarrow> string" where
  "clean_path p = (case p of CHR ''/'' # _ \<Rightarrow> ''/'' | _ \<Rightarrow> []) @
     str_join ''/'' (filter (\<lambda>e. e \<noteq> [] \<and> e \<noteq> ''.'') (split_on (CHR ''/'') p))"

definition MkdirAll :: "io \<Rightarrow> string \<Rightarrow> 'gen fs \<Rightarrow> 'gen fs res" where
  "MkdirAll io path fs = (case io path of Some e \<Rightarrow> Panic e | None \<Rightarrow> Ret fs)"

definition WriteFile :: "io \<Rightarrow> string \<Rightarrow> 'gen content \<Rightarrow> 'gen fs \<Rightarrow> 'gen fs res" where
  "WriteFile io path c fs = (case io path of Some e \<Rightarrow> Panic e | None \<Rightarrow> Ret (fs(clean_path path \<mapsto> c)))"

subsection \<open>Saving\<close>

definition ip_string :: "IP \<Rightarrow> string" where
  "ip_string ip = str_join ''.'' (map (\<lambda>b. show_nat (unat b)) ip)"

definition JoinHostPort :: "string \<Rightarrow> string \<Rightarrow> string" where
  "JoinHostPort host port = host @ '':'' @ port"

definition NodeConfig_cfg :: "bft_config \<Rightarrow> NodeConfig \<Rightarrow> bft_config" where
  "NodeConfig_cfg def nc =
     (let cfg = def\<lparr> P2P_AddrBookStrict := False, P2P_AllowDuplicateIP := True, P2P_MaxNumOutboundPeers := 100,
            P2P_MaxNumInboundPeers := 100, P2P_PersistentPeers := nc_PersistentPeers nc, P2P_PrivatePeerIDs := nc_PrivatePeerIds nc,
            RPC_MaxSubscriptionClients := 10000, RPC_MaxOpenConnections := 10000, RPC_MaxSubscriptionsPerClient := 10000,
            Mempool_Size := 50000, Mempool_MaxTxsBytes := 671088640,
            P2P_ListenAddress := ''tcp://'' @ JoinHostPort (ip_string (nc_IPListen nc)) (itoa (P2P (nc_Ports nc))),
            RPC_ListenAddress := ''tcp://'' @ JoinHostPort (ip_string (nc_IPListen nc)) (itoa (RPC (nc_Ports nc))) \<rparr>;
          cfg2 = (if nc_PortsExposed nc
            then cfg\<lparr> Instrumentation_Prometheus := True,
              Instrumentation_ListenAddr := JoinHostPort (ip_string (nc_IPListen nc)) (itoa (Prometheus (nc_Ports nc))) \<rparr>
            else cfg)
      in cfg2\<lparr> bft_Moniker := nc_Moniker nc, TxIndex_Indexer := TxIndexerKV, Storage_DiscardABCIResponses := False \<rparr>)"

definition NodeConfig_Save :: "io \<Rightarrow> bft_config \<Rightarrow> NodeConfig \<Rightarrow> string \<Rightarrow> 'gen fs \<Rightarrow> 'gen fs res" where
  "NodeConfig_Save io def nc homeDir fs =
     res_bind (MkdirAll io (homeDir @ ''/config'') fs) (\<lambda>fs1.
     res_bind (WriteFile io (homeDir @ ''/config/node_key.json'') (NodeKeyFile (nc_NodeKey nc)) fs1) (\<lambda>fs2.
     res_bind (case nc_ValidatorKey nc of None \<Rightarrow> Ret fs2
       | Some vk \<Rightarrow> res_bind (MkdirAll io (homeDir @ ''/data'') fs2) (\<lambda>fs3.
           res_bind (WriteFile io (homeDir @ ''/config/priv_validator_key.json'') (PrivValidatorKeyFile vk) fs3) (\<lambda>fs4.
           WriteFile io (homeDir @ ''/data/priv_validator_state.json'') PrivValidatorStateFile fs4))) (\<lambda>fs5.
     WriteFile io (homeDir @ ''/config/config.toml'')
       (if nc_ProdLike nc then ConfigProdFile nc else ConfigFile (NodeConfig_cfg def nc)) fs5)))"

definition NodeID :: "(bytes \<Rightarrow> bytes) \<Rightarrow> bytes \<Rightarrow> string" where
  "NodeID address_of pubKey = hex_encode (address_of pubKey)"

definition AppConfig_Save :: "io \<Rightarrow> AppConfig \<Rightarrow> string \<Rightarrow> 'gen fs \<Rightarrow> 'gen fs res" where
  "AppConfig_Save io ac homeDir fs =
     res_bind (MkdirAll io (homeDir @ ''/config'') fs) (\<lambda>fs1.
     let ac' = (if ac_MinimumGasPrices ac = [] then ac\<lparr>ac_MinimumGasPrices := ''0'' @ DefaultBondDenom\<rparr> else ac);
         tpl = (if ac_EVMEnabled ac' then AppEvm else if ac_ProdLike ac' then AppProd else AppPlain)
     in WriteFile io (homeDir @ ''/config/app.toml'') (AppFile tpl ac') fs1)"

definition GenerateDockerCompose ::
  "io \<Rightarrow> string \<Rightarrow> string \<Rightarrow> string \<Rightarrow> NodeConfig list \<Rightarrow> string \<Rightarrow> bool \<Rightarrow> 'gen fs \<Rightarrow> 'gen fs res" where
  "GenerateDockerCompose io chainID dockerImage subnet nodes outDir debug fs =
     WriteFile io (outDir @ ''/docker-compose.yml'') (DockerComposeFile \<lparr> dc_Image = dockerImage, dc_Debug = debug,
       dc_LogFile = ''injectived.log'', dc_ChainID = chainID, dc_Nodes = nodes, dc_Subnet = subnet \<rparr>) fs"

subsection \<open>What a path names\<close>

definition path_elems :: "string \<Rightarrow> string list" where
  "path_elems p = filter (\<lambda>e. e \<noteq> [] \<and> e \<noteq> ''.'') (split_on (CHR ''/'') p)"

definition rooted :: "string \<Rightarrow> bool" where
  "rooted p \<longleftrightarrow> p \<noteq> [] \<and> hd p = CHR ''/''"

lemma split_on_neq_Nil [simp]: "split_on c xs \<noteq> []"
  by (induction xs) (auto split: list.split)

lemma split_on_append: "split_on c (xs @ c # ys) = split_on c xs @ split_on c ys"
  by (induction xs) (auto split: list.split)

lemma split_on_free: "c \<notin> set xs \<Longrightarrow> split_on c xs = [xs]"
  by (induction xs) auto

lemma split_on_elems: "e \<in> set (split_on c xs) \<Longrightarrow> c \<notin> set e"
  by (induction xs arbitrary: e) (auto split: if_split_asm list.split_asm)

lemma split_on_join:
  "es \<noteq> [] \<Longrightarrow> \<forall>e \<in> set es. c \<notin> set e \<Longrightarrow> split_on c (str_join [c] es) = es"
  by (induction "[c]" es rule: str_join.induct) (simp_all add: split_on_free split_on_append)

lemma path_elems_append [simp]: "path_elems (p @ CHR ''/'' # q) = path_elems p @ path_elems q"
  by (simp add: path_elems_def split_on_append)

lemma path_elems_free: "CHR ''/'' \<notin> set e \<Longrightarrow> path_elems e = (if e = [] \<or> e = ''.'' then [] else [e])"
  by (simp add: path_elems_def split_on_free)

lemma path_elems_slash [simp]: "path_elems (CHR ''/'' # q) = path_elems q"
  by (simp add: path_elems_def)

lemma rooted_append [simp]: "rooted (p @ CHR ''/'' # q) \<longleftrightarrow> p = [] \<or> rooted p"
  by (cases p) (auto simp: rooted_def)

lemma clean_path_eq: "clean_path p = (if rooted p then ''/'' else []) @ str_join ''/'' (path_elems p)"
  by (auto simp: clean_path_def path_elems_def rooted_def split: list.split char.split bool.split)

lemma path_elems_join:
  assumes "\<forall>e \<in> set es. CHR ''/'' \<notin> set e \<and> e \<noteq> [] \<and> e \<noteq> ''.''"
  shows "path_elems (str_join ''/'' es) = es" and "\<not> rooted (str_join ''/'' es)"
proof -
  show "path_elems (str_join ''/'' es) = es"
    using assms split_on_join [of es "CHR ''/''"] by (cases "es = []") (auto simp: path_elems_def)
  show "\<not> rooted (str_join ''/'' es)"
    using assms by (cases es rule: remdups_adj.cases) (auto simp: rooted_def neq_Nil_conv)
qed

lemma clean_path_elems: "path_elems (clean_path p) = path_elems p" and clean_path_rooted: "rooted (clean_path p) = rooted p"
proof -
  have "\<forall>e \<in> set (path_elems p). CHR ''/'' \<notin> set e \<and> e \<noteq> [] \<and> e \<noteq> ''.''"
    by (auto simp: path_elems_def dest: split_on_elems)
  note join = path_elems_join [OF this]
  show "path_elems (clean_path p) = path_elems p" using join(1) by (simp add: clean_path_eq)
  show "rooted (clean_path p) = rooted p" using join(2) by (cases "rooted p") (simp_all add: clean_path_eq, simp add: rooted_def)
qed

text \<open>Two paths name the same file exactly when they have the same elements from the same start.\<close>

lemma clean_path_iff: "clean_path p = clean_path q \<longleftrightarrow> rooted p = rooted q \<and> path_elems p = path_elems q"
proof
  assume "clean_path p = clean_path q"
  then show "rooted p = rooted q \<and> path_elems p = path_elems q"
    using clean_path_elems [of p] clean_path_elems [of q] clean_path_rooted [of p] clean_path_rooted [of q] by simp
qed (simp add: clean_path_eq)

subsection \<open>Files written and read back\<close>

text \<open>
  What the rest of the program may rely on when it writes files and reads them: a file holds what was
  written to it last, and writing one leaves the others alone. \<open>confined\<close> bounds the files that a sequence
  of writes may have changed.
\<close>

locale file_store =
  fixes names :: "string \<Rightarrow> string list" and look :: "'f \<Rightarrow> string \<Rightarrow> 'c option" and write_file :: "string \<Rightarrow> 'c \<Rightarrow> 'f \<Rightarrow> 'f res"
  assumes read_back: "write_file p c f = Ret f' \<Longrightarrow> look f' p = Some c"
    and read_other: "write_file p c f = Ret f' \<Longrightarrow> names q \<noteq> names p \<Longrightarrow> look f' q = look f q"
begin

definition confined :: "string list set \<Rightarrow> 'f \<Rightarrow> 'f \<Rightarrow> bool" where
  "confined N f f' \<longleftrightarrow> (\<forall>q. names q \<notin> N \<longrightarrow> look f' q = look f q)"

lemma confined_refl [intro]: "confined N f f"
  by (simp add: confined_def)

lemma confined_trans [trans]: "confined N f f1 \<Longrightarrow> confined N f1 f2 \<Longrightarrow> confined N f f2"
  by (simp add: confined_def)

lemma confined_mono: "confined N f f' \<Longrightarrow> N \<subseteq> M \<Longrightarrow> confined M f f'"
  by (auto simp: confined_def)

lemma confined_write: "write_file p c f = Ret f' \<Longrightarrow> names p \<in> N \<Longrightarrow> confined N f f'"
  by (metis confined_def read_other)

lemma confined_bind:
  "res_bind r k = Ret f' \<Longrightarrow> (\<And>f1. r = Ret f1 \<Longrightarrow> confined N f f1) \<Longrightarrow> (\<And>f1. k f1 = Ret f' \<Longrightarrow> confined N f1 f') \<Longrightarrow> confined N f f'"
  by (auto intro: confined_trans)

lemma confined_look: "confined N f f' \<Longrightarrow> names p \<notin> N \<Longrightarrow> look f p = Some c \<Longrightarrow> look f' p = Some c"
  by (simp add: confined_def)

end

interpretation disk: file_store path_elems "\<lambda>fs p. fs (clean_path p)" "WriteFile io" for io
  by unfold_locales (auto simp: WriteFile_def clean_path_iff split: option.split_asm)

end
