(* ===== verification/Genesis.thy ===== *)
theory Genesis
  imports Payload_Base Node_Config "HOL-Library.Multiset"
begin

text \<open>
  The genesis document, \<^verbatim>\<open>chain/genesis.go\<close>: its configuration with defaults, the accounts, balances,
  supply and genesis transactions collected in it, and saving, after which it is final. The templates
  and their parsing, the coin arithmetic, the sorting of accounts and balances, and the construction of
  the message that creates a validator belong to the SDK and are fields of \<open>genesis_lib\<close>.
\<close>

definition DefaultVersion :: string where "DefaultVersion = ''v1.13.0''"
definition DefaultChainID :: string where "DefaultChainID = ''stressinj-1337''"
definition DefaultEthChainID :: int where "DefaultEthChainID = 1337"

record GenesisConfig =
  gc_AppVersion :: string
  gc_GenesisTime :: string
  gc_ChainID :: string
  gc_EthChainID :: int
  gc_BondDenom :: string
  gc_EvmEnabled :: bool
  gc_ProdLike :: bool

datatype genesis_template = GenesisEvm | GenesisProd | GenesisPlain

text \<open>
  An account of the genesis is an Ethereum account with its address, number and sequence zero and no
  code; the address stands for it.
\<close>

record Genesis =
  gn_ChainID :: string
  gn_finalized :: bool
  gn_GenTxs :: "bytes list"
  gn_accountState :: "bytes list"
  gn_Balances :: "(string \<times> coins) list"
  gn_Supply :: coins

record ('m, 't) genesis_lib =
  genesis_from_template :: "genesis_template \<Rightarrow> GenesisConfig \<Rightarrow> Genesis go"
  ParseCoinsNormalized :: "string \<Rightarrow> coins go"
  coins_Add :: "coins \<Rightarrow> coins \<Rightarrow> coins"
  SanitizeGenesisAccounts :: "bytes list \<Rightarrow> bytes list"
  SanitizeGenesisBalances :: "(string \<times> coins) list \<Rightarrow> (string \<times> coins) list"
  FromCmtPubKeyInterface :: "bytes \<Rightarrow> bytes go"
  ValidatorAddress_BytesToString :: "bytes \<Rightarrow> string go"
  NewMsgCreateValidator :: "string \<Rightarrow> bytes \<Rightarrow> coin \<Rightarrow> string \<Rightarrow> int \<times> int \<times> int \<Rightarrow> int \<Rightarrow> 'm go"
  TxJSONEncoder :: "'t \<Rightarrow> bytes go"

definition genesis_defaults :: "string \<Rightarrow> GenesisConfig \<Rightarrow> GenesisConfig" where
  "genesis_defaults now c =
     (let c1 = (if gc_AppVersion c = [] then c\<lparr>gc_AppVersion := DefaultVersion\<rparr> else c);
          c2 = (if gc_BondDenom c1 = [] then c1\<lparr>gc_BondDenom := DefaultBondDenom\<rparr> else c1);
          c3 = (if gc_ChainID c2 = [] then c2\<lparr>gc_ChainID := DefaultChainID\<rparr> else c2);
          c4 = (if gc_EthChainID c3 = 0 then c3\<lparr>gc_EthChainID := DefaultEthChainID\<rparr> else c3)
      in if gc_GenesisTime c4 = [] then c4\<lparr>gc_GenesisTime := now\<rparr> else c4)"

definition empty_genesis_config :: GenesisConfig where
  "empty_genesis_config = \<lparr> gc_AppVersion = [], gc_GenesisTime = [], gc_ChainID = [], gc_EthChainID = 0, gc_BondDenom = [],
     gc_EvmEnabled = False, gc_ProdLike = False \<rparr>"

definition NewGenesis :: "('m, 't) genesis_lib \<Rightarrow> string \<Rightarrow> GenesisConfig option \<Rightarrow> Genesis res" where
  "NewGenesis gl now genConfig =
     (let c = genesis_defaults now (case genConfig of None \<Rightarrow> empty_genesis_config | Some c \<Rightarrow> c);
          tpl = (if gc_EvmEnabled c then GenesisEvm else if gc_ProdLike c then GenesisProd else GenesisPlain)
      in res_bind (orPanic (genesis_from_template gl tpl c)) (\<lambda>g.
         Ret (g\<lparr>gn_ChainID := gc_ChainID c, gn_finalized := False\<rparr>)))"

definition verifyNotFinalized :: "Genesis \<Rightarrow> unit res" where
  "verifyNotFinalized g = (if gn_finalized g
     then Panic (Msg ''genesis has been already saved, no more operations are allowed'') else Ret ())"

definition AddAccount :: "('m, 't) genesis_lib \<Rightarrow> key_lib \<Rightarrow> bytes \<Rightarrow> string \<Rightarrow> Genesis \<Rightarrow> Genesis res" where
  "AddAccount gl kl address balances g =
     res_bind (verifyNotFinalized g) (\<lambda>_.
     let g1 = g\<lparr>gn_accountState := gn_accountState g @ [address]\<rparr> in
     res_bind (orPanic (ParseCoinsNormalized gl balances)) (\<lambda>cs.
     Ret (g1\<lparr> gn_Balances := gn_Balances g1 @ [(bech32 kl account_prefix address, cs)],
       gn_Supply := coins_Add gl (gn_Supply g1) cs \<rparr>)))"

definition AddValidator ::
  "sdk_lib \<Rightarrow> ('m, 't) genesis_lib \<Rightarrow> key_lib \<Rightarrow> ('m, 'b, 't, 'w) Client \<Rightarrow> bytes \<Rightarrow> Secp256k1PrivateKey \<Rightarrow> string
    \<Rightarrow> Genesis \<Rightarrow> Genesis res" where
  "AddValidator sl gl kl client tmValPubKey stakerPrivateKey stakedBalance g =
     res_bind (verifyNotFinalized g) (\<lambda>_.
     res_bind (orPanic (ParseCoinNormalized sl stakedBalance)) (\<lambda>amount.
     res_bind (orPanic (FromCmtPubKeyInterface gl tmValPubKey)) (\<lambda>valPubKey.
     res_bind (orPanic (ValidatorAddress_BytesToString gl (priv_Address kl stakerPrivateKey))) (\<lambda>valStr.
     res_bind (orPanic (NewMsgCreateValidator gl valStr valPubKey amount (AccAddress kl stakerPrivateKey)
       (10 ^ 17, 2 * 10 ^ 17, 10 ^ 16) 1)) (\<lambda>msg.
     res_bind (buildAndSignTx client stakerPrivateKey 0 0 [] 200000 [] [msg]) (\<lambda>r.
     res_bind (orPanic r) (\<lambda>signedTx.
     res_bind (orPanic (TxJSONEncoder gl signedTx)) (\<lambda>encodedTx.
     Ret (g\<lparr>gn_GenTxs := gn_GenTxs g @ [encodedTx]\<rparr>)))))))))"

text \<open>The document that is written: the state with its accounts and balances in order.\<close>

definition Genesis_doc :: "('m, 't) genesis_lib \<Rightarrow> Genesis \<Rightarrow> Genesis" where
  "Genesis_doc gl g = g\<lparr>gn_finalized := True, gn_accountState := SanitizeGenesisAccounts gl (gn_accountState g),
     gn_Balances := SanitizeGenesisBalances gl (gn_Balances g)\<rparr>"

definition Genesis_Save ::
  "io \<Rightarrow> ('m, 't) genesis_lib \<Rightarrow> string \<Rightarrow> Genesis \<Rightarrow> Genesis fs \<Rightarrow> (Genesis \<times> Genesis fs) res" where
  "Genesis_Save io gl homeDir g fs =
     (let g1 = g\<lparr>gn_finalized := True, gn_Balances := SanitizeGenesisBalances gl (gn_Balances g)\<rparr> in
      res_bind (MkdirAll io (homeDir @ ''/config'') fs) (\<lambda>fs1.
      res_bind (WriteFile io (homeDir @ ''/config/genesis.json'') (GenesisFile (Genesis_doc gl g)) fs1) (\<lambda>fs2.
      Ret (g1, fs2))))"

subsection \<open>Supply\<close>

text \<open>The amount of one denomination in a list of coins, and what the SDK promises of it.\<close>

definition amount_of :: "string \<Rightarrow> coins \<Rightarrow> int" where
  "amount_of d cs = (\<Sum>(d', n) \<leftarrow> cs. if d' = d then n else 0)"

definition coins_additive :: "('m, 't) genesis_lib \<Rightarrow> bool" where
  "coins_additive gl \<longleftrightarrow> (\<forall>d a b. amount_of d (coins_Add gl a b) = amount_of d a + amount_of d b) \<and>
     (\<forall>bs. mset (SanitizeGenesisBalances gl bs) = mset bs)"

definition held :: "string \<Rightarrow> (string \<times> coins) list \<Rightarrow> int" where
  "held d bs = (\<Sum>(a, cs) \<leftarrow> bs. amount_of d cs)"

definition supply_ok :: "Genesis \<Rightarrow> bool" where
  "supply_ok g \<longleftrightarrow> (\<forall>d. amount_of d (gn_Supply g) = held d (gn_Balances g))"

lemma held_append [simp]: "held d (xs @ ys) = held d xs + held d ys"
  by (simp add: held_def)

lemma held_mset: "mset xs = mset ys \<Longrightarrow> held d xs = held d ys"
  unfolding held_def by (metis mset_map sum_mset_sum_list)

lemma held_sanitized: "coins_additive gl \<Longrightarrow> held d (SanitizeGenesisBalances gl bs) = held d bs"
  by (rule held_mset) (simp add: coins_additive_def)

text \<open>The operations on a genesis, in any order.\<close>

inductive genesis_reach ::
  "sdk_lib \<Rightarrow> ('m, 't) genesis_lib \<Rightarrow> key_lib \<Rightarrow> ('m, 'b, 't, 'w) Client \<Rightarrow> Genesis \<Rightarrow> Genesis \<Rightarrow> bool"
  for sl gl kl client g0 where
  start: "genesis_reach sl gl kl client g0 g0"
| account: "genesis_reach sl gl kl client g0 g \<Longrightarrow> AddAccount gl kl address balances g = Ret g' \<Longrightarrow> genesis_reach sl gl kl client g0 g'"
| validator: "genesis_reach sl gl kl client g0 g \<Longrightarrow> AddValidator sl gl kl client pub key bal g = Ret g' \<Longrightarrow> genesis_reach sl gl kl client g0 g'"
| save: "genesis_reach sl gl kl client g0 g \<Longrightarrow> Genesis_Save io gl home g fs = Ret (g', fs') \<Longrightarrow> genesis_reach sl gl kl client g0 g'"

lemma AddAccountD:
  "AddAccount gl kl address balances g = Ret g' \<Longrightarrow> \<exists>cs. \<not> gn_finalized g \<and> ParseCoinsNormalized gl balances = Inr cs \<and>
    g' = g\<lparr> gn_accountState := gn_accountState g @ [address], gn_Balances := gn_Balances g @ [(bech32 kl account_prefix address, cs)],
      gn_Supply := coins_Add gl (gn_Supply g) cs \<rparr>"
  by (auto simp: AddAccount_def verifyNotFinalized_def split: if_split_asm)

lemma AddValidatorD:
  "AddValidator sl gl kl client pub key bal g = Ret g' \<Longrightarrow> \<not> gn_finalized g \<and> (\<exists>tx. g' = g\<lparr>gn_GenTxs := gn_GenTxs g @ [tx]\<rparr>)"
  by (auto simp: AddValidator_def verifyNotFinalized_def split: if_split_asm)

lemma Genesis_SaveD:
  "Genesis_Save io gl home g fs = Ret (g', fs') \<Longrightarrow>
    g' = g\<lparr>gn_finalized := True, gn_Balances := SanitizeGenesisBalances gl (gn_Balances g)\<rparr>"
  by (auto simp: Genesis_Save_def Let_def)

text \<open>C18: The genesis supply is the sum of the balances: whatever accounts and validators are added and however
  often the document is saved, the total of every denomination equals what the accounts hold of it,
  provided it did so in the template.\<close>

theorem genesis_supply_matches:
  assumes "coins_additive gl" and "supply_ok g0" and "genesis_reach sl gl kl client g0 g"
  shows "supply_ok g \<and> supply_ok (Genesis_doc gl g)"
proof -
  have "supply_ok g" using assms(3)
  proof (induction rule: genesis_reach.induct)
    case (account g address balances g')
    then show ?case
      using AddAccountD [OF account(2)] assms(1) by (auto simp: supply_ok_def coins_additive_def held_def)
  next
    case (validator g pub key bal g')
    then show ?case using AddValidatorD [OF validator(2)] by (auto simp: supply_ok_def)
  next
    case (save g io home fs g' fs')
    then show ?case
      using Genesis_SaveD [OF save(2)] by (simp add: supply_ok_def held_sanitized [OF assms(1)])
  qed (use assms(2) in simp)
  then show ?thesis by (simp add: supply_ok_def Genesis_doc_def held_sanitized [OF assms(1)])
qed


subsection \<open>A worked instance\<close>

definition example_genesis :: "(bytes, bytes \<times> SignatureV2 option) genesis_lib" where
  "example_genesis = \<lparr> genesis_from_template = (\<lambda>tpl c. Inr \<lparr> gn_ChainID = gc_ChainID c, gn_finalized = False, gn_GenTxs = [],
       gn_accountState = [], gn_Balances = [], gn_Supply = [] \<rparr>),
     ParseCoinsNormalized = (\<lambda>s. Inr [(''inj'', int (digits_val (takeWhile is_digit s)))]), coins_Add = (@),
     SanitizeGenesisAccounts = id, SanitizeGenesisBalances = rev, FromCmtPubKeyInterface = Inr,
     ValidatorAddress_BytesToString = (\<lambda>a. Inr (hex_encode a)), NewMsgCreateValidator = (\<lambda>v k c d r m. Inr k),
     TxJSONEncoder = (\<lambda>(b, s). Inr b) \<rparr>"

definition coin_sdk :: sdk_lib where
  "coin_sdk = \<lparr> ParseCoinNormalized = (\<lambda>s. Inr (''inj'', int (digits_val (takeWhile is_digit s)))), NewCoin = (\<lambda>d n. Ret (d, n)),
     NewCoins = Ret, IntMul = (\<lambda>a b. Ret (a * b)) \<rparr>"

definition blank_genesis :: Genesis where
  "blank_genesis = \<lparr> gn_ChainID = ''stressinj-1337'', gn_finalized = False, gn_GenTxs = [], gn_accountState = [], gn_Balances = [],
     gn_Supply = [] \<rparr>"

definition funded_genesis :: Genesis where
  "funded_genesis = blank_genesis\<lparr> gn_accountState := [[1, 2]], gn_Balances := [(''inj0102'', [(''inj'', 7)])], gn_Supply := [(''inj'', 7)] \<rparr>"

lemma funded_genesis_reached: "genesis_reach coin_sdk example_genesis example_keys example_client blank_genesis funded_genesis"
proof -
  have "hex_encode [1, 2] = ''0102''" by code_simp
  then have "AddAccount example_genesis example_keys [1, 2] ''7inj'' blank_genesis = Ret funded_genesis"
    by (simp add: AddAccount_def verifyNotFinalized_def blank_genesis_def funded_genesis_def example_genesis_def example_keys_def
      account_prefix_def is_digit_def digits_val_def digit_val_def)
  then show ?thesis by (rule genesis_reach.account [OF genesis_reach.start])
qed

theorem genesis_supply_matches_witness:
  "genesis_reach coin_sdk example_genesis example_keys example_client blank_genesis funded_genesis \<and>
   supply_ok funded_genesis \<and> supply_ok (Genesis_doc example_genesis funded_genesis)"
proof -
  have "coins_additive example_genesis" by (simp add: coins_additive_def example_genesis_def amount_of_def)
  moreover have "supply_ok blank_genesis" by (simp add: supply_ok_def blank_genesis_def amount_of_def held_def)
  ultimately show ?thesis using genesis_supply_matches [OF _ _ funded_genesis_reached] funded_genesis_reached by blast
qed


end
