(* ===== verification/Generator.thy ===== *)
theory Generator
  imports Genesis
begin

text \<open>
  The generator of a test network, \<^verbatim>\<open>generator.go\<close>: validators, instances with their accounts, sentry
  nodes, the peers between them and the Docker Compose file. Freshly generated keys are the parameter
  \<open>gen_keys\<close>; counters are Go integers.
\<close>

subsection \<open>Helpers\<close>

fun filterStringValue :: "string list \<Rightarrow> string \<Rightarrow> string list" where
  "filterStringValue [] x = []"
| "filterStringValue (v # vs) x = (if v \<noteq> x then v # filterStringValue vs x else filterStringValue vs x)"

definition makeIntRange :: "int \<Rightarrow> int \<Rightarrow> int list res" where
  "makeIntRange a b = (if b < a then Panic (Msg ''runtime error: makeslice: len out of range'')
     else Ret (map (\<lambda>i. a + int i) [0..<nat (b - a)]))"

definition shiftPorts :: "Ports \<Rightarrow> int \<Rightarrow> Ports" where
  "shiftPorts ports offset = (let d = wrap_int (100 * offset) in
     \<lparr> RPC = wrap_int (RPC ports + d), P2P = wrap_int (P2P ports + d), API = wrap_int (API ports + d),
       GRPC = wrap_int (GRPC ports + d), GRPCWeb = wrap_int (GRPCWeb ports + d), PProf = wrap_int (PProf ports + d),
       Prometheus = wrap_int (Prometheus ports + d), EVMRPC = wrap_int (EVMRPC ports + d),
       EVMWSPort = wrap_int (EVMWSPort ports + d), ProxyApp = wrap_int (ProxyApp ports + d) \<rparr>)"

text \<open>
  \<^verbatim>\<open>net.ParseCIDR\<close> of an IPv4 subnet: four decimal octets without leading zeros and a prefix length; the
  network address has the bits after the prefix cleared. Any other text is refused, and so are the IPv6
  subnets (by the caller), both with a panic.
\<close>

definition parse_decimal :: "nat \<Rightarrow> string \<Rightarrow> nat option" where
  "parse_decimal bound s = (if s = [] \<or> \<not> list_all is_digit s \<or> (length s > 1 \<and> hd s = CHR ''0'') \<or> bound < digits_val s
     then None else Some (digits_val s))"

definition those_four :: "nat option list \<Rightarrow> (nat \<times> nat \<times> nat \<times> nat) option" where
  "those_four os = (case os of [Some a, Some b, Some c, Some d] \<Rightarrow> Some (a, b, c, d) | _ \<Rightarrow> None)"

definition ParseCIDR :: "string \<Rightarrow> IP go" where
  "ParseCIDR s = (case split_on (CHR ''/'') s of
     [addr, len] \<Rightarrow> (case (those_four (map (parse_decimal 255) (split_on (CHR ''.'') addr)), parse_decimal 32 len) of
         (Some (a, b, c, d), Some n) \<Rightarrow>
           (let v = ((a * 256 + b) * 256 + c) * 256 + d; w = v div 2 ^ (32 - n) * 2 ^ (32 - n)
            in Inr (map of_nat [w div 256 ^ 3 mod 256, w div 256 ^ 2 mod 256, w div 256 mod 256, w mod 256]))
       | _ \<Rightarrow> Inl (Msg (''invalid CIDR address: '' @ s)))
   | _ \<Rightarrow> Inl (Msg (''invalid CIDR address: '' @ s)))"

definition ipInSubnet :: "string \<Rightarrow> int \<Rightarrow> IP res" where
  "ipInSubnet subnet offset = res_bind (orPanic (ParseCIDR subnet)) (\<lambda>ip.
     Ret (ip[3 := ip ! 3 + word_of_int (offset + 1)]))"

fun res_fold :: "('a \<Rightarrow> 's \<Rightarrow> 's res) \<Rightarrow> 'a list \<Rightarrow> 's \<Rightarrow> 's res" where
  "res_fold f [] s = Ret s"
| "res_fold f (x # xs) s = res_bind (f x s) (res_fold f xs)"

subsection \<open>The generator\<close>

record GeneratorEnvironment =
  gv_ChainID :: string
  gv_EthChainID :: int
  gv_EvmEnabled :: bool
  gv_NumOfValidators :: int
  gv_NumOfSentryNodes :: int
  gv_NumOfInstances :: int
  gv_NumOfAccountsPerInstance :: int
  gv_DockerImage :: string
  gv_DockerSubnet :: string
  gv_OutDirectory :: string
  gv_ProdLike :: bool
  gv_Debug :: bool
  gv_LocalNative :: bool

record gen_keys =
  gk_node :: "int \<Rightarrow> bytes"
  gk_validator :: "int \<Rightarrow> bytes"
  gk_staker :: "int \<Rightarrow> Secp256k1PrivateKey"
  gk_account :: "int \<Rightarrow> int \<Rightarrow> Secp256k1PrivateKey"
  gk_sentry :: "int \<Rightarrow> bytes"
  ed_pub :: "bytes \<Rightarrow> bytes"
  ed_address :: "bytes \<Rightarrow> bytes"

record ('m, 'b, 't, 'w) gen_env =
  ge_env :: GeneratorEnvironment
  ge_io :: io
  ge_sdk :: sdk_lib
  ge_gen :: "('m, 't) genesis_lib"
  ge_keys :: key_lib
  ge_client :: "('m, 'b, 't, 'w) Client"
  ge_fresh :: gen_keys
  ge_bft :: bft_config
  ge_now :: string

record gen_state =
  gs_fs :: "Genesis fs"
  gs_genesis :: Genesis
  gs_peers :: "string list"
  gs_validatorIDs :: "string list"
  gs_nodes :: "NodeConfig list"
  gs_sentryIDs :: "string list"

definition initialBalanceStaker :: string where "initialBalanceStaker = ''100000000000000000000000inj''"
definition initialBalanceBonded :: string where "initialBalanceBonded = ''10000000000000000000000inj''"
definition initialBalanceAccount :: string where "initialBalanceAccount = ''1000000000000000000000000inj''"
definition minimumGasPrices :: string where "minimumGasPrices = ''1inj''"

definition IPv4zero :: IP where "IPv4zero = [0, 0, 0, 0]"

definition rootOutDir :: "GeneratorEnvironment \<Rightarrow> string" where
  "rootOutDir env = gv_OutDirectory env @ ''/chain-stresser-deploy''"

definition peer_address :: "string \<Rightarrow> NodeConfig \<Rightarrow> string" where
  "peer_address nodeID nc = nodeID @ ''@'' @ ip_string (nc_IPAddr nc) @ '':'' @ itoa (P2P (nc_Ports nc))"

definition validator_node :: "('m, 'b, 't, 'w) gen_env \<Rightarrow> int \<Rightarrow> NodeConfig res" where
  "validator_node G i = (let env = ge_env G; fresh = ge_fresh G in
     res_bind (if gv_LocalNative env then Ret [127, 0, 0, 1] else ipInSubnet (gv_DockerSubnet env) (i + 1)) (\<lambda>nodeIPAddr.
     Ret \<lparr> nc_Home = ''./validators/'' @ itoa i, nc_Moniker = ''validator-'' @ itoa i,
       nc_PeerID = NodeID (ed_address fresh) (ed_pub fresh (gk_node fresh i)), nc_IPListen = IPv4zero, nc_IPAddr = nodeIPAddr,
       nc_Ports = (if gv_LocalNative env then shiftPorts DefaultPorts i else DefaultPorts),
       nc_PersistentPeers = [], nc_PrivatePeerIds = [], nc_NodeKey = gk_node fresh i, nc_ValidatorKey = Some (gk_validator fresh i),
       nc_TxIndexer = (if gv_ProdLike env then TxIndexerDisabled else TxIndexerKV),
       nc_DiscardABCIResponses = gv_ProdLike env, nc_ProdLike = gv_ProdLike env,
       nc_PortsExposed = (gv_NumOfSentryNodes env = 0 \<and> i = 0), nc_DependsOn = [] \<rparr>))"

definition app_config :: "GeneratorEnvironment \<Rightarrow> Ports \<Rightarrow> bool \<Rightarrow> AppConfig" where
  "app_config env ports exposed = \<lparr> ac_MinimumGasPrices = minimumGasPrices, ac_EVMEnabled = gv_EvmEnabled env,
     ac_ProdLike = gv_ProdLike env, ac_IPListen = IPv4zero, ac_Ports = ports, ac_PortsExposed = exposed \<rparr>"

definition add_validator :: "('m, 'b, 't, 'w) gen_env \<Rightarrow> int \<Rightarrow> gen_state \<Rightarrow> gen_state res" where
  "add_validator G i s = (let env = ge_env G; fresh = ge_fresh G; valDir = rootOutDir env @ ''/validators/'' @ itoa i in
     res_bind (validator_node G i) (\<lambda>nodeConfig.
     res_bind (NodeConfig_Save (ge_io G) (ge_bft G) nodeConfig valDir (gs_fs s)) (\<lambda>fs1.
     res_bind (AppConfig_Save (ge_io G) (app_config env (nc_Ports nodeConfig) (nc_PortsExposed nodeConfig)) valDir fs1) (\<lambda>fs2.
     res_bind (AddAccount (ge_gen G) (ge_keys G) (priv_Address (ge_keys G) (gk_staker fresh i)) initialBalanceStaker (gs_genesis s)) (\<lambda>g1.
     res_bind (AddValidator (ge_sdk G) (ge_gen G) (ge_keys G) (ge_client G) (ed_pub fresh (gk_validator fresh i)) (gk_staker fresh i)
       initialBalanceBonded g1) (\<lambda>g2.
     Ret (s\<lparr> gs_fs := fs2, gs_genesis := g2, gs_nodes := gs_nodes s @ [nodeConfig],
       gs_validatorIDs := gs_validatorIDs s @ [nc_PeerID nodeConfig],
       gs_peers := gs_peers s @ [peer_address (nc_PeerID nodeConfig) nodeConfig] \<rparr>)))))))"

definition add_account :: "('m, 'b, 't, 'w) gen_env \<Rightarrow> int \<Rightarrow> int \<Rightarrow> Genesis \<Rightarrow> Genesis res" where
  "add_account G i j g = AddAccount (ge_gen G) (ge_keys G) (priv_Address (ge_keys G) (gk_account (ge_fresh G) i j)) initialBalanceAccount g"

definition add_instance :: "('m, 'b, 't, 'w) gen_env \<Rightarrow> int \<Rightarrow> gen_state \<Rightarrow> gen_state res" where
  "add_instance G i s = (let env = ge_env G; js = [0..gv_NumOfAccountsPerInstance env - 1];
       instanceDir = rootOutDir env @ ''/instances/'' @ itoa i in
     if gv_NumOfAccountsPerInstance env < 0 then Panic (Msg ''runtime error: makeslice: cap out of range'') else
     res_bind (res_fold (add_account G i) js (gs_genesis s)) (\<lambda>g.
     res_bind (MkdirAll (ge_io G) instanceDir (gs_fs s)) (\<lambda>fs1.
     res_bind (WriteFile (ge_io G) (instanceDir @ ''/accounts.json'') (AccountsFile (map (gk_account (ge_fresh G) i) js)) fs1) (\<lambda>fs2.
     Ret (s\<lparr>gs_fs := fs2, gs_genesis := g\<rparr>)))))"

definition save_genesis :: "('m, 'b, 't, 'w) gen_env \<Rightarrow> string \<Rightarrow> gen_state \<Rightarrow> gen_state res" where
  "save_genesis G dir s = res_bind (Genesis_Save (ge_io G) (ge_gen G) dir (gs_genesis s) (gs_fs s)) (\<lambda>(g, fs).
     Ret (s\<lparr>gs_genesis := g, gs_fs := fs\<rparr>))"

definition sentry_node :: "('m, 'b, 't, 'w) gen_env \<Rightarrow> gen_state \<Rightarrow> int \<Rightarrow> NodeConfig res" where
  "sentry_node G s i = (let env = ge_env G; fresh = ge_fresh G in
     res_bind (ipInSubnet (gv_DockerSubnet env) (gv_NumOfValidators env + i + 1)) (\<lambda>ip.
     res_bind (makeIntRange 0 (gv_NumOfValidators env)) (\<lambda>deps.
     Ret \<lparr> nc_Home = ''./sentry-nodes/'' @ itoa i, nc_Moniker = ''sentry-node-'' @ itoa i,
       nc_PeerID = NodeID (ed_address fresh) (ed_pub fresh (gk_sentry fresh i)), nc_IPListen = IPv4zero, nc_IPAddr = ip,
       nc_Ports = DefaultPorts, nc_PersistentPeers = str_join '','' (gs_peers s),
       nc_PrivatePeerIds = str_join '','' (take (nat (gv_NumOfValidators env)) (gs_validatorIDs s)),
       nc_NodeKey = gk_sentry fresh i, nc_ValidatorKey = None, nc_TxIndexer = TxIndexerKV, nc_DiscardABCIResponses = False,
       nc_ProdLike = gv_ProdLike env, nc_PortsExposed = (i = 0), nc_DependsOn = deps \<rparr>)))"

definition add_sentry :: "('m, 'b, 't, 'w) gen_env \<Rightarrow> int \<Rightarrow> gen_state \<Rightarrow> gen_state res" where
  "add_sentry G i s = (let env = ge_env G; nodeDir = rootOutDir env @ ''/sentry-nodes/'' @ itoa i in
     res_bind (sentry_node G s i) (\<lambda>nodeConfig.
     res_bind (NodeConfig_Save (ge_io G) (ge_bft G) nodeConfig nodeDir (gs_fs s)) (\<lambda>fs1.
     res_bind (AppConfig_Save (ge_io G) (app_config env DefaultPorts (i = 0)) nodeDir fs1) (\<lambda>fs2.
     res_bind (save_genesis G nodeDir (s\<lparr>gs_fs := fs2\<rparr>)) (\<lambda>s1.
     Ret (s1\<lparr> gs_nodes := gs_nodes s1 @ [nodeConfig], gs_sentryIDs := gs_sentryIDs s1 @ [nc_PeerID nodeConfig] \<rparr>))))))"

definition connect_validator :: "('m, 'b, 't, 'w) gen_env \<Rightarrow> int \<Rightarrow> gen_state \<Rightarrow> gen_state res" where
  "connect_validator G i s =
     (case (go_index (gs_nodes s) i, go_index (gs_validatorIDs s) i) of
        (Some nodeConfig, Some nodeID) \<Rightarrow>
          (let peerAddress = peer_address nodeID nodeConfig;
               nc = nodeConfig\<lparr> nc_PersistentPeers := str_join '','' (filterStringValue (gs_peers s) peerAddress),
                      nc_PrivatePeerIds := str_join '','' (gs_validatorIDs s) \<rparr> in
           res_bind (NodeConfig_Save (ge_io G) (ge_bft G) nc (rootOutDir (ge_env G) @ ''/'' @ nc_Home nc) (gs_fs s)) (\<lambda>fs1.
           Ret (s\<lparr>gs_nodes := (gs_nodes s)[nat i := nc], gs_fs := fs1\<rparr>)))
      | _ \<Rightarrow> Panic (Msg ''runtime error: index out of range''))"

text \<open>Removing a directory removes the files below it.\<close>

definition RemoveAll :: "io \<Rightarrow> string \<Rightarrow> 'gen fs \<Rightarrow> 'gen fs res" where
  "RemoveAll io path fs = (case io path of Some e \<Rightarrow> Panic e
     | None \<Rightarrow> Ret (\<lambda>p. if strip_prefix (clean_path path @ ''/'') p \<noteq> None \<or> p = clean_path path then None else fs p))"

definition GenerateConfigs :: "('m, 'b, 't, 'w) gen_env \<Rightarrow> Genesis fs \<Rightarrow> gen_state res" where
  "GenerateConfigs G fs0 =
     (let env = ge_env G; root = rootOutDir env; vs = [0..gv_NumOfValidators env - 1] in
      if gv_NumOfInstances env \<le> 0 then Panic (Msg ''number of instances must be greater than 0'')
      else if gv_NumOfValidators env \<le> 0 then Panic (Msg ''number of validators must be greater than 0'')
      else res_bind (RemoveAll (ge_io G) root fs0) (\<lambda>fs1.
      res_bind (NewGenesis (ge_gen G) (ge_now G) (Some \<lparr> gc_AppVersion = [], gc_GenesisTime = [], gc_ChainID = gv_ChainID env,
        gc_EthChainID = gv_EthChainID env, gc_BondDenom = [], gc_EvmEnabled = gv_EvmEnabled env, gc_ProdLike = gv_ProdLike env \<rparr>)) (\<lambda>g.
      if gv_NumOfValidators env + gv_NumOfSentryNodes env < 0 then Panic (Msg ''runtime error: makeslice: cap out of range'') else
      res_bind (res_fold (add_validator G) vs \<lparr> gs_fs = fs1, gs_genesis = g, gs_peers = [], gs_validatorIDs = [], gs_nodes = [],
        gs_sentryIDs = [] \<rparr>) (\<lambda>s1.
      res_bind (WriteFile (ge_io G) (root @ ''/validators/ids.json'') (IdsFile (gs_validatorIDs s1)) (gs_fs s1)) (\<lambda>fs2.
      res_bind (res_fold (add_instance G) [0..gv_NumOfInstances env - 1] (s1\<lparr>gs_fs := fs2\<rparr>)) (\<lambda>s2.
      res_bind (res_fold (\<lambda>i. save_genesis G (root @ ''/validators/'' @ itoa i)) vs s2) (\<lambda>s3.
      res_bind (if gv_NumOfSentryNodes env > 0
        then res_bind (res_fold (add_sentry G) [0..gv_NumOfSentryNodes env - 1] s3) (\<lambda>s4.
          res_bind (WriteFile (ge_io G) (root @ ''/sentry-nodes/ids.json'') (IdsFile (gs_sentryIDs s4)) (gs_fs s4)) (\<lambda>fs3.
          Ret (s4\<lparr>gs_fs := fs3\<rparr>)))
        else Ret s3) (\<lambda>s5.
      res_bind (res_fold (connect_validator G) vs s5) (\<lambda>s6.
      if gv_LocalNative env then Ret s6
      else res_bind (GenerateDockerCompose (ge_io G) (gv_ChainID env) (gv_DockerImage env) (gv_DockerSubnet env) (gs_nodes s6) root
        (gv_Debug env) (gs_fs s6)) (\<lambda>fs4. Ret (s6\<lparr>gs_fs := fs4\<rparr>)))))))))))"

subsection \<open>The phases\<close>

lemma res_bindE:
  assumes "res_bind r f = Ret y" obtains x where "r = Ret x" "f x = Ret y"
  using assms by auto

lemma res_guardE:
  assumes "(if c then Panic e else r) = Ret y" obtains "\<not> c" "r = Ret y"
  using assms by (auto split: if_split_asm)

lemma res_fold_induct:
  assumes "res_fold f xs s = Ret s'" and "P [] s"
    and "\<And>ys x s1 s2. P ys s1 \<Longrightarrow> f x s1 = Ret s2 \<Longrightarrow> P (ys @ [x]) s2"
  shows "P xs s'"
proof -
  have "P (zs @ xs) s'" if "P zs s" for zs
    using assms(1) that
  proof (induction xs arbitrary: s zs)
    case (Cons x xs)
    then obtain s1 where "f x s = Ret s1" "res_fold f xs s1 = Ret s'" by auto
    with Cons.IH [of s1 "zs @ [x]"] assms(3) [OF Cons.prems(2)] show ?case by simp
  qed simp
  from this [of "[]"] assms(2) show ?thesis by simp
qed

lemma res_fold_keeps:
  assumes "res_fold f xs s = Ret s'" and "\<And>x s1 s2. f x s1 = Ret s2 \<Longrightarrow> v s2 = v s1"
  shows "v s' = v s"
  by (rule res_fold_induct [OF assms(1)]) (simp_all only: assms(2))

definition network :: "gen_state \<Rightarrow> NodeConfig list \<times> string list \<times> string list" where
  "network s = (gs_nodes s, gs_validatorIDs s, gs_peers s)"

lemma add_instance_network: "add_instance G i s = Ret s' \<Longrightarrow> network s' = network s"
  unfolding add_instance_def network_def Let_def by (split if_split_asm) (auto elim!: res_bindE simp del: res_bind_eq_Ret)

lemma save_genesis_network: "save_genesis G d s = Ret s' \<Longrightarrow> network s' = network s"
  by (auto simp: save_genesis_def network_def split: prod.split_asm)

definition peer_of :: "NodeConfig \<Rightarrow> string" where
  "peer_of nc = peer_address (nc_PeerID nc) nc"

lemma add_validator_network:
  "add_validator G i s = Ret s' \<Longrightarrow> \<exists>nc. validator_node G i = Ret nc \<and>
    network s' = (gs_nodes s @ [nc], gs_validatorIDs s @ [nc_PeerID nc], gs_peers s @ [peer_of nc])"
  unfolding add_validator_def Let_def network_def peer_of_def
  by (elim res_bindE) clarsimp

lemma sentry_node_peers: "gs_peers s' = gs_peers s \<Longrightarrow> gs_validatorIDs s' = gs_validatorIDs s \<Longrightarrow> sentry_node G s' i = sentry_node G s i"
  by (simp add: sentry_node_def)

lemma add_sentry_network:
  "add_sentry G i s = Ret s' \<Longrightarrow> \<exists>nc. sentry_node G s i = Ret nc \<and> network s' = (gs_nodes s @ [nc], gs_validatorIDs s, gs_peers s)"
  by (auto simp: add_sentry_def network_def Let_def dest!: save_genesis_network)

definition connected :: "gen_state \<Rightarrow> NodeConfig \<Rightarrow> string \<Rightarrow> NodeConfig" where
  "connected s nc nodeID = nc\<lparr> nc_PersistentPeers := str_join '','' (filterStringValue (gs_peers s) (peer_address nodeID nc)),
     nc_PrivatePeerIds := str_join '','' (gs_validatorIDs s) \<rparr>"

lemma connect_validator_network:
  assumes "connect_validator G i s = Ret s'"
  shows "0 \<le> i \<and> nat i < length (gs_nodes s) \<and>
    network s' = ((gs_nodes s)[nat i := connected s (gs_nodes s ! nat i) (gs_validatorIDs s ! nat i)], gs_validatorIDs s, gs_peers s)"
  using assms
  by (auto simp: connect_validator_def network_def connected_def go_index_def Let_def split: option.split_asm if_split_asm)

lemma validators_phase:
  assumes "res_fold (add_validator G) vs s = Ret s'" and "network s = ([], [], [])"
  shows "list_all2 (\<lambda>i nc. validator_node G i = Ret nc) vs (gs_nodes s') \<and>
    gs_validatorIDs s' = map nc_PeerID (gs_nodes s') \<and> gs_peers s' = map peer_of (gs_nodes s')"
  by (rule res_fold_induct [OF assms(1)])
    (use assms(2) in \<open>auto simp: network_def dest!: add_validator_network intro!: list_all2_appendI\<close>)

lemma sentries_phase:
  assumes "res_fold (add_sentry G) xs s = Ret s'"
  shows "\<exists>ncs. list_all2 (\<lambda>i nc. sentry_node G s i = Ret nc) xs ncs \<and> network s' = (gs_nodes s @ ncs, gs_validatorIDs s, gs_peers s)"
proof (rule res_fold_induct [OF assms])
  fix ys x s1 s2
  assume "\<exists>ncs. list_all2 (\<lambda>i nc. sentry_node G s i = Ret nc) ys ncs \<and> network s1 = (gs_nodes s @ ncs, gs_validatorIDs s, gs_peers s)"
    and step: "add_sentry G x s1 = Ret s2"
  then obtain ncs where ncs: "list_all2 (\<lambda>i nc. sentry_node G s i = Ret nc) ys ncs" "gs_nodes s1 = gs_nodes s @ ncs"
      "gs_validatorIDs s1 = gs_validatorIDs s" "gs_peers s1 = gs_peers s" by (auto simp: network_def)
  from add_sentry_network [OF step] obtain nc where "sentry_node G s1 x = Ret nc"
      "network s2 = (gs_nodes s1 @ [nc], gs_validatorIDs s1, gs_peers s1)" by blast
  with ncs sentry_node_peers [of s1 s G x]
  show "\<exists>ncs. list_all2 (\<lambda>i nc. sentry_node G s i = Ret nc) (ys @ [x]) ncs \<and>
      network s2 = (gs_nodes s @ ncs, gs_validatorIDs s, gs_peers s)"
    by (intro exI [of _ "ncs @ [nc]"]) (auto intro: list_all2_appendI)
qed (auto simp: network_def)

lemma connect_phase:
  assumes "res_fold (connect_validator G) (map int [0..<n]) s = Ret s'" and "n \<le> length (gs_nodes s)"
  shows "gs_nodes s' = map (\<lambda>i. connected s (gs_nodes s ! i) (gs_validatorIDs s ! i)) [0..<n] @ drop n (gs_nodes s)"
proof -
  let ?Q = "\<lambda>k t. gs_nodes t = map (\<lambda>i. connected s (gs_nodes s ! i) (gs_validatorIDs s ! i)) [0..<k] @ drop k (gs_nodes s) \<and>
      gs_validatorIDs t = gs_validatorIDs s \<and> gs_peers t = gs_peers s"
  have "k \<le> n \<Longrightarrow> res_fold (connect_validator G) (map int [k..<n]) t = Ret s' \<Longrightarrow> ?Q k t \<Longrightarrow> ?Q n s'" for k t
  proof (induction "n - k" arbitrary: k t)
    case (Suc d)
    then have k: "k < n" by simp
    then obtain t1 where step: "connect_validator G (int k) t = Ret t1" "res_fold (connect_validator G) (map int [Suc k..<n]) t1 = Ret s'"
      using Suc.prems(2) by (auto simp: upt_conv_Cons)
    have nth: "gs_nodes t ! k = gs_nodes s ! k" using Suc.prems(3) k assms(2) by (simp add: nth_append)
    have same: "connected t = connected s" using Suc.prems(3) by (intro ext) (simp add: connected_def)
    have "drop k (gs_nodes s) = gs_nodes s ! k # drop (Suc k) (gs_nodes s)" using k assms(2) by (simp add: Cons_nth_drop_Suc)
    then have "?Q (Suc k) t1"
      using connect_validator_network [OF step(1)] Suc.prems(3) nth same
      by (simp add: network_def list_update_append)
    with Suc.hyps(1) [of "Suc k" t1] Suc.hyps(2) k step(2) show ?case by simp
  qed simp
  from this [of 0 s] assms show ?thesis by simp
qed


lemma upto_int: "[0..int n - 1] = map int [0..<n]"
proof (induction n)
  case (Suc n)
  then show ?case using upto_rec2 [of 0 "int n"] by simp
qed simp

lemma upto_nat: "0 \<le> n \<Longrightarrow> [0..n - 1] = map int [0..<nat n]"
  using upto_int [of "nat n"] by simp

lemma upto_neg: "n < 0 \<Longrightarrow> [0..n - 1] = map int [0..<nat n]"
  by simp

lemma filterStringValue_filter: "filterStringValue xs x = filter (\<lambda>y. y \<noteq> x) xs"
  by (induction xs) auto

text \<open>The nodes of a generated network: the validators, connected with each other, and the sentry nodes.\<close>

definition linked :: "NodeConfig list \<Rightarrow> NodeConfig \<Rightarrow> NodeConfig" where
  "linked vals nc = nc\<lparr> nc_PersistentPeers := str_join '','' (filter (\<lambda>p. p \<noteq> peer_of nc) (map peer_of vals)),
     nc_PrivatePeerIds := str_join '','' (map nc_PeerID vals) \<rparr>"

lemma GenerateConfigsD:
  assumes "GenerateConfigs G fs0 = Ret s"
  shows "\<exists>s1 s2 s3 s5 s6. 0 < gv_NumOfValidators (ge_env G) \<and>
    res_fold (add_validator G) [0..gv_NumOfValidators (ge_env G) - 1] s1 = Ret s2 \<and> network s1 = ([], [], []) \<and>
    network s3 = network s2 \<and> (\<exists>s4. res_fold (add_sentry G) [0..gv_NumOfSentryNodes (ge_env G) - 1] s3 = Ret s4 \<and>
      network s5 = network s4) \<and>
    res_fold (connect_validator G) [0..gv_NumOfValidators (ge_env G) - 1] s5 = Ret s6 \<and> network s = network s6"
proof -
  let ?env = "ge_env G" and ?root = "rootOutDir (ge_env G)"
  let ?vs = "[0..gv_NumOfValidators ?env - 1]"
  obtain s1 s2 fs2 s3 s4 s5 s6 where v: "0 < gv_NumOfValidators ?env" and
      p1: "res_fold (add_validator G) ?vs s1 = Ret s2" "network s1 = ([], [], [])" and
      p2: "res_fold (add_instance G) [0..gv_NumOfInstances ?env - 1] (s2\<lparr>gs_fs := fs2\<rparr>) = Ret s3" and
      p3: "res_fold (\<lambda>i. save_genesis G (?root @ ''/validators/'' @ itoa i)) ?vs s3 = Ret s4" and
      p4: "(if gv_NumOfSentryNodes ?env > 0
        then res_bind (res_fold (add_sentry G) [0..gv_NumOfSentryNodes ?env - 1] s4) (\<lambda>s.
          res_bind (WriteFile (ge_io G) (?root @ ''/sentry-nodes/ids.json'') (IdsFile (gs_sentryIDs s)) (gs_fs s)) (\<lambda>fs3.
          Ret (s\<lparr>gs_fs := fs3\<rparr>))) else Ret s4) = Ret s5" and
      p5: "res_fold (connect_validator G) ?vs s5 = Ret s6" "network s = network s6"
    using assms unfolding GenerateConfigs_def Let_def
    by (elim res_guardE res_bindE) (rule that, simp, assumption, simp add: network_def, assumption, assumption, assumption, assumption,
        auto simp: network_def split: if_split_asm)
  have "network (s2\<lparr>gs_fs := fs2\<rparr>) = network s2" by (simp add: network_def)
  with res_fold_keeps [OF p2, of network] res_fold_keeps [OF p3, of network]
  have "network s4 = network s2" by (simp add: add_instance_network save_genesis_network)
  moreover have "\<exists>s6. res_fold (add_sentry G) [0..gv_NumOfSentryNodes ?env - 1] s4 = Ret s6 \<and> network s5 = network s6"
    using p4 by (auto simp: network_def split: if_split_asm)
  ultimately show ?thesis using v p1 p5 by metis
qed

lemma peer_of_linked [simp]: "peer_of (linked vals nc) = peer_of nc"
  by (simp add: linked_def peer_of_def peer_address_def)

lemma generated_nodes:
  assumes "GenerateConfigs G fs0 = Ret s"
  shows "\<exists>vals sents t. gs_nodes s = map (linked vals) vals @ sents \<and>
    list_all2 (\<lambda>i nc. validator_node G (int i) = Ret nc) [0..<nat (gv_NumOfValidators (ge_env G))] vals \<and>
    list_all2 (\<lambda>i nc. sentry_node G t (int i) = Ret nc) [0..<nat (gv_NumOfSentryNodes (ge_env G))] sents \<and>
    gs_peers t = map peer_of vals \<and> gs_validatorIDs t = map nc_PeerID vals"
proof -
  let ?V = "nat (gv_NumOfValidators (ge_env G))" and ?S = "nat (gv_NumOfSentryNodes (ge_env G))"
  obtain s1 s2 s3 s4 s5 s6 where p: "0 < gv_NumOfValidators (ge_env G)"
      "res_fold (add_validator G) [0..gv_NumOfValidators (ge_env G) - 1] s1 = Ret s2" "network s1 = ([], [], [])"
      "network s3 = network s2" "res_fold (add_sentry G) [0..gv_NumOfSentryNodes (ge_env G) - 1] s3 = Ret s4" "network s5 = network s4"
      "res_fold (connect_validator G) [0..gv_NumOfValidators (ge_env G) - 1] s5 = Ret s6" "network s = network s6"
    using GenerateConfigsD [OF assms] by metis
  have ups: "[0..gv_NumOfValidators (ge_env G) - 1] = map int [0..<?V]" "[0..gv_NumOfSentryNodes (ge_env G) - 1] = map int [0..<?S]"
    using upto_nat upto_neg by (metis linorder_not_le)+
  define vals where "vals = gs_nodes s2"
  have vals: "list_all2 (\<lambda>i nc. validator_node G (int i) = Ret nc) [0..<?V] vals"
      and s2: "network s2 = (vals, map nc_PeerID vals, map peer_of vals)"
    using validators_phase [OF p(2,3)] by (simp_all add: ups list_all2_map1 vals_def network_def)
  obtain sents where sents: "list_all2 (\<lambda>i nc. sentry_node G s3 (int i) = Ret nc) [0..<?S] sents"
      and s4: "network s4 = (vals @ sents, map nc_PeerID vals, map peer_of vals)"
    using sentries_phase [OF p(5)] p(4) s2 by (auto simp: ups list_all2_map1 network_def)
  have len: "length vals = ?V" using list_all2_lengthD [OF vals] by simp
  have s5: "gs_nodes s5 = vals @ sents" "gs_validatorIDs s5 = map nc_PeerID vals" "gs_peers s5 = map peer_of vals"
    using p(6) s4 by (simp_all add: network_def)
  have conn: "connected s5 nc (nc_PeerID nc) = linked vals nc" for nc
    by (simp add: connected_def linked_def s5 filterStringValue_filter flip: peer_of_def)
  have "gs_nodes s6 = map (\<lambda>i. connected s5 ((vals @ sents) ! i) (map nc_PeerID vals ! i)) [0..<?V] @ drop ?V (vals @ sents)"
    using connect_phase [of G ?V s5 s6] p(7) by (simp add: ups s5 len)
  also have "\<dots> = map (\<lambda>i. linked vals (vals ! i)) [0..<length vals] @ sents"
    using conn by (simp add: len [symmetric] nth_append)
  also have "\<dots> = map (linked vals) vals @ sents"
    using map_nth [of vals] by (metis (no_types, lifting) map_map comp_def map_eq_conv)
  finally have "gs_nodes s = map (linked vals) vals @ sents" using p(8) by (simp add: network_def)
  moreover have "gs_peers s3 = map peer_of vals" "gs_validatorIDs s3 = map nc_PeerID vals" using p(4) s2 by (simp_all add: network_def)
  ultimately show ?thesis using vals sents by blast
qed

subsection \<open>Addresses\<close>

lemma those_four_Some: "those_four os = Some x \<Longrightarrow> \<exists>a b c d. os = [Some a, Some b, Some c, Some d]"
  by (auto simp: those_four_def split: list.split_asm option.split_asm)

lemma length_ParseCIDR: "ParseCIDR s = Inr ip \<Longrightarrow> length ip = 4"
  by (auto simp: ParseCIDR_def Let_def split: list.split_asm option.split_asm)

lemma ipInSubnet_inj:
  assumes "ipInSubnet subnet (int i) = Ret a" "ipInSubnet subnet (int j) = Ret a" "i < k + 256" "j < k + 256" "k \<le> i" "k \<le> j"
  shows "i = j"
proof -
  obtain ip where ip: "ParseCIDR subnet = Inr ip" "ip[3 := ip ! 3 + word_of_int (int i + 1)] = ip[3 := ip ! 3 + word_of_int (int j + 1)]"
    using assms(1,2) by (auto simp: ipInSubnet_def)
  have "ip[3 := ip ! 3 + word_of_int (int i + 1)] ! 3 = ip[3 := ip ! 3 + word_of_int (int j + 1)] ! 3" by (simp only: ip(2))
  then have "(of_nat i :: byte) = of_nat j" using length_ParseCIDR [OF ip(1)] by simp
  then have "i mod 256 = j mod 256" by (simp add: word_of_nat_eq_iff take_bit_eq_mod)
  then obtain p q where "i + 256 * p = j + 256 * q" unfolding nat_mod_eq_iff by blast
  with assms(3-6) show ?thesis by presburger
qed

lemma validator_nodeD:
  "validator_node G i = Ret nc \<Longrightarrow> (\<not> gv_LocalNative (ge_env G) \<longrightarrow> ipInSubnet (gv_DockerSubnet (ge_env G)) (i + 1) = Ret (nc_IPAddr nc)) \<and>
    (nc_PortsExposed nc \<longleftrightarrow> gv_NumOfSentryNodes (ge_env G) = 0 \<and> i = 0) \<and>
    nc_PeerID nc = hex_encode (ed_address (ge_fresh G) (ed_pub (ge_fresh G) (gk_node (ge_fresh G) i)))"
  by (auto simp: validator_node_def Let_def NodeID_def)

lemma sentry_nodeD:
  "sentry_node G t i = Ret nc \<Longrightarrow> ipInSubnet (gv_DockerSubnet (ge_env G)) (gv_NumOfValidators (ge_env G) + i + 1) = Ret (nc_IPAddr nc) \<and>
    (nc_PortsExposed nc \<longleftrightarrow> i = 0) \<and> nc_PersistentPeers nc = str_join '','' (gs_peers t)"
  by (auto simp: sentry_node_def Let_def)

text \<open>A node's place in the network fixes its address.\<close>

lemma generated_address:
  assumes "GenerateConfigs G fs0 = Ret s" and "\<not> gv_LocalNative (ge_env G)" and "k < length (gs_nodes s)"
  shows "ipInSubnet (gv_DockerSubnet (ge_env G)) (int (k + 1)) = Ret (nc_IPAddr (gs_nodes s ! k))"
proof -
  let ?V = "nat (gv_NumOfValidators (ge_env G))"
  obtain vals sents t where n: "gs_nodes s = map (linked vals) vals @ sents"
      "list_all2 (\<lambda>i nc. validator_node G (int i) = Ret nc) [0..<?V] vals"
      "list_all2 (\<lambda>i nc. sentry_node G t (int i) = Ret nc) [0..<nat (gv_NumOfSentryNodes (ge_env G))] sents"
    using generated_nodes [OF assms(1)] by blast
  have V: "length vals = ?V" "0 < gv_NumOfValidators (ge_env G)"
    using list_all2_lengthD [OF n(2)] GenerateConfigsD [OF assms(1)] by auto
  show ?thesis
  proof (cases "k < length vals")
    case True
    then have "validator_node G (int k) = Ret (vals ! k)" using list_all2_nthD2 [OF n(2) True] by (simp add: V)
    from validator_nodeD [OF this] assms(2) True show ?thesis by (simp add: n(1) nth_append linked_def add.commute)
  next
    case False
    then have j: "k - length vals < length sents" using assms(3) n(1) by simp
    then have "sentry_node G t (int (k - length vals)) = Ret (sents ! (k - length vals))"
      using list_all2_nthD2 [OF n(3) j] list_all2_lengthD [OF n(3)] by simp
    from sentry_nodeD [OF this] False V show ?thesis by (simp add: n(1) nth_append add.commute)
  qed
qed

lemma generated_exposed:
  assumes "GenerateConfigs G fs0 = Ret s" and "k < length (gs_nodes s)"
  shows "nc_PortsExposed (gs_nodes s ! k) \<longleftrightarrow> k = (if 0 < gv_NumOfSentryNodes (ge_env G) then nat (gv_NumOfValidators (ge_env G)) else 0) \<and>
    0 \<le> gv_NumOfSentryNodes (ge_env G)"
proof -
  let ?V = "nat (gv_NumOfValidators (ge_env G))"
  obtain vals sents t where n: "gs_nodes s = map (linked vals) vals @ sents"
      "list_all2 (\<lambda>i nc. validator_node G (int i) = Ret nc) [0..<?V] vals"
      "list_all2 (\<lambda>i nc. sentry_node G t (int i) = Ret nc) [0..<nat (gv_NumOfSentryNodes (ge_env G))] sents"
    using generated_nodes [OF assms(1)] by blast
  have V: "length vals = ?V" "0 < ?V" "length sents = nat (gv_NumOfSentryNodes (ge_env G))"
    using list_all2_lengthD [OF n(2)] list_all2_lengthD [OF n(3)] GenerateConfigsD [OF assms(1)] by auto
  show ?thesis
  proof (cases "k < length vals")
    case True
    then have "validator_node G (int k) = Ret (vals ! k)" using list_all2_nthD2 [OF n(2) True] by (simp add: V)
    from validator_nodeD [OF this] True V show ?thesis by (auto simp: n(1) nth_append linked_def)
  next
    case False
    then have j: "k - length vals < length sents" using assms(2) n(1) by simp
    then have "sentry_node G t (int (k - length vals)) = Ret (sents ! (k - length vals))"
      using list_all2_nthD2 [OF n(3) j] V(3) by simp
    from sentry_nodeD [OF this] False V j show ?thesis by (auto simp: n(1) nth_append)
  qed
qed

subsection \<open>A generated network\<close>

lemma hex_digit_no_at: "d < 16 \<Longrightarrow> hex_digit d \<noteq> CHR ''@''"
  by (auto simp: hex_digit_def dest: arg_cong [of _ _ "of_char :: char \<Rightarrow> nat"])

lemma hex_encode_no_at: "CHR ''@'' \<notin> set (hex_encode bs)"
proof (induction bs)
  case (Cons b bs)
  have "unat b < 2 ^ 8" by (rule order_less_le_trans [OF unsigned_less]) simp
  then have "unat b div 16 < 16" by (simp add: less_mult_imp_div_less)
  with Cons show ?case using hex_digit_no_at [of "unat b div 16"] hex_digit_no_at [of "unat b mod 16"]
    by (auto simp: hex_encode_def hex_byte_def)
qed (simp add: hex_encode_def)

lemma hex_encode_inj: "hex_encode a = hex_encode b \<longleftrightarrow> a = b"
  by (metis hex_roundtrip sum.inject(2))

lemma peer_of_PeerID:
  assumes "CHR ''@'' \<notin> set (nc_PeerID a)" "CHR ''@'' \<notin> set (nc_PeerID b)" "peer_of a = peer_of b"
  shows "nc_PeerID a = nc_PeerID b"
proof -
  have "takeWhile (\<lambda>c. c \<noteq> CHR ''@'') (peer_of x) = nc_PeerID x" if "CHR ''@'' \<notin> set (nc_PeerID x)" for x
    unfolding peer_of_def peer_address_def using that by (subst takeWhile_append2) auto
  with assms show ?thesis by metis
qed

lemma filter_others:
  assumes "distinct (map f xs)" and "k < length xs"
  shows "filter (\<lambda>p. p \<noteq> f (xs ! k)) (map f xs) = map f (take k xs @ drop (Suc k) xs)"
proof -
  have xs: "xs = take k xs @ xs ! k # drop (Suc k) xs" using assms(2) by (rule id_take_nth_drop)
  have "f (xs ! k) \<notin> set (map f (take k xs))" "f (xs ! k) \<notin> set (map f (drop (Suc k) xs))"
    using assms(1) by (subst (asm) xs, simp)+
  then have "filter (\<lambda>p. p \<noteq> f (xs ! k)) (map f (take k xs)) = map f (take k xs)"
      "filter (\<lambda>p. p \<noteq> f (xs ! k)) (map f (drop (Suc k) xs)) = map f (drop (Suc k) xs)"
    by (auto intro!: filter_True)
  then show ?thesis by (subst (2) xs) (simp del: filter_map)
qed

text \<open>C16: A generated network is well formed: it has the requested validators followed by the sentry nodes; as
  long as they are at most 256 no two nodes share an address; exactly one node exposes its ports, the first
  sentry node, or the first validator when there is none; every validator's persistent peers are precisely
  the other validators, and every sentry node's are all of them.\<close>

theorem generated_network:
  fixes G :: "('m, 'b, 't, 'w) gen_env"
  defines "V \<equiv> nat (gv_NumOfValidators (ge_env G))" and "S \<equiv> nat (gv_NumOfSentryNodes (ge_env G))" and "K \<equiv> ge_fresh G"
  assumes "GenerateConfigs G fs0 = Ret s" and "\<not> gv_LocalNative (ge_env G)" and "0 \<le> gv_NumOfSentryNodes (ge_env G)"
    and "V + S \<le> 256" and "distinct (map (\<lambda>i. ed_address K (ed_pub K (gk_node K (int i)))) [0..<V])"
  shows "length (gs_nodes s) = V + S \<and> distinct (map nc_IPAddr (gs_nodes s)) \<and>
    (\<forall>k < V + S. nc_PortsExposed (gs_nodes s ! k) \<longleftrightarrow> k = (if S = 0 then 0 else V)) \<and>
    (\<forall>k < V. nc_PersistentPeers (gs_nodes s ! k) =
       str_join '','' (map peer_of (take k (gs_nodes s) @ drop (Suc k) (take V (gs_nodes s))))) \<and>
    (\<forall>k < S. nc_PersistentPeers (gs_nodes s ! (V + k)) = str_join '','' (map peer_of (take V (gs_nodes s))))"
proof -
  obtain vals sents t where n: "gs_nodes s = map (linked vals) vals @ sents"
      "list_all2 (\<lambda>i nc. validator_node G (int i) = Ret nc) [0..<V] vals"
      "list_all2 (\<lambda>i nc. sentry_node G t (int i) = Ret nc) [0..<S] sents" "gs_peers t = map peer_of vals"
    using generated_nodes [OF assms(4)] unfolding V_def S_def by blast
  have len: "length vals = V" "length sents = S" using list_all2_lengthD [OF n(2)] list_all2_lengthD [OF n(3)] by simp_all
  have nodes: "length (gs_nodes s) = V + S" by (simp add: n(1) len)
  have ips: "distinct (map nc_IPAddr (gs_nodes s))"
    unfolding distinct_conv_nth
  proof (intro allI impI)
    fix i j assume "i < length (map nc_IPAddr (gs_nodes s))" "j < length (map nc_IPAddr (gs_nodes s))" "i \<noteq> j"
    then show "map nc_IPAddr (gs_nodes s) ! i \<noteq> map nc_IPAddr (gs_nodes s) ! j"
      using generated_address [OF assms(4,5), of i] generated_address [OF assms(4,5), of j] nodes assms(7)
        ipInSubnet_inj [of "gv_DockerSubnet (ge_env G)" "i + 1" _ "j + 1" 1] by auto
  qed
  have ids: "nc_PeerID (vals ! i) = hex_encode (ed_address K (ed_pub K (gk_node K (int i))))" if "i < V" for i
    using list_all2_nthD2 [OF n(2), of i] that len validator_nodeD unfolding K_def by fastforce
  have "distinct (map peer_of vals)"
    unfolding distinct_conv_nth
  proof (intro allI impI)
    fix i j assume ij: "i < length (map peer_of vals)" "j < length (map peer_of vals)" "i \<noteq> j"
    then have "nc_PeerID (vals ! i) \<noteq> nc_PeerID (vals ! j)"
      using assms(8) len ids unfolding distinct_conv_nth by (auto simp: hex_encode_inj)
    then show "map peer_of vals ! i \<noteq> map peer_of vals ! j"
      using peer_of_PeerID [of "vals ! i" "vals ! j"] ij ids len hex_encode_no_at by auto
  qed
  then have peers: "nc_PersistentPeers (gs_nodes s ! k) =
      str_join '','' (map peer_of (take k (gs_nodes s) @ drop (Suc k) (take V (gs_nodes s))))" if "k < V" for k
    using filter_others [of peer_of vals k] that len
    by (simp add: n(1) nth_append linked_def take_map drop_map comp_def del: filter_map map_map) (simp add: linked_def [symmetric] comp_def)
  have "nc_PersistentPeers (gs_nodes s ! (V + k)) = str_join '','' (map peer_of (take V (gs_nodes s)))" if "k < S" for k
    using list_all2_nthD2 [OF n(3), of k] that len sentry_nodeD [of G t "int k" "sents ! k"] by (simp add: n(1,4) nth_append comp_def)
  with nodes ips peers generated_exposed [OF assms(4)] assms(6) show ?thesis
    by (auto simp: S_def V_def)
qed

subsection \<open>Generation succeeds\<close>

lemma res_fold_total:
  assumes "P s" and "\<And>x s. x \<in> set xs \<Longrightarrow> P s \<Longrightarrow> \<exists>s'. f x s = Ret s' \<and> P s'"
  shows "\<exists>s'. res_fold f xs s = Ret s' \<and> P s'"
  using assms
proof (induction xs arbitrary: s)
  case (Cons x xs)
  then obtain s1 where "f x s = Ret s1" "P s1" by (metis list.set_intros(1))
  with Cons.IH [of s1] Cons.prems(2) show ?case by simp
qed simp

text \<open>
  An environment in which nothing outside the program fails: every path can be written, the coins and
  the template are accepted, the validators' transactions are built and signed.
\<close>

definition healthy :: "('m, 'b, 't, 'w) gen_env \<Rightarrow> bool" where
  "healthy G \<longleftrightarrow> (let gl = ge_gen G in ge_io G = (\<lambda>_. None) \<and>
     (\<forall>tpl c. \<exists>g. genesis_from_template gl tpl c = Inr g) \<and> (\<forall>s. \<exists>cs. ParseCoinsNormalized gl s = Inr cs) \<and>
     (\<forall>s. \<exists>c. ParseCoinNormalized (ge_sdk G) s = Inr c) \<and> (\<forall>k. \<exists>v. FromCmtPubKeyInterface gl k = Inr v) \<and>
     (\<forall>a. \<exists>v. ValidatorAddress_BytesToString gl a = Inr v) \<and>
     (\<forall>v k c d r m. \<exists>msg. NewMsgCreateValidator gl v k c d r m = Inr msg) \<and>
     (\<forall>k msg. \<exists>tx. buildAndSignTx (ge_client G) k 0 0 [] 200000 [] [msg] = Ret (Inr tx)) \<and>
     (\<forall>t. \<exists>bs. TxJSONEncoder gl t = Inr bs))"

lemma healthy_files:
  assumes "healthy G"
  shows "\<exists>fs'. WriteFile (ge_io G) p c fs = Ret fs'" "\<exists>fs'. MkdirAll (ge_io G) p fs = Ret fs'" "\<exists>fs'. RemoveAll (ge_io G) p fs = Ret fs'"
    "\<exists>fs'. NodeConfig_Save (ge_io G) def nc p fs = Ret fs'" "\<exists>fs'. AppConfig_Save (ge_io G) ac p fs = Ret fs'"
    "\<exists>fs'. GenerateDockerCompose (ge_io G) cid im sub nodes p dbg fs = Ret fs'"
  using assms by (simp_all add: healthy_def Let_def WriteFile_def MkdirAll_def RemoveAll_def NodeConfig_Save_def AppConfig_Save_def
    GenerateDockerCompose_def split: option.split)

lemma healthy_genesis:
  assumes "healthy G" and "\<not> gn_finalized g"
  shows "\<exists>g'. AddAccount (ge_gen G) kl a b g = Ret g' \<and> \<not> gn_finalized g'"
    "\<exists>g'. AddValidator (ge_sdk G) (ge_gen G) kl (ge_client G) pub key bal g = Ret g' \<and> \<not> gn_finalized g'"
proof -
  obtain cs where "ParseCoinsNormalized (ge_gen G) b = Inr cs" using assms(1) by (metis healthy_def)
  with assms(2) show "\<exists>g'. AddAccount (ge_gen G) kl a b g = Ret g' \<and> \<not> gn_finalized g'"
    by (simp add: AddAccount_def verifyNotFinalized_def)
  show "\<exists>g'. AddValidator (ge_sdk G) (ge_gen G) kl (ge_client G) pub key bal g = Ret g' \<and> \<not> gn_finalized g'"
  proof -
    obtain c where c: "ParseCoinNormalized (ge_sdk G) bal = Inr c" using assms(1) by (metis healthy_def)
    obtain v where v: "FromCmtPubKeyInterface (ge_gen G) pub = Inr v" using assms(1) by (metis healthy_def)
    obtain st where st: "ValidatorAddress_BytesToString (ge_gen G) (priv_Address kl key) = Inr st" using assms(1) by (metis healthy_def)
    obtain msg where msg: "NewMsgCreateValidator (ge_gen G) st v c (AccAddress kl key) (10 ^ 17, 2 * 10 ^ 17, 10 ^ 16) 1 = Inr msg"
      using assms(1) unfolding healthy_def Let_def by blast
    obtain tx where tx: "buildAndSignTx (ge_client G) key 0 0 [] 200000 [] [msg] = Ret (Inr tx)" using assms(1) by (metis healthy_def)
    obtain bs where "TxJSONEncoder (ge_gen G) tx = Inr bs" using assms(1) by (metis healthy_def)
    with assms(2) show ?thesis
      unfolding AddValidator_def verifyNotFinalized_def c v st msg tx orPanic_simps res_bind.simps by simp
  qed
qed

lemma healthy_add_validator:
  assumes "healthy G" and "ParseCIDR (gv_DockerSubnet (ge_env G)) = Inr ip" and "\<not> gn_finalized (gs_genesis s)"
  shows "\<exists>s'. add_validator G i s = Ret s' \<and> \<not> gn_finalized (gs_genesis s')"
proof -
  have "\<exists>nc. validator_node G i = Ret nc" using assms(2) by (simp add: validator_node_def ipInSubnet_def Let_def)
  then obtain nc where nc: "validator_node G i = Ret nc" ..
  obtain fs1 where fs1: "NodeConfig_Save (ge_io G) (ge_bft G) nc (rootOutDir (ge_env G) @ ''/validators/'' @ itoa i) (gs_fs s) = Ret fs1"
    using healthy_files(4) [OF assms(1)] by blast
  obtain fs2 where fs2: "AppConfig_Save (ge_io G) (app_config (ge_env G) (nc_Ports nc) (nc_PortsExposed nc))
      (rootOutDir (ge_env G) @ ''/validators/'' @ itoa i) fs1 = Ret fs2"
    using healthy_files(5) [OF assms(1)] by blast
  obtain g1 where g1: "AddAccount (ge_gen G) (ge_keys G) (priv_Address (ge_keys G) (gk_staker (ge_fresh G) i)) initialBalanceStaker
      (gs_genesis s) = Ret g1" "\<not> gn_finalized g1"
    using healthy_genesis(1) [OF assms(1,3)] by blast
  obtain g2 where g2: "AddValidator (ge_sdk G) (ge_gen G) (ge_keys G) (ge_client G) (ed_pub (ge_fresh G) (gk_validator (ge_fresh G) i))
      (gk_staker (ge_fresh G) i) initialBalanceBonded g1 = Ret g2" "\<not> gn_finalized g2"
    using healthy_genesis(2) [OF assms(1) g1(2)] by blast
  show ?thesis using g2(2) unfolding add_validator_def Let_def nc fs1 res_bind.simps fs2 g1(1) g2(1) by simp
qed

lemma healthy_add_instance:
  assumes "healthy G" and "0 \<le> gv_NumOfAccountsPerInstance (ge_env G)" and "\<not> gn_finalized (gs_genesis s)"
  shows "\<exists>s'. add_instance G i s = Ret s' \<and> \<not> gn_finalized (gs_genesis s')"
proof -
  obtain g where g: "res_fold (add_account G i) [0..gv_NumOfAccountsPerInstance (ge_env G) - 1] (gs_genesis s) = Ret g" "\<not> gn_finalized g"
    using res_fold_total [of "\<lambda>g. \<not> gn_finalized g" "gs_genesis s" _ "add_account G i"] healthy_genesis(1) [OF assms(1)] assms(3)
    by (metis add_account_def)
  obtain fs1 where fs1: "MkdirAll (ge_io G) (rootOutDir (ge_env G) @ ''/instances/'' @ itoa i) (gs_fs s) = Ret fs1"
    using healthy_files(2) [OF assms(1)] by blast
  obtain fs2 where "WriteFile (ge_io G) ((rootOutDir (ge_env G) @ ''/instances/'' @ itoa i) @ ''/accounts.json'')
      (AccountsFile (map (gk_account (ge_fresh G) i) [0..gv_NumOfAccountsPerInstance (ge_env G) - 1])) fs1 = Ret fs2"
    using healthy_files(1) [OF assms(1)] by blast
  with assms(2) g fs1 show ?thesis unfolding add_instance_def Let_def g(1) res_bind.simps fs1 by simp
qed

lemma healthy_save_genesis: "healthy G \<Longrightarrow> \<exists>s'. save_genesis G d s = Ret s' \<and> network s' = network s"
proof -
  assume h: "healthy G"
  obtain fs1 where fs1: "MkdirAll (ge_io G) (d @ ''/config'') (gs_fs s) = Ret fs1" using healthy_files(2) [OF h] by blast
  obtain fs2 where "WriteFile (ge_io G) (d @ ''/config/genesis.json'') (GenesisFile (Genesis_doc (ge_gen G) (gs_genesis s))) fs1 = Ret fs2"
    using healthy_files(1) [OF h] by blast
  with fs1 show ?thesis unfolding save_genesis_def Genesis_Save_def Let_def fs1 res_bind.simps by (simp add: network_def)
qed

lemma healthy_add_sentry:
  assumes "healthy G" and "ParseCIDR (gv_DockerSubnet (ge_env G)) = Inr ip" and "0 \<le> gv_NumOfValidators (ge_env G)"
  shows "\<exists>s'. add_sentry G i s = Ret s'"
proof -
  have "\<exists>nc. sentry_node G s i = Ret nc"
    using assms(2,3) by (simp add: sentry_node_def ipInSubnet_def makeIntRange_def Let_def)
  then obtain nc where nc: "sentry_node G s i = Ret nc" ..
  obtain fs1 where fs1: "NodeConfig_Save (ge_io G) (ge_bft G) nc (rootOutDir (ge_env G) @ ''/sentry-nodes/'' @ itoa i) (gs_fs s) = Ret fs1"
    using healthy_files(4) [OF assms(1)] by blast
  obtain fs2 where fs2: "AppConfig_Save (ge_io G) (app_config (ge_env G) DefaultPorts (i = 0))
      (rootOutDir (ge_env G) @ ''/sentry-nodes/'' @ itoa i) fs1 = Ret fs2"
    using healthy_files(5) [OF assms(1)] by blast
  obtain s1 where s1: "save_genesis G (rootOutDir (ge_env G) @ ''/sentry-nodes/'' @ itoa i) (s\<lparr>gs_fs := fs2\<rparr>) = Ret s1"
    using healthy_save_genesis [OF assms(1)] by blast
  show ?thesis unfolding add_sentry_def Let_def nc fs1 res_bind.simps fs2 s1 by simp
qed

definition enough :: "nat \<Rightarrow> gen_state \<Rightarrow> bool" where
  "enough n s \<longleftrightarrow> n \<le> length (gs_nodes s) \<and> n \<le> length (gs_validatorIDs s)"

lemma enough_network: "network s' = network s \<Longrightarrow> enough n s' \<longleftrightarrow> enough n s"
  by (simp add: enough_def network_def)

lemma healthy_save_enough: "healthy G \<Longrightarrow> enough n s \<Longrightarrow> \<exists>s'. save_genesis G d s = Ret s' \<and> enough n s'"
  using healthy_save_genesis [of G d s] enough_network by blast

lemma healthy_connect:
  assumes "healthy G" and "enough n s" and "0 \<le> i" and "i < int n"
  shows "\<exists>s'. connect_validator G i s = Ret s' \<and> enough n s'"
proof -
  have "go_index (gs_nodes s) i = Some (gs_nodes s ! nat i)" "go_index (gs_validatorIDs s) i = Some (gs_validatorIDs s ! nat i)"
    using assms(2-4) by (auto simp: go_index_def enough_def)
  moreover obtain fs1 where "NodeConfig_Save (ge_io G) (ge_bft G) (connected s (gs_nodes s ! nat i) (gs_validatorIDs s ! nat i))
      (rootOutDir (ge_env G) @ ''/'' @ nc_Home (connected s (gs_nodes s ! nat i) (gs_validatorIDs s ! nat i))) (gs_fs s) = Ret fs1"
    using healthy_files(4) [OF assms(1)] by blast
  ultimately show ?thesis
    using assms(2) unfolding connect_validator_def connected_def Let_def by (simp add: enough_def)
qed

lemma healthy_NewGenesis:
  assumes "healthy G"
  shows "\<exists>g. NewGenesis (ge_gen G) now (Some c) = Ret g \<and> \<not> gn_finalized g"
proof -
  have "\<exists>f. \<forall>tpl c. genesis_from_template (ge_gen G) tpl c = Inr (f tpl c)" using assms unfolding healthy_def Let_def by metis
  then show ?thesis by (auto simp: NewGenesis_def Let_def)
qed

lemma healthy_sentry_enough:
  assumes "healthy G" and "ParseCIDR (gv_DockerSubnet (ge_env G)) = Inr ip" and "0 \<le> gv_NumOfValidators (ge_env G)" and "enough n s"
  shows "\<exists>s'. add_sentry G i s = Ret s' \<and> enough n s'"
proof -
  obtain s' where s': "add_sentry G i s = Ret s'" using healthy_add_sentry [OF assms(1-3)] by blast
  from add_sentry_network [OF s'] assms(4) have "enough n s'" by (auto simp: enough_def network_def)
  with s' show ?thesis by blast
qed

lemma healthy_generates:
  assumes "healthy G" and "0 < gv_NumOfInstances (ge_env G)" and "0 < gv_NumOfValidators (ge_env G)"
    and "0 \<le> gv_NumOfSentryNodes (ge_env G)" and "0 \<le> gv_NumOfAccountsPerInstance (ge_env G)"
    and "ParseCIDR (gv_DockerSubnet (ge_env G)) = Inr ip"
  shows "\<exists>s. GenerateConfigs G fs0 = Ret s"
proof -
  let ?env = "ge_env G" and ?root = "rootOutDir (ge_env G)" and ?n = "nat (gv_NumOfValidators (ge_env G))"
  let ?vs = "[0..gv_NumOfValidators ?env - 1]" and ?open = "\<lambda>s. \<not> gn_finalized (gs_genesis s)"
  let ?cfg = "\<lparr> gc_AppVersion = [], gc_GenesisTime = [], gc_ChainID = gv_ChainID ?env,
        gc_EthChainID = gv_EthChainID ?env, gc_BondDenom = [], gc_EvmEnabled = gv_EvmEnabled ?env, gc_ProdLike = gv_ProdLike ?env \<rparr>"
  obtain fs1 where fs1: "RemoveAll (ge_io G) ?root fs0 = Ret fs1" using healthy_files(3) [OF assms(1)] by blast
  obtain g where g: "NewGenesis (ge_gen G) (ge_now G) (Some ?cfg) = Ret g" "\<not> gn_finalized g"
    using healthy_NewGenesis [OF assms(1)] by blast
  define s0 where "s0 = \<lparr> gs_fs = fs1, gs_genesis = g, gs_peers = [], gs_validatorIDs = [], gs_nodes = [], gs_sentryIDs = [] \<rparr>"
  obtain s1 where s1: "res_fold (add_validator G) ?vs s0 = Ret s1" "?open s1"
    using res_fold_total [of ?open s0 ?vs "add_validator G"] healthy_add_validator [OF assms(1,6)] g(2) by (auto simp: s0_def)
  have "enough ?n s1"
    using validators_phase [OF s1(1)] assms(3) by (auto simp: s0_def network_def enough_def dest: list_all2_lengthD)
  obtain fs2 where fs2: "WriteFile (ge_io G) (?root @ ''/validators/ids.json'') (IdsFile (gs_validatorIDs s1)) (gs_fs s1) = Ret fs2"
    using healthy_files(1) [OF assms(1)] by blast
  obtain s2 where s2: "res_fold (add_instance G) [0..gv_NumOfInstances ?env - 1] (s1\<lparr>gs_fs := fs2\<rparr>) = Ret s2"
    using res_fold_total [of ?open "s1\<lparr>gs_fs := fs2\<rparr>" "[0..gv_NumOfInstances ?env - 1]" "add_instance G"]
      healthy_add_instance [OF assms(1,5)] s1(2) by auto
  have "network s2 = network s1"
    using res_fold_keeps [where v = network, OF s2] add_instance_network [of G] by (simp add: network_def)
  from enough_network [OF this] \<open>enough ?n s1\<close> have "enough ?n s2" by blast
  then obtain s3 where s3: "res_fold (\<lambda>i. save_genesis G (?root @ ''/validators/'' @ itoa i)) ?vs s2 = Ret s3" "enough ?n s3"
    using res_fold_total [of "enough ?n" s2 ?vs "\<lambda>i. save_genesis G (?root @ ''/validators/'' @ itoa i)"]
      healthy_save_enough [OF assms(1)] by blast
  obtain s5 where s5: "res_fold (add_sentry G) [0..gv_NumOfSentryNodes ?env - 1] s3 = Ret s5" "enough ?n s5"
    using res_fold_total [of "enough ?n" s3 "[0..gv_NumOfSentryNodes ?env - 1]" "add_sentry G"] s3(2)
      healthy_sentry_enough [OF assms(1,6)] assms(3) by auto
  obtain fs3 where fs3: "WriteFile (ge_io G) (?root @ ''/sentry-nodes/ids.json'') (IdsFile (gs_sentryIDs s5)) (gs_fs s5) = Ret fs3"
    using healthy_files(1) [OF assms(1)] by blast
  let ?s6 = "if gv_NumOfSentryNodes ?env > 0 then s5\<lparr>gs_fs := fs3\<rparr> else s3"
  have "enough ?n ?s6" using s5(2) s3(2) by (simp add: enough_def)
  then obtain s7 where s7: "res_fold (connect_validator G) ?vs ?s6 = Ret s7"
    using res_fold_total [of "enough ?n" ?s6 ?vs "connect_validator G"] healthy_connect [OF assms(1)] by auto
  have sentries: "(if gv_NumOfSentryNodes ?env > 0
        then res_bind (res_fold (add_sentry G) [0..gv_NumOfSentryNodes ?env - 1] s3) (\<lambda>s4.
          res_bind (WriteFile (ge_io G) (?root @ ''/sentry-nodes/ids.json'') (IdsFile (gs_sentryIDs s4)) (gs_fs s4)) (\<lambda>fs3.
          Ret (s4\<lparr>gs_fs := fs3\<rparr>)))
        else Ret s3) = Ret ?s6"
    using s5(1) fs3 by simp
  obtain fs4 where fs4: "GenerateDockerCompose (ge_io G) (gv_ChainID ?env) (gv_DockerImage ?env) (gv_DockerSubnet ?env) (gs_nodes s7) ?root
      (gv_Debug ?env) (gs_fs s7) = Ret fs4"
    using healthy_files(6) [OF assms(1)] by blast
  have guards: "\<not> gv_NumOfInstances ?env \<le> 0" "\<not> gv_NumOfValidators ?env \<le> 0" "\<not> gv_NumOfValidators ?env + gv_NumOfSentryNodes ?env < 0"
    using assms(2-4) by auto
  show ?thesis
    unfolding GenerateConfigs_def Let_def if_not_P [OF guards(1)] if_not_P [OF guards(2)] if_not_P [OF guards(3)] fs1 g(1) res_bind.simps
      s1(1) [unfolded s0_def] fs2 s2 s3(1) sentries s7 fs4 by simp
qed


subsection \<open>Local networks\<close>

definition ports_list :: "Ports \<Rightarrow> int list" where
  "ports_list p = [RPC p, P2P p, API p, GRPC p, GRPCWeb p, PProf p, Prometheus p, EVMRPC p, EVMWSPort p, ProxyApp p]"

lemma ports_shifted:
  "0 \<le> i \<Longrightarrow> i < 206 \<Longrightarrow> ports_list (shiftPorts DefaultPorts i) = map (\<lambda>p. p + 100 * i) (ports_list DefaultPorts)"
  by (simp add: ports_list_def shiftPorts_def DefaultPorts_def Let_def int_range_def)

lemma ports_apart:
  assumes "p \<in> set (ports_list DefaultPorts)" "q \<in> set (ports_list DefaultPorts)" "p + 100 * i = q + 100 * j"
    "0 \<le> i" "i < 206" "0 \<le> j" "j < 206"
  shows "i = j"
proof -
  have "(p - q) mod 100 = 0" using assms(3) by presburger
  then have "p - q = 20600 \<or> q - p = 20600 \<or> p = q" using assms(1,2) by (auto simp: ports_list_def DefaultPorts_def)
  then show ?thesis using assms(3-7) by auto
qed

lemma distinct_shifted:
  assumes "n \<le> 206"
  shows "distinct (concat (map (\<lambda>i. ports_list (shiftPorts DefaultPorts (int i))) [0..<n]))"
  using assms
proof (induction n)
  case (Suc n)
  have shifted: "i \<le> n \<Longrightarrow> ports_list (shiftPorts DefaultPorts (int i)) = map (\<lambda>p. p + 100 * int i) (ports_list DefaultPorts)" for i
    using Suc.prems by (intro ports_shifted) auto
  have "distinct (ports_list (shiftPorts DefaultPorts (int n)))"
    unfolding shifted [OF order.refl] by (simp add: ports_list_def DefaultPorts_def)
  moreover have "set (concat (map (\<lambda>i. ports_list (shiftPorts DefaultPorts (int i))) [0..<n])) \<inter>
      set (ports_list (shiftPorts DefaultPorts (int n))) = {}"
  proof (safe, goal_cases)
    case (1 x)
    then obtain i where i: "i < n" "x \<in> set (ports_list (shiftPorts DefaultPorts (int i)))" by auto
    then show ?case using 1(2) ports_apart [of _ _ "int i" "int n"] Suc.prems unfolding shifted [OF less_imp_le [OF i(1)]] shifted [OF order.refl]
      by auto
  qed
  ultimately show ?case using Suc by (simp add: distinct_append)
qed simp

lemma native_ports_distinct:
  assumes "GenerateConfigs G fs0 = Ret s" and "gv_LocalNative (ge_env G)" and "gv_NumOfSentryNodes (ge_env G) \<le> 0"
    and "gv_NumOfValidators (ge_env G) \<le> 206"
  shows "distinct (concat (map (\<lambda>nc. ports_list (nc_Ports nc)) (gs_nodes s)))"
proof -
  let ?V = "nat (gv_NumOfValidators (ge_env G))"
  obtain vals where n: "gs_nodes s = map (linked vals) vals" "list_all2 (\<lambda>i nc. validator_node G (int i) = Ret nc) [0..<?V] vals"
    using generated_nodes [OF assms(1)] assms(3) by auto
  have "nc_Ports nc = shiftPorts DefaultPorts i" if "validator_node G i = Ret nc" for i nc
    using that assms(2) by (auto simp: validator_node_def Let_def)
  with n(2) have "map nc_Ports vals = map (\<lambda>i. shiftPorts DefaultPorts (int i)) [0..<?V]"
    by (auto simp: list_all2_conv_all_nth intro!: nth_equalityI)
  then have ports: "map ports_list (map nc_Ports vals) = map (\<lambda>i. ports_list (shiftPorts DefaultPorts (int i))) [0..<?V]"
    by (simp only: map_map comp_def)
  have "map (\<lambda>nc. ports_list (nc_Ports nc)) (gs_nodes s) = map ports_list (map nc_Ports vals)"
    by (simp add: n(1) linked_def)
  then show ?thesis using distinct_shifted [of ?V] assms(4) unfolding ports by simp
qed

text \<open>In a local network, where all nodes share one machine, no two validators listen on the same port and no
  validator uses a port twice, for up to 206 validators (from there on the profiler of one meets the
  Prometheus port of another).\<close>

theorem local_ports_distinct:
  assumes "GenerateConfigs G fs0 = Ret s" and "gv_LocalNative (ge_env G)" and "gv_NumOfSentryNodes (ge_env G) \<le> 0"
    and "gv_NumOfValidators (ge_env G) \<le> 206"
  shows "distinct (concat (map (\<lambda>nc. ports_list (nc_Ports nc)) (gs_nodes s)))"
  using assms by (rule native_ports_distinct)

subsection \<open>A worked instance\<close>

definition example_gen :: "bool \<Rightarrow> int \<Rightarrow> (bytes, bytes \<times> SignatureV2 option, bytes \<times> SignatureV2 option, uint64 \<times> nat) gen_env" where
  "example_gen native sentries = \<lparr>
     ge_env = \<lparr> gv_ChainID = ''stressinj-1337'', gv_EthChainID = 1337, gv_EvmEnabled = True, gv_NumOfValidators = 2,
       gv_NumOfSentryNodes = sentries, gv_NumOfInstances = 1, gv_NumOfAccountsPerInstance = 3, gv_DockerImage = ''core'',
       gv_DockerSubnet = ''10.0.0.0/16'', gv_OutDirectory = ''.'', gv_ProdLike = False, gv_Debug = False, gv_LocalNative = native \<rparr>,
     ge_io = (\<lambda>_. None), ge_sdk = coin_sdk, ge_gen = example_genesis, ge_keys = example_keys, ge_client = example_client,
     ge_fresh = \<lparr> gk_node = (\<lambda>i. [word_of_int i]), gk_validator = (\<lambda>i. [1, word_of_int i]), gk_staker = (\<lambda>i. [2, word_of_int i]),
       gk_account = (\<lambda>i j. [3, word_of_int i, word_of_int j]), gk_sentry = (\<lambda>i. [4, word_of_int i]), ed_pub = id, ed_address = id \<rparr>,
     ge_bft = \<lparr> P2P_AddrBookStrict = True, P2P_AllowDuplicateIP = False, P2P_MaxNumOutboundPeers = 10, P2P_MaxNumInboundPeers = 40,
       P2P_PersistentPeers = [], P2P_PrivatePeerIDs = [], P2P_ListenAddress = [], RPC_MaxSubscriptionClients = 100,
       RPC_MaxOpenConnections = 900, RPC_MaxSubscriptionsPerClient = 5, RPC_ListenAddress = [], Mempool_Size = 5000,
       Mempool_MaxTxsBytes = 1073741824, Instrumentation_Prometheus = False, Instrumentation_ListenAddr = [], bft_Moniker = [],
       TxIndex_Indexer = TxIndexerKV, Storage_DiscardABCIResponses = False \<rparr>,
     ge_now = ''2025-01-01T00:00:00Z'' \<rparr>"

lemma example_gen_healthy: "healthy (example_gen native sentries)"
  by (simp add: healthy_def example_gen_def example_genesis_def coin_sdk_def buildAndSignTx_def signTx_def example_client_def
    example_txcfg_def example_keys_def split: prod.split)

lemma example_subnet: "ParseCIDR ''10.0.0.0/16'' = Inr [10, 0, 0, 0]"
  by (simp add: ParseCIDR_def parse_decimal_def those_four_def digits_val_def digit_val_def is_digit_def Let_def)

lemma example_gen_generates: "0 \<le> sentries \<Longrightarrow> \<exists>s. GenerateConfigs (example_gen native sentries) Map.empty = Ret s"
  by (rule healthy_generates [OF example_gen_healthy]) (simp_all add: example_gen_def example_subnet)


theorem generated_network_witness:
  "\<exists>s. GenerateConfigs (example_gen False 1) Map.empty = Ret s \<and> length (gs_nodes s) = 3 \<and> distinct (map nc_IPAddr (gs_nodes s)) \<and>
    nc_PortsExposed (gs_nodes s ! 2) \<and> nc_PersistentPeers (gs_nodes s ! 0) = peer_of (gs_nodes s ! 1)"
proof -
  obtain s where s: "GenerateConfigs (example_gen False 1) Map.empty = Ret s" using example_gen_generates by fastforce
  have g: "length (gs_nodes s) = 3 \<and> distinct (map nc_IPAddr (gs_nodes s)) \<and>
      (\<forall>k < 3. nc_PortsExposed (gs_nodes s ! k) \<longleftrightarrow> k = 2) \<and>
      (\<forall>k < 2. nc_PersistentPeers (gs_nodes s ! k) =
        str_join '','' (map peer_of (take k (gs_nodes s) @ drop (Suc k) (take 2 (gs_nodes s)))))"
    using generated_network [OF s] by (simp add: example_gen_def upt_rec)
  then obtain a b c where "gs_nodes s = [a, b, c]" by (auto simp: numeral_3_eq_3 length_Suc_conv)
  moreover have "nc_PortsExposed (gs_nodes s ! 2)" using g by auto
  moreover have "nc_PersistentPeers (gs_nodes s ! 0) = str_join '','' (map peer_of (drop (Suc 0) (take 2 (gs_nodes s))))" using g by simp
  ultimately show ?thesis using g s by auto
qed

theorem local_ports_distinct_witness:
  "\<exists>s. GenerateConfigs (example_gen True 0) Map.empty = Ret s \<and> gs_nodes s \<noteq> [] \<and>
    distinct (concat (map (\<lambda>nc. ports_list (nc_Ports nc)) (gs_nodes s)))"
proof -
  obtain s where s: "GenerateConfigs (example_gen True 0) Map.empty = Ret s" using example_gen_generates by fastforce
  obtain vals sents t where n: "gs_nodes s = map (linked vals) vals @ sents"
      "list_all2 (\<lambda>i nc. validator_node (example_gen True 0) (int i) = Ret nc)
        [0..<nat (gv_NumOfValidators (ge_env (example_gen True 0)))] vals"
    using generated_nodes [OF s] by blast
  from list_all2_lengthD [OF n(2)] have "length vals = 2" by (simp add: example_gen_def)
  then have "gs_nodes s \<noteq> []" using n(1) by auto
  have "distinct (concat (map (\<lambda>nc. ports_list (nc_Ports nc)) (gs_nodes s)))"
    using local_ports_distinct [OF s] by (simp add: example_gen_def)
  with s \<open>gs_nodes s \<noteq> []\<close> show ?thesis by blast
qed

end
