(* ===== verification/Replay.thy ===== *)
theory Replay
  imports Stresser
begin

text \<open>
  The replay of blocks: the sniffer that downloads them (\<^verbatim>\<open>replay/sniffer.go\<close>), the provider that
  hands their transactions out (\<^verbatim>\<open>payload/txns_replay_stress.go\<close>) and \<^verbatim>\<open>StressReplay\<close> with its
  error accounting and its fallback to the original transaction (\<^verbatim>\<open>stresser.go\<close>). The sniffer and
  the provider share three channels, which the sniffer closes when it ends; a receive of the provider
  is a \<^verbatim>\<open>select\<close> whose ready cases are all possible.
\<close>

subsection \<open>Sniffer and channels\<close>

record TxReplayConfig =
  CometRPC :: string
  StartHeight :: int
  EndHeight :: int

record Block =
  blk_Height :: int
  blk_Txs :: "bytes list"

datatype sniffer = Sniffing int | Closed

text \<open>\<open>taken\<close> records the blocks handed out so far.\<close>

record replay_state =
  sn :: sniffer
  blocksCh :: "Block list"
  errCh :: "go_error list"
  sn_cancelled :: bool
  pr_cancelled :: bool
  taken :: "Block list"

definition DEFAULT_BLOCKS_BUFFER :: nat where
  "DEFAULT_BLOCKS_BUFFER = 1000"

definition NewSniffer :: "TxReplayConfig \<Rightarrow> replay_state" where
  "NewSniffer cfg = \<lparr> sn = Sniffing (StartHeight cfg), blocksCh = [], errCh = [], sn_cancelled = False,
     pr_cancelled = False, taken = [] \<rparr>"

definition reached_end :: "TxReplayConfig \<Rightarrow> int \<Rightarrow> bool" where
  "reached_end cfg height \<longleftrightarrow> EndHeight cfg \<noteq> 0 \<and> EndHeight cfg \<le> height"

text \<open>
  One turn of the sniffer's loop. \<open>fetch\<close> is the outcome of the retried block query at a height;
  the block is sent when the channel has room. A cancellation is seen at the top of the loop, or within
  the query or the send, whose error \<open>e\<close> may then still reach the error channel.
\<close>

inductive sniffer_run :: "TxReplayConfig \<Rightarrow> (int \<Rightarrow> Block go) \<Rightarrow> replay_state \<Rightarrow> replay_state \<Rightarrow> bool"
  for cfg fetch where
  at_end: "sn s = Sniffing h \<Longrightarrow> reached_end cfg h \<Longrightarrow> sniffer_run cfg fetch s (s\<lparr>sn := Closed\<rparr>)"
| cancelled: "sn s = Sniffing h \<Longrightarrow> \<not> reached_end cfg h \<Longrightarrow> sn_cancelled s \<Longrightarrow>
     sniffer_run cfg fetch s (s\<lparr>sn := Closed\<rparr>)"
| block: "sn s = Sniffing h \<Longrightarrow> \<not> reached_end cfg h \<Longrightarrow> fetch h = Inr b \<Longrightarrow>
     length (blocksCh s) < DEFAULT_BLOCKS_BUFFER \<Longrightarrow>
     sniffer_run cfg fetch s (s\<lparr>sn := Sniffing (wrap_int (h + 1)), blocksCh := blocksCh s @ [b]\<rparr>)"
| error: "sn s = Sniffing h \<Longrightarrow> \<not> reached_end cfg h \<Longrightarrow> fetch h = Inl e \<Longrightarrow>
     sniffer_run cfg fetch s (s\<lparr>sn := Closed, errCh := [Wrap (''sniffer error at height '' @ itoa h) e]\<rparr>)"
| interrupted: "sn s = Sniffing h \<Longrightarrow> \<not> reached_end cfg h \<Longrightarrow> sn_cancelled s \<Longrightarrow>
     sniffer_run cfg fetch s (s\<lparr>sn := Closed, errCh := [Wrap (''sniffer error at height '' @ itoa h) e]\<rparr>)"

definition Sniffer_Stop :: "replay_state \<Rightarrow> replay_state" where
  "Sniffer_Stop s = s\<lparr>sn_cancelled := True\<rparr>"

subsection \<open>The provider\<close>

datatype select_case = FromBlocks | FromErrors | FromDone | FromContext | FromTimer

definition completed_msg :: string where
  "completed_msg = ''no more blocks available - processing completed''"

text \<open>
  \<^verbatim>\<open>GetNextBlockTxs\<close> for the chosen case of the \<^verbatim>\<open>select\<close>; \<open>None\<close> when that case is not ready. A
  closed and drained channel yields its zero value: a nil block, and a nil error, which
  \<^verbatim>\<open>errors.Wrap\<close> keeps nil.
\<close>

definition GetNextBlockTxs :: "select_case \<Rightarrow> replay_state \<Rightarrow> (Tx list go \<times> replay_state) option" where
  "GetNextBlockTxs c s = (case c of
     FromBlocks \<Rightarrow> (case blocksCh s of
         b # bs \<Rightarrow> Some (Inr (map TxnsReplayTx (filter (\<lambda>tx. tx \<noteq> []) (blk_Txs b))),
                    s\<lparr>blocksCh := bs, taken := taken s @ [b]\<rparr>)
       | [] \<Rightarrow> if sn s = Closed then Some (Inl (Msg completed_msg), s) else None)
   | FromErrors \<Rightarrow> (case errCh s of
         e # es \<Rightarrow> Some (Inl (Wrap ''sniffer error received'' e), s\<lparr>errCh := es\<rparr>)
       | [] \<Rightarrow> if sn s = Closed then Some (Inr [], s) else None)
   | FromDone \<Rightarrow> if sn s = Closed then Some (Inl (Msg completed_msg), s) else None
   | FromContext \<Rightarrow> if pr_cancelled s then Some (Inl (Msg ''transaction generation cancelled''), s) else None
   | FromTimer \<Rightarrow> Some (Inl (Msg ''timeout waiting for block from sniffer''), s))"

definition replay_GenerateTx :: "'p gen" where
  "replay_GenerateTx req p =
     (Ret (Inl (Msg ''GenerateTx not supported in block-based replay mode - use GetNextBlockTxs() instead'')), p)"

definition replay_GenerateInitialTx :: "'p gen_initial" where
  "replay_GenerateInitialTx req p = (Ret (Inr None), p)"

definition replay_BuildAndSignTx :: "'p sign" where
  "replay_BuildAndSignTx unsignedTx p = (Ret (Inr (tx_WithBytes (tx_Bytes unsignedTx) unsignedTx)), p)"

definition provider_Stop :: "replay_state \<Rightarrow> replay_state" where
  "provider_Stop s = s\<lparr>pr_cancelled := True\<rparr>"

interpretation replay_prov: tx_provider replay_GenerateTx replay_BuildAndSignTx
  by unfold_locales (auto simp: replay_GenerateTx_def replay_BuildAndSignTx_def)

inductive replay_reach :: "TxReplayConfig \<Rightarrow> (int \<Rightarrow> Block go) \<Rightarrow> replay_state \<Rightarrow> bool" for cfg fetch where
  start: "replay_reach cfg fetch (NewSniffer cfg)"
| sniff: "replay_reach cfg fetch s \<Longrightarrow> sniffer_run cfg fetch s s' \<Longrightarrow> replay_reach cfg fetch s'"
| receive: "replay_reach cfg fetch s \<Longrightarrow> GetNextBlockTxs c s = Some (r, s') \<Longrightarrow> replay_reach cfg fetch s'"
| stop: "replay_reach cfg fetch s \<Longrightarrow> replay_reach cfg fetch (Sniffer_Stop s)"
| stop_provider: "replay_reach cfg fetch s \<Longrightarrow> replay_reach cfg fetch (provider_Stop s)"

subsection \<open>Accounting\<close>

record counters =
  success :: nat
  timeoutErrors :: nat
  sequenceErrors :: nat
  outOfGasErrors :: nat
  otherErrors :: nat
  fuzzedCount :: nat
  fallbackCount :: nat

definition no_counts :: counters where
  "no_counts = \<lparr> success = 0, timeoutErrors = 0, sequenceErrors = 0, outOfGasErrors = 0, otherErrors = 0,
     fuzzedCount = 0, fallbackCount = 0 \<rparr>"

lemma no_counts_simps [simp]: "success no_counts = 0" "fallbackCount no_counts = 0"
  by (simp_all add: no_counts_def)

definition categorizeError :: "string \<Rightarrow> counters \<Rightarrow> counters" where
  "categorizeError errMsg c =
     (if str_contains errMsg ''tx timeout height'' then c\<lparr>timeoutErrors := Suc (timeoutErrors c)\<rparr>
      else if str_contains errMsg ''account sequence mismatch'' then c\<lparr>sequenceErrors := Suc (sequenceErrors c)\<rparr>
      else if str_contains errMsg ''out of gas'' then c\<lparr>outOfGasErrors := Suc (outOfGasErrors c)\<rparr>
      else c\<lparr>otherErrors := Suc (otherErrors c)\<rparr>)"

text \<open>The result of the fallback: hash, error and success.\<close>

definition handleFallbackBroadcast ::
  "(bytes \<Rightarrow> 's \<Rightarrow> 's bresult) \<Rightarrow> bytes \<Rightarrow> 's \<Rightarrow> ((string \<times> go_error option \<times> bool) \<times> 's) option" where
  "handleFallbackBroadcast broadcastFunc originalTxBytes s = (case broadcastFunc originalTxBytes s of
     None \<Rightarrow> None
   | Some ((h, Some fallbackErr), s') \<Rightarrow> Some (([], Some fallbackErr, False), s')
   | Some ((h, None), s') \<Rightarrow>
       if h = [] then Some (([], Some (Msg ''fallback transaction returned empty hash''), False), s')
       else Some ((h, None, True), s'))"

definition fuzzTransactions ::
  "'g rng \<Rightarrow> (float64 \<Rightarrow> uint64) \<Rightarrow> 'm info_lib \<Rightarrow> ('m, 'b, 't, 'w) Client \<Rightarrow> StressConfig \<Rightarrow> 'g GasFuzzer option
    \<Rightarrow> bytes \<Rightarrow> ((bytes \<times> bool) \<times> 'g GasFuzzer option) res" where
  "fuzzTransactions r other il client config fo txBytes = (case fo of
     None \<Rightarrow> Ret ((txBytes, False), None)
   | Some f \<Rightarrow>
       res_bind (if VerboseLogging (sc_GasFuzzing config)
                 then ExtractTransactionInfo il client txBytes ''ORIGINAL'' else Ret None) (\<lambda>originalTxInfo.
       res_bind (FuzzTransaction r other client (Some f) txBytes) (\<lambda>(fuzzed, fo').
       case fuzzed of
         Inl fuzzErr \<Rightarrow> Ret ((txBytes, False), fo')
       | Inr fuzzedTxBytes \<Rightarrow>
           if length fuzzedTxBytes = length txBytes \<and> fuzzedTxBytes = txBytes then Ret ((txBytes, False), fo')
           else res_bind (if VerboseLogging (sc_GasFuzzing config)
                          then ExtractTransactionInfo il client fuzzedTxBytes ''FUZZED'' else Ret None) (\<lambda>fuzzedTxInfo.
             Ret ((fuzzedTxBytes, True), fo')))))"

text \<open>
  One transaction of a block, after fuzzing: \<open>txBytes\<close> is what is broadcast, \<open>originalTxBytes\<close> what the
  fallback sends.
\<close>

definition replay_tx ::
  "(bytes \<Rightarrow> 's \<Rightarrow> 's bresult) \<Rightarrow> bytes \<Rightarrow> bytes \<Rightarrow> bool \<Rightarrow> counters \<Rightarrow> 's \<Rightarrow> (counters \<times> 's) option" where
  "replay_tx broadcastFunc originalTxBytes txBytes wasFuzzed c s =
     (case broadcastFunc txBytes s of
        None \<Rightarrow> None
      | Some ((txHash, Some err), s') \<Rightarrow>
          let errMsg = error_text err; c1 = categorizeError errMsg c in
          if wasFuzzed \<and> str_contains errMsg ''out of gas'' then
            (case handleFallbackBroadcast broadcastFunc originalTxBytes s' of
               None \<Rightarrow> None
             | Some ((h, ferr, ok), s'') \<Rightarrow>
                 if ok then Some (c1\<lparr>success := Suc (success c1), fallbackCount := Suc (fallbackCount c1)\<rparr>, s'')
                 else Some (categorizeError (case ferr of Some e \<Rightarrow> error_text e | None \<Rightarrow> []) c1, s''))
          else Some (categorizeError errMsg c1, s')
      | Some ((txHash, None), s') \<Rightarrow>
          if txHash = [] then Some (c\<lparr>otherErrors := Suc (otherErrors c)\<rparr>, s')
          else Some (c\<lparr>success := Suc (success c)\<rparr>, s'))"

text \<open>The transactions of a block, in order; the fuzzer is a function on transaction bytes with a state.\<close>

type_synonym 'f fuzz_fn = "bytes \<Rightarrow> 'f \<Rightarrow> ((bytes \<times> bool) \<times> 'f) res"

fun replay_block ::
  "'f fuzz_fn \<Rightarrow> (bytes \<Rightarrow> 's \<Rightarrow> 's bresult) \<Rightarrow> Tx list \<Rightarrow> counters \<Rightarrow> 'f \<times> 's \<Rightarrow> (counters \<times> 'f \<times> 's) option res" where
  "replay_block fuzz broadcastFunc [] c st = Ret (Some (c, st))"
| "replay_block fuzz broadcastFunc (tx # txs) c (f, s) =
     res_bind (fuzz (tx_Bytes tx) f) (\<lambda>((txBytes, wasFuzzed), f').
     let c1 = (if wasFuzzed then c\<lparr>fuzzedCount := Suc (fuzzedCount c)\<rparr> else c) in
     case replay_tx broadcastFunc (tx_Bytes tx) txBytes wasFuzzed c1 s of
       None \<Rightarrow> Ret None
     | Some (c2, s') \<Rightarrow> replay_block fuzz broadcastFunc txs c2 (f', s'))"

text \<open>
  The loop of \<^verbatim>\<open>StressReplay\<close> over the successive results of \<^verbatim>\<open>GetNextBlockTxs\<close>, with the summaries it
  logs; the flag tells that the completion message ended it.
\<close>

fun replay_loop ::
  "'f fuzz_fn \<Rightarrow> (bytes \<Rightarrow> 's \<Rightarrow> 's bresult) \<Rightarrow> Tx list go list \<Rightarrow> 'f \<times> 's
    \<Rightarrow> (counters list \<times> bool \<times> 'f \<times> 's) option res" where
  "replay_loop fuzz broadcastFunc [] st = Ret (Some ([], False, st))"
| "replay_loop fuzz broadcastFunc (Inl err # rs) st =
     (if error_text err = completed_msg then Ret (Some ([], True, st))
      else replay_loop fuzz broadcastFunc rs st)"
| "replay_loop fuzz broadcastFunc (Inr txBatch # rs) st =
     (if txBatch = [] then replay_loop fuzz broadcastFunc rs st
      else res_bind (replay_block fuzz broadcastFunc txBatch no_counts st) (\<lambda>r.
        case r of None \<Rightarrow> Ret None
        | Some (c, st') \<Rightarrow> res_bind (replay_loop fuzz broadcastFunc rs st') (\<lambda>rest.
            Ret (map_option (apfst ((#) c)) rest))))"

definition StressReplay ::
  "'g rng \<Rightarrow> (float64 \<Rightarrow> uint64) \<Rightarrow> 'm info_lib \<Rightarrow> ('rl, 'c) rate_lib \<Rightarrow> 'c \<Rightarrow> (float64 \<Rightarrow> int) \<Rightarrow> (string \<times> 'w) retry
    \<Rightarrow> ('m, 'b, 't, 'w) Client \<Rightarrow> int \<Rightarrow> StressConfig \<Rightarrow> Tx list go list \<Rightarrow> 'w
    \<Rightarrow> (counters list \<times> bool \<times> 'g GasFuzzer option \<times> ('rl, 'm, 'w) bstate) option go res" where
  "StressReplay r other il lib ctx conv retry client now config results w =
     (case buildBroadcastClient lib conv config client of
        Inl err \<Rightarrow> Ret (Inl (Wrap ''failed to create broadcast function'' err))
      | Inr limiter \<Rightarrow>
          res_bind (replay_loop (\<lambda>bs fo. fuzzTransactions r other il client config fo bs)
            (rateLimitedBroadcast lib ctx retry client (sc_AwaitTxConfirmation config)) results
            (NewGasFuzzer r now (sc_GasFuzzing config), (limiter, w))) (\<lambda>x. Ret (Inr x)))"

subsection \<open>Order of the blocks\<close>

text \<open>What is downloaded, taken or still buffered, is the run of heights up to the sniffer's.\<close>

definition heights_ok :: "TxReplayConfig \<Rightarrow> replay_state \<Rightarrow> bool" where
  "heights_ok cfg s \<longleftrightarrow> (\<exists>cur. map blk_Height (taken s @ blocksCh s) = [StartHeight cfg..cur - 1] \<and>
     StartHeight cfg \<le> cur \<and> (cur \<le> EndHeight cfg \<or> cur = StartHeight cfg) \<and> (\<forall>h. sn s = Sniffing h \<longrightarrow> h = cur))"

lemma heights_sniff:
  assumes "heights_ok cfg s" and "sniffer_run cfg fetch s s'"
    and "\<And>h b. fetch h = Inr b \<Longrightarrow> blk_Height b = h"
    and "EndHeight cfg \<noteq> 0" "int_range (EndHeight cfg)" "int_range (StartHeight cfg)"
  shows "heights_ok cfg s'"
  using assms(2)
proof cases
  case (block h b)
  obtain cur where cur: "map blk_Height (taken s @ blocksCh s) = [StartHeight cfg..cur - 1]" "StartHeight cfg \<le> cur"
      "h = cur"
    using assms(1) block by (auto simp: heights_ok_def)
  have lt: "cur < EndHeight cfg" using block(3) cur(3) assms(4) by (simp add: reached_end_def)
  have "wrap_int (h + 1) = cur + 1"
    using cur lt assms(5,6) by (simp add: int_range_def)
  moreover have "[StartHeight cfg..cur] = [StartHeight cfg..cur - 1] @ [cur]"
    using cur(2) by (simp add: upto_rec2)
  ultimately show ?thesis
    using cur lt block assms(3) unfolding heights_ok_def by (intro exI [of _ "cur + 1"]) auto
qed (use assms(1) in \<open>auto simp: heights_ok_def\<close>)

lemma heights_receive:
  assumes "heights_ok cfg s" and "GetNextBlockTxs c s = Some (r, s')"
  shows "heights_ok cfg s'"
proof -
  have "taken s' @ blocksCh s' = taken s @ blocksCh s" "sn s' = sn s"
    using assms(2) by (auto simp: GetNextBlockTxs_def split: select_case.splits list.splits if_splits)
  with assms(1) show ?thesis unfolding heights_ok_def by (simp only:)
qed

text \<open>With a finite range of heights the blocks handed to the replay, followed by those still in the
  buffer, are the blocks of consecutive heights from the start height on, each exactly once, and none at
  or above the end height.\<close>

theorem replay_blocks_in_order:
  assumes "replay_reach cfg fetch s" and "\<forall>h b. fetch h = Inr b \<longrightarrow> blk_Height b = h"
    and "EndHeight cfg \<noteq> 0" "int_range (EndHeight cfg)" "int_range (StartHeight cfg)"
  shows "\<exists>cur. map blk_Height (taken s @ blocksCh s) = [StartHeight cfg..cur - 1] \<and>
    (cur \<le> EndHeight cfg \<or> cur = StartHeight cfg)"
proof -
  have "heights_ok cfg s"
    using assms(1)
  proof induction
    case start
    then show ?case by (auto simp: heights_ok_def NewSniffer_def intro!: exI [of _ "StartHeight cfg"])
  next
    case (sniff s s')
    then show ?case using heights_sniff assms(2-5) by blast
  next
    case (receive s c r s')
    then show ?case using heights_receive by blast
  qed (simp_all add: heights_ok_def Sniffer_Stop_def provider_Stop_def)
  then show ?thesis unfolding heights_ok_def by blast
qed

definition example_fetch :: "int \<Rightarrow> Block go" where
  "example_fetch h = Inr \<lparr> blk_Height = h, blk_Txs = [[1], []] \<rparr>"

definition example_range :: TxReplayConfig where
  "example_range = \<lparr> CometRPC = [], StartHeight = 1, EndHeight = 3 \<rparr>"

definition buffered_state :: replay_state where
  "buffered_state = \<lparr> sn = Closed, blocksCh = [\<lparr> blk_Height = 1, blk_Txs = [[1], []] \<rparr>, \<lparr> blk_Height = 2, blk_Txs = [[1], []] \<rparr>],
     errCh = [], sn_cancelled = False, pr_cancelled = False, taken = [] \<rparr>"

lemma buffered_reachable: "replay_reach example_range example_fetch buffered_state"
proof -
  have w: "wrap_int 2 = 2" "wrap_int 3 = 3" by (simp_all add: int_range_def)
  let ?s0 = "NewSniffer example_range"
  let ?s1 = "?s0\<lparr>sn := Sniffing 2, blocksCh := [\<lparr> blk_Height = 1, blk_Txs = [[1], []] \<rparr>]\<rparr>"
  let ?s2 = "?s1\<lparr>sn := Sniffing 3, blocksCh := [\<lparr> blk_Height = 1, blk_Txs = [[1], []] \<rparr>, \<lparr> blk_Height = 2, blk_Txs = [[1], []] \<rparr>]\<rparr>"
  have "sniffer_run example_range example_fetch ?s0 ?s1"
    using block [of ?s0 1 example_range example_fetch] w
    by (simp add: NewSniffer_def example_range_def reached_end_def example_fetch_def DEFAULT_BLOCKS_BUFFER_def)
  moreover have "sniffer_run example_range example_fetch ?s1 ?s2"
    using block [of ?s1 2 example_range example_fetch] w
    by (simp add: NewSniffer_def example_range_def reached_end_def example_fetch_def DEFAULT_BLOCKS_BUFFER_def)
  moreover have "sniffer_run example_range example_fetch ?s2 (?s2\<lparr>sn := Closed\<rparr>)"
    using at_end [of ?s2 3 example_range] by (simp add: example_range_def reached_end_def)
  moreover have "?s2\<lparr>sn := Closed\<rparr> = buffered_state"
    by (simp add: NewSniffer_def buffered_state_def)
  ultimately show ?thesis by (metis replay_reach.start sniff)
qed

theorem replay_blocks_in_order_witness:
  "\<exists>cur. map blk_Height (taken buffered_state @ blocksCh buffered_state) = [1..cur - 1] \<and> (cur \<le> 3 \<or> cur = 1)"
  using replay_blocks_in_order [OF buffered_reachable]
  by (simp add: example_fetch_def example_range_def int_range_def)

subsection \<open>The replay as a stream of blocks\<close>

text \<open>
  What the sniffer, its buffer and the provider promise together: a stream that hands out the
  transactions of one block after the other. Its state is the next height; it ends at the end height and
  where a block cannot be had.
\<close>

definition stream_next :: "TxReplayConfig \<Rightarrow> (int \<Rightarrow> Block go) \<Rightarrow> int \<Rightarrow> (Tx list \<times> int) option" where
  "stream_next cfg fetch h = (if reached_end cfg h then None else
     case fetch h of Inl _ \<Rightarrow> None | Inr b \<Rightarrow> Some (map TxnsReplayTx (filter (\<lambda>tx. tx \<noteq> []) (blk_Txs b)), h + 1))"

definition next_height :: "TxReplayConfig \<Rightarrow> replay_state \<Rightarrow> int" where
  "next_height cfg s = StartHeight cfg + int (length (taken s))"

definition stream_ok :: "TxReplayConfig \<Rightarrow> (int \<Rightarrow> Block go) \<Rightarrow> replay_state \<Rightarrow> bool" where
  "stream_ok cfg fetch s \<longleftrightarrow>
     (\<forall>k < length (taken s @ blocksCh s). fetch (StartHeight cfg + int k) = Inr ((taken s @ blocksCh s) ! k) \<and>
        \<not> reached_end cfg (StartHeight cfg + int k)) \<and>
     (\<forall>h. sn s = Sniffing h \<longrightarrow> h = StartHeight cfg + int (length (taken s @ blocksCh s)))"

lemma stream_sniff:
  assumes "stream_ok cfg fetch s" and "sniffer_run cfg fetch s s'"
    and "EndHeight cfg \<noteq> 0" "int_range (EndHeight cfg)" "int_range (StartHeight cfg)"
  shows "stream_ok cfg fetch s'"
  using assms(2)
proof cases
  case (block h b)
  have h: "h = StartHeight cfg + int (length (taken s @ blocksCh s))" using assms(1) block(2) by (simp add: stream_ok_def)
  have "h < EndHeight cfg" using block(3) assms(3) by (simp add: reached_end_def)
  then have "wrap_int (h + 1) = h + 1" using h assms(4,5) by (intro wrap_int_id) (auto simp: int_range_def)
  with block h assms(1) show ?thesis
    unfolding stream_ok_def by (auto simp: nth_append less_Suc_eq split: if_splits)
qed (use assms(1) in \<open>auto simp: stream_ok_def\<close>)

lemma GetNextBlockTxs_keeps:
  "GetNextBlockTxs c s = Some (r, s') \<Longrightarrow> taken s' @ blocksCh s' = taken s @ blocksCh s \<and> sn s' = sn s"
  by (auto simp: GetNextBlockTxs_def split: select_case.splits list.splits if_splits)

lemma stream_reach:
  assumes "replay_reach cfg fetch s" and "EndHeight cfg \<noteq> 0" "int_range (EndHeight cfg)" "int_range (StartHeight cfg)"
  shows "stream_ok cfg fetch s"
  using assms(1)
proof induction
  case (sniff s s')
  then show ?case using stream_sniff assms(2-4) by blast
next
  case (receive s c r s')
  then show ?case using GetNextBlockTxs_keeps [OF receive(2)] unfolding stream_ok_def by (simp only:)
qed (simp_all add: stream_ok_def NewSniffer_def Sniffer_Stop_def provider_Stop_def)



text \<open>The end of the download can overtake the blocks: a reachable state has two blocks in the
  buffer, none handed out, and the \<^verbatim>\<open>select\<close> may take the closed completion channel, which ends the
  replay without them.\<close>

theorem completion_may_drop_blocks:
  "\<exists>s. replay_reach example_range example_fetch s \<and> taken s = [] \<and> map blk_Height (blocksCh s) = [1, 2] \<and>
    GetNextBlockTxs FromDone s = Some (Inl (Msg completed_msg), s) \<and>
    replay_loop fuzz bcast [Inl (Msg completed_msg)] st = Ret (Some ([], True, st))"
  using buffered_reachable by (intro exI [of _ buffered_state]) (simp add: buffered_state_def GetNextBlockTxs_def)

subsection \<open>Counting\<close>

definition err_total :: "counters \<Rightarrow> nat" where
  "err_total c = timeoutErrors c + sequenceErrors c + outOfGasErrors c + otherErrors c"

lemma err_total_no_counts [simp]: "err_total no_counts = 0"
  by (simp add: err_total_def no_counts_def)

lemma categorizeError_counts [simp]:
  "err_total (categorizeError m c) = Suc (err_total c)" "success (categorizeError m c) = success c"
  by (simp_all add: categorizeError_def err_total_def)

lemma count_updates [simp]:
  "err_total (c\<lparr>otherErrors := Suc (otherErrors c)\<rparr>) = Suc (err_total c)"
  "err_total (c\<lparr>success := x\<rparr>) = err_total c" "err_total (c\<lparr>success := x, fallbackCount := y\<rparr>) = err_total c"
  "err_total (c\<lparr>fuzzedCount := x\<rparr>) = err_total c"
  by (simp_all add: err_total_def)

lemma replay_tx_counts:
  assumes "replay_tx bcast orig tx fz c s = Some (c', s')"
  shows "success c + err_total c + 1 \<le> success c' + err_total c'"
    and "success c' + err_total c' \<le> success c + err_total c + 2"
    and "success c \<le> success c'" and "success c' \<le> success c + 1"
  using assms
  by (auto simp: replay_tx_def Let_def split: option.splits prod.splits if_splits)

text \<open>Every transaction of a block is counted: over a block the number of successes never exceeds
  its transactions, and successes and errors together grow by at least one and at most two per
  transaction, whatever the fuzzer does and the node answers.\<close>

theorem replay_accounting_bounds:
  assumes "replay_block fuzz bcast txs c st = Ret (Some (c', st'))"
  shows "success c' \<le> success c + length txs \<and>
    success c + err_total c + length txs \<le> success c' + err_total c' \<and>
    success c' + err_total c' \<le> success c + err_total c + 2 * length txs"
  using assms
proof (induction txs arbitrary: c st)
  case (Cons t txs)
  obtain f s where st: "st = (f, s)" by force
  with Cons.prems obtain bs fz f' c2 s' where
      step: "replay_tx bcast (tx_Bytes t) bs fz (if fz then c\<lparr>fuzzedCount := Suc (fuzzedCount c)\<rparr> else c) s = Some (c2, s')"
      and rest: "replay_block fuzz bcast txs c2 (f', s') = Ret (Some (c', st'))"
    by (auto simp: Let_def split: option.splits prod.splits)
  have "success (if fz then c\<lparr>fuzzedCount := Suc (fuzzedCount c)\<rparr> else c) = success c"
    "err_total (if fz then c\<lparr>fuzzedCount := Suc (fuzzedCount c)\<rparr> else c) = err_total c" by simp_all
  with replay_tx_counts [OF step] Cons.IH [OF rest] show ?case by simp
qed simp

text \<open>The results of broadcasting transactions one after the other.\<close>

fun broadcast_all ::
  "(bytes \<Rightarrow> 's \<Rightarrow> 's bresult) \<Rightarrow> Tx list \<Rightarrow> 's \<Rightarrow> ((string \<times> go_error option) list \<times> 's) option" where
  "broadcast_all bcast [] s = Some ([], s)"
| "broadcast_all bcast (t # ts) s = (case bcast (tx_Bytes t) s of None \<Rightarrow> None
     | Some (r, s') \<Rightarrow> map_option (apfst ((#) r)) (broadcast_all bcast ts s'))"

text \<open>Without fuzzing, the summary of a block counts every failed broadcast twice: the errors are
  twice the failures plus the empty hashes, while the successes are exact.\<close>

theorem replay_counts_errors_twice:
  assumes "broadcast_all bcast txs s = Some (rs, s')"
  shows "\<exists>c'. replay_block (\<lambda>bs fo. fuzzTransactions r other il client config fo bs) bcast txs c (None, s)
      = Ret (Some (c', (None, s'))) \<and>
    success c' = success c + length (filter (\<lambda>(h, e). e = None \<and> h \<noteq> []) rs) \<and>
    err_total c' = err_total c + 2 * length (filter (\<lambda>(h, e). e \<noteq> None) rs)
      + length (filter (\<lambda>(h, e). e = None \<and> h = []) rs)"
  using assms
proof (induction txs arbitrary: c s rs)
  case (Cons t txs)
  then obtain h e s1 rs' where b: "bcast (tx_Bytes t) s = Some ((h, e), s1)"
      and rest: "broadcast_all bcast txs s1 = Some (rs', s')" and rs: "rs = (h, e) # rs'"
    by (auto split: option.splits)
  show ?case
  proof (cases e)
    case None
    then show ?thesis
      using b rs Cons.IH [OF rest, of "if h = [] then c\<lparr>otherErrors := Suc (otherErrors c)\<rparr> else c\<lparr>success := Suc (success c)\<rparr>"]
      by (auto simp: fuzzTransactions_def replay_tx_def)
  next
    case (Some err)
    then show ?thesis
      using b rs Cons.IH [OF rest, of "categorizeError (error_text err) (categorizeError (error_text err) c)"]
      by (auto simp: fuzzTransactions_def replay_tx_def Let_def)
  qed
qed auto

text \<open>A fuzzed transaction that runs out of gas is replaced by the original: when the node takes the
  original bytes, the transaction counts as a success and as a fallback, besides the one error of the
  fuzzed attempt.\<close>

theorem fallback_recovers:
  assumes "bcast fuzzed s = Some ((h, Some err), s1)" and "str_contains (error_text err) ''out of gas''"
    and "bcast original s1 = Some ((h', None), s2)" and "h' \<noteq> []"
  shows "\<exists>c'. replay_tx bcast original fuzzed True c s = Some (c', s2) \<and> success c' = Suc (success c) \<and>
    fallbackCount c' = Suc (fallbackCount c) \<and> err_total c' = Suc (err_total c)"
proof -
  have "fallbackCount (categorizeError (error_text err) c) = fallbackCount c" by (simp add: categorizeError_def)
  then show ?thesis using assms by (simp add: replay_tx_def Let_def handleFallbackBroadcast_def)
qed

subsection \<open>Concrete runs\<close>

text \<open>A node that refuses the byte 9 for its gas and takes everything else.\<close>

definition gas_node :: "bytes \<Rightarrow> nat \<Rightarrow> nat bresult" where
  "gas_node tx s = (if tx = [9] then Some (([], Some (Msg ''out of gas'')), Suc s) else Some ((''ab'', None), Suc s))"

theorem replay_accounting_bounds_witness:
  "\<exists>c' st'. replay_block (\<lambda>bs f. Ret ((bs, False), f)) gas_node [TxnsReplayTx [9], TxnsReplayTx [1]] no_counts ((), 0)
      = Ret (Some (c', st')) \<and> success c' \<le> 2 \<and> 2 \<le> success c' + err_total c' \<and> success c' + err_total c' \<le> 4"
proof -
  obtain c' st' where run: "replay_block (\<lambda>bs f. Ret ((bs, False), f)) gas_node [TxnsReplayTx [9], TxnsReplayTx [1]] no_counts ((), 0)
      = Ret (Some (c', st'))"
    by (simp add: replay_tx_def gas_node_def Let_def tx_Bytes_def)
  then show ?thesis
    using replay_accounting_bounds [OF run] by (intro exI [of _ c'] exI [of _ st'] conjI) simp_all
qed

theorem replay_counts_errors_twice_witness:
  "\<exists>c'. replay_block (\<lambda>bs fo. fuzzTransactions half_rng (\<lambda>_. 0) \<lparr> CoinsString = (\<lambda>_. []), CoinsAdd = (\<lambda>c _. c),
       MsgTypeURL = (\<lambda>_. []), Sum256 = id \<rparr> example_client example_stress_config fo bs) gas_node
       [TxnsReplayTx [9], TxnsReplayTx [1]] no_counts (None, 0) = Ret (Some (c', (None, 2))) \<and>
    success c' = 1 \<and> err_total c' = Suc (Suc 0)"
  using replay_counts_errors_twice [of gas_node "[TxnsReplayTx [9], TxnsReplayTx [1]]" 0
      "[([], Some (Msg ''out of gas'')), (''ab'', None)]" 2 half_rng "\<lambda>_. 0"
      "\<lparr> CoinsString = (\<lambda>_. []), CoinsAdd = (\<lambda>c _. c), MsgTypeURL = (\<lambda>_. []), Sum256 = id \<rparr>"
      example_client example_stress_config no_counts]
  by (simp add: gas_node_def tx_Bytes_def del: replay_block.simps)

theorem fallback_recovers_witness:
  "\<exists>c'. replay_tx gas_node [1] [9] True no_counts 0 = Some (c', 2) \<and> success c' = 1 \<and> fallbackCount c' = 1 \<and>
    err_total c' = 1"
  using fallback_recovers [of gas_node "[9]" 0 "[]" "Msg ''out of gas''" 1 "[1]" "''ab''" 2 no_counts]
  by (simp add: gas_node_def)

end
