(* ===== verification/Command_Line.thy ===== *)
theory Command_Line
  imports Mixed_Payload Generator Replay
begin

text \<open>
  The commands, \<^verbatim>\<open>cmd/chain-stresser/main.go\<close>: the defaults of the flags, reading the accounts, the
  precedence of flags over the YAML file, and what each command does before it hands over to the
  generator, the stresser or the replay. Parsing the command line belongs to the library \<^verbatim>\<open>cobra\<close>: which
  flags were given is the argument \<open>changed\<close>. The error that a run of the stresser returns is an
  argument (\<open>stress\<close>), because a run is not a function of its configuration (theories \<open>Stresser\<close> and
  \<open>Replay\<close> say which outcomes it can have).
\<close>

subsection \<open>Flags\<close>

definition defaultMinGasPrice :: string where "defaultMinGasPrice = ''1inj''"
definition defaultNumOfAccounts :: int where "defaultNumOfAccounts = 1000"
definition defaultNumOfTx :: int where "defaultNumOfTx = 100"

definition default_StressConfig :: StressConfig where
  "default_StressConfig = \<lparr> sc_ChainID = ''stressinj-1337'', sc_EthChainID = 1337, sc_MinGasPrice = defaultMinGasPrice,
     sc_NodeAddress = ''127.0.0.1:26657'', sc_GRPCAddress = ''127.0.0.1:9900'', sc_Accounts = [],
     sc_NumOfTransactions = defaultNumOfTx, sc_AwaitTxConfirmation = True,
     sc_GasFuzzing = \<lparr> Enabled = False, Strategy = ''random'', GasLimitMultiplierMin = fround (1 / 100), GasLimitMultiplierMax = Fin 1,
       Seed = 0, FuzzPercentage = 100, VerboseLogging = False \<rparr>,
     sc_RateLimit = \<lparr> TxPerSecond = fzero, BytesPerSecond = 0, GasPerSecond = 0, Burst = \<lparr> Size = 0 \<rparr> \<rparr> \<rparr>"

definition default_GeneratorEnvironment :: "string \<Rightarrow> GeneratorEnvironment" where
  "default_GeneratorEnvironment wd = \<lparr> gv_ChainID = ''stressinj-1337'', gv_EthChainID = 1337, gv_EvmEnabled = True,
     gv_NumOfValidators = 1, gv_NumOfSentryNodes = 0, gv_NumOfInstances = 1, gv_NumOfAccountsPerInstance = defaultNumOfAccounts,
     gv_DockerImage = ''injectivelabs/injective-core:v1.16.4'', gv_DockerSubnet = ''172.127.0.0/24'', gv_OutDirectory = wd,
     gv_ProdLike = False, gv_Debug = False, gv_LocalNative = False \<rparr>"

record cmd_flags =
  cf_accountFile :: string
  cf_numOfAccounts :: int
  cf_targets :: int
  cf_iterations :: uint64
  cf_ethRPCURL :: string
  cf_entrypointAddress :: string
  cf_beneficiaryAddress :: string
  cf_accountFactoryAddress :: string
  cf_counterContractAddr :: string
  cf_spotMarketIDs :: "string list"
  cf_derivativeMarketIDs :: "string list"
  cf_config :: string
  cf_replay :: TxReplayConfig

definition default_flags :: cmd_flags where
  "default_flags = \<lparr> cf_accountFile = ''accounts.json'', cf_numOfAccounts = defaultNumOfAccounts, cf_targets = 50, cf_iterations = 10,
     cf_ethRPCURL = ''http://127.0.0.1:8545'', cf_entrypointAddress = ''0x586AaA4d77955b36784cADf6D9D617b952d45DA1'',
     cf_beneficiaryAddress = ''0x0000000000000000000000000000000000000000'',
     cf_accountFactoryAddress = ''0x0B3809304F2bAad3E0d0810B98Cc7e505C06ce89'',
     cf_counterContractAddr = ''0x590d9D4654FC262BFE72d115355db2aEb7DB902f'',
     cf_spotMarketIDs = [default_market], cf_derivativeMarketIDs = [default_market], cf_config = [],
     cf_replay = \<lparr> CometRPC = ''http://127.0.0.1:26657'', StartHeight = 0, EndHeight = 0 \<rparr> \<rparr>"

subsection \<open>Accounts and the YAML file\<close>

definition readAccounts ::
  "(string \<Rightarrow> bytes go) \<Rightarrow> (bytes \<Rightarrow> Secp256k1PrivateKey list go) \<Rightarrow> StressConfig \<Rightarrow> string \<Rightarrow> int \<Rightarrow> go_error option \<times> StressConfig" where
  "readAccounts readFile unmarshal cfg accountFile numOfAccounts =
     (if numOfAccounts \<le> 0 then (Some (Msg ''number of accounts must be greater than 0''), cfg)
      else case readFile accountFile of
        Inl err \<Rightarrow> (Some (Wrap ''reading account file failed'' err), cfg)
      | Inr keysRaw \<Rightarrow> (case unmarshal keysRaw of
          Inl err \<Rightarrow> (Some (Wrap ''parsing account file failed'' err), cfg)
        | Inr keys \<Rightarrow>
            if numOfAccounts > int (length keys)
            then (Some (Msg ''number of accounts is greater than the number of provided private keys''), cfg\<lparr>sc_Accounts := keys\<rparr>)
            else (None, cfg\<lparr>sc_Accounts := take (nat numOfAccounts) keys\<rparr>)))"

definition applyStresserConfigFromYAML :: "(string \<Rightarrow> bool) \<Rightarrow> StresserConfig option \<Rightarrow> StressConfig \<Rightarrow> StressConfig" where
  "applyStresserConfigFromYAML changed yamlCfg c0 = (case yamlCfg of None \<Rightarrow> c0 | Some y \<Rightarrow>
     (let c1 = (if st_ChainID y \<noteq> [] \<and> \<not> changed ''chain-id'' then c0\<lparr>sc_ChainID := st_ChainID y\<rparr> else c0);
          c2 = (if st_EthChainID y \<noteq> 0 \<and> \<not> changed ''eth-chain-id'' then c1\<lparr>sc_EthChainID := st_EthChainID y\<rparr> else c1);
          c3 = (if st_MinGasPrice y \<noteq> [] \<and> \<not> changed ''min-gas-price'' then c2\<lparr>sc_MinGasPrice := st_MinGasPrice y\<rparr> else c2);
          c4 = (if st_NodeAddress y \<noteq> [] \<and> \<not> changed ''node-addr'' then c3\<lparr>sc_NodeAddress := st_NodeAddress y\<rparr> else c3);
          c5 = (if st_GRPCAddress y \<noteq> [] \<and> \<not> changed ''grpc-addr'' then c4\<lparr>sc_GRPCAddress := st_GRPCAddress y\<rparr> else c4);
          c6 = (case st_AwaitTxConfirmation y of Some b \<Rightarrow> if \<not> changed ''await'' then c5\<lparr>sc_AwaitTxConfirmation := b\<rparr> else c5 | None \<Rightarrow> c5);
          c7 = (if st_NumOfTransactions y \<noteq> 0 \<and> \<not> changed ''transactions'' then c6\<lparr>sc_NumOfTransactions := st_NumOfTransactions y\<rparr> else c6);
          c8 = (if \<not> feq (st_RateTPS y) fzero \<and> \<not> changed ''rate-tps''
                then c7\<lparr>sc_RateLimit := (sc_RateLimit c7)\<lparr>TxPerSecond := st_RateTPS y\<rparr>\<rparr> else c7);
          c9 = (if st_RateBytes y \<noteq> 0 \<and> \<not> changed ''rate-bytes''
                then c8\<lparr>sc_RateLimit := (sc_RateLimit c8)\<lparr>BytesPerSecond := st_RateBytes y\<rparr>\<rparr> else c8);
          c10 = (if st_RateGas y \<noteq> 0 \<and> \<not> changed ''rate-gas''
                then c9\<lparr>sc_RateLimit := (sc_RateLimit c9)\<lparr>GasPerSecond := st_RateGas y\<rparr>\<rparr> else c9)
      in if st_RateBurstSize y \<noteq> 0 \<and> \<not> changed ''rate-burst-size''
         then c10\<lparr>sc_RateLimit := (sc_RateLimit c10)\<lparr>Burst := \<lparr> Size = st_RateBurstSize y \<rparr>\<rparr>\<rparr> else c10))"

subsection \<open>Commands\<close>

text \<open>A command returns, returns an error (on which \<^verbatim>\<open>main\<close> panics), exits or panics.\<close>

datatype 'a cmd_result = CmdDone 'a | CmdError go_error | CmdExit int | CmdPanic go_error

definition cmd_of_res :: "'a res \<Rightarrow> 'a cmd_result" where
  "cmd_of_res r = (case r of Ret x \<Rightarrow> CmdDone x | Panic e \<Rightarrow> CmdPanic e)"

definition main_result :: "'a cmd_result \<Rightarrow> 'a cmd_result" where
  "main_result r = (case r of CmdError e \<Rightarrow> CmdPanic e | _ \<Rightarrow> r)"

definition generate_RunE :: "('m, 'b, 't, 'w) gen_env \<Rightarrow> Genesis fs \<Rightarrow> gen_state cmd_result" where
  "generate_RunE G fs = (let genEnv = ge_env G in
     if gv_LocalNative genEnv \<and> gv_NumOfValidators genEnv > 4
     then CmdError (Msg ''number of validators must be less than or equal to 4 when running natively'')
     else if gv_LocalNative genEnv \<and> gv_NumOfSentryNodes genEnv > 0
     then CmdError (Msg ''number of sentry nodes must be 0 when running natively'')
     else cmd_of_res (GenerateConfigs G fs))"

datatype command = TxBankSend | TxBankSendMany | TxEthSend | TxEthCall | TxEthDeploy | TxEthInternalCall | TxEthUserOp
  | TxExchangeBatchOrders | TxWasmStoreCode | TxWasmInitContract | TxWasmExecContract

datatype 'g cmd_provider = Mixable provider | InternalCalls ethInternalCallProvider | UserOps ethUserOpProvider
  | Mixed "'g MixedPayloadProvider"

record ('b, 't) cmd_env =
  ce_readFile :: "string \<Rightarrow> bytes go"
  ce_unmarshalKeys :: "bytes \<Rightarrow> Secp256k1PrivateKey list go"
  ce_unmarshalYAML :: "bytes \<Rightarrow> MixedPayloadConfig go"
  ce_payload :: "('b, 't) mixed_env"
  ce_aa :: aa_env
  NewClientFromNode :: "string \<Rightarrow> unit go"
  grpc_NewClient :: "string \<Rightarrow> unit go"
  NewClientContext :: "string \<Rightarrow> unit go"

text \<open>\<^verbatim>\<open>chain.NewClient\<close>, as far as it can fail.\<close>

definition connect_client :: "('b, 't) cmd_env \<Rightarrow> StressConfig \<Rightarrow> unit res" where
  "connect_client C cfg =
     res_bind (orPanic (NewClientFromNode C (''tcp://'' @ sc_NodeAddress cfg))) (\<lambda>_.
     res_bind (orPanic (grpc_NewClient C (sc_GRPCAddress cfg))) (\<lambda>_.
     orPanic (NewClientContext C (sc_ChainID cfg))))"

definition HexToAddress :: "string \<Rightarrow> eth_address" where
  "HexToAddress s = BytesToAddress (FromHex s)"

fun new_provider :: "('b, 't) cmd_env \<Rightarrow> cmd_flags \<Rightarrow> StressConfig \<Rightarrow> command \<Rightarrow> 'g cmd_provider go" where
  "new_provider C f cfg TxBankSend = go_bind (wrap_err ''failed to initate bank send stress provider''
     (NewBankSendProvider (mx_sdk (ce_payload C)) (sc_MinGasPrice cfg) (''1'' @ DefaultBondDenom))) (\<lambda>p. Inr (Mixable (PBankSend p)))"
| "new_provider C f cfg TxBankSendMany = go_bind (wrap_err ''failed to initate bank multi send stress provider''
     (NewBankMultiSendProvider (mx_sdk (ce_payload C)) (mx_memo (ce_payload C)) (sc_MinGasPrice cfg) (''1'' @ DefaultBondDenom) (cf_targets f)))
     (\<lambda>p. Inr (Mixable (PBankMultiSend p)))"
| "new_provider C f cfg TxEthSend = go_bind (wrap_err ''failed to initate eth value send stress provider''
     (NewEthSendProvider (mx_sdk (ce_payload C)) (sc_EthChainID cfg) (sc_MinGasPrice cfg) (''1'' @ DefaultBondDenom))) (\<lambda>p. Inr (Mixable (PEthSend p)))"
| "new_provider C f cfg TxEthCall = go_bind (wrap_err ''failed to initate eth contract call stress provider''
     (NewEthCallProvider (mx_sdk (ce_payload C)) (mx_getAbi (ce_payload C)) (sc_EthChainID cfg) (sc_MinGasPrice cfg))) (\<lambda>p. Inr (Mixable (PEthCall p)))"
| "new_provider C f cfg TxEthDeploy = go_bind (wrap_err ''failed to initate eth contract deploy stress provider''
     (NewEthDeployProvider (mx_sdk (ce_payload C)) (mx_getAbi (ce_payload C)) (sc_EthChainID cfg) (sc_MinGasPrice cfg))) (\<lambda>p. Inr (Mixable (PEthDeploy p)))"
| "new_provider C f cfg TxEthInternalCall = go_bind (wrap_err ''failed to initate eth contract internal call stress provider''
     (NewEthInternalCallProvider (mx_sdk (ce_payload C)) (mx_getAbi (ce_payload C)) (sc_EthChainID cfg) (sc_MinGasPrice cfg) (cf_iterations f)))
     (\<lambda>p. Inr (InternalCalls p))"
| "new_provider C f cfg TxEthUserOp = go_bind (wrap_err ''failed to initiate eth UserOp stress provider''
     (NewEthUserOpProvider (mx_sdk (ce_payload C)) (ce_aa C) (cf_ethRPCURL f) (sc_EthChainID cfg) (sc_MinGasPrice cfg) 0
       (HexToAddress (cf_entrypointAddress f)) (HexToAddress (cf_beneficiaryAddress f)) (HexToAddress (cf_accountFactoryAddress f))
       (HexToAddress (cf_counterContractAddr f)))) (\<lambda>p. Inr (UserOps p))"
| "new_provider C f cfg TxExchangeBatchOrders = go_bind (wrap_err ''failed to initate exchange batch orders stress provider''
     (NewExchangeBatchOrdersProvider (mx_sdk (ce_payload C)) (sc_MinGasPrice cfg) (cf_spotMarketIDs f) (cf_derivativeMarketIDs f)))
     (\<lambda>p. Inr (Mixable (PExchange p)))"
| "new_provider C f cfg TxWasmStoreCode = go_bind (wrap_err ''failed to initiate wasm code store stress provider''
     (NewWasmStoreCodeProvider (mx_sdk (ce_payload C)) (sc_MinGasPrice cfg))) (\<lambda>p. Inr (Mixable (PWasmStore p)))"
| "new_provider C f cfg TxWasmInitContract = go_bind (wrap_err ''failed to initiate wasm init contract stress provider''
     (NewWasmInitContractProvider (mx_sdk (ce_payload C)) (sc_MinGasPrice cfg))) (\<lambda>p. Inr (Mixable (PWasmInit p)))"
| "new_provider C f cfg TxWasmExecContract = go_bind (wrap_err ''failed to initiate wasm exec stress provider''
     (NewWasmExecContractProvider (mx_sdk (ce_payload C)) (mx_sha256 (ce_payload C)) (mx_cw20 (ce_payload C)) (mx_salt (ce_payload C))
       (sc_MinGasPrice cfg))) (\<lambda>p. Inr (Mixable (PWasmExec p)))"

definition queries_chain :: "command \<Rightarrow> bool" where
  "queries_chain cmd \<longleftrightarrow> cmd = TxWasmInitContract \<or> cmd = TxWasmExecContract"

definition run_stress :: "(StressConfig \<Rightarrow> 'p \<Rightarrow> go_error option) \<Rightarrow> StressConfig \<Rightarrow> 'p go \<Rightarrow> (StressConfig \<times> 'p) cmd_result" where
  "run_stress stress cfg provider = (case provider of Inl err \<Rightarrow> CmdError err
     | Inr p \<Rightarrow> (case stress cfg p of Some err \<Rightarrow> CmdExit (- 1) | None \<Rightarrow> CmdDone (cfg, p)))"

definition stress_RunE ::
  "('b, 't) cmd_env \<Rightarrow> (StressConfig \<Rightarrow> 'g cmd_provider \<Rightarrow> go_error option) \<Rightarrow> cmd_flags \<Rightarrow> StressConfig \<Rightarrow> command
    \<Rightarrow> (StressConfig \<times> 'g cmd_provider) cmd_result" where
  "stress_RunE C stress f cfg cmd =
     (case readAccounts (ce_readFile C) (ce_unmarshalKeys C) cfg (cf_accountFile f) (cf_numOfAccounts f) of
        (Some err, _) \<Rightarrow> CmdPanic err
      | (None, cfg1) \<Rightarrow> (case (if queries_chain cmd then connect_client C cfg1 else Ret ()) of
          Panic err \<Rightarrow> CmdPanic err
        | Ret _ \<Rightarrow> run_stress stress cfg1 (new_provider C f cfg1 cmd)))"

definition mixed_RunE ::
  "('b, 't) cmd_env \<Rightarrow> 'g rng \<Rightarrow> int \<Rightarrow> (string \<Rightarrow> bool) \<Rightarrow> (StressConfig \<Rightarrow> 'g cmd_provider \<Rightarrow> go_error option) \<Rightarrow> cmd_flags \<Rightarrow> StressConfig
    \<Rightarrow> (StressConfig \<times> 'g cmd_provider) cmd_result" where
  "mixed_RunE C r nanos changed stress f cfg =
     (if cf_config f = [] then CmdError (Msg ''--config is required'')
      else case LoadMixedPayloadConfig (ce_readFile C) (ce_unmarshalYAML C) (cf_config f) of
        Inl err \<Rightarrow> CmdError (Wrap ''failed to load mixed payload config'' err)
      | Inr mixedCfg \<Rightarrow>
          (let cfg1 = applyStresserConfigFromYAML changed (mc_StresserConfig mixedCfg) cfg in
           case readAccounts (ce_readFile C) (ce_unmarshalKeys C) cfg1 (cf_accountFile f) (cf_numOfAccounts f) of
             (Some err, _) \<Rightarrow> CmdPanic err
           | (None, cfg2) \<Rightarrow> (case connect_client C cfg2 of
               Panic err \<Rightarrow> CmdPanic err
             | Ret _ \<Rightarrow> run_stress stress cfg2 (go_bind (wrap_err ''failed to create mixed payload provider''
                 (NewMixedPayloadProvider (ce_payload C) r nanos mixedCfg (sc_MinGasPrice cfg2) (sc_EthChainID cfg2))) (\<lambda>p. Inr (Mixed p))))))"

definition replay_PreRunE :: "TxReplayConfig \<Rightarrow> go_error option" where
  "replay_PreRunE cfg =
     (if CometRPC cfg = [] then Some (Msg ''--sniffer-rpc is required for remote sniffing.'')
      else if StartHeight cfg = 0 then Some (Msg ''--sniffer-start-height is required for remote sniffing.'')
      else if EndHeight cfg > 0 \<and> StartHeight cfg \<ge> EndHeight cfg
      then Some (Msg ''--sniffer-start-height must be less than --sniffer-end-height'')
      else None)"

definition replay_RunE ::
  "('b, 't) cmd_env \<Rightarrow> (string \<Rightarrow> unit go) \<Rightarrow> (StressConfig \<Rightarrow> replay_state \<Rightarrow> go_error option) \<Rightarrow> cmd_flags \<Rightarrow> StressConfig
    \<Rightarrow> (StressConfig \<times> replay_state) cmd_result" where
  "replay_RunE C sniffer_client stressReplay f cfg =
     (case connect_client C cfg of
        Panic err \<Rightarrow> CmdPanic err
      | Ret _ \<Rightarrow> run_stress stressReplay (cfg\<lparr>sc_AwaitTxConfirmation := False\<rparr>)
          (go_bind (wrap_err ''failed to initiate txns sniffer'' (wrap_err (''sniffer error: can'' @ [CHR 0x27] @ ''t create rpc client'')
            (sniffer_client (CometRPC (cf_replay f))))) (\<lambda>_. Inr (NewSniffer (cf_replay f)))))"

definition replay_command ::
  "('b, 't) cmd_env \<Rightarrow> (string \<Rightarrow> unit go) \<Rightarrow> (StressConfig \<Rightarrow> replay_state \<Rightarrow> go_error option) \<Rightarrow> cmd_flags \<Rightarrow> StressConfig
    \<Rightarrow> (StressConfig \<times> replay_state) cmd_result" where
  "replay_command C sniffer_client stressReplay f cfg = (case replay_PreRunE (cf_replay f) of
     Some err \<Rightarrow> CmdError err | None \<Rightarrow> replay_RunE C sniffer_client stressReplay f cfg)"

subsection \<open>Precedence\<close>

text \<open>The reference: a setting is the flag's when it was given, else the file's when it has one, else the flag's default.\<close>

definition setting :: "bool \<Rightarrow> 'a option \<Rightarrow> 'a \<Rightarrow> 'a" where
  "setting given from_file flag = (if given then flag else case from_file of Some v \<Rightarrow> v | None \<Rightarrow> flag)"

definition present :: "'a \<Rightarrow> 'a \<Rightarrow> 'a option" where
  "present zero v = (if v = zero then None else Some v)"

definition merged_config :: "(string \<Rightarrow> bool) \<Rightarrow> StresserConfig \<Rightarrow> StressConfig \<Rightarrow> StressConfig" where
  "merged_config changed y c = c\<lparr>
     sc_ChainID := setting (changed ''chain-id'') (present [] (st_ChainID y)) (sc_ChainID c),
     sc_EthChainID := setting (changed ''eth-chain-id'') (present 0 (st_EthChainID y)) (sc_EthChainID c),
     sc_MinGasPrice := setting (changed ''min-gas-price'') (present [] (st_MinGasPrice y)) (sc_MinGasPrice c),
     sc_NodeAddress := setting (changed ''node-addr'') (present [] (st_NodeAddress y)) (sc_NodeAddress c),
     sc_GRPCAddress := setting (changed ''grpc-addr'') (present [] (st_GRPCAddress y)) (sc_GRPCAddress c),
     sc_NumOfTransactions := setting (changed ''transactions'') (present 0 (st_NumOfTransactions y)) (sc_NumOfTransactions c),
     sc_AwaitTxConfirmation := setting (changed ''await'') (st_AwaitTxConfirmation y) (sc_AwaitTxConfirmation c),
     sc_RateLimit := \<lparr>
       TxPerSecond = setting (changed ''rate-tps'') (present fzero (st_RateTPS y)) (TxPerSecond (sc_RateLimit c)),
       BytesPerSecond = setting (changed ''rate-bytes'') (present 0 (st_RateBytes y)) (BytesPerSecond (sc_RateLimit c)),
       GasPerSecond = setting (changed ''rate-gas'') (present 0 (st_RateGas y)) (GasPerSecond (sc_RateLimit c)),
       Burst = \<lparr> Size = setting (changed ''rate-burst-size'') (present 0 (st_RateBurstSize y)) (Size (Burst (sc_RateLimit c))) \<rparr> \<rparr> \<rparr>"

lemma feq_zero: "feq x fzero \<longleftrightarrow> x = fzero"
  by (cases x) (auto simp: feq_def)

lemma setting_if: "setting given (present zero v) flag = (if v \<noteq> zero \<and> \<not> given then v else flag)"
  by (simp add: setting_def present_def)

lemma override_field:
  fixes c :: StressConfig
  shows
    "(if P then sc_ChainID_update (\<lambda>_. v0) c else c) = sc_ChainID_update (\<lambda>x. if P then v0 else x) c"
    "(if P then sc_EthChainID_update (\<lambda>_. v1) c else c) = sc_EthChainID_update (\<lambda>x. if P then v1 else x) c"
    "(if P then sc_MinGasPrice_update (\<lambda>_. v2) c else c) = sc_MinGasPrice_update (\<lambda>x. if P then v2 else x) c"
    "(if P then sc_NodeAddress_update (\<lambda>_. v3) c else c) = sc_NodeAddress_update (\<lambda>x. if P then v3 else x) c"
    "(if P then sc_GRPCAddress_update (\<lambda>_. v4) c else c) = sc_GRPCAddress_update (\<lambda>x. if P then v4 else x) c"
    "(if P then sc_AwaitTxConfirmation_update (\<lambda>_. v5) c else c) = sc_AwaitTxConfirmation_update (\<lambda>x. if P then v5 else x) c"
    "(if P then sc_NumOfTransactions_update (\<lambda>_. v6) c else c) = sc_NumOfTransactions_update (\<lambda>x. if P then v6 else x) c"
    "(if P then sc_RateLimit_update (\<lambda>_. TxPerSecond_update (\<lambda>_. r0) (sc_RateLimit c)) c else c) =
      sc_RateLimit_update (TxPerSecond_update (\<lambda>x. if P then r0 else x)) c"
    "(if P then sc_RateLimit_update (\<lambda>_. BytesPerSecond_update (\<lambda>_. r1) (sc_RateLimit c)) c else c) =
      sc_RateLimit_update (BytesPerSecond_update (\<lambda>x. if P then r1 else x)) c"
    "(if P then sc_RateLimit_update (\<lambda>_. GasPerSecond_update (\<lambda>_. r2) (sc_RateLimit c)) c else c) =
      sc_RateLimit_update (GasPerSecond_update (\<lambda>x. if P then r2 else x)) c"
    "(if P then sc_RateLimit_update (\<lambda>_. Burst_update (\<lambda>_. r3) (sc_RateLimit c)) c else c) =
      sc_RateLimit_update (Burst_update (\<lambda>x. if P then r3 else x)) c"
  by (cases c; simp)+

text \<open>C24: The settings of a mixed run are merged field by field: what a flag gives explicitly wins over the YAML file, the
  file over the default, an absent or zero value of the file counts as none, and the accounts and the fuzzing
  settings are untouched.\<close>

theorem yaml_precedence: "applyStresserConfigFromYAML changed (Some y) c = merged_config changed y c"
proof (cases c)
  case (fields cid eid mgp node grpc accs num await fuzz rl)
  obtain tps bytes gas n where rl: "rl = \<lparr> TxPerSecond = tps, BytesPerSecond = bytes, GasPerSecond = gas, Burst = \<lparr> Size = n \<rparr> \<rparr>"
    by (metis rl_config.cases burst_config.cases old.unit.exhaust)
  have burst: "(if P then \<lparr> Size = a \<rparr> else \<lparr> Size = b \<rparr>) = \<lparr> Size = if P then a else b \<rparr>" for P a b by simp
  have await: "(case st_AwaitTxConfirmation y of Some b \<Rightarrow> sc_AwaitTxConfirmation_update (\<lambda>x. if \<not> changed ''await'' then b else x) c | None \<Rightarrow> c) =
      sc_AwaitTxConfirmation_update (\<lambda>x. setting (changed ''await'') (st_AwaitTxConfirmation y) x) c" for c
    by (cases c) (simp add: setting_def split: option.split)
  show ?thesis
    unfolding applyStresserConfigFromYAML_def option.case override_field await Let_def
    by (simp add: fields rl merged_config_def setting_if feq_zero burst split del: if_split)
qed

subsection \<open>What the commands start\<close>

lemma readAccounts_ok:
  "readAccounts rd un cfg f n = (None, cfg') \<longleftrightarrow>
    (\<exists>raw keys. 0 < n \<and> rd f = Inr raw \<and> un raw = Inr keys \<and> n \<le> int (length keys) \<and> cfg' = cfg\<lparr>sc_Accounts := take (nat n) keys\<rparr>)"
  by (auto simp: readAccounts_def split: sum.split)

lemma run_stress_done: "run_stress stress cfg r = CmdDone (cfg', p) \<longleftrightarrow> r = Inr p \<and> cfg' = cfg \<and> stress cfg p = None"
  by (auto simp: run_stress_def split: sum.split option.split)

text \<open>A stress command that completes ran with exactly the requested number of accounts, which is positive, on the
  configuration of its flags and with the provider the command is named for; in particular the stresser
  never meets an empty list of accounts.\<close>

theorem stress_command_accounts:
  assumes "stress_RunE C stress f cfg cmd = CmdDone (cfg', p)"
  shows "0 < cf_numOfAccounts f \<and> int (length (sc_Accounts cfg')) = cf_numOfAccounts f \<and> cfg' = cfg\<lparr>sc_Accounts := sc_Accounts cfg'\<rparr> \<and>
    new_provider C f cfg' cmd = Inr p \<and> stress cfg' p = None"
  using assms
  by (auto simp: stress_RunE_def run_stress_done readAccounts_ok split: prod.split_asm option.split_asm res.split_asm)

text \<open>C34: A network that the command \<^verbatim>\<open>generate\<close> makes for running natively has at most four nodes and no port that
  two of them, or two services of one, would share.\<close>

theorem generate_native_ports:
  assumes "generate_RunE G fs = CmdDone s" and "gv_LocalNative (ge_env G)"
  shows "length (gs_nodes s) \<le> 4 \<and> distinct (concat (map (\<lambda>nc. ports_list (nc_Ports nc)) (gs_nodes s)))"
proof -
  have gen: "GenerateConfigs G fs = Ret s" and few: "gv_NumOfValidators (ge_env G) \<le> 4" "gv_NumOfSentryNodes (ge_env G) \<le> 0"
    using assms by (auto simp: generate_RunE_def cmd_of_res_def Let_def split: if_split_asm res.split_asm)
  obtain vals sents t where n: "gs_nodes s = map (linked vals) vals @ sents"
      "list_all2 (\<lambda>i nc. validator_node G (int i) = Ret nc) [0..<nat (gv_NumOfValidators (ge_env G))] vals"
      "list_all2 (\<lambda>i nc. sentry_node G t (int i) = Ret nc) [0..<nat (gv_NumOfSentryNodes (ge_env G))] sents"
    using generated_nodes [OF gen] by blast
  have "length (gs_nodes s) \<le> 4" using list_all2_lengthD [OF n(2)] list_all2_lengthD [OF n(3)] few by (simp add: n(1))
  with native_ports_distinct [OF gen assms(2) few(2)] few(1) show ?thesis by simp
qed

text \<open>A range of heights that the command \<^verbatim>\<open>tx-replay\<close> accepts is not empty: with an end height that is not negative the
  sniffer's first turn downloads the block at the start height, when it can be had, instead of ending.\<close>

theorem replay_range_not_empty:
  assumes "replay_PreRunE cfg = None" and "0 \<le> EndHeight cfg" and "fetch (StartHeight cfg) = Inr b"
  shows "\<exists>s. sniffer_run cfg fetch (NewSniffer cfg) s \<and> blocksCh s = [b] \<and> \<not> sniffer_run cfg fetch (NewSniffer cfg) ((NewSniffer cfg)\<lparr>sn := Closed\<rparr>)"
proof -
  have open_range: "\<not> reached_end cfg (StartHeight cfg)"
    using assms(1,2) by (auto simp: replay_PreRunE_def reached_end_def split: if_split_asm)
  let ?s = "(NewSniffer cfg)\<lparr>sn := Sniffing (wrap_int (StartHeight cfg + 1)), blocksCh := blocksCh (NewSniffer cfg) @ [b]\<rparr>"
  have "sniffer_run cfg fetch (NewSniffer cfg) ?s"
    by (rule sniffer_run.block) (use open_range assms(3) in \<open>simp_all add: NewSniffer_def DEFAULT_BLOCKS_BUFFER_def\<close>)
  moreover have "\<not> sniffer_run cfg fetch (NewSniffer cfg) ((NewSniffer cfg)\<lparr>sn := Closed\<rparr>)"
    using open_range assms(3) by (auto elim!: sniffer_run.cases simp: NewSniffer_def)
  ultimately show ?thesis by (intro exI [of _ ?s]) (simp add: NewSniffer_def)
qed

lemma negative_end_accepted:
  "replay_PreRunE \<lparr> CometRPC = ''http://127.0.0.1:26657'', StartHeight = 5, EndHeight = - 1 \<rparr> = None \<and>
   reached_end \<lparr> CometRPC = ''http://127.0.0.1:26657'', StartHeight = 5, EndHeight = - 1 \<rparr> 5"
  by (simp add: replay_PreRunE_def reached_end_def)

subsection \<open>A worked instance\<close>

definition example_cmd :: "(bytes \<times> SignatureV2 option, bytes \<times> SignatureV2 option) cmd_env" where
  "example_cmd = \<lparr> ce_readFile = (\<lambda>_. Inr []), ce_unmarshalKeys = (\<lambda>_. Inr [[1], [2], [3]]), ce_unmarshalYAML = (\<lambda>_. Inl (Msg ''no file'')),
     ce_payload = example_mixed_env, ce_aa = example_aa_env, 
     NewClientFromNode = (\<lambda>_. Inr ()), grpc_NewClient = (\<lambda>_. Inr ()), NewClientContext = (\<lambda>_. Inr ()) \<rparr>"

lemma example_stress_run:
  "stress_RunE example_cmd (\<lambda>_ _. None) (default_flags\<lparr>cf_numOfAccounts := 2\<rparr>) (default_StressConfig\<lparr>sc_MinGasPrice := ''7inj''\<rparr>) TxWasmStoreCode =
    CmdDone (default_StressConfig\<lparr>sc_MinGasPrice := ''7inj'', sc_Accounts := [[1], [2]]\<rparr>,
      Mixable (PWasmStore \<lparr> ws_minGasPrice = (''inj'', 7), ws_maxGasLimit = defaultMaxGasLimit, ws_memoAttach = [] \<rparr>))"
  by (simp add: stress_RunE_def readAccounts_def example_cmd_def default_flags_def queries_chain_def run_stress_def example_mixed_env_def
    NewWasmStoreCodeProvider_def parse_coin_def example_sdk_def default_StressConfig_def numeral_2_eq_2)

theorem stress_command_accounts_witness:
  "\<exists>cfg' p. stress_RunE example_cmd (\<lambda>_ _. None) (default_flags\<lparr>cf_numOfAccounts := 2\<rparr>) (default_StressConfig\<lparr>sc_MinGasPrice := ''7inj''\<rparr>) TxWasmStoreCode =
      CmdDone (cfg', p) \<and> int (length (sc_Accounts cfg')) = 2 \<and> new_provider example_cmd (default_flags\<lparr>cf_numOfAccounts := 2\<rparr>) cfg' TxWasmStoreCode = Inr p"
  by (rule exI, rule exI, rule conjI [OF example_stress_run]) (use stress_command_accounts [OF example_stress_run] in simp)

theorem generate_native_ports_witness:
  "\<exists>s. generate_RunE (example_gen True 0) Map.empty = CmdDone s \<and> length (gs_nodes s) \<le> 4 \<and>
    distinct (concat (map (\<lambda>nc. ports_list (nc_Ports nc)) (gs_nodes s)))"
proof -
  obtain s where "GenerateConfigs (example_gen True 0) Map.empty = Ret s" using example_gen_generates by fastforce
  then have "generate_RunE (example_gen True 0) Map.empty = CmdDone s"
    by (simp add: generate_RunE_def cmd_of_res_def Let_def) (simp add: example_gen_def)
  from generate_native_ports [OF this] this show ?thesis by (auto simp: example_gen_def)
qed

theorem replay_range_not_empty_witness:
  "\<exists>s. sniffer_run (example_range\<lparr>CometRPC := ''http://127.0.0.1:26657''\<rparr>) example_fetch (NewSniffer (example_range\<lparr>CometRPC := ''http://127.0.0.1:26657''\<rparr>)) s \<and>
    blocksCh s = [\<lparr> blk_Height = 1, blk_Txs = [[1], []] \<rparr>]"
  using replay_range_not_empty [of "example_range\<lparr>CometRPC := ''http://127.0.0.1:26657''\<rparr>" example_fetch]
  by (auto simp: replay_PreRunE_def example_range_def example_fetch_def)

end
