(* ===== verification/Stress_Run.thy ===== *)
theory Stress_Run
  imports Payload_Native
begin

text \<open>
  A whole run of \<^verbatim>\<open>Stress\<close> (\<^verbatim>\<open>stresser.go\<close>): the checks of the configuration, the initial transactions, the
  preparation and the broadcast put together, for a chain that keeps account sequences. \<open>stress_run_from\<close>
  takes any initial phase; providers without initial transactions are the first instance of it.
\<close>

subsection \<open>What the chain does with one transaction\<close>

definition chain_takes :: "('m, 'b, 't, 'w) Client \<Rightarrow> ('w \<Rightarrow> nat \<Rightarrow> nat) \<Rightarrow> nat \<Rightarrow> nat \<Rightarrow> bytes \<Rightarrow> bool" where
  "chain_takes client cur i q tx \<longleftrightarrow> (\<forall>w. \<exists>k w1 r w2. after_full client tx k w = Some w1 \<and>
     BroadcastTxSync (cl_Node client) tx w1 = (Inr r, w2) \<and>
     (if cur w i = q
      then res_Code r = 0 \<and> (\<exists>hb. hex_decode (res_Hash r) = Inr hb) \<and> cur w2 = (cur w)(i := Suc (cur w i))
      else sequence_rejection (cl_Errors client) r (cur w i) \<and> cur w2 = cur w))"

lemma node_sequences_takes:
  "node_sequences client n txs seqs cur \<longleftrightarrow>
    (\<forall>i < length txs. \<forall>j < n. chain_takes client cur i (unat (seqs ! i) + j) (txs ! i ! j))"
  by (simp add: node_sequences_def chain_takes_def)

text \<open>
  The accounts are found on the chain by the queries of the client, which leave it as it is; their
  sequences are those the chain expects, and leave room for the transactions of the run. Every
  transaction that the provider signs for account \<open>i\<close> and index \<open>j\<close> is one that the chain takes at that
  account's sequence plus \<open>j\<close>.
\<close>

definition fetched_sequence :: "'p prep_env \<Rightarrow> nat \<Rightarrow> uint64" where
  "fetched_sequence E i = (case pr_fetch E i of Inr (num, seq) \<Rightarrow> seq | Inl _ \<Rightarrow> 0)"

definition accounts_ready ::
  "('p, 'rl, 'c, 'm, 'b, 't, 'w) stress_env \<Rightarrow> nat \<Rightarrow> ('w \<Rightarrow> nat \<Rightarrow> nat) \<Rightarrow> 'w \<Rightarrow> bool" where
  "accounts_ready V n cur w \<longleftrightarrow> (\<forall>i < length (pr_accounts (se_prep V)). (\<exists>r. pr_fetch (se_prep V) i = Inr r) \<and>
     cur w i = unat (fetched_sequence (se_prep V) i) \<and> cur w i + n < 2 ^ 63)"

definition accounts_known ::
  "('p, 'rl, 'c, 'm, 'b, 't, 'w) stress_env \<Rightarrow> nat \<Rightarrow> ('w \<Rightarrow> nat \<Rightarrow> nat) \<Rightarrow> 'w \<Rightarrow> bool" where
  "accounts_known V n cur w \<longleftrightarrow> (\<forall>i < length (pr_accounts (se_prep V)).
     (\<exists>r. pr_fetch (se_prep V) i = Inr r \<and>
       getAccountNumberSequence (se_retryN V) (se_client V) (AccAddress (cl_Keys (se_client V)) (pr_accounts (se_prep V) ! i)) w =
         Ret (Some (Inr r, w))) \<and>
     cur w i = unat (fetched_sequence (se_prep V) i) \<and> cur w i + n < 2 ^ 63)"

lemma known_ready: "accounts_known V n cur w \<Longrightarrow> accounts_ready V n cur w"
  by (auto simp: accounts_known_def accounts_ready_def)

definition chain_takes_signed ::
  "('p, 'rl, 'c, 'm, 'b, 't, 'w) stress_env \<Rightarrow> nat \<Rightarrow> ('w \<Rightarrow> nat \<Rightarrow> nat) \<Rightarrow> bool" where
  "chain_takes_signed V n cur \<longleftrightarrow> (\<forall>i < length (pr_accounts (se_prep V)). \<forall>j < n. \<forall>t. signed_for (se_prep V) i j t \<longrightarrow>
     chain_takes (se_client V) cur i (unat (fetched_sequence (se_prep V) i) + j) (tx_Bytes t))"

text \<open>The same for the transactions that the provider signs in the states \<open>P\<close>.\<close>

definition signed_in :: "'p prep_env \<Rightarrow> ('p \<Rightarrow> bool) \<Rightarrow> nat \<Rightarrow> nat \<Rightarrow> Tx \<Rightarrow> bool" where
  "signed_in E P i j t' \<longleftrightarrow> (\<exists>t p p' q q'. P p \<and> P q \<and> pr_gen E (tx_request E i j (account_at E i j)) p = (Ret (Inr t), p') \<and>
     pr_sign E t q = (Ret (Inr t'), q'))"

definition chain_takes_in ::
  "('p, 'rl, 'c, 'm, 'b, 't, 'w) stress_env \<Rightarrow> ('p \<Rightarrow> bool) \<Rightarrow> nat \<Rightarrow> ('w \<Rightarrow> nat \<Rightarrow> nat) \<Rightarrow> bool" where
  "chain_takes_in V P n cur \<longleftrightarrow> (\<forall>i < length (pr_accounts (se_prep V)). \<forall>j < n. \<forall>t. signed_in (se_prep V) P i j t \<longrightarrow>
     chain_takes (se_client V) cur i (unat (fetched_sequence (se_prep V) i) + j) (tx_Bytes t))"

lemma takes_signed_in: "chain_takes_signed V n cur \<Longrightarrow> chain_takes_in V P n cur"
  unfolding chain_takes_signed_def chain_takes_in_def signed_in_def signed_for_def generated_for_def by blast

definition runs_config :: "('p, 'rl, 'c, 'm, 'b, 't, 'w) stress_env \<Rightarrow> StressConfig \<Rightarrow> nat \<Rightarrow> bool" where
  "runs_config V config n \<longleftrightarrow> sc_EthChainID config \<noteq> 0 \<and> sc_ChainID config \<noteq> [] \<and> sc_Accounts config \<noteq> [] \<and>
     sc_NumOfTransactions config = int n \<and> 0 < n \<and> \<not> sc_AwaitTxConfirmation config \<and> config_ok (sc_RateLimit config) \<and>
     pr_accounts (se_prep V) = sc_Accounts config \<and> pr_numTxs (se_prep V) = n \<and> 0 < pr_numCPU (se_prep V)"

subsection \<open>Preparations that stay within the states of the provider\<close>

text \<open>The provider cut down to the states \<open>P\<close>: elsewhere it fails. A preparation that stays in \<open>P\<close> cannot tell.\<close>

definition within_states :: "('p \<Rightarrow> bool) \<Rightarrow> 'p prep_env \<Rightarrow> 'p prep_env" where
  "within_states P E = E\<lparr>pr_gen := (\<lambda>req p. if P p then pr_gen E req p else (Ret (Inl (Msg [])), p)),
     pr_sign := (\<lambda>t p. if P p then pr_sign E t p else (Ret (Inl (Msg [])), p))\<rparr>"

lemma within_states_simps [simp]:
  "pr_accounts (within_states P E) = pr_accounts E" "pr_numTxs (within_states P E) = pr_numTxs E"
  "pr_fetch (within_states P E) = pr_fetch E" "pr_numCPU (within_states P E) = pr_numCPU E"
  "prep_init (within_states P E) p = prep_init E p" "prep_done (within_states P E) s = prep_done E s"
  "pr_gen (within_states P E) req p = (if P p then pr_gen E req p else (Ret (Inl (Msg [])), p))"
  "pr_sign (within_states P E) t p = (if P p then pr_sign E t p else (Ret (Inl (Msg [])), p))"
  by (simp_all add: within_states_def prep_init_def prep_done_def)

lemma within_states_accounts [simp]:
  "sender_account (within_states P E) i num sq = sender_account E i num sq"
  "tx_request (within_states P E) i j acc = tx_request E i j acc"
  "account_at (within_states P E) i j = account_at E i j"
  by (simp_all add: sender_account_def tx_request_def account_at_def split: sum.split prod.split)

lemma within_states_provider:
  "tx_provider (pr_gen E) (pr_sign E) \<Longrightarrow> tx_provider (pr_gen (within_states P E)) (pr_sign (within_states P E))"
  by (auto simp: tx_provider_def within_states_def split: if_split_asm)

lemma within_states_step:
  assumes "prep_step E s (Going s')" and "P (prov s)"
  shows "prep_step (within_states P E) s (Going s')"
proof -
  have "pr_gen (within_states P E) req (prov s) = pr_gen E req (prov s)" "pr_sign (within_states P E) t (prov s) = pr_sign E t (prov s)" for req t
    using assms(2) by (simp_all add: within_states_def)
  note same = this [symmetric]
  from assms(1) show ?thesis
  proof cases
    case (start i num seq) then show ?thesis using prep_step.start [where E = "within_states P E"] by simp
  next
    case (generate i j acc t p') then show ?thesis using prep_step.generate [where E = "within_states P E"] by (simp add: same)
  next
    case (finish i j acc) then show ?thesis using prep_step.finish [where E = "within_states P E"] by simp
  next
    case (sign t q t' p') then show ?thesis using prep_step.sign [where E = "within_states P E"] by (simp add: same)
  next
    case (put xs t ys) then show ?thesis using prep_step.put [where E = "within_states P E"] by simp
  next
    case (collect t q m) then show ?thesis using prep_step.collect [where E = "within_states P E"] by simp
  qed
qed

lemma within_states_reach:
  assumes "tx_provider (pr_gen E) (pr_sign E)" and "prep_reach E (prep_init E p) s" and "provider_succeeds E P" and "P p"
  shows "prep_reach (within_states P E) (prep_init E p) s"
  using assms(2)
proof (induction "prep_init E p" s rule: prep_reach.induct)
  case refl
  show ?case by (rule prep_reach.refl)
next
  case (step s' s'')
  from within_states_step [where P = P, OF step(3)] provider_state_reach [OF assms(1) step(1) assms(3,4)] step(2)
  show ?case by (blast intro: prep_reach.step)
qed

lemma entries_in_states:
  assumes "tx_provider (pr_gen E) (pr_sign E)" and "prep_reach E (prep_init E p) s" and "provider_succeeds E P" and "P p"
    and "prep_done E s" and "i < length (pr_accounts E)" and "j < pr_numTxs E"
  shows "(\<exists>t'. signed_in E P i j t' \<and> signedTxs s ! i ! j = tx_Bytes t') \<and>
    (\<exists>num. pr_fetch E i = Inr (num, initialAccountSequences s ! i))"
proof -
  have "signed_in E P i j t" if "signed_for (within_states P E) i j t" for t
    using that by (simp add: signed_for_def generated_for_def signed_in_def split: if_split_asm) blast
  with matrix_entries [OF within_states_provider [OF assms(1)], of P p s i j] within_states_reach [OF assms(1-4)] assms(5-7)
  show ?thesis by (simp, blast)
qed

subsection \<open>The phases\<close>

lemma generate_initial_none:
  assumes "\<And>req q. gen req q = (Ret (Inr None), q)"
    and "\<forall>key \<in> set keys. \<exists>r. getns (AccAddress kl key) w = Ret (Some (Inr r, w))"
  shows "generate_initial getns kl gen k keys (p, w) = Ret (Some (Inr [], (p, w)))"
  using assms(2)
proof (induction keys arbitrary: k)
  case (Cons key keys)
  then obtain num seq where "getns (AccAddress kl key) w = Ret (Some (Inr (num, seq), w))" by auto
  with Cons show ?case by (simp add: assms(1))
qed simp

lemma stress_initial_none:
  assumes "\<And>req q. se_gen_initial V req q = (Ret (Inr None), q)" and "runs_config V config n" and "accounts_known V n cur w"
  shows "stress_initial V config order p w =
    Ret (Some (None, \<lparr> is_prov = p, is_world = w, is_sent = [], is_panic = None, is_stuck = False \<rparr>))"
proof -
  have "\<forall>key \<in> set (sc_Accounts config). \<exists>r. getAccountNumberSequence (se_retryN V) (se_client V) (AccAddress (cl_Keys (se_client V)) key) w =
      Ret (Some (Inr r, w))"
    using assms(2,3) unfolding accounts_known_def runs_config_def by (metis in_set_conv_nth)
  then have "generate_initial (getAccountNumberSequence (se_retryN V) (se_client V)) (cl_Keys (se_client V)) (se_gen_initial V) 0
      (sc_Accounts config) (p, w) = Ret (Some (Inr [], (p, w)))"
    by (intro generate_initial_none assms(1))
  then show ?thesis
    by (simp add: stress_initial_def createAndBroadcastInitialTxs_def)
qed

lemma prepared_matrix:
  assumes "tx_provider (pr_gen (se_prep V)) (pr_sign (se_prep V))" and "provider_succeeds (se_prep V) P" and "P p"
    and "runs_config V config n" and "accounts_ready V n cur w" and "chain_takes_in V P n cur"
    and "prep_reach (se_prep V) (prep_init (se_prep V) p) ps" and "prep_done (se_prep V) ps"
  shows "length (signedTxs ps) = length (sc_Accounts config)"
    and "matrix_ok n (signedTxs ps) (initialAccountSequences ps)"
    and "node_sequences (se_client V) n (signedTxs ps) (initialAccountSequences ps) cur"
    and "\<forall>i < length (signedTxs ps). initialAccountSequences ps ! i = fetched_sequence (se_prep V) i \<and> cur w i = unat (initialAccountSequences ps ! i)"
proof -
  let ?E = "se_prep V"
  have E: "pr_accounts ?E = sc_Accounts config" "pr_numTxs ?E = n" "0 < n" using assms(4) by (simp_all add: runs_config_def)
  have shape: "length (signedTxs ps) = length (pr_accounts ?E)" "length (initialAccountSequences ps) = length (pr_accounts ?E)"
      "\<forall>row \<in> set (signedTxs ps). length row = n"
    using prep_inv_reach [OF assms(1,7)] E(2) by (simp_all add: prep_inv_def shape_ok_def)
  then show "length (signedTxs ps) = length (sc_Accounts config)" by (simp add: E(1))
  note entry = entries_in_states [OF assms(1,7,2,3,8)]
  have seq: "initialAccountSequences ps ! i = fetched_sequence ?E i" if "i < length (pr_accounts ?E)" for i
    using entry [OF that, of 0] E by (auto simp: fetched_sequence_def)
  show "matrix_ok n (signedTxs ps) (initialAccountSequences ps)"
    using shape assms(5) by (auto simp: matrix_ok_def accounts_ready_def seq)
  show "\<forall>i < length (signedTxs ps). initialAccountSequences ps ! i = fetched_sequence ?E i \<and> cur w i = unat (initialAccountSequences ps ! i)"
    using shape(1) assms(5) by (auto simp: accounts_ready_def seq)
  show "node_sequences (se_client V) n (signedTxs ps) (initialAccountSequences ps) cur"
    unfolding node_sequences_takes
  proof (intro allI impI)
    fix i j assume "i < length (signedTxs ps)" "j < n"
    then obtain t where "signed_in ?E P i j t" "signedTxs ps ! i ! j = tx_Bytes t" "i < length (pr_accounts ?E)"
      using entry [of i j] E(2) shape(1) by auto
    with assms(6) \<open>j < n\<close> show "chain_takes (se_client V) cur i (unat (initialAccountSequences ps ! i) + j) (signedTxs ps ! i ! j)"
      by (simp add: chain_takes_in_def seq)
  qed
qed

subsection \<open>The run\<close>

lemma stress_run_starts:
  assumes "tx_provider (pr_gen (se_prep V)) (pr_sign (se_prep V))" and "provider_succeeds (se_prep V) P" and "P p"
    and "runs_config V config n" and "accounts_ready V n cur w"
  shows "accounts_fetched (se_prep V)" and "0 < pr_numCPU (se_prep V)"
    and "prep_reach (se_prep V) (prep_init (se_prep V) p) ps \<Longrightarrow> \<not> prep_step (se_prep V) ps (Died e)"
proof -
  show fetched: "accounts_fetched (se_prep V)" using assms(5) by (auto simp: accounts_fetched_def accounts_ready_def)
  show "0 < pr_numCPU (se_prep V)" using assms(4) by (simp add: runs_config_def)
  show "\<not> prep_step (se_prep V) ps (Died e)" if "prep_reach (se_prep V) (prep_init (se_prep V) p) ps"
    by (rule prep_no_death [OF assms(1) prep_inv_reach [OF assms(1) that] provider_state_reach [OF assms(1) that assms(2,3)] assms(2) fetched])
qed

text \<open>The initial phase ends well: in whatever order its transactions are broadcast, the provider is then in a state
  \<open>P\<close> and the chain has the accounts ready.\<close>

definition initial_phase_ends ::
  "('p, 'rl, 'c, 'm, 'b, 't, 'w) stress_env \<Rightarrow> StressConfig \<Rightarrow> ('p \<Rightarrow> bool) \<Rightarrow> nat \<Rightarrow> ('w \<Rightarrow> nat \<Rightarrow> nat) \<Rightarrow> 'p \<Rightarrow> 'w \<Rightarrow> bool" where
  "initial_phase_ends V config P n cur p w \<longleftrightarrow> (\<forall>order. reorders order \<longrightarrow>
     (\<exists>st. stress_initial V config order p w = Ret (Some (None, st)) \<and> P (is_prov st) \<and> accounts_ready V n cur (is_world st)))"

lemma reorders_id: "reorders id"
  by (simp add: reorders_def)

lemma stress_run_from:
  assumes "tx_provider (pr_gen (se_prep V)) (pr_sign (se_prep V))" and "provider_succeeds (se_prep V) P"
    and "initial_phase_ends V config P n cur p w"
    and "retries_until_succeeded (se_retryB V)" and "rate_lib_grants (se_lib V) (se_ctx V) cap used"
    and "runs_config V config n" and "chain_takes_in V P n cur"
  shows "(\<exists>s. Stress V config p w (Completed s)) \<and>
    (\<forall>out. Stress V config p w out \<longrightarrow>
      (\<exists>s. out = Completed s \<and> (\<forall>i < length (sc_Accounts config). cur (snd s) i = unat (fetched_sequence (se_prep V) i) + n)))"
proof -
  have c: "sc_EthChainID config \<noteq> 0" "sc_ChainID config \<noteq> []" "sc_Accounts config \<noteq> []" "sc_NumOfTransactions config = int n"
      "\<not> sc_AwaitTxConfirmation config" "config_ok (sc_RateLimit config)"
    using assms(6) by (simp_all add: runs_config_def)
  have init: "P (is_prov st)" "accounts_ready V n cur (is_world st)"
    if "reorders order" "stress_initial V config order p w = Ret (Some (None, st))" for order st
    using assms(3) that unfolding initial_phase_ends_def by force+
  note start = stress_run_starts [OF assms(1,2) _ assms(6)] and matrix = prepared_matrix [OF assms(1,2) _ assms(6) _ assms(7)]
  have "\<exists>s. Stress V config p w (Completed s)"
  proof -
    obtain st where st: "stress_initial V config id p w = Ret (Some (None, st))" and P: "P (is_prov st)" and ready: "accounts_ready V n cur (is_world st)"
      using assms(3) reorders_id unfolding initial_phase_ends_def by blast
    from preparation_completes [OF assms(1,2) P start(1,2) [OF P ready]] obtain ps
      where ps: "prep_reach (se_prep V) (prep_init (se_prep V) (is_prov st)) ps" "prep_done (se_prep V) ps" by blast
    note m = matrix [OF P ready ps]
    have seqs: "\<forall>i < length (signedTxs ps). cur (is_world st) i = unat (initialAccountSequences ps ! i)" using m(4) by blast
    note b = stress_start [OF assms(4,5) c(6,5) m(3) seqs]
    from bcast_completes [OF b(1) m(2) b(2)] obtain sts s
      where run: "(bcast_step (stress_bcast V config) (sc_NumOfTransactions config) (signedTxs ps) (initialAccountSequences ps))\<^sup>*\<^sup>*
          (replicate (length (signedTxs ps)) (At 0), (stress_limiter V config, is_world st)) (sts, s)" and sent: "set sts \<subseteq> {Sent}"
      unfolding c(4) by blast
    from Stress.broadcast_ends [OF c(1-3) reorders_id st ps run all_sent [OF sent]] show ?thesis ..
  qed
  moreover have "\<exists>s. out = Completed s \<and> (\<forall>i < length (sc_Accounts config). cur (snd s) i = unat (fetched_sequence (se_prep V) i) + n)"
    if "Stress V config p w out" for out
    using that
  proof cases
    case (broadcast_ends order st ps sts s)
    note m = matrix [OF init [OF broadcast_ends(4,5)] broadcast_ends(6,7)]
    have seqs: "\<forall>i < length (signedTxs ps). cur (is_world st) i = unat (initialAccountSequences ps ! i)" using m(4) by blast
    from stress_broadcast_complete [OF assms(4,5) c(6,5,4) m(3,2) seqs broadcast_ends(8,9)] m(1,4)
    show ?thesis by auto
  next
    case (preparation_dies order st ps e)
    then show ?thesis using init [OF preparation_dies(5,6)] start(3) by blast
  next
    case (initial_panic order r e)
    then show ?thesis using assms(3) unfolding initial_phase_ends_def by force
  qed (use c in simp_all)
  ultimately show ?thesis by blast
qed

lemma stress_run:
  assumes "tx_provider (pr_gen (se_prep V)) (pr_sign (se_prep V))" and "provider_succeeds (se_prep V) P" and "P p"
    and "\<And>req q. se_gen_initial V req q = (Ret (Inr None), q)"
    and "retries_until_succeeded (se_retryB V)" and "rate_lib_grants (se_lib V) (se_ctx V) cap used"
    and "runs_config V config n" and "accounts_known V n cur w" and "chain_takes_signed V n cur"
  shows "(\<exists>s. Stress V config p w (Completed s)) \<and>
    (\<forall>out. Stress V config p w out \<longrightarrow> (\<exists>s. out = Completed s \<and> (\<forall>i < length (sc_Accounts config). cur (snd s) i = cur w i + n)))"
proof -
  have "initial_phase_ends V config P n cur p w"
    using stress_initial_none [of V, OF assms(4,7,8)] known_ready [OF assms(8)] assms(3) by (simp add: initial_phase_ends_def)
  note run = stress_run_from [OF assms(1,2) this assms(5-7) takes_signed_in [OF assms(9)]]
  have "cur w i = unat (fetched_sequence (se_prep V) i)" if "i < length (sc_Accounts config)" for i
    using that assms(7,8) by (simp add: accounts_known_def runs_config_def)
  with run show ?thesis by fastforce
qed


subsection \<open>Transfers\<close>

text \<open>
  What the SDK promises of building and signing: messages and signatures can be set, the bytes to sign
  and the signature can be made, and a transaction with a signature can be encoded.
\<close>

definition signing_works :: "('m, 'b, 't, 'w) Client \<Rightarrow> bool" where
  "signing_works c \<longleftrightarrow> (let cfg = cl_TxConfig c in
     (\<forall>ms b. \<exists>b'. SetMsgs cfg ms b = Inr b') \<and> (\<forall>g b. \<exists>b'. SetSignatures cfg [g] b = Inr b') \<and>
     (\<forall>d t. \<exists>bs. GetSignBytes cfg d t = Inr bs) \<and> (\<forall>k m. \<exists>sg. priv_sign (cl_Keys c) k m = Inr sg) \<and>
     (\<forall>g b b'. SetSignatures cfg [g] b = Inr b' \<longrightarrow> (\<exists>bs. TxEncoder cfg (GetTx cfg b') = Inr bs)))"

text \<open>The chain takes what the key of account \<open>i\<close> has signed at the sequence it was signed for, among the next \<open>n\<close>
  sequences of the account.\<close>

definition chain_checks_signer ::
  "('m, 'b, 't, 'w) Client \<Rightarrow> Secp256k1PrivateKey list \<Rightarrow> nat \<Rightarrow> ('w \<Rightarrow> nat \<Rightarrow> nat) \<Rightarrow> 'w \<Rightarrow> bool" where
  "chain_checks_signer c keys n cur w \<longleftrightarrow> (\<forall>i < length keys. \<forall>num seq fee gas memo msgs t bs.
     cur w i \<le> unat seq \<longrightarrow> unat seq < cur w i + n \<longrightarrow>
     buildAndSignTx c (keys ! i) num seq fee gas memo msgs = Ret (Inr t) \<longrightarrow> TxEncoder (cl_TxConfig c) t = Inr bs \<longrightarrow>
     chain_takes c cur i (unat seq) bs)"

lemma signs:
  assumes "signing_works c"
  shows "\<exists>t bs. buildAndSignTx c key num seq fee gas memo msgs = Ret (Inr t) \<and> TxEncoder (cl_TxConfig c) t = Inr bs"
proof -
  let ?cfg = "cl_TxConfig c"
  note w = assms [unfolded signing_works_def Let_def]
  define b1 where "b1 = (let b0 = SetFeeAmount ?cfg fee (SetGasLimit ?cfg gas (NewTxBuilder ?cfg)) in if memo \<noteq> [] then SetMemo ?cfg memo b0 else b0)"
  define g where "g = \<lparr> sig_PubKey = Some (priv_pub (cl_Keys c) key), sig_Signature = None, sig_Sequence = seq \<rparr>"
  obtain b2 where b2: "SetMsgs ?cfg msgs b1 = Inr b2" using w by blast
  obtain b3 where b3: "SetSignatures ?cfg [g] b2 = Inr b3" using w by blast
  obtain m where m: "GetSignBytes ?cfg \<lparr> sd_ChainID = cl_ChainID c, sd_AccountNumber = num, sd_Sequence = seq \<rparr> (GetTx ?cfg b3) = Inr m"
    using w by blast
  obtain sg where sg: "priv_sign (cl_Keys c) key m = Inr sg" using w by blast
  obtain b4 where b4: "SetSignatures ?cfg [g\<lparr>sig_Signature := Some sg\<rparr>] b3 = Inr b4" using w by blast
  obtain bs where bs: "TxEncoder ?cfg (GetTx ?cfg b4) = Inr bs" using w b4 by blast
  have "buildAndSignTx c key num seq fee gas memo msgs = signTx c key num seq b2"
    using b2 by (simp add: buildAndSignTx_def b1_def Let_def)
  also have "\<dots> = Ret (Inr (GetTx ?cfg b4))"
    using b3 m sg b4 by (simp add: signTx_def g_def Let_def)
  finally show ?thesis using bs by blast
qed

lemma sign_with_feeD:
  assumes "sign_with_fee sl price gas memo c t = Ret (Inr t')"
  shows "\<exists>fee st bs. buildAndSignTx c (Key (tx_From t)) (Number (tx_From t)) (Sequence (tx_From t)) fee gas memo (tx_Msgs t) = Ret (Inr st) \<and>
    TxEncoder (cl_TxConfig c) st = Inr bs \<and> t' = tx_WithBytes bs t"
  using assms by (auto simp: sign_with_fee_def BuildAndSignTx_def Encode_def split: sum.split_asm)

lemma account_at_fields:
  assumes "pr_fetch E i = Inr (num, seq)" and "unat seq + j < 2 ^ 63"
  shows "Key (account_at E i j) = pr_accounts E ! i" and "unat (Sequence (account_at E i j)) = unat (fetched_sequence E i) + j"
proof -
  have "unat (seq + of_nat j) = unat seq + j"
    using assms(2) by (simp add: unat_word_ariths unat_of_nat)
  then show "Key (account_at E i j) = pr_accounts E ! i" "unat (Sequence (account_at E i j)) = unat (fetched_sequence E i) + j"
    by (simp_all add: account_at_def assms(1) sender_account_def fetched_sequence_def)
qed

lemma bankSend_succeeds:
  assumes "sdk_arith sl" and "NewBankSendProvider sl minGasPrice amount = Inr p"
    and "0 < snd (bs_minGasPrice p)" and "snd (bs_minGasPrice p) * 150000 < 2 ^ 256" and "signing_works c"
    and "pr_gen E = bankSend_GenerateTx kl" and "pr_sign E = bankSend_BuildAndSignTx sl c" and "length (pr_accounts E) < 2 ^ 63"
  shows "provider_succeeds E (\<lambda>q. q = p)"
  using assms(6,7)
proof (rule bankSend.succeeds)
  fix i j assume "i < length (pr_accounts E)"
  with bank_send_ring [of i "pr_accounts E" kl "account_at E i j" j p] assms(8)
  show "\<exists>t. fst (bankSend_GenerateTx kl (tx_request E i j (account_at E i j)) p) = Ret (Inr t)"
    by (auto simp: tx_request_def request_of_def)
next
  fix t
  obtain s d m where price: "ParseCoinNormalized sl s = Inr (d, m)" "bs_minGasPrice p = (d, m)" "bs_maxGasLimit p = 150000"
    using assms(2) by (auto simp: NewBankSendProvider_def parse_coin_def)
  from signs [OF assms(5)] obtain st bs where "BuildAndSignTx c (tx_From t)
        \<lparr> ct_Msgs = tx_Msgs t, ct_Fee = [(d, m * 150000)], ct_GasLimit = 150000, ct_Memo = bs_memoAttach p \<rparr> = Ret (Inr st)"
      "TxEncoder (cl_TxConfig c) st = Inr bs" unfolding BuildAndSignTx_def by auto blast
  then show "\<exists>t'. fst (bankSend_BuildAndSignTx sl c t p) = Ret (Inr t')"
    using sign_with_fee_fee [OF assms(1) price(1), of 150000 "bs_memoAttach p" c t] assms(3,4) price(2,3)
    by (simp add: bankSend_BuildAndSignTx_def Encode_def)
qed

lemma bankSend_taken:
  assumes "pr_gen (se_prep V) = bankSend_GenerateTx kl" and "pr_sign (se_prep V) = bankSend_BuildAndSignTx sl (se_client V)"
    and "chain_checks_signer (se_client V) (pr_accounts (se_prep V)) n cur w" and "accounts_known V n cur w"
  shows "chain_takes_signed V n cur"
  unfolding chain_takes_signed_def
proof (intro allI impI)
  fix i j t assume i: "i < length (pr_accounts (se_prep V))" "j < n" and "signed_for (se_prep V) i j t"
  then obtain t0 p0 p1 q0 q1 where gen: "bankSend_GenerateTx kl (tx_request (se_prep V) i j (account_at (se_prep V) i j)) p0 = (Ret (Inr t0), p1)"
      and sgn: "bankSend_BuildAndSignTx sl (se_client V) t0 q0 = (Ret (Inr t), q1)"
    by (auto simp: signed_for_def generated_for_def assms(1,2))
  obtain num seq where f: "pr_fetch (se_prep V) i = Inr (num, seq)" "unat seq + n < 2 ^ 63" "cur w i = unat (fetched_sequence (se_prep V) i)"
    using assms(4) i by (auto simp: accounts_known_def fetched_sequence_def)
  have from0: "tx_From t0 = account_at (se_prep V) i j"
    using bankSend.generate_keeps [OF gen] by (simp add: tx_request_def)
  have acc: "Key (tx_From t0) = pr_accounts (se_prep V) ! i" "unat (Sequence (tx_From t0)) = unat (fetched_sequence (se_prep V) i) + j"
    using account_at_fields [OF f(1), of j] f(2) i(2) from0 by simp_all
  from sgn sign_with_feeD obtain fee gas memo st bs where
      "buildAndSignTx (se_client V) (Key (tx_From t0)) (Number (tx_From t0)) (Sequence (tx_From t0)) fee gas memo (tx_Msgs t0) = Ret (Inr st)"
      "TxEncoder (cl_TxConfig (se_client V)) st = Inr bs" "t = tx_WithBytes bs t0"
    unfolding bankSend_BuildAndSignTx_def by (metis Pair_inject)
  moreover have "cur w i \<le> unat (Sequence (tx_From t0))" "unat (Sequence (tx_From t0)) < cur w i + n" using acc(2) f(3) i(2) by simp_all
  ultimately have "chain_takes (se_client V) cur i (unat (Sequence (tx_From t0))) (tx_Bytes t)"
    using assms(3) i(1) acc(1) unfolding chain_checks_signer_def by (metis tx.bytes_with)
  then show "chain_takes (se_client V) cur i (unat (fetched_sequence (se_prep V) i) + j) (tx_Bytes t)" by (simp only: acc(2))
qed


subsection \<open>A bank send run\<close>

text \<open>One account sends one transfer to itself; the example chain expects its sequence 5 and refuses the
  transaction three times because the mempool is full.\<close>

definition bank_stress :: "(bankSendProvider, int \<times> int, unit, sdk_msg, bytes \<times> SignatureV2 option,
    bytes \<times> SignatureV2 option, uint64 \<times> nat) stress_env" where
  "bank_stress = \<lparr> se_client = sdk_client, se_lib = counting_lib, se_ctx = (), se_conv = (\<lambda>_. 0),
     se_retryN = retry_impl, se_retryB = retry_impl, se_retryI = retry_impl,
     se_gen_initial = bankSend_GenerateInitialTx, se_prep = bank_env \<rparr>"

definition bank_config :: StressConfig where
  "bank_config = example_stress_config\<lparr>sc_NumOfTransactions := 1\<rparr>"

lemma bank_env_simps: "pr_accounts bank_env = [[1]]" "pr_fetch bank_env i = Inr (3, 5)"
  by (simp_all add: bank_env_def)

lemma bank_signed_bytes:
  assumes "signed_for bank_env 0 0 t"
  shows "tx_Bytes t = [5]"
proof -
  from assms obtain t0 p0 p1 q0 q1 where gen: "pr_gen bank_env (tx_request bank_env 0 0 (account_at bank_env 0 0)) p0 = (Ret (Inr t0), p1)"
      and sgn: "pr_sign bank_env t0 q0 = (Ret (Inr t), q1)"
    by (auto simp: signed_for_def generated_for_def)
  from tx_provider.generate_keeps [OF bank_env_provider gen] have "Sequence (tx_From t0) = 5"
    by (simp add: tx_request_def account_at_def bank_env_def sender_account_def)
  moreover have "tx_Bytes t = [ucast (Sequence (tx_From t0))]"
    using sgn by (auto simp: bank_env_def bankSend_BuildAndSignTx_def sign_with_fee_def BuildAndSignTx_def buildAndSignTx_def signTx_def
        Encode_def sdk_client_def example_txcfg_def example_keys_def tx.bytes_with Let_def split: if_split_asm)
  ultimately show ?thesis by simp
qed

lemma sdk_client_takes:
  "after_full sdk_client tx k w = after_full example_client tx k w"
  "chain_takes sdk_client cur i q tx = chain_takes example_client cur i q tx"
proof -
  have node: "cl_Node sdk_client = cl_Node example_client" "cl_Errors sdk_client = cl_Errors example_client"
    by (simp_all add: sdk_client_def example_client_def)
  have "mempool_full_step sdk_client = mempool_full_step example_client"
    by (intro ext) (simp only: mempool_full_step_def node)
  then have full: "after_full sdk_client tx k w = after_full example_client tx k w" for tx k w
    by (induction k arbitrary: w) (simp_all split: option.split)
  then show "after_full sdk_client tx k w = after_full example_client tx k w"
    "chain_takes sdk_client cur i q tx = chain_takes example_client cur i q tx"
    by (simp_all only: chain_takes_def node full)
qed

lemma example_takes: "chain_takes sdk_client example_cur 0 5 [5]" "chain_takes sdk_client example_cur 0 6 [6]"
  using example_node_sequences [unfolded node_sequences_takes, rule_format, of 0 0]
    example_node_sequences [unfolded node_sequences_takes, rule_format, of 0 1]
  by (simp_all add: sdk_client_takes(2))

lemma retry_impl_first: "f s = (None, s') \<Longrightarrow> retry_impl n f s = Some (None, s')"
  by (cases "n - 1") (simp_all add: retry_impl_def retry_forever.simps)

lemma bank_known: "accounts_known bank_stress 1 example_cur (5, 3)"
proof -
  have "hex_decode (hex_encode [1]) = Inr [1]" by (rule hex_roundtrip)
  then have "unbech32 example_keys account_prefix (AccAddress example_keys [1]) = Inr [1]"
    by (simp add: AccAddress_def example_keys_def account_prefix_def)
  moreover have "fetch_once sdk_client [1] ((0, 0), (5, 3)) = (None, ((3, 5), (5, 3)))"
    by (simp add: fetch_once_def sdk_client_def example_node_def)
  ultimately have "getAccountNumberSequence retry_impl sdk_client (AccAddress example_keys [1]) (5, 3) = Ret (Some (Inr (3, 5), (5, 3)))"
    using retry_impl_first [of "fetch_once sdk_client [1]"] by (simp add: getAccountNumberSequence_def sdk_client_def)
  moreover have "cl_Keys sdk_client = example_keys" by (simp add: sdk_client_def)
  ultimately show ?thesis
    by (simp add: accounts_known_def bank_stress_def bank_env_simps fetched_sequence_def example_cur_def)
qed

lemma bank_runs: "runs_config bank_stress bank_config 1"
  by (simp add: runs_config_def bank_stress_def bank_config_def example_stress_config_def bank_env_def example_config_ok)


lemma bank_signing: "signing_works sdk_client"
  by (auto simp: signing_works_def sdk_client_def example_txcfg_def example_keys_def)

lemma bank_checked: "chain_checks_signer sdk_client [[1]] 1 example_cur (5, 3)"
proof -
  have "bs = [ucast seq]" if "buildAndSignTx sdk_client key num seq fee gas memo msgs = Ret (Inr t)"
      "TxEncoder (cl_TxConfig sdk_client) t = Inr bs" for key num seq fee gas memo msgs t bs
    using that by (auto simp: buildAndSignTx_def signTx_def sdk_client_def example_txcfg_def example_keys_def Let_def split: if_split_asm)
  moreover have "seq = 5" if "5 \<le> unat seq" "unat seq < 6" for seq :: uint64
  proof -
    have "unat seq = unat (5 :: uint64)" using that by simp
    then show ?thesis by (rule unsigned_word_eqI)
  qed
  ultimately show ?thesis
    using example_takes(1) by (fastforce simp: chain_checks_signer_def example_cur_def)
qed


end
