(* ===== verification/Evm_Run.thy ===== *)
theory Evm_Run
  imports Stress_Run Payload_Eth
begin

text \<open>
  A whole run of \<^verbatim>\<open>Stress\<close> with a provider that has an initial transaction: the calls of \<^verbatim>\<open>eth_call_stress.go\<close>. The
  contract is deployed and its inclusion awaited before the preparation fetches the sequences, so the
  first account starts one later than it did for the deployment.
\<close>

subsection \<open>The initial transaction\<close>

text \<open>
  The chain takes a transaction of account \<open>i\<close> and includes it: after any number of refusals for a full mempool
  it is accepted, and after any number of undecided polls it is reported in a block.
\<close>

definition chain_includes :: "('m, 'b, 't, 'w) Client \<Rightarrow> ('w \<Rightarrow> nat \<Rightarrow> nat) \<Rightarrow> nat \<Rightarrow> bytes \<Rightarrow> 'w \<Rightarrow> bool" where
  "chain_includes c cur i tx w \<longleftrightarrow> (\<exists>k w1 r w2 hb m w3 w4 q w5.
     after_full c tx k w = Some w1 \<and> BroadcastTxSync (cl_Node c) tx w1 = (Inr r, w2) \<and> res_Code r = 0 \<and>
     hex_decode (res_Hash r) = Inr hb \<and> after_pending c tx hb m w2 = Some w3 \<and> ctx_done (cl_Node c) w3 = (False, w4) \<and>
     QueryTx (cl_Node c) hb w4 = (Inr q, w5) \<and> tx_Code q = 0 \<and> 0 < tx_Height q \<and> cur w5 = (cur w)(i := Suc (cur w i)))"

lemma Broadcast_included:
  assumes "retries_until_succeeded retry" and "chain_includes c cur i tx w"
  shows "\<exists>h w'. Broadcast retry c tx True w = Some ((h, None), w') \<and> cur w' = (cur w)(i := Suc (cur w i))"
proof -
  from assms(2) obtain k w1 r w2 hb m w3 w4 q w5 where
      full: "after_full c tx k w = Some w1" and taken: "BroadcastTxSync (cl_Node c) tx w1 = (Inr r, w2)" "res_Code r = 0"
      and hb: "hex_decode (res_Hash r) = Inr hb" and pending: "after_pending c tx hb m w2 = Some w3"
      and found: "ctx_done (cl_Node c) w3 = (False, w4)" "QueryTx (cl_Node c) hb w4 = (Inr q, w5)" "tx_Code q = 0" "0 < tx_Height q"
      and cur: "cur w5 = (cur w)(i := Suc (cur w i))"
    unfolding chain_includes_def by blast
  have "broadcast_once c tx ([], w1) = (None, (res_Hash r, w2))" using taken by (simp add: broadcast_once_def)
  then have "retry 0 (broadcast_once c tx) ([], w) = Some (None, (res_Hash r, w2))"
    by (subst retry_skips_full [OF assms(1) full], subst retry_promiseD [OF assms(1)]) simp
  moreover have "await_tx c tx (res_Hash r) hb w3 = Some ((res_Hash r, None), w5)"
    using found by (subst await_tx.simps) simp
  ultimately have "Broadcast retry c tx True w = Some ((res_Hash r, None), w5)"
    using hb await_after_pending [OF pending] by (simp add: Broadcast_def)
  with cur show ?thesis by blast
qed

text \<open>The retry library does not repeat what succeeded.\<close>

definition first_success :: "'s retry \<Rightarrow> bool" where
  "first_success retry \<longleftrightarrow> (\<forall>n f s s'. f s = (None, s') \<longrightarrow> retry n f s = Some (None, s'))"

lemma broadcast_initial_one:
  assumes "first_success retryI" and "sign t p = (Ret (Inr t'), p)" and "bcast (tx_Bytes t') w = Some ((h, None), w')"
  shows "broadcast_initial retryI sign bcast [t] \<lparr> is_prov = p, is_world = w, is_sent = [], is_panic = None, is_stuck = False \<rparr> =
    Some \<lparr> is_prov = p, is_world = w', is_sent = [t'], is_panic = None, is_stuck = False \<rparr>"
  using assms(2,3) assms(1) [unfolded first_success_def, rule_format, of "initial_once sign bcast t"]
  by (simp add: initial_once_def)

lemma generate_initial_first:
  assumes "getns (AccAddress kl key) w = Ret (Some (Inr (num, seq), w))"
    and "\<forall>k \<in> set keys. \<exists>r. getns (AccAddress kl k) w = Ret (Some (Inr r, w))"
    and "gen \<lparr> req_Keys = [key], req_From = \<lparr> Name = [], Key = key, Number = num, Sequence = seq \<rparr>, req_FromIdx = 0, req_TxIdx = 0 \<rparr> p
      = (Ret (Inr (Some t)), p')"
    and "\<And>req q. req_FromIdx req \<noteq> 0 \<Longrightarrow> gen req q = (Ret (Inr None), q)"
  shows "generate_initial getns kl gen 0 (key # keys) (p, w) = Ret (Some (Inr [t], (p', w)))"
proof -
  have "generate_initial getns kl gen (Suc k) keys (p', w) = Ret (Some (Inr [], (p', w)))" for k
    using assms(2)
  proof (induction keys arbitrary: k)
    case (Cons key' keys)
    then obtain num' seq' where "getns (AccAddress kl key') w = Ret (Some (Inr (num', seq'), w))" by auto
    with Cons show ?case by (simp add: assms(4))
  qed simp
  then show ?thesis using assms(1,3) by simp
qed

lemma reorders_one: "reorders order \<Longrightarrow> order [t] = [t]"
  by (metis reorders_def mset_single_iff mset.simps)

subsection \<open>Signing on a chain with an EVM\<close>

definition eth_signing_works :: "('b, 't) eth_lib \<Rightarrow> (sdk_msg, 'b, 't, 'w) Client \<Rightarrow> bool" where
  "eth_signing_works el c \<longleftrightarrow> (\<forall>h k. \<exists>sig. ec_Sign el h k = Inr sig) \<and> (\<forall>cid raw sig. \<exists>sig'. WithSignature el cid raw sig = Inr sig') \<and>
     (\<exists>u. NewExtensionAny el = Inr u) \<and> (\<forall>b. \<exists>b'. SetExtensionOptions el b = Some b') \<and> (\<forall>b m d. \<exists>t. BuildEthTx el b m d = Inr t) \<and>
     (\<forall>b m d t. BuildEthTx el b m d = Inr t \<longrightarrow> (\<exists>bs. TxEncoder (cl_TxConfig c) t = Inr bs))"

lemma eth_signs:
  assumes "eth_signing_works el c" and "tx_Msgs t = [MsgEthereumTx raw sig0 from0]"
  shows "\<exists>t'. eth_BuildAndSignTx el kl s c t = Ret (Inr t')"
proof -
  obtain b where b: "embedded t = Some b" "base_msgs b = [MsgEthereumTx raw sig0 from0]"
    using assms(2) by (cases "embedded t") (auto simp: tx_methods)
  note w = assms(1) [unfolded eth_signing_works_def]
  obtain sig where sig: "ec_Sign el (signer_Hash el (es_chainID s) raw) (Key (tx_From t)) = Inr sig" using w by blast
  obtain sig' where sig': "WithSignature el (es_chainID s) raw sig = Inr sig'" using w by blast
  let ?m = "MsgEthereumTx raw (Some sig') (priv_Address kl (Key (tx_From t)))"
  have m: "sign_eth_msg el kl s (Key (tx_From t)) raw = Inr ?m" using sig sig' by (simp add: sign_eth_msg_def)
  obtain u b' where ext: "NewExtensionAny el = Inr u" "SetExtensionOptions el (NewTxBuilder (cl_TxConfig c)) = Some b'" using w by blast
  obtain st where st: "BuildEthTx el b' ?m (es_feeDenom s) = Inr st" using w by blast
  obtain bs where "TxEncoder (cl_TxConfig c) st = Inr bs" using w st by blast
  with b m ext st show ?thesis by (simp add: eth_BuildAndSignTx_def build_eth_tx_def Encode_def orPanic_def)
qed

text \<open>The signed transactions of the account of \<open>key\<close>: one message with the given transaction.\<close>

definition signed_eth ::
  "('b, 't) eth_lib \<Rightarrow> key_lib \<Rightarrow> ethTxBuilderAndSigner \<Rightarrow> (sdk_msg, 'b, 't, 'w) Client \<Rightarrow> Secp256k1PrivateKey \<Rightarrow> LegacyTx \<Rightarrow> bytes \<Rightarrow> bool" where
  "signed_eth el kl s c key raw bs \<longleftrightarrow> (\<exists>t t'. Key (tx_From t) = key \<and> tx_Msgs t = [MsgEthereumTx raw None []] \<and>
     eth_BuildAndSignTx el kl s c t = Ret (Inr t') \<and> bs = tx_Bytes t')"

text \<open>The chain takes a call that the key of account \<open>i\<close> has signed at the nonce of the call, up to \<open>n\<close> after the account's
  present one, and includes a deployment by the first account at its present nonce.\<close>

definition chain_checks_eth ::
  "('b, 't) eth_lib \<Rightarrow> key_lib \<Rightarrow> ethTxBuilderAndSigner \<Rightarrow> (sdk_msg, 'b, 't, 'w) Client \<Rightarrow> Secp256k1PrivateKey list \<Rightarrow> nat
    \<Rightarrow> ('w \<Rightarrow> nat \<Rightarrow> nat) \<Rightarrow> 'w \<Rightarrow> bool" where
  "chain_checks_eth el kl s c keys n cur w \<longleftrightarrow>
     (\<forall>i < length keys. \<forall>raw bs. signed_eth el kl s c (keys ! i) raw bs \<longrightarrow> To raw \<noteq> None \<longrightarrow>
        cur w i \<le> unat (Nonce raw) \<longrightarrow> unat (Nonce raw) \<le> cur w i + n \<longrightarrow> chain_takes c cur i (unat (Nonce raw)) bs) \<and>
     (\<forall>raw bs. signed_eth el kl s c (keys ! 0) raw bs \<longrightarrow> To raw = None \<longrightarrow> unat (Nonce raw) = cur w 0 \<longrightarrow> chain_includes c cur 0 bs w)"

text \<open>The accounts are known before the initial phase, and the preparation fetches what the chain expects after it:
  \<open>m i\<close> more for the \<open>m i\<close> initial transactions of account \<open>i\<close>.\<close>

definition accounts_advance ::
  "('p, 'rl, 'c, 'm, 'b, 't, 'w) stress_env \<Rightarrow> nat \<Rightarrow> ('w \<Rightarrow> nat \<Rightarrow> nat) \<Rightarrow> (nat \<Rightarrow> nat) \<Rightarrow> 'w \<Rightarrow> bool" where
  "accounts_advance V n cur m w \<longleftrightarrow> (\<forall>i < length (pr_accounts (se_prep V)). cur w i + m i + n < 2 ^ 63 \<and>
     (\<exists>num. getAccountNumberSequence (se_retryN V) (se_client V) (AccAddress (cl_Keys (se_client V)) (pr_accounts (se_prep V) ! i)) w =
         Ret (Some (Inr (num, of_nat (cur w i)), w)) \<and> pr_fetch (se_prep V) i = Inr (num, of_nat (cur w i + m i))))"

subsection \<open>Calls of the counter\<close>

lemma ethCall_GenerateTxD:
  assumes "ethCall_GenerateTx req q = (Ret (Inr t), q')"
  shows "q' = q \<and> tx_From t = req_From req \<and>
    (\<exists>raw. tx_Msgs t = [MsgEthereumTx raw None []] \<and> To raw \<noteq> None \<and> Nonce raw = Sequence (req_From req))"
  using assms by (auto simp: ethCall_GenerateTx_def NewTxWithData_def tx_methods split: if_split_asm sum.split_asm)

lemma ethCall_succeeds:
  assumes "etc_contractAddress p \<noteq> zero_address" and "etc_contractABI p ''increase'' [] = Inr callData" and "eth_signing_works el c"
    and "pr_gen E = ethCall_GenerateTx" and "pr_sign E = ethCall_BuildAndSignTx el kl c"
  shows "provider_succeeds E (\<lambda>q. q = p)"
  unfolding provider_succeeds_def assms(4,5)
proof (intro conjI allI impI)
  fix i j q assume "q = p"
  then show "\<exists>t p'. ethCall_GenerateTx (tx_request E i j (account_at E i j)) q = (Ret (Inr t), p') \<and> p' = p"
    using assms(1,2) by (simp add: ethCall_GenerateTx_def)
next
  fix i j t q assume "generated_for E i j t" "q = p"
  then obtain raw where "tx_Msgs t = [MsgEthereumTx raw None []]"
    by (auto simp: generated_for_def assms(4) dest!: ethCall_GenerateTxD)
  from eth_signs [OF assms(3) this] \<open>q = p\<close>
  show "\<exists>t' p'. ethCall_BuildAndSignTx el kl c t q = (Ret (Inr t'), p') \<and> p' = p"
    by (simp add: ethCall_BuildAndSignTx_def)
qed

lemma unat_small: "k < 2 ^ 63 \<Longrightarrow> unat (of_nat k :: uint64) = k"
  by (simp add: unat_of_nat)

lemma advanced_account:
  assumes "accounts_advance V n cur m w" and "i < length (pr_accounts (se_prep V))"
  shows "unat (fetched_sequence (se_prep V) i) = cur w i + m i"
    and "j < n \<Longrightarrow> Key (account_at (se_prep V) i j) = pr_accounts (se_prep V) ! i"
    and "j < n \<Longrightarrow> unat (Sequence (account_at (se_prep V) i j)) = cur w i + m i + j"
proof -
  from assms obtain num where f: "pr_fetch (se_prep V) i = Inr (num, of_nat (cur w i + m i))" and small: "cur w i + m i + n < 2 ^ 63"
    unfolding accounts_advance_def by blast
  have u: "unat (of_nat (cur w i + m i) :: uint64) = cur w i + m i" using small by (intro unat_small) simp
  show fs: "unat (fetched_sequence (se_prep V) i) = cur w i + m i"
    unfolding fetched_sequence_def f by (simp only: sum.case prod.case u)
  assume "j < n"
  then have "unat (of_nat (cur w i + m i) :: uint64) + j < 2 ^ 63" using small unfolding u by simp
  from account_at_fields [OF f this] fs
  show "Key (account_at (se_prep V) i j) = pr_accounts (se_prep V) ! i" "unat (Sequence (account_at (se_prep V) i j)) = cur w i + m i + j"
    by simp_all
qed

lemma ethCall_taken:
  assumes "pr_gen (se_prep V) = ethCall_GenerateTx" and "pr_sign (se_prep V) = ethCall_BuildAndSignTx el kl (se_client V)"
    and "chain_checks_eth el kl (etc_signer p) (se_client V) (pr_accounts (se_prep V)) n cur w" and "accounts_advance V n cur m w"
    and "\<And>i. m i \<le> 1"
  shows "chain_takes_in V (\<lambda>q. q = p) n cur"
  unfolding chain_takes_in_def
proof (intro allI impI)
  fix i j t' assume i: "i < length (pr_accounts (se_prep V))" "j < n" and "signed_in (se_prep V) (\<lambda>q. q = p) i j t'"
  then obtain t where gen: "ethCall_GenerateTx (tx_request (se_prep V) i j (account_at (se_prep V) i j)) p = (Ret (Inr t), p)"
      and sgn: "eth_BuildAndSignTx el kl (etc_signer p) (se_client V) t = Ret (Inr t')"
    by (auto simp: signed_in_def assms(1,2) ethCall_BuildAndSignTx_def dest: ethCall_GenerateTxD)
  note acc = advanced_account [OF assms(4) i(1)]
  from ethCall_GenerateTxD [OF gen] obtain raw where raw: "tx_Msgs t = [MsgEthereumTx raw None []]" "To raw \<noteq> None"
      "Nonce raw = Sequence (account_at (se_prep V) i j)" and "tx_From t = account_at (se_prep V) i j"
    by (auto simp: tx_request_def)
  then have "signed_eth el kl (etc_signer p) (se_client V) (pr_accounts (se_prep V) ! i) raw (tx_Bytes t')"
    using sgn acc(2) [OF i(2)] unfolding signed_eth_def by metis
  moreover have nonce: "unat (Nonce raw) = cur w i + m i + j" using raw(3) acc(3) [OF i(2)] by simp
  moreover have "cur w i \<le> unat (Nonce raw)" "unat (Nonce raw) \<le> cur w i + n" using nonce i(2) assms(5) [of i] by simp_all
  ultimately have "chain_takes (se_client V) cur i (unat (Nonce raw)) (tx_Bytes t')"
    using assms(3) i(1) raw(2) unfolding chain_checks_eth_def by blast
  then show "chain_takes (se_client V) cur i (unat (fetched_sequence (se_prep V) i) + j) (tx_Bytes t')"
    by (simp only: nonce acc(1))
qed

text \<open>The provider after the initial phase, with the address of the contract that the first account deployed.\<close>

definition deployed ::
  "('b, 't) eth_lib \<Rightarrow> key_lib \<Rightarrow> Secp256k1PrivateKey list \<Rightarrow> nat \<Rightarrow> ethCallProvider \<Rightarrow> ethCallProvider" where
  "deployed el kl keys seq p =
     p\<lparr>etc_contractAddress := CreateAddress el (BytesToAddress (pub_Address kl (PubKey kl (keys ! 0)))) (of_nat seq)\<rparr>"

lemma ethCall_initial_phase:
  assumes "pr_sign (se_prep V) = ethCall_BuildAndSignTx el kl (se_client V)" and "se_gen_initial V = ethCall_GenerateInitialTx el kl"
    and "eth_signing_works el (se_client V)"
    and "chain_checks_eth el kl (etc_signer p) (se_client V) (pr_accounts (se_prep V)) n cur w"
    and "retries_until_succeeded (se_retryB V)" and "first_success (se_retryI V)"
    and "runs_config V config n" and "accounts_advance V n cur (\<lambda>i. if i = 0 then 1 else 0) w"
  shows "initial_phase_ends V config (\<lambda>q. q = deployed el kl (sc_Accounts config) (cur w 0) p) n cur p w"
  unfolding initial_phase_ends_def
proof (intro allI impI)
  fix order assume order: "reorders order"
  let ?c = "se_client V"
  obtain key keys where keys: "sc_Accounts config = key # keys" "pr_accounts (se_prep V) = key # keys"
    using assms(7) by (auto simp: runs_config_def neq_Nil_conv)
  have known: "\<forall>i < length (key # keys). cur w i < 2 ^ 63 \<and> (\<exists>num. getAccountNumberSequence (se_retryN V) ?c
      (AccAddress (cl_Keys ?c) ((key # keys) ! i)) w = Ret (Some (Inr (num, of_nat (cur w i)), w)))"
    using assms(8) unfolding accounts_advance_def keys by fastforce
  then obtain num where first: "getAccountNumberSequence (se_retryN V) ?c (AccAddress (cl_Keys ?c) key) w = Ret (Some (Inr (num, of_nat (cur w 0)), w))"
      and small: "cur w 0 < 2 ^ 63" by fastforce
  have rest: "\<forall>k \<in> set keys. \<exists>r. getAccountNumberSequence (se_retryN V) ?c (AccAddress (cl_Keys ?c) k) w = Ret (Some (Inr r, w))"
    using known by (metis in_set_conv_nth length_Cons nth_Cons_Suc Suc_less_eq)
  let ?acc = "\<lparr> Name = [], Key = key, Number = num, Sequence = of_nat (cur w 0) \<rparr>"
  let ?req = "\<lparr> req_Keys = [key], req_From = ?acc, req_FromIdx = 0, req_TxIdx = 0 \<rparr>"
  let ?p = "deployed el kl (sc_Accounts config) (cur w 0) p"
  obtain t raw where gen: "ethCall_GenerateInitialTx el kl ?req p = (Ret (Inr (Some t)), ?p)"
      and t: "tx_Msgs t = [MsgEthereumTx raw None []]" "To raw = None" "Nonce raw = of_nat (cur w 0)" "Key (tx_From t) = key"
    by (simp add: ethCall_GenerateInitialTx_def deployed_def keys Account_EthAddress_def NewTxWithData_def tx_methods)
  have "generate_initial (getAccountNumberSequence (se_retryN V) ?c) (cl_Keys ?c) (se_gen_initial V) 0 (key # keys) (p, w) = Ret (Some (Inr [t], (?p, w)))"
    unfolding assms(2) by (rule generate_initial_first [where getns = "getAccountNumberSequence (se_retryN V) ?c" and gen = "ethCall_GenerateInitialTx el kl", OF first rest gen]) (simp add: ethCall_GenerateInitialTx_def)
  moreover obtain t' where sgn: "eth_BuildAndSignTx el kl (etc_signer p) ?c t = Ret (Inr t')" using eth_signs [OF assms(3) t(1)] ..
  then have sign: "pr_sign (se_prep V) t ?p = (Ret (Inr t'), ?p)" by (simp add: assms(1) ethCall_BuildAndSignTx_def deployed_def)
  have "unat (Nonce raw) = cur w 0" unfolding t(3) using small by (intro unat_small) simp
  then have "chain_includes ?c cur 0 (tx_Bytes t') w"
    using assms(4) sgn t unfolding chain_checks_eth_def keys signed_eth_def by (metis nth_Cons_0)
  from Broadcast_included [OF assms(5) this] obtain h w' where b: "Broadcast (se_retryB V) ?c (tx_Bytes t') True w = Some ((h, None), w')"
      and cur: "cur w' = (cur w)(0 := Suc (cur w 0))" by blast
  have "accounts_ready V n cur w'"
    unfolding accounts_ready_def
  proof (intro allI impI)
    fix i assume i: "i < length (pr_accounts (se_prep V))"
    then show "(\<exists>r. pr_fetch (se_prep V) i = Inr r) \<and> cur w' i = unat (fetched_sequence (se_prep V) i) \<and> cur w' i + n < 2 ^ 63"
      using advanced_account(1) [OF assms(8) i] assms(8) unfolding accounts_advance_def cur by fastforce
  qed
  ultimately show "\<exists>st. stress_initial V config order p w = Ret (Some (None, st)) \<and> is_prov st = ?p \<and> accounts_ready V n cur (is_world st)"
    using broadcast_initial_one [of "se_retryI V" "pr_sign (se_prep V)" _ _ _ "\<lambda>bs. Broadcast (se_retryB V) ?c bs True", OF assms(6) sign b] reorders_one [OF order]
    by (simp add: stress_initial_def createAndBroadcastInitialTxs_def keys(1) del: generate_initial.simps broadcast_initial.simps)
qed


subsection \<open>A run with one call\<close>

text \<open>One account at sequence 5 deploys the counter and then calls it once; the example chain takes a transaction by its
  nonce, after refusing the first three times because the mempool is full.\<close>

definition nonce_eth :: "(bytes \<times> SignatureV2 option, bytes \<times> SignatureV2 option) eth_lib" where
  "nonce_eth = example_eth\<lparr>BuildEthTx := (\<lambda>b m d. Inr ([9], Some \<lparr> sig_PubKey = None, sig_Signature = None,
     sig_Sequence = (case m of MsgEthereumTx raw sig from0 \<Rightarrow> Nonce raw | _ \<Rightarrow> 0) \<rparr>)),
     CreateAddress := (\<lambda>a k. replicate 20 6)\<rparr>"

definition call_stress :: "(ethCallProvider, int \<times> int, unit, sdk_msg, bytes \<times> SignatureV2 option,
    bytes \<times> SignatureV2 option, uint64 \<times> nat) stress_env" where
  "call_stress = \<lparr> se_client = sdk_client, se_lib = counting_lib, se_ctx = (), se_conv = (\<lambda>_. 0),
     se_retryN = retry_impl, se_retryB = retry_impl, se_retryI = retry_impl,
     se_gen_initial = ethCall_GenerateInitialTx nonce_eth example_keys,
     se_prep = \<lparr> pr_gen = ethCall_GenerateTx, pr_sign = ethCall_BuildAndSignTx nonce_eth example_keys sdk_client,
       pr_accounts = [[1]], pr_numTxs = 1, pr_numCPU = 1, pr_fetch = (\<lambda>i. Inr (3, 6)) \<rparr> \<rparr>"

lemma nonce_signing: "eth_signing_works nonce_eth sdk_client"
  by (simp add: eth_signing_works_def nonce_eth_def example_eth_def sdk_client_def example_txcfg_def)

lemma nonce_signed_bytes:
  assumes "signed_eth nonce_eth example_keys s sdk_client key raw bs"
  shows "bs = [ucast (Nonce raw)]"
proof -
  from assms obtain t t' where t: "tx_Msgs t = [MsgEthereumTx raw None []]"
      "eth_BuildAndSignTx nonce_eth example_keys s sdk_client t = Ret (Inr t')" "bs = tx_Bytes t'"
    by (auto simp: signed_eth_def)
  then obtain b where "embedded t = Some b" "base_msgs b = [MsgEthereumTx raw None []]"
    by (cases "embedded t") (auto simp: tx_methods)
  with t show ?thesis
    by (simp add: eth_BuildAndSignTx_def sign_eth_msg_def build_eth_tx_def nonce_eth_def example_eth_def Encode_def sdk_client_def
        example_txcfg_def) (auto simp: tx_methods baseTx_WithBytes_def)
qed

lemma call_checked: "chain_checks_eth nonce_eth example_keys s sdk_client [[1]] 1 example_cur (5, 3)"
  unfolding chain_checks_eth_def
proof (intro conjI allI impI)
  fix i raw bs
  assume i: "i < length [[1 :: byte]]" and bs: "signed_eth nonce_eth example_keys s sdk_client ([[1]] ! i) raw bs"
    and nonce: "example_cur (5, 3) i \<le> unat (Nonce raw)" "unat (Nonce raw) \<le> example_cur (5, 3) i + 1"
  then have "unat (Nonce raw) = unat (5 :: uint64) \<or> unat (Nonce raw) = unat (6 :: uint64)" by (auto simp: example_cur_def)
  then have "Nonce raw = 5 \<or> Nonce raw = 6" by (metis unsigned_word_eqI)
  then show "chain_takes sdk_client example_cur i (unat (Nonce raw)) bs"
    using nonce_signed_bytes [OF bs] example_takes i by auto
next
  fix raw bs
  assume bs: "signed_eth nonce_eth example_keys s sdk_client ([[1]] ! 0) raw bs" and "unat (Nonce raw) = example_cur (5, 3) 0"
  then have "unat (Nonce raw) = unat (5 :: uint64)" by (simp add: example_cur_def)
  then have "Nonce raw = 5" by (rule unsigned_word_eqI)
  with nonce_signed_bytes [OF bs] have "bs = [5]" by simp
  moreover have "hex_decode ''ab'' = Inr [0xab]" by (simp add: hex_val_def)
  moreover have "after_full sdk_client [5] 3 (5, 3) = Some (5, 0)" by (simp only: sdk_client_takes example_after_full)
  ultimately show "chain_includes sdk_client example_cur 0 bs (5, 3)"
    unfolding chain_includes_def
    by (intro exI [of _ 3] exI [of _ "(5, 0)"] exI [of _ "\<lparr> res_Code = 0, res_Codespace = [], res_Log = [], res_Hash = ''ab'' \<rparr>"]
        exI [of _ "(6, 0)"] exI [of _ "[0xab]"] exI [of _ 0] exI [of _ "\<lparr> tx_Code = 0, tx_Codespace = [], tx_Log = [], tx_Height = 7 \<rparr>"])
      (auto simp: sdk_client_def example_node_def example_cur_def)
qed

lemma call_accounts: "accounts_advance call_stress 1 example_cur (\<lambda>i. if i = 0 then 1 else 0) (5, 3)"
  using bank_known
  by (simp add: accounts_known_def accounts_advance_def bank_stress_def call_stress_def bank_env_simps example_cur_def fetched_sequence_def)

lemma call_runs: "runs_config call_stress bank_config 1"
  by (simp add: runs_config_def call_stress_def bank_config_def example_stress_config_def example_config_ok)


end
