(* ===== verification/Replay_Run.thy ===== *)
theory Replay_Run
  imports Replay
begin

text \<open>
  Whole runs of the replay. A trace records what \<^verbatim>\<open>GetNextBlockTxs\<close> returned, call after call, while the
  sniffer runs beside it; \<^verbatim>\<open>StressReplay\<close> is run on the results of a trace. Shown is that a run that
  ended with an empty buffer has broadcast every transaction of the configured range, in order, and
  that every run can still come to such an end.
\<close>

subsection \<open>Traces\<close>

inductive replay_trace ::
  "TxReplayConfig \<Rightarrow> (int \<Rightarrow> Block go) \<Rightarrow> Tx list go list \<Rightarrow> replay_state \<Rightarrow> bool" for cfg fetch where
  start: "replay_trace cfg fetch [] (NewSniffer cfg)"
| sniff: "replay_trace cfg fetch rs s \<Longrightarrow> sniffer_run cfg fetch s s' \<Longrightarrow> replay_trace cfg fetch rs s'"
| receive: "replay_trace cfg fetch rs s \<Longrightarrow> GetNextBlockTxs c s = Some (r, s') \<Longrightarrow> replay_trace cfg fetch (rs @ [r]) s'"
| stop: "replay_trace cfg fetch rs s \<Longrightarrow> replay_trace cfg fetch rs (Sniffer_Stop s)"
| stop_provider: "replay_trace cfg fetch rs s \<Longrightarrow> replay_trace cfg fetch rs (provider_Stop s)"

text \<open>The test of \<^verbatim>\<open>StressReplay\<close> for the end, and a trace at which its loop ends.\<close>

definition is_completion :: "Tx list go \<Rightarrow> bool" where
  "is_completion r \<longleftrightarrow> (case r of Inl e \<Rightarrow> error_text e = completed_msg | Inr _ \<Rightarrow> False)"

definition ended :: "Tx list go list \<Rightarrow> bool" where
  "ended rs \<longleftrightarrow> rs \<noteq> [] \<and> is_completion (last rs) \<and> \<not> list_ex is_completion (butlast rs)"

text \<open>The transactions of a block, of what a trace handed out and of the range of the configuration.\<close>

definition block_txs :: "Block \<Rightarrow> Tx list" where
  "block_txs b = map TxnsReplayTx (filter (\<lambda>tx. tx \<noteq> []) (blk_Txs b))"

definition handed :: "Tx list go list \<Rightarrow> Tx list" where
  "handed rs = concat (map (\<lambda>r. case r of Inl _ \<Rightarrow> [] | Inr txs \<Rightarrow> txs) rs)"

definition range_txs :: "TxReplayConfig \<Rightarrow> (int \<Rightarrow> Block go) \<Rightarrow> Tx list" where
  "range_txs cfg fetch =
     concat (map (\<lambda>h. case fetch h of Inl _ \<Rightarrow> [] | Inr b \<Rightarrow> block_txs b) [StartHeight cfg..EndHeight cfg - 1])"

text \<open>What the range has to be: finite, of 64-bit heights, each of which the node serves.\<close>

definition served_range :: "TxReplayConfig \<Rightarrow> (int \<Rightarrow> Block go) \<Rightarrow> bool" where
  "served_range cfg fetch \<longleftrightarrow> EndHeight cfg \<noteq> 0 \<and> int_range (EndHeight cfg) \<and> int_range (StartHeight cfg) \<and>
     StartHeight cfg \<le> EndHeight cfg \<and> list_all (\<lambda>h. \<not> isl (fetch h)) [StartHeight cfg..EndHeight cfg - 1]"

lemma served_rangeD:
  assumes "served_range cfg fetch"
  shows "EndHeight cfg \<noteq> 0" "int_range (EndHeight cfg)" "int_range (StartHeight cfg)" "StartHeight cfg \<le> EndHeight cfg"
  using assms by (simp_all add: served_range_def)

lemma served_height:
  assumes "served_range cfg fetch" and "StartHeight cfg \<le> h" "\<not> reached_end cfg h"
  obtains b where "fetch h = Inr b"
  using assms by (cases "fetch h") (auto simp: served_range_def list_all_iff reached_end_def dest!: bspec [of _ _ h])

lemma handed_simps [simp]:
  "handed [] = []" "handed (rs @ rs') = handed rs @ handed rs'"
  "handed (Inl e # rs) = handed rs" "handed (Inr txs # rs) = txs @ handed rs"
  by (simp_all add: handed_def)

lemma trace_reach: "replay_trace cfg fetch rs s \<Longrightarrow> replay_reach cfg fetch s"
  by (induction rule: replay_trace.induct) (auto intro: replay_reach.intros)

lemma trace_handed: "replay_trace cfg fetch rs s \<Longrightarrow> handed rs = concat (map block_txs (taken s))"
proof (induction rule: replay_trace.induct)
  case (sniff rs s s')
  from sniff(2) have "taken s' = taken s" by cases simp_all
  with sniff.IH show ?case by simp
next
  case (receive rs s c r s')
  then show ?case
    by (auto simp: GetNextBlockTxs_def block_txs_def split: select_case.splits list.splits if_splits)
qed (simp_all add: NewSniffer_def Sniffer_Stop_def provider_Stop_def)

lemma completion_closed:
  assumes "GetNextBlockTxs c s = Some (r, s')" and "is_completion r"
  shows "sn s' = Closed"
  using assms
  by (auto simp: GetNextBlockTxs_def is_completion_def completed_msg_def split: select_case.splits list.splits if_splits)

lemma trace_completion_closed: "replay_trace cfg fetch rs s \<Longrightarrow> list_ex is_completion rs \<Longrightarrow> sn s = Closed"
proof (induction rule: replay_trace.induct)
  case (sniff rs s s')
  then show ?case by (auto elim: sniffer_run.cases)
next
  case (receive rs s c r s')
  then show ?case using completion_closed GetNextBlockTxs_keeps by (auto simp: list_ex_iff)
qed (simp_all add: Sniffer_Stop_def provider_Stop_def)

lemma trace_ended_closed:
  assumes "replay_trace cfg fetch rs s" and "ended rs"
  shows "sn s = Closed"
proof (rule trace_completion_closed [OF assms(1)])
  show "list_ex is_completion rs" using assms(2) last_in_set by (auto simp: ended_def list_ex_iff)
qed

text \<open>Without a cancellation the sniffer closes its channels only behind the last block.\<close>

lemma closed_at_end:
  assumes "replay_reach cfg fetch s" and "served_range cfg fetch" and "sn s = Closed" "\<not> sn_cancelled s"
  shows "reached_end cfg (StartHeight cfg + int (length (taken s @ blocksCh s)))"
  using assms(1,3,4)
proof induction
  case (sniff s s')
  have ok: "stream_ok cfg fetch s" using stream_reach [OF sniff(1)] served_rangeD [OF assms(2)] by blast
  from sniff(2) show ?case
  proof cases
    case (at_end h)
    with ok show ?thesis by (simp add: stream_ok_def)
  next
    case (error h e)
    with ok have "StartHeight cfg \<le> h" by (simp add: stream_ok_def)
    with error served_height [OF assms(2)] show ?thesis by force
  qed (use sniff in auto)
next
  case (receive s c r s')
  then have "sn_cancelled s' = sn_cancelled s"
    by (auto simp: GetNextBlockTxs_def split: select_case.splits list.splits if_splits)
  with receive GetNextBlockTxs_keeps [OF receive(2)] show ?case by simp
qed (simp_all add: NewSniffer_def Sniffer_Stop_def provider_Stop_def)

lemma range_all_taken:
  assumes "replay_reach cfg fetch s" and "served_range cfg fetch" and "sn s = Closed" "\<not> sn_cancelled s"
  shows "map fetch [StartHeight cfg..EndHeight cfg - 1] = map Inr (taken s @ blocksCh s)"
proof -
  let ?bs = "taken s @ blocksCh s"
  have ok: "stream_ok cfg fetch s" using stream_reach [OF assms(1)] served_rangeD [OF assms(2)] by blast
  have "EndHeight cfg \<le> StartHeight cfg + int (length ?bs)"
    using closed_at_end [OF assms] by (simp add: reached_end_def)
  moreover have "StartHeight cfg + int (length ?bs) \<le> EndHeight cfg"
  proof (cases ?bs rule: rev_cases)
    case Nil
    then show ?thesis using served_rangeD(4) [OF assms(2)] by simp
  next
    case (snoc bs b)
    then have "length bs < length ?bs" by simp
    with ok have "\<not> reached_end cfg (StartHeight cfg + int (length bs))" unfolding stream_ok_def by blast
    with snoc served_rangeD(1) [OF assms(2)] show ?thesis by (simp add: reached_end_def)
  qed
  ultimately have n: "EndHeight cfg = StartHeight cfg + int (length ?bs)" by simp
  show ?thesis
    by (rule nth_equalityI) (use ok n in \<open>auto simp: stream_ok_def nth_append\<close>)
qed

lemma drained_hands_range:
  assumes "replay_trace cfg fetch rs s" and "served_range cfg fetch" and "sn s = Closed" "\<not> sn_cancelled s"
    and "blocksCh s = []"
  shows "handed rs = range_txs cfg fetch"
proof -
  have "map (\<lambda>h. case fetch h of Inl _ \<Rightarrow> [] | Inr b \<Rightarrow> block_txs b) [StartHeight cfg..EndHeight cfg - 1]
      = map (\<lambda>r. case r of Inl _ \<Rightarrow> [] | Inr b \<Rightarrow> block_txs b) (map fetch [StartHeight cfg..EndHeight cfg - 1])"
    by simp
  also have "\<dots> = map block_txs (taken s)"
    using range_all_taken [OF trace_reach [OF assms(1)] assms(2-4)] assms(5) by simp
  finally show ?thesis using trace_handed [OF assms(1)] by (simp add: range_txs_def)
qed

subsection \<open>The loop on a trace\<close>

lemma broadcast_all_append:
  assumes "broadcast_all bcast (ts @ us) s = Some (xs, s')"
  obtains ys s1 zs where "broadcast_all bcast ts s = Some (ys, s1)" "broadcast_all bcast us s1 = Some (zs, s')" "xs = ys @ zs"
  using assms
proof (induction ts arbitrary: s xs thesis)
  case (Cons t ts)
  from Cons.prems(2) obtain r s0 xs' where b: "bcast (tx_Bytes t) s = Some (r, s0)"
      "broadcast_all bcast (ts @ us) s0 = Some (xs', s')" "xs = r # xs'"
    by (auto split: option.splits)
  from Cons.IH [OF _ b(2)] obtain ys s1 zs where "broadcast_all bcast ts s0 = Some (ys, s1)"
      "broadcast_all bcast us s1 = Some (zs, s')" "xs' = ys @ zs" by blast
  with b show ?case using Cons.prems(1) [of "r # ys" s1 zs] by simp
qed simp

abbreviation taken_by_node :: "(string \<times> go_error option) list \<Rightarrow> nat" where
  "taken_by_node xs \<equiv> length (filter (\<lambda>(h, e). e = None \<and> h \<noteq> []) xs)"

lemma ended_Cons: "ended (r # rs) \<longleftrightarrow> (if is_completion r then rs = [] else ended rs)"
  by (auto simp: ended_def)

text \<open>Without a fuzzer the loop broadcasts what it was handed, up to the completion, and its
  summaries count what the node took.\<close>

lemma replay_loop_sends:
  assumes "ended rs" and "broadcast_all bcast (handed rs) s = Some (xs, s')"
  shows "\<exists>cs. replay_loop (\<lambda>bs fo. fuzzTransactions r other il client config fo bs) bcast rs (None, s)
      = Ret (Some (cs, True, (None, s'))) \<and> sum_list (map success cs) = taken_by_node xs"
  using assms
proof (induction rs arbitrary: s xs)
  case (Cons x rs)
  show ?case
  proof (cases x)
    case (Inl e)
    with Cons show ?thesis by (cases "is_completion x") (auto simp: is_completion_def ended_Cons)
  next
    case (Inr txs)
    with Cons.prems(2) obtain ys s1 zs where b: "broadcast_all bcast txs s = Some (ys, s1)"
        "broadcast_all bcast (handed rs) s1 = Some (zs, s')" "xs = ys @ zs"
      by (auto elim: broadcast_all_append)
    have "ended rs" using Cons.prems(1) Inr by (simp add: ended_Cons is_completion_def)
    from replay_counts_errors_twice [OF b(1)] Cons.IH [OF this b(2)] b Inr show ?thesis
      by (cases "txs = []") fastforce+
  qed
qed (simp add: ended_def)

text \<open>C9: A replay of a finite range that ended by itself with an empty buffer has broadcast every transaction
  of every block of the range, in order, and its summaries count as successes exactly the transactions
  the node took.\<close>

theorem replay_sends_range:
  assumes "replay_trace cfg fetch rs s" and "ended rs" and "served_range cfg fetch"
    and "blocksCh s = []" "\<not> sn_cancelled s"
    and "\<not> Enabled (sc_GasFuzzing config)" and "buildBroadcastClient lib conv config client = Inr limiter"
    and "broadcast_all (rateLimitedBroadcast lib ctx retry client (sc_AwaitTxConfirmation config))
      (range_txs cfg fetch) (limiter, w) = Some (xs, st')"
  shows "\<exists>cs. StressReplay r other il lib ctx conv retry client now config rs w = Ret (Inr (Some (cs, True, None, st'))) \<and>
    sum_list (map success cs) = length (filter (\<lambda>(h, e). e = None \<and> h \<noteq> []) xs)"
proof -
  have "sn s = Closed" using assms(1,2) by (rule trace_ended_closed)
  then have "handed rs = range_txs cfg fetch" using drained_hands_range assms(1,3-5) by blast
  with replay_loop_sends [OF assms(2)] assms(8) show ?thesis
    using assms(6,7) by (force simp: StressReplay_def NewGasFuzzer_def)
qed

subsection \<open>Reaching the end\<close>

text \<open>A run that is neither cancelled nor at its end gets the next block or, behind the last one, the
  completion with nothing left in the buffer.\<close>

lemma replay_progress:
  assumes "replay_trace cfg fetch rs s" and "served_range cfg fetch" and "\<not> sn_cancelled s"
  obtains (next_block) txs s' where "replay_trace cfg fetch (rs @ [Inr txs]) s'" "\<not> sn_cancelled s'"
      "next_height cfg s' = next_height cfg s + 1" "next_height cfg s < EndHeight cfg"
  | (completed) s' where "replay_trace cfg fetch (rs @ [Inl (Msg completed_msg)]) s'" "blocksCh s' = []" "\<not> sn_cancelled s'"
proof -
  have take: thesis if t: "replay_trace cfg fetch rs u" "\<not> sn_cancelled u" and b: "blocksCh u = b # bs"
    and same: "taken u = taken s" for u b bs
  proof (rule next_block)
    have "stream_ok cfg fetch u" using stream_reach [OF trace_reach [OF t(1)]] served_rangeD [OF assms(2)] by blast
    with b have "\<not> reached_end cfg (next_height cfg u)"
      unfolding stream_ok_def next_height_def by (metis add.commute length_append length_Cons less_add_Suc1 add_Suc_right)
    with served_rangeD(1) [OF assms(2)] same show "next_height cfg s < EndHeight cfg"
      by (simp add: reached_end_def next_height_def)
    show "replay_trace cfg fetch (rs @ [Inr (block_txs b)]) (u\<lparr>blocksCh := bs, taken := taken u @ [b]\<rparr>)"
      by (rule receive [OF t(1), of FromBlocks]) (simp add: GetNextBlockTxs_def block_txs_def b)
  qed (use t same in \<open>simp_all add: next_height_def\<close>)
  have finish: thesis if "replay_trace cfg fetch rs u" "\<not> sn_cancelled u" "blocksCh u = []" "sn u = Closed" for u
  proof (rule completed)
    show "replay_trace cfg fetch (rs @ [Inl (Msg completed_msg)]) u"
      by (rule receive [OF that(1), of FromBlocks]) (simp add: GetNextBlockTxs_def that)
  qed (use that in simp_all)
  show thesis
  proof (cases "blocksCh s")
    case (Cons b bs)
    with take assms show thesis by blast
  next
    case Nil
    show thesis
    proof (cases "sn s")
      case Closed
      with finish Nil assms show thesis by blast
    next
      case (Sniffing h)
      show thesis
      proof (cases "reached_end cfg h")
        case True
        show thesis
          by (rule finish [OF sniff [OF assms(1) at_end [OF Sniffing True]]]) (use Nil assms(3) in simp_all)
      next
        case False
        have "StartHeight cfg \<le> h"
          using stream_reach [OF trace_reach [OF assms(1)]] served_rangeD [OF assms(2)] Sniffing by (simp add: stream_ok_def)
        then obtain b where "fetch h = Inr b" using served_height [OF assms(2) _ False] by blast
        with block [of s h cfg fetch b] have "sniffer_run cfg fetch s (s\<lparr>sn := Sniffing (wrap_int (h + 1)), blocksCh := [b]\<rparr>)"
          using Sniffing False Nil by (simp add: DEFAULT_BLOCKS_BUFFER_def)
        from take [OF sniff [OF assms(1) this]] assms(3) show thesis by simp
      qed
    qed
  qed
qed

lemma ended_snoc [simp]: "ended (rs @ [r]) \<longleftrightarrow> is_completion r \<and> \<not> list_ex is_completion rs"
  by (simp add: ended_def)

lemma completes_from:
  assumes "replay_trace cfg fetch rs s" and "served_range cfg fetch" and "\<not> sn_cancelled s" and "\<not> list_ex is_completion rs"
  shows "\<exists>rs' s'. replay_trace cfg fetch (rs @ rs') s' \<and> ended (rs @ rs') \<and> blocksCh s' = [] \<and> \<not> sn_cancelled s'"
  using assms(1,3,4)
proof (induction "nat (EndHeight cfg - next_height cfg s)" arbitrary: rs s rule: less_induct)
  case less
  from less.prems(1) assms(2) less.prems(2) show ?case
  proof (cases rule: replay_progress)
    case (next_block txs s')
    then have "nat (EndHeight cfg - next_height cfg s') < nat (EndHeight cfg - next_height cfg s)" by simp
    from less.hyps [OF this next_block(1,2)] less.prems(3) obtain rs' s'' where
      "replay_trace cfg fetch ((rs @ [Inr txs]) @ rs') s''" "ended ((rs @ [Inr txs]) @ rs')" "blocksCh s'' = []" "\<not> sn_cancelled s''"
      by (auto simp: is_completion_def)
    then show ?thesis by (intro exI [of _ "Inr txs # rs'"] exI [of _ s'']) simp
  next
    case (completed s')
    with less.prems(3) show ?thesis
      by (intro exI [of _ "[Inl (Msg completed_msg)]"] exI [of _ s']) (simp add: is_completion_def)
  qed
qed

text \<open>C10: No run of the replay of a finite range gets stuck: as long as it is not cancelled and its loop has
  not ended, it can go on to an end at which nothing is left in the buffer, whatever was downloaded,
  handed out or timed out before.\<close>

theorem replay_can_complete:
  assumes "replay_trace cfg fetch rs s" and "served_range cfg fetch" and "\<not> sn_cancelled s" and "\<not> list_ex is_completion rs"
  shows "\<exists>rs' s'. replay_trace cfg fetch (rs @ rs') s' \<and> ended (rs @ rs') \<and> blocksCh s' = [] \<and>
    handed (rs @ rs') = range_txs cfg fetch"
proof -
  from completes_from [OF assms] obtain rs' s' where r: "replay_trace cfg fetch (rs @ rs') s'" "ended (rs @ rs')"
    "blocksCh s' = []" "\<not> sn_cancelled s'" by blast
  from trace_ended_closed [OF r(1,2)] r drained_hands_range [OF r(1) assms(2)] show ?thesis by blast
qed

subsection \<open>A concrete run\<close>

text \<open>Two blocks with one transaction each, besides an empty one, which the example node takes in this order.\<close>

definition two_blocks :: "int \<Rightarrow> Block go" where
  "two_blocks h = Inr \<lparr> blk_Height = h, blk_Txs = [[], [word_of_int (h + 4)]] \<rparr>"

definition replay_config :: StressConfig where
  "replay_config = example_stress_config\<lparr>sc_GasFuzzing := example_fuzz_config\<lparr>Enabled := False\<rparr>,
     sc_RateLimit := example_config\<lparr>TxPerSecond := fzero, BytesPerSecond := 0\<rparr>\<rparr>"

lemma two_blocks_served: "served_range example_range two_blocks"
  by (simp add: served_range_def example_range_def two_blocks_def int_range_def list_all_iff)

lemma example_run_starts: "replay_trace example_range two_blocks [] (NewSniffer example_range)" "\<not> sn_cancelled (NewSniffer example_range)"
  by (rule replay_trace.start) (simp add: NewSniffer_def)

lemma two_blocks_txs: "range_txs example_range two_blocks = [TxnsReplayTx [5], TxnsReplayTx [6]]"
  by (simp add: range_txs_def example_range_def two_blocks_def block_txs_def upto_rec1)

theorem replay_can_complete_witness:
  "\<exists>rs s. replay_trace example_range two_blocks rs s \<and> ended rs \<and> blocksCh s = [] \<and>
    handed rs = [TxnsReplayTx [5], TxnsReplayTx [6]]"
  using replay_can_complete [OF example_run_starts(1) two_blocks_served example_run_starts(2)] by (simp add: two_blocks_txs)

theorem replay_sends_range_witness:
  "\<exists>rs s cs. replay_trace example_range two_blocks rs s \<and> ended rs \<and>
    StressReplay half_rng (\<lambda>_. 0) \<lparr> CoinsString = (\<lambda>_. []), CoinsAdd = (\<lambda>c _. c), MsgTypeURL = (\<lambda>_. []), Sum256 = id \<rparr>
      counting_lib () (\<lambda>_. 0) retry_impl example_client 7 replay_config rs (5, 2)
      = Ret (Inr (Some (cs, True, None, (None, (7, 0))))) \<and> sum_list (map success cs) = 2"
proof -
  obtain rs s where run: "replay_trace example_range two_blocks rs s" "ended rs" "blocksCh s = []" "\<not> sn_cancelled s"
    using completes_from [OF example_run_starts(1) two_blocks_served example_run_starts(2)] by auto
  have limiter: "buildBroadcastClient counting_lib (\<lambda>_. 0) replay_config example_client = Inr None"
    by (simp add: buildBroadcastClient_def replay_config_def IsEnabled_def example_config_def flt_def)
  have "Broadcast retry_impl example_client [5] False (5, 2) = Some ((''ab'', None), (6, 0))"
    using Broadcast_taken [OF retry_impl_promise example_after_full, of "[5]" 5] by (simp add: example_defs hex_val_def)
  moreover have "Broadcast retry_impl example_client [6] False (6, 0) = Some ((''ab'', None), (7, 0))"
    using Broadcast_taken [OF retry_impl_promise example_after_full, of "[6]" 6] by (simp add: example_defs hex_val_def)
  ultimately have "broadcast_all (rateLimitedBroadcast counting_lib () retry_impl example_client (sc_AwaitTxConfirmation replay_config))
      (range_txs example_range two_blocks) (None, (5, 2)) = Some ([(''ab'', None), (''ab'', None)], (None, (7, 0)))"
    by (simp add: two_blocks_txs rateLimitedBroadcast_def tx_Bytes_def replay_config_def example_stress_config_def)
  from replay_sends_range [OF run(1,2) two_blocks_served run(3,4) _ limiter this] run show ?thesis
    by (fastforce simp: replay_config_def)
qed

end
