(* ===== verification/Generated_Files.thy ===== *)
theory Generated_Files
  imports Generator
begin

text \<open>
  The files that the network generator leaves behind (\<^verbatim>\<open>generator.go\<close>): which files each of its
  steps writes, through the laws of the file store, and what is in the accounts file of an instance and
  in the genesis file of a validator when it has ended.
\<close>

subsection \<open>The elements of the paths\<close>

declare itoa_inj [simp]

lemma path_elems_itoa [simp]: "path_elems (itoa i) = [itoa i]"
proof -
  have "CHR ''/'' \<notin> set (show_nat n)" "show_nat n \<noteq> ''.''" for n
    using show_nat_free [of "CHR ''/''" n] show_nat_free [of "CHR ''.''" n] by (auto simp: is_digit_def)
  then show ?thesis by (auto simp: path_elems_free itoa_def)
qed

lemma path_elems_literals [simp]:
  "path_elems ''config/node_key.json'' = [''config'', ''node_key.json'']"
  "path_elems ''config/priv_validator_key.json'' = [''config'', ''priv_validator_key.json'']"
  "path_elems ''data/priv_validator_state.json'' = [''data'', ''priv_validator_state.json'']"
  "path_elems ''config/config.toml'' = [''config'', ''config.toml'']"
  "path_elems ''config/app.toml'' = [''config'', ''app.toml'']"
  "path_elems ''config/genesis.json'' = [''config'', ''genesis.json'']"
  "path_elems ''docker-compose.yml'' = [''docker-compose.yml'']"
  "path_elems ''validators/ids.json'' = [''validators'', ''ids.json'']"
  "path_elems ''sentry-nodes/ids.json'' = [''sentry-nodes'', ''ids.json'']"
  "path_elems ''accounts.json'' = [''accounts.json'']"
  by code_simp+

lemma path_elems_sub:
  assumes "path_elems d = [d]"
  shows "path_elems (dir @ ''/'' @ d @ ''/'' @ itoa i) = path_elems dir @ [d, itoa i]"
  using path_elems_append [of dir "d @ ''/'' @ itoa i"] path_elems_append [of d "itoa i"] assms by simp

lemma path_elems_dirs [simp]:
  "path_elems (dir @ ''/validators/'' @ itoa i) = path_elems dir @ [''validators'', itoa i]"
  "path_elems (dir @ ''/sentry-nodes/'' @ itoa i) = path_elems dir @ [''sentry-nodes'', itoa i]"
  "path_elems (dir @ ''/instances/'' @ itoa i) = path_elems dir @ [''instances'', itoa i]"
  using path_elems_sub [of "''validators''" dir i] path_elems_sub [of "''sentry-nodes''" dir i]
    path_elems_sub [of "''instances''" dir i] by (simp_all add: path_elems_free)

subsection \<open>Which files a step writes\<close>

definition ending :: "string set \<Rightarrow> string list set" where
  "ending L = {n. n \<noteq> [] \<and> last n \<in> L}"

definition node_files :: "string set" where
  "node_files = {''node_key.json'', ''priv_validator_key.json'', ''priv_validator_state.json'', ''config.toml'', ''app.toml'', ''ids.json'',
     ''docker-compose.yml''}"

lemma MkdirAll_confined: "MkdirAll io p f = Ret f' \<Longrightarrow> disk.confined N f f'"
  by (auto simp: MkdirAll_def disk.confined_refl split: option.split_asm)

lemma ending_append [simp]: "(xs @ y # ys) \<in> ending L \<longleftrightarrow> last (y # ys) \<in> L"
  by (simp add: ending_def)

lemma in_node_files [simp]:
  "''node_key.json'' \<in> node_files" "''priv_validator_key.json'' \<in> node_files" "''priv_validator_state.json'' \<in> node_files"
  "''config.toml'' \<in> node_files" "''app.toml'' \<in> node_files" "''ids.json'' \<in> node_files" "''docker-compose.yml'' \<in> node_files"
  "''genesis.json'' \<notin> node_files" "''accounts.json'' \<notin> node_files"
  by (simp_all add: node_files_def)

lemma write_confined: "WriteFile io p c f = Ret f' \<Longrightarrow> path_elems p \<in> N \<Longrightarrow> disk.confined N f f'"
  by (rule disk.confined_write)

lemmas confined_steps = disk.confined_bind MkdirAll_confined write_confined

lemma NodeConfig_Save_confined:
  "NodeConfig_Save io def nc home f = Ret f' \<Longrightarrow> disk.confined (ending node_files) f f'"
  unfolding NodeConfig_Save_def
  by (auto elim!: confined_steps simp del: res_bind_eq_Ret split: option.split_asm)

lemma AppConfig_Save_confined: "AppConfig_Save io ac home f = Ret f' \<Longrightarrow> disk.confined (ending node_files) f f'"
  unfolding AppConfig_Save_def Let_def by (auto elim!: confined_steps simp del: res_bind_eq_Ret)

lemma GenerateDockerCompose_confined: "GenerateDockerCompose io cid img net nodes d dbg f = Ret f' \<Longrightarrow> disk.confined (ending node_files) f f'"
  unfolding GenerateDockerCompose_def by (erule write_confined) simp

lemma Genesis_Save_writes:
  assumes "Genesis_Save io gl home g f = Ret (g', f')"
  shows "disk.confined {path_elems home @ [''config'', ''genesis.json'']} f f'"
    and "f' (clean_path (home @ ''/config/genesis.json'')) = Some (GenesisFile (Genesis_doc gl g))"
proof -
  from assms obtain f1 where d: "MkdirAll io (home @ ''/config'') f = Ret f1"
      and w: "WriteFile io (home @ ''/config/genesis.json'') (GenesisFile (Genesis_doc gl g)) f1 = Ret f'"
    unfolding Genesis_Save_def Let_def by auto
  show "disk.confined {path_elems home @ [''config'', ''genesis.json'']} f f'"
    by (rule disk.confined_trans [OF MkdirAll_confined [OF d] write_confined [OF w]]) simp
  show "f' (clean_path (home @ ''/config/genesis.json'')) = Some (GenesisFile (Genesis_doc gl g))"
    by (rule disk.read_back [OF w])
qed

subsection \<open>Funded accounts\<close>

definition sanitize_permutes :: "('m, 't) genesis_lib \<Rightarrow> bool" where
  "sanitize_permutes gl \<longleftrightarrow> (\<forall>as. set (SanitizeGenesisAccounts gl as) = set as) \<and> (\<forall>bs. set (SanitizeGenesisBalances gl bs) = set bs)"

definition funded :: "('m, 't) genesis_lib \<Rightarrow> key_lib \<Rightarrow> string \<Rightarrow> Genesis \<Rightarrow> Secp256k1PrivateKey \<Rightarrow> bool" where
  "funded gl kl amount g key \<longleftrightarrow> priv_Address kl key \<in> set (gn_accountState g) \<and>
     (\<exists>cs. ParseCoinsNormalized gl amount = Inr cs \<and> (bech32 kl account_prefix (priv_Address kl key), cs) \<in> set (gn_Balances g))"

lemma AddAccount_funded:
  assumes "AddAccount gl kl address balances g = Ret g'"
  shows "funded gl kl amount g key \<Longrightarrow> funded gl kl amount g' key"
    and "address = priv_Address kl key \<Longrightarrow> funded gl kl balances g' key"
  using AddAccountD [OF assms] by (auto simp: funded_def)

lemma Genesis_doc_funded: "sanitize_permutes gl \<Longrightarrow> funded gl kl amount (Genesis_doc gl g) key = funded gl kl amount g key"
  by (simp add: funded_def Genesis_doc_def sanitize_permutes_def)

lemma Genesis_Save_funded:
  assumes "Genesis_Save io gl home g f = Ret (g', f')" and "sanitize_permutes gl"
  shows "funded gl kl amount g' key = funded gl kl amount g key"
  using Genesis_SaveD [OF assms(1)] assms(2) by (simp add: funded_def sanitize_permutes_def)

lemma add_account_funded: "res_fold (add_account G i) js g = Ret g' \<Longrightarrow>
   (\<forall>j \<in> set js. funded (ge_gen G) (ge_keys G) initialBalanceAccount g' (gk_account (ge_fresh G) i j)) \<and>
   (\<forall>key. funded (ge_gen G) (ge_keys G) initialBalanceAccount g key \<longrightarrow> funded (ge_gen G) (ge_keys G) initialBalanceAccount g' key)"
  by (erule res_fold_induct) (auto simp: add_account_def dest: AddAccount_funded)

subsection \<open>The phases of the generator\<close>

definition accounts_path :: "('m, 'b, 't, 'w) gen_env \<Rightarrow> int \<Rightarrow> string" where
  "accounts_path G i = rootOutDir (ge_env G) @ ''/instances/'' @ itoa i @ ''/accounts.json''"

definition genesis_path :: "('m, 'b, 't, 'w) gen_env \<Rightarrow> int \<Rightarrow> string" where
  "genesis_path G v = rootOutDir (ge_env G) @ ''/validators/'' @ itoa v @ ''/config/genesis.json''"

definition instance_keys :: "('m, 'b, 't, 'w) gen_env \<Rightarrow> int \<Rightarrow> Secp256k1PrivateKey list" where
  "instance_keys G i = map (gk_account (ge_fresh G) i) [0..gv_NumOfAccountsPerInstance (ge_env G) - 1]"

lemma accounts_path_elems [simp]: "path_elems (accounts_path G i) = path_elems (rootOutDir (ge_env G)) @ [''instances'', itoa i, ''accounts.json'']"
  using path_elems_append [of "rootOutDir (ge_env G) @ ''/instances/'' @ itoa i" "''accounts.json''"] path_elems_dirs(3) [of "rootOutDir (ge_env G)" i]
  by (simp add: accounts_path_def)

lemma genesis_path_elems [simp]: "path_elems (genesis_path G v) = path_elems (rootOutDir (ge_env G)) @ [''validators'', itoa v, ''config'', ''genesis.json'']"
  using path_elems_append [of "rootOutDir (ge_env G) @ ''/validators/'' @ itoa v" "''config/genesis.json''"] path_elems_dirs(1) [of "rootOutDir (ge_env G)" v]
  by (simp add: genesis_path_def)

lemma add_instance_writes:
  assumes "add_instance G i s = Ret s'"
  shows "disk.confined {path_elems (accounts_path G i)} (gs_fs s) (gs_fs s')"
    and "gs_fs s' (clean_path (accounts_path G i)) = Some (AccountsFile (instance_keys G i))"
    and "\<forall>key \<in> set (instance_keys G i). funded (ge_gen G) (ge_keys G) initialBalanceAccount (gs_genesis s') key"
    and "funded (ge_gen G) (ge_keys G) initialBalanceAccount (gs_genesis s) key \<Longrightarrow> funded (ge_gen G) (ge_keys G) initialBalanceAccount (gs_genesis s') key"
proof -
  from assms obtain g f1 f2 where g: "res_fold (add_account G i) [0..gv_NumOfAccountsPerInstance (ge_env G) - 1] (gs_genesis s) = Ret g"
      and d: "MkdirAll (ge_io G) (rootOutDir (ge_env G) @ ''/instances/'' @ itoa i) (gs_fs s) = Ret f1"
      and w: "WriteFile (ge_io G) (accounts_path G i) (AccountsFile (instance_keys G i)) f1 = Ret f2"
      and s': "s' = s\<lparr>gs_fs := f2, gs_genesis := g\<rparr>"
    unfolding add_instance_def Let_def instance_keys_def accounts_path_def by (elim res_guardE res_bindE) auto
  show "disk.confined {path_elems (accounts_path G i)} (gs_fs s) (gs_fs s')"
    using disk.confined_trans [OF MkdirAll_confined [OF d] write_confined [OF w]] by (simp add: s')
  show "gs_fs s' (clean_path (accounts_path G i)) = Some (AccountsFile (instance_keys G i))"
    using disk.read_back [OF w] by (simp add: s')
  show "\<forall>key \<in> set (instance_keys G i). funded (ge_gen G) (ge_keys G) initialBalanceAccount (gs_genesis s') key"
    using add_account_funded [OF g] by (auto simp: s' instance_keys_def)
  show "funded (ge_gen G) (ge_keys G) initialBalanceAccount (gs_genesis s) key \<Longrightarrow> funded (ge_gen G) (ge_keys G) initialBalanceAccount (gs_genesis s') key"
    using add_account_funded [OF g] by (simp add: s')
qed

text \<open>
  The accounts files of the instances \<open>I\<close> and the genesis files of the validators \<open>V\<close> are in place, and the
  genesis holds the accounts of those instances.
\<close>

definition delivered :: "('m, 'b, 't, 'w) gen_env \<Rightarrow> int set \<Rightarrow> int set \<Rightarrow> gen_state \<Rightarrow> bool" where
  "delivered G I V s \<longleftrightarrow>
     (\<forall>i \<in> I. gs_fs s (clean_path (accounts_path G i)) = Some (AccountsFile (instance_keys G i)) \<and>
       (\<forall>key \<in> set (instance_keys G i). funded (ge_gen G) (ge_keys G) initialBalanceAccount (gs_genesis s) key)) \<and>
     (\<forall>v \<in> V. \<exists>doc. gs_fs s (clean_path (genesis_path G v)) = Some (GenesisFile doc) \<and>
       (\<forall>i \<in> I. \<forall>key \<in> set (instance_keys G i). funded (ge_gen G) (ge_keys G) initialBalanceAccount doc key))"

lemma delivered_empty [simp]: "delivered G {} {} s"
  by (simp add: delivered_def)

lemma delivered_confined:
  assumes "delivered G I V s" and "disk.confined N (gs_fs s) (gs_fs s')"
    and "\<And>key. funded (ge_gen G) (ge_keys G) initialBalanceAccount (gs_genesis s) key \<Longrightarrow> funded (ge_gen G) (ge_keys G) initialBalanceAccount (gs_genesis s') key"
    and "\<And>i. i \<in> I \<Longrightarrow> path_elems (accounts_path G i) \<notin> N" and "\<And>v. v \<in> V \<Longrightarrow> path_elems (genesis_path G v) \<notin> N"
  shows "delivered G I V s'"
  using assms(1,3) disk.confined_look [OF assms(2) assms(4)] disk.confined_look [OF assms(2) assms(5)]
  unfolding delivered_def by fast

lemma delivered_instance:
  assumes "delivered G I {} s" and "add_instance G i s = Ret s'"
  shows "delivered G (insert i I) {} s'"
proof -
  note w = add_instance_writes [OF assms(2)]
  have "delivered G (I - {i}) {} s'"
    by (rule delivered_confined [OF _ w(1,4)]) (use assms(1) in \<open>auto simp: delivered_def\<close>)
  then show ?thesis using w(2,3) by (auto simp: delivered_def)
qed

lemma save_genesis_writes:
  assumes "save_genesis G dir s = Ret s'" and "sanitize_permutes (ge_gen G)"
  shows "disk.confined {path_elems dir @ [''config'', ''genesis.json'']} (gs_fs s) (gs_fs s')"
    and "gs_fs s' (clean_path (dir @ ''/config/genesis.json'')) = Some (GenesisFile (Genesis_doc (ge_gen G) (gs_genesis s)))"
    and "funded (ge_gen G) kl amount (gs_genesis s') key = funded (ge_gen G) kl amount (gs_genesis s) key"
proof -
  from assms(1) obtain g fs where sv: "Genesis_Save (ge_io G) (ge_gen G) dir (gs_genesis s) (gs_fs s) = Ret (g, fs)"
      and s': "s' = s\<lparr>gs_genesis := g, gs_fs := fs\<rparr>"
    by (auto simp: save_genesis_def split: prod.split_asm)
  show "disk.confined {path_elems dir @ [''config'', ''genesis.json'']} (gs_fs s) (gs_fs s')"
    using Genesis_Save_writes(1) [OF sv] by (simp add: s')
  show "gs_fs s' (clean_path (dir @ ''/config/genesis.json'')) = Some (GenesisFile (Genesis_doc (ge_gen G) (gs_genesis s)))"
    using Genesis_Save_writes(2) [OF sv] by (simp add: s')
  show "funded (ge_gen G) kl amount (gs_genesis s') key = funded (ge_gen G) kl amount (gs_genesis s) key"
    using Genesis_Save_funded [OF sv assms(2)] by (simp add: s')
qed

lemma delivered_save:
  assumes "delivered G I V s" and "save_genesis G (rootOutDir (ge_env G) @ ''/validators/'' @ itoa v) s = Ret s'"
    and "sanitize_permutes (ge_gen G)"
  shows "delivered G I (insert v V) s'"
proof -
  note w = save_genesis_writes [OF assms(2,3), unfolded path_elems_dirs]
  have "delivered G I (V - {v}) s'"
    by (rule delivered_confined [OF _ w(1)])
      (use assms(1) in \<open>auto simp: delivered_def w(3)\<close>)
  moreover have "gs_fs s' (clean_path (genesis_path G v)) = Some (GenesisFile (Genesis_doc (ge_gen G) (gs_genesis s)))"
    using w(2) by (simp add: genesis_path_def)
  moreover have "\<forall>i \<in> I. \<forall>key \<in> set (instance_keys G i).
      funded (ge_gen G) (ge_keys G) initialBalanceAccount (Genesis_doc (ge_gen G) (gs_genesis s)) key"
    using assms(1) Genesis_doc_funded [OF assms(3)] by (simp add: delivered_def)
  ultimately show ?thesis unfolding delivered_def by blast
qed

lemma delivered_sentry:
  assumes "delivered G I V s" and "add_sentry G i s = Ret s'" and "sanitize_permutes (ge_gen G)"
  shows "delivered G I V s'"
proof -
  let ?d = "rootOutDir (ge_env G) @ ''/sentry-nodes/'' @ itoa i"
  let ?N = "ending node_files \<union> {path_elems ?d @ [''config'', ''genesis.json'']}"
  from assms(2) obtain nc f1 f2 s1 where f1: "NodeConfig_Save (ge_io G) (ge_bft G) nc ?d (gs_fs s) = Ret f1"
      and f2: "AppConfig_Save (ge_io G) (app_config (ge_env G) DefaultPorts (i = 0)) ?d f1 = Ret f2"
      and s1: "save_genesis G ?d (s\<lparr>gs_fs := f2\<rparr>) = Ret s1" and s': "gs_fs s' = gs_fs s1" "gs_genesis s' = gs_genesis s1"
    unfolding add_sentry_def Let_def by (elim res_bindE) auto
  note w = save_genesis_writes [OF s1 assms(3)]
  have "disk.confined ?N (gs_fs s) f2"
    using disk.confined_trans [OF NodeConfig_Save_confined [OF f1] AppConfig_Save_confined [OF f2]] by (rule disk.confined_mono) auto
  moreover have "disk.confined ?N f2 (gs_fs s')" using disk.confined_mono [OF w(1), of ?N] by (simp add: s')
  ultimately have "disk.confined ?N (gs_fs s) (gs_fs s')" by (rule disk.confined_trans)
  then show ?thesis
    by (rule delivered_confined [OF assms(1)]) (use w(3) s' in \<open>simp_all only: path_elems_dirs, auto\<close>)
qed

lemma delivered_node_files:
  assumes "delivered G I V s" and "disk.confined (ending node_files) (gs_fs s) (gs_fs s')" and "gs_genesis s' = gs_genesis s"
  shows "delivered G I V s'"
  by (rule delivered_confined [OF assms(1,2)]) (simp_all add: assms(3))

lemma delivered_connect:
  assumes "delivered G I V s" and "connect_validator G i s = Ret s'"
  shows "delivered G I V s'"
proof -
  from assms(2) obtain nc dir f1 where f1: "NodeConfig_Save (ge_io G) (ge_bft G) nc dir (gs_fs s) = Ret f1"
      and s': "gs_fs s' = f1" "gs_genesis s' = gs_genesis s"
    by (auto simp: connect_validator_def Let_def split: option.split_asm)
  show ?thesis
    by (rule delivered_node_files [OF assms(1)]) (use NodeConfig_Save_confined [OF f1] s' in simp_all)
qed

text \<open>The steps of \<^verbatim>\<open>GenerateConfigs\<close> after the validators have been added.\<close>

lemma GenerateConfigs_phases:
  assumes "GenerateConfigs G fs0 = Ret s"
  obtains s1 s2 s3 s4 s5 s6 where
    "res_fold (add_instance G) [0..gv_NumOfInstances (ge_env G) - 1] s1 = Ret s2"
    "res_fold (\<lambda>i. save_genesis G (rootOutDir (ge_env G) @ ''/validators/'' @ itoa i)) [0..gv_NumOfValidators (ge_env G) - 1] s2 = Ret s3"
    "res_fold (add_sentry G) [0..gv_NumOfSentryNodes (ge_env G) - 1] s3 = Ret s4"
    "disk.confined (ending node_files) (gs_fs s4) (gs_fs s5)" "gs_genesis s5 = gs_genesis s4"
    "res_fold (connect_validator G) [0..gv_NumOfValidators (ge_env G) - 1] s5 = Ret s6"
    "disk.confined (ending node_files) (gs_fs s6) (gs_fs s)" "gs_genesis s = gs_genesis s6"
proof -
  let ?env = "ge_env G" and ?d = "rootOutDir (ge_env G)"
  obtain s1 s2 s3 s5 s6 where p: "res_fold (add_instance G) [0..gv_NumOfInstances ?env - 1] s1 = Ret s2"
      "res_fold (\<lambda>i. save_genesis G (?d @ ''/validators/'' @ itoa i)) [0..gv_NumOfValidators ?env - 1] s2 = Ret s3"
      and sen: "(if gv_NumOfSentryNodes ?env > 0
        then res_bind (res_fold (add_sentry G) [0..gv_NumOfSentryNodes ?env - 1] s3) (\<lambda>s.
          res_bind (WriteFile (ge_io G) (?d @ ''/sentry-nodes/ids.json'') (IdsFile (gs_sentryIDs s)) (gs_fs s)) (\<lambda>fs3.
          Ret (s\<lparr>gs_fs := fs3\<rparr>))) else Ret s3) = Ret s5"
      and con: "res_fold (connect_validator G) [0..gv_NumOfValidators ?env - 1] s5 = Ret s6"
      and doc: "(if gv_LocalNative ?env then Ret s6
        else res_bind (GenerateDockerCompose (ge_io G) (gv_ChainID ?env) (gv_DockerImage ?env) (gv_DockerSubnet ?env) (gs_nodes s6)
          ?d (gv_Debug ?env) (gs_fs s6)) (\<lambda>fs4. Ret (s6\<lparr>gs_fs := fs4\<rparr>))) = Ret s"
    using assms unfolding GenerateConfigs_def Let_def by (elim res_guardE res_bindE) (rule that)
  have "\<exists>s4. res_fold (add_sentry G) [0..gv_NumOfSentryNodes ?env - 1] s3 = Ret s4 \<and>
      disk.confined (ending node_files) (gs_fs s4) (gs_fs s5) \<and> gs_genesis s5 = gs_genesis s4"
  proof (cases "gv_NumOfSentryNodes ?env > 0")
    case True
    with sen obtain s4 fs3 where s4: "res_fold (add_sentry G) [0..gv_NumOfSentryNodes ?env - 1] s3 = Ret s4"
        and w: "WriteFile (ge_io G) (?d @ ''/sentry-nodes/ids.json'') (IdsFile (gs_sentryIDs s4)) (gs_fs s4) = Ret fs3"
        and s5: "s5 = s4\<lparr>gs_fs := fs3\<rparr>" by auto
    then show ?thesis using write_confined [OF w, of "ending node_files"] by (simp add: s5)
  next
    case False
    with sen show ?thesis by (simp add: disk.confined_refl)
  qed
  moreover have "disk.confined (ending node_files) (gs_fs s6) (gs_fs s) \<and> gs_genesis s = gs_genesis s6"
    using doc by (auto simp: disk.confined_refl dest: GenerateDockerCompose_confined split: if_split_asm)
  ultimately show thesis using that p con by blast
qed

lemma generated_files:
  assumes "GenerateConfigs G fs0 = Ret s" and "sanitize_permutes (ge_gen G)"
  shows "delivered G {0..gv_NumOfInstances (ge_env G) - 1} {0..gv_NumOfValidators (ge_env G) - 1} s" (is "delivered G ?I ?V s")
  using assms(1)
proof (rule GenerateConfigs_phases)
  fix s1 s2 s3 s4 s5 s6
  assume p1: "res_fold (add_instance G) [0..gv_NumOfInstances (ge_env G) - 1] s1 = Ret s2"
    and p2: "res_fold (\<lambda>i. save_genesis G (rootOutDir (ge_env G) @ ''/validators/'' @ itoa i)) [0..gv_NumOfValidators (ge_env G) - 1] s2 = Ret s3"
    and p3: "res_fold (add_sentry G) [0..gv_NumOfSentryNodes (ge_env G) - 1] s3 = Ret s4"
    and p4: "disk.confined (ending node_files) (gs_fs s4) (gs_fs s5)" "gs_genesis s5 = gs_genesis s4"
    and p5: "res_fold (connect_validator G) [0..gv_NumOfValidators (ge_env G) - 1] s5 = Ret s6"
    and p6: "disk.confined (ending node_files) (gs_fs s6) (gs_fs s)" "gs_genesis s = gs_genesis s6"
  have "delivered G (set [0..gv_NumOfInstances (ge_env G) - 1]) {} s2"
    by (rule res_fold_induct [OF p1, where P = "\<lambda>is. delivered G (set is) {}"]) (simp_all add: delivered_instance)
  then have "delivered G ?I {} s2" by simp
  then have "delivered G ?I (set [0..gv_NumOfValidators (ge_env G) - 1]) s3"
    by (intro res_fold_induct [OF p2, where P = "\<lambda>vs. delivered G ?I (set vs)"]) (simp_all add: delivered_save assms(2))
  then have "delivered G ?I ?V s4"
    by (intro res_fold_induct [OF p3, where P = "\<lambda>_. delivered G ?I ?V"]) (simp_all add: delivered_sentry assms(2))
  then have "delivered G ?I ?V s6"
    using delivered_node_files [OF _ p4]
    by (intro res_fold_induct [OF p5, where P = "\<lambda>_. delivered G ?I ?V"]) (simp_all add: delivered_connect)
  then show ?thesis by (rule delivered_node_files [OF _ p6])
qed

end
