(* ===== verification/Keystore.thy ===== *)
theory Keystore
  imports Chain_Types "HOL-Library.Multiset"
begin

text \<open>
  New keys and the in-memory keyring of \<^verbatim>\<open>chain/key.go\<close>. The keyring of the SDK, with the codec that
  \<^verbatim>\<open>initCryptoCodec\<close> registers and the option for the curve already given to it, is the parameter
  \<open>keyring_lib\<close>: a keyring is a value of the type \<^typ>\<open>'k\<close>. The keys come from a Go map, whose order of iteration
  is arbitrary; it is the order of the list.
\<close>

definition GenerateSecp256k1Key :: "key_lib \<Rightarrow> bytes go \<Rightarrow> (Secp256k1PublicKey \<times> Secp256k1PrivateKey) res" where
  "GenerateSecp256k1Key kl generated = res_bind (orPanic generated) (\<lambda>privKey. Ret (PubKey kl privKey, privKey))"

record 'k keyring_lib =
  NewInMemory :: 'k
  SupportedAlgorithms :: "'k \<Rightarrow> string list"
  NewSigningAlgoFromString :: "string \<Rightarrow> string list \<Rightarrow> unit go"
  EthSecp256k1Type :: string
  privKey_Type :: string
  EncryptArmorPrivKey :: "bytes \<Rightarrow> string \<Rightarrow> string \<Rightarrow> string"
  ImportPrivKey :: "string \<Rightarrow> string \<Rightarrow> string \<Rightarrow> 'k \<Rightarrow> go_error option \<times> 'k"

fun import_keys :: "'k keyring_lib \<Rightarrow> (string \<times> Secp256k1PrivateKey) list \<Rightarrow> 'k \<Rightarrow> 'k res" where
  "import_keys lib [] keyringDB = Ret keyringDB"
| "import_keys lib ((name, key) # keys) keyringDB =
     (let encKey = EncryptArmorPrivKey lib key ''dummy'' (privKey_Type lib) in
      case ImportPrivKey lib name encKey ''dummy'' keyringDB of
        (Some err, _) \<Rightarrow> Panic err
      | (None, keyringDB') \<Rightarrow> import_keys lib keys keyringDB')"

definition WrapKeysInMemKeystore :: "'k keyring_lib \<Rightarrow> (string \<times> Secp256k1PrivateKey) list \<Rightarrow> 'k res" where
  "WrapKeysInMemKeystore lib keys =
     (let keyringDB = NewInMemory lib; signatureAlgos = SupportedAlgorithms lib keyringDB in
      res_bind (orPanic (NewSigningAlgoFromString lib (EthSecp256k1Type lib) signatureAlgos)) (\<lambda>_.
      import_keys lib keys keyringDB))"

subsection \<open>What the keyring promises\<close>

text \<open>
  \<open>holds\<close> reads a keyring. Importing an armoured key with its passphrase stores it under its name, unless
  the name or the key is already there, which is an error.
\<close>

definition keyring_promise :: "'k keyring_lib \<Rightarrow> ('k \<Rightarrow> string \<rightharpoonup> bytes) \<Rightarrow> bool" where
  "keyring_promise lib holds \<longleftrightarrow> holds (NewInMemory lib) = Map.empty \<and>
     NewSigningAlgoFromString lib (EthSecp256k1Type lib) (SupportedAlgorithms lib (NewInMemory lib)) = Inr () \<and>
     (\<forall>name key pass ty db. case ImportPrivKey lib name (EncryptArmorPrivKey lib key pass ty) pass db of
        (None, db') \<Rightarrow> name \<notin> dom (holds db) \<and> key \<notin> ran (holds db) \<and> holds db' = (holds db)(name \<mapsto> key)
      | (Some e, db') \<Rightarrow> name \<in> dom (holds db) \<or> key \<in> ran (holds db))"

lemma ImportPrivKey_cases:
  assumes "keyring_promise lib holds"
  obtains (imported) db' where "ImportPrivKey lib name (EncryptArmorPrivKey lib key pass ty) pass db = (None, db')"
      "name \<notin> dom (holds db)" "key \<notin> ran (holds db)" "holds db' = (holds db)(name \<mapsto> key)"
    | (refused) e db' where "ImportPrivKey lib name (EncryptArmorPrivKey lib key pass ty) pass db = (Some e, db')"
      "name \<in> dom (holds db) \<or> key \<in> ran (holds db)"
proof -
  obtain r db' where r: "ImportPrivKey lib name (EncryptArmorPrivKey lib key pass ty) pass db = (r, db')" by force
  with assms have "case (r, db') of (None, db') \<Rightarrow> name \<notin> dom (holds db) \<and> key \<notin> ran (holds db) \<and> holds db' = (holds db)(name \<mapsto> key)
      | (Some e, db') \<Rightarrow> name \<in> dom (holds db) \<or> key \<in> ran (holds db)"
    unfolding keyring_promise_def by metis
  with r that show thesis by (cases r) auto
qed

lemma import_keys_iff:
  assumes "keyring_promise lib holds"
  shows "(\<exists>db'. import_keys lib keys db = Ret db') \<longleftrightarrow>
      distinct (map fst keys) \<and> distinct (map snd keys) \<and> fst ` set keys \<inter> dom (holds db) = {} \<and> snd ` set keys \<inter> ran (holds db) = {}"
    and "import_keys lib keys db = Ret db' \<Longrightarrow> holds db' = holds db ++ map_of keys"
proof (induction keys arbitrary: db)
  case (Cons k keys)
  obtain name key where k [simp]: "k = (name, key)" by force
  {
    case 1
    show ?case
    proof (rule ImportPrivKey_cases [OF assms, of name key "''dummy''" "privKey_Type lib" db])
      fix db1 assume i: "ImportPrivKey lib name (EncryptArmorPrivKey lib key ''dummy'' (privKey_Type lib)) ''dummy'' db = (None, db1)"
        "name \<notin> dom (holds db)" "key \<notin> ran (holds db)" "holds db1 = (holds db)(name \<mapsto> key)"
      have d: "dom (holds db1) = insert name (dom (holds db))" "ran (holds db1) = insert key (ran (holds db))"
        using i(2,4) by (simp_all add: ran_map_upd domIff)
      have "(\<exists>db'. import_keys lib (k # keys) db = Ret db') = (\<exists>db'. import_keys lib keys db1 = Ret db')" using i(1) by simp
      also have "\<dots> \<longleftrightarrow> distinct (map fst keys) \<and> distinct (map snd keys) \<and> fst ` set keys \<inter> insert name (dom (holds db)) = {} \<and>
          snd ` set keys \<inter> insert key (ran (holds db)) = {}" by (simp only: Cons.IH(1) d)
      finally show ?thesis using i(2,3) by auto
    qed (auto simp: image_iff)
  next
    case 2
    show ?case
    proof (rule ImportPrivKey_cases [OF assms, of name key "''dummy''" "privKey_Type lib" db])
      fix db1 assume i: "ImportPrivKey lib name (EncryptArmorPrivKey lib key ''dummy'' (privKey_Type lib)) ''dummy'' db = (None, db1)"
        "holds db1 = (holds db)(name \<mapsto> key)"
      with 2 have r: "import_keys lib keys db1 = Ret db'" by simp
      then have "fst ` set keys \<inter> dom (holds db1) = {}" using Cons.IH(1) [of db1] by blast
      then have "name \<notin> dom (map_of keys)" by (auto simp: i(2) dom_map_of_conv_image_fst)
      then show ?thesis using Cons.IH(2) [OF r] by (auto simp: i(2) map_add_def fun_eq_iff domIff split: option.split)
    qed (use 2 in auto)
  }
qed auto

subsection \<open>The keystore\<close>

text \<open>The keystore is made exactly when no name and no key occurs twice, and then holds every key under its
  name, whatever the order in which the map was traversed.\<close>

theorem keystore_complete:
  assumes "keyring_promise lib holds" and "mset order = mset keys"
  shows "((\<exists>db. WrapKeysInMemKeystore lib order = Ret db) \<longleftrightarrow> distinct (map fst keys) \<and> distinct (map snd keys)) \<and>
    (\<forall>db. WrapKeysInMemKeystore lib order = Ret db \<longrightarrow> holds db = map_of keys)"
proof -
  have start: "holds (NewInMemory lib) = Map.empty" and wrap: "WrapKeysInMemKeystore lib order = import_keys lib order (NewInMemory lib)"
    using assms(1) by (simp_all add: keyring_promise_def WrapKeysInMemKeystore_def Let_def)
  have same: "distinct (map f order) = distinct (map f keys)" for f :: "string \<times> bytes \<Rightarrow> 'z"
    using assms(2) by (metis mset_eq_imp_distinct_iff mset_map)
  have made: "(\<exists>db. WrapKeysInMemKeystore lib order = Ret db) \<longleftrightarrow> distinct (map fst keys) \<and> distinct (map snd keys)"
    unfolding wrap import_keys_iff(1) [OF assms(1)] start by (simp add: same)
  moreover have "holds db = map_of keys" if db: "WrapKeysInMemKeystore lib order = Ret db" for db
  proof -
    have "distinct (map fst keys)" using made db by blast
    moreover have "set order = set keys" using assms(2) by (rule mset_eq_setD)
    ultimately have "map_of order = map_of keys" using same [of fst] by (intro map_of_eqI) (simp_all, metis image_set map_of_eq_Some_iff not_None_eq option.exhaust_sel weak_map_of_SomeI)
    then show ?thesis using import_keys_iff(2) [OF assms(1) db [unfolded wrap]] by (simp add: start)
  qed
  ultimately show ?thesis by blast
qed

end
