(* ===== verification/Bundler.thy ===== *)
theory Bundler
  imports Light_Account
begin

text \<open>
  The client of a bundler service, \<^verbatim>\<open>eth/aa/bundler_client.go\<close>: its message types and the calls it makes.
  The bundler's RPC methods and the number library's conversion to 256 bits are the parameter
  \<open>bundler_rpc\<close>. A method whose result is decoded into a pointer may answer \<^verbatim>\<open>null\<close>, which leaves the pointer
  nil; the receipt of a transaction is go-ethereum's and is the type parameter.
\<close>

subsection \<open>Messages\<close>

type_synonym uint256 = "256 word"

definition gasEstimationDummySig :: string where
  "gasEstimationDummySig = ''0xfffffffffffffffffffffffffffffff0000000000000000000000000000000007aaaaaaaaaaaaaaaaaaaaaaaaaaaaaaaaaaaaaaaaaaaaaaaaaaaaaaaaaaaaaaa1c''"

record bundlerUserOperationEstimate =
  be_Sender :: eth_address
  be_Nonce :: uint256
  be_Factory :: bytes
  be_FactoryData :: bytes
  be_InitCode :: bytes
  be_CallData :: bytes

record bundlerGasLimitOverrides =
  bo_MaxFeePerGas :: bytes
  bo_MaxPriorityFeePerGas :: uint256
  bo_CallGasLimit :: uint256
  bo_VerificationGasLimit :: uint256
  bo_PreVerificationGas :: uint256

record bundlerRequestGasAndPaymasterAndData =
  bg_PolicyID :: string
  bg_EntryPoint :: eth_address
  bg_DummySignature :: string
  bg_UserOperation :: bundlerUserOperationEstimate
  bg_Overrides :: "bundlerGasLimitOverrides option"

record bundlerResponseGasAndPaymasterAndData =
  br_PaymasterAndData :: bytes
  br_CallGasLimit :: uint256
  br_VerificationGasLimit :: uint256
  br_MaxPriorityFeePerGas :: uint256
  br_MaxFeePerGas :: uint256
  br_PreVerificationGas :: uint256

record bundlerUserOpResponse =
  bp_EntryPoint :: eth_address
  bp_BlockNumber :: uint64
  bp_BlockHash :: bytes
  bp_TxHash :: bytes

record 'rcpt bundlerUserOpReceipt =
  bt_UserOpHash :: bytes
  bt_EntryPoint :: eth_address
  bt_Sender :: eth_address
  bt_Nonce :: uint256
  bt_Paymaster :: eth_address
  bt_ActualGasCost :: int
  bt_ActualGasUsed :: uint64
  bt_Success :: bool
  bt_Reason :: string
  bt_TxReceipt :: 'rcpt

definition toBigInt :: "uint256 \<Rightarrow> int" where
  "toBigInt hexint = uint hexint"

subsection \<open>The client\<close>

record 'rcpt bundler_rpc =
  bu_Dial :: "string \<Rightarrow> unit go"
  MustFromBig :: "int \<Rightarrow> uint256 res"
  eth_supportedEntryPoints :: "eth_address list go"
  eth_sendUserOperation :: "PackedUserOperation \<Rightarrow> eth_address \<Rightarrow> bytes go"
  eth_getTransactionReceipt :: "bytes \<Rightarrow> 'rcpt option go"
  eth_getUserOperationReceipt :: "bytes \<Rightarrow> 'rcpt bundlerUserOpReceipt option go"
  eth_getUserOperationByHash :: "bytes \<Rightarrow> bundlerUserOpResponse option go"
  alchemy_requestGas :: "bundlerRequestGasAndPaymasterAndData \<Rightarrow> bundlerResponseGasAndPaymasterAndData go"

record bundlerClient =
  bc_bundlerUrl :: string
  bc_entrypointAddress :: eth_address
  bc_accountFactoryAddress :: eth_address

definition supportedEntryPoints :: "'rcpt bundler_rpc \<Rightarrow> eth_address list go" where
  "supportedEntryPoints rpc = wrap_err ''failed to get supported entry points'' (eth_supportedEntryPoints rpc)"

definition NewBundlerClient ::
  "aa_lib \<Rightarrow> 'rcpt bundler_rpc \<Rightarrow> string \<Rightarrow> eth_address \<Rightarrow> eth_address \<Rightarrow> bundlerClient go" where
  "NewBundlerClient al rpc aaBundlerUrl entrypointAddress accountFactoryAddress =
     go_bind (wrap_err ''failed to dial bundler RPC endpoint'' (bu_Dial rpc aaBundlerUrl)) (\<lambda>_.
     go_bind (wrap_err ''failed to get supported entry points'' (supportedEntryPoints rpc)) (\<lambda>eps.
     if entrypointAddress \<notin> set eps
     then Inl (Msg (''entrypoint address '' @ address_String al entrypointAddress @ '' not supported by RPC''))
     else Inr \<lparr> bc_bundlerUrl = aaBundlerUrl, bc_entrypointAddress = entrypointAddress,
       bc_accountFactoryAddress = accountFactoryAddress \<rparr>))"

definition SendUserOp :: "bundlerClient \<Rightarrow> PackedUserOperation \<Rightarrow> go_error option" where
  "SendUserOp bc userOp = None"

definition getTransactionReceipt :: "'rcpt bundler_rpc \<Rightarrow> bytes \<Rightarrow> 'rcpt option go" where
  "getTransactionReceipt rpc txHash =
     wrap_err ''failed to call Bundler RPC to fetch Tx receipt'' (eth_getTransactionReceipt rpc txHash)"

definition getUserOperationReceipt :: "'rcpt bundler_rpc \<Rightarrow> bytes \<Rightarrow> 'rcpt bundlerUserOpReceipt option go" where
  "getUserOperationReceipt rpc opHash =
     wrap_err ''failed to call Bundler RPC to fetch UserOperation receipt'' (eth_getUserOperationReceipt rpc opHash)"

definition getUserOperationByHash :: "'rcpt bundler_rpc \<Rightarrow> bytes \<Rightarrow> bundlerUserOpResponse option go" where
  "getUserOperationByHash rpc opHash =
     wrap_err ''failed to call Bundler RPC to fetch UserOperation by hash'' (eth_getUserOperationByHash rpc opHash)"

definition alchemyRequestGasAndPaymasterAndData ::
  "'rcpt bundler_rpc \<Rightarrow> bundlerClient \<Rightarrow> eth_address \<Rightarrow> int \<Rightarrow> bytes \<Rightarrow> bytes \<Rightarrow> bundlerResponseGasAndPaymasterAndData go res" where
  "alchemyRequestGasAndPaymasterAndData rpc bc sender nonce init callData =
     res_bind (MustFromBig rpc nonce) (\<lambda>nonceU256.
     Ret (wrap_err ''failed to fetch UO gas esitmates from Bundler RPC''
       (alchemy_requestGas rpc \<lparr> bg_PolicyID = ''TODO_POLICY_ID'', bg_EntryPoint = bc_entrypointAddress bc,
          bg_DummySignature = gasEstimationDummySig,
          bg_UserOperation = \<lparr> be_Sender = sender, be_Nonce = nonceU256, be_Factory = [], be_FactoryData = [],
            be_InitCode = init, be_CallData = callData \<rparr>,
          bg_Overrides = None \<rparr>)))"

text \<open>The hash is returned beside the error.\<close>

definition sendUserOperation ::
  "'rcpt bundler_rpc \<Rightarrow> bundlerClient \<Rightarrow> PackedUserOperation \<Rightarrow> bytes \<Rightarrow> bytes \<times> go_error option" where
  "sendUserOperation rpc bc userOperation userOperationHash =
     (case eth_sendUserOperation rpc userOperation (bc_entrypointAddress bc) of
        Inl err \<Rightarrow> (userOperationHash, Some (Wrap ''failed to send UO via Bundler RPC'' err))
      | Inr retUoHash \<Rightarrow> if retUoHash \<noteq> userOperationHash then (BytesToHash retUoHash, None) else (userOperationHash, None))"

definition isAA25NonceError :: "go_error option \<Rightarrow> bool" where
  "isAA25NonceError err = (case err of None \<Rightarrow> False
     | Some e \<Rightarrow> str_contains (error_text e) ''AA25'' \<or> str_contains (error_text e) ''invalid account nonce'')"

definition ensureOnly0x :: "string \<Rightarrow> string" where
  "ensureOnly0x s = (case strip_prefix ''0x0'' s of Some r \<Rightarrow> ''0x'' @ r | None \<Rightarrow> s)"

subsection \<open>What it promises\<close>

text \<open>The conversion of the number library, for a number that is not negative: it panics when 256 bits do
  not hold it.\<close>

definition converts_u256 :: "'rcpt bundler_rpc \<Rightarrow> bool" where
  "converts_u256 rpc \<longleftrightarrow> (\<forall>n \<ge> 0. if n < 2 ^ 256 then MustFromBig rpc n = Ret (word_of_int n) else \<exists>e. MustFromBig rpc n = Panic e)"

lemma toBigInt_of_int: "0 \<le> n \<Longrightarrow> n < 2 ^ 256 \<Longrightarrow> toBigInt (word_of_int n) = n"
  by (simp add: toBigInt_def uint_word_of_int)

text \<open>A client only exists for an entry point the bundler supports.\<close>

lemma bundler_supported:
  assumes "NewBundlerClient al rpc url ep fac = Inr bc"
  shows "\<exists>eps. eth_supportedEntryPoints rpc = Inr eps \<and> ep \<in> set eps \<and> bc_entrypointAddress bc = ep"
  using assms by (auto simp: NewBundlerClient_def supportedEntryPoints_def split: if_split_asm)

text \<open>The estimate is requested for exactly the given nonce and the client's entry point, or the call panics
  because the nonce does not fit into 256 bits.\<close>

lemma estimate_request:
  assumes "converts_u256 rpc" and "0 \<le> nonce"
  shows "(2 ^ 256 \<le> nonce \<longrightarrow> (\<exists>e. alchemyRequestGasAndPaymasterAndData rpc bc sender nonce ic cd = Panic e)) \<and>
    (nonce < 2 ^ 256 \<longrightarrow> (\<exists>req. alchemyRequestGasAndPaymasterAndData rpc bc sender nonce ic cd =
       Ret (wrap_err ''failed to fetch UO gas esitmates from Bundler RPC'' (alchemy_requestGas rpc req)) \<and>
       toBigInt (be_Nonce (bg_UserOperation req)) = nonce \<and> be_Sender (bg_UserOperation req) = sender \<and>
       bg_EntryPoint req = bc_entrypointAddress bc))"
proof (cases "nonce < 2 ^ 256")
  case True
  with assms have "MustFromBig rpc nonce = Ret (word_of_int nonce)" by (simp add: converts_u256_def)
  with True assms(2) show ?thesis
    unfolding alchemyRequestGasAndPaymasterAndData_def by (auto simp: toBigInt_of_int intro!: exI)
next
  case False
  with assms have "\<exists>e. MustFromBig rpc nonce = Panic e" by (simp add: converts_u256_def)
  with False show ?thesis by (auto simp: alchemyRequestGasAndPaymasterAndData_def)
qed

text \<open>A sent operation is known by a hash of 32 bytes: the bundler's, where it differs from the computed one.\<close>

lemma sent_hash:
  assumes "sendUserOperation rpc bc op h = (h', None)" and "length h = 32"
  shows "length h' = 32 \<and> (\<exists>r. eth_sendUserOperation rpc op (bc_entrypointAddress bc) = Inr r \<and> h' = BytesToHash r)"
  using assms by (auto simp: sendUserOperation_def BytesToHash_id split: sum.split_asm if_split_asm)

end
