(* ===== verification/Binding_Base_Account.thy ===== *)
theory Binding_Base_Account
  imports Event_Logs
begin

text \<open>
  The generated binding of the base of light accounts, \<^verbatim>\<open>eth/solidity/BaseLightAccount/BaseLightAccount.go\<close>, method by method: calls, transactions,
  their forms in a session, and the events. No other code of the program uses it.
\<close>

definition BaseLightAccountMetaData :: MetaData where
  "BaseLightAccountMetaData = \<lparr> MetaData_ABI = [
     AbiReceive,
     AbiFunction ''addDeposit'' [] [],
     AbiFunction ''eip712Domain'' [] [(''fields'', TFixed 1), (''name'', TString), (''version'', TString), (''chainId'', TUint 256), (''verifyingContract'', TAddress), (''salt'', TFixed 32), (''extensions'', TArray (TUint 256))],
     AbiFunction ''entryPoint'' [] [('''', TAddress)],
     AbiFunction ''execute'' [(''dest'', TAddress), (''value'', TUint 256), (''func'', TBytes)] [],
     AbiFunction ''executeBatch'' [(''dest'', TArray TAddress), (''func'', TArray TBytes)] [],
     AbiFunction ''executeBatch'' [(''dest'', TArray TAddress), (''value'', TArray (TUint 256)), (''func'', TArray TBytes)] [],
     AbiFunction ''getDeposit'' [] [('''', TUint 256)],
     AbiFunction ''getMessageHash'' [(''message'', TBytes)] [('''', TFixed 32)],
     AbiFunction ''getNonce'' [] [('''', TUint 256)],
     AbiFunction ''isValidSignature'' [(''hash'', TFixed 32), (''signature'', TBytes)] [('''', TFixed 4)],
     AbiFunction ''onERC1155BatchReceived'' [('''', TAddress), ('''', TAddress), ('''', TArray (TUint 256)), ('''', TArray (TUint 256)), ('''', TBytes)] [('''', TFixed 4)],
     AbiFunction ''onERC1155Received'' [('''', TAddress), ('''', TAddress), ('''', TUint 256), ('''', TUint 256), ('''', TBytes)] [('''', TFixed 4)],
     AbiFunction ''onERC721Received'' [('''', TAddress), ('''', TAddress), ('''', TUint 256), ('''', TBytes)] [('''', TFixed 4)],
     AbiFunction ''performCreate'' [(''value'', TUint 256), (''initCode'', TBytes)] [(''createdAddr'', TAddress)],
     AbiFunction ''performCreate2'' [(''value'', TUint 256), (''initCode'', TBytes), (''salt'', TFixed 32)] [(''createdAddr'', TAddress)],
     AbiFunction ''proxiableUUID'' [] [('''', TFixed 32)],
     AbiFunction ''supportsInterface'' [(''interfaceId'', TFixed 4)] [('''', TBool)],
     AbiFunction ''upgradeToAndCall'' [(''newImplementation'', TAddress), (''data'', TBytes)] [],
     AbiFunction ''validateUserOp'' [(''userOp'', packed_op_type), (''userOpHash'', TFixed 32), (''missingAccountFunds'', TUint 256)] [(''validationData'', TUint 256)],
     AbiFunction ''withdrawDepositTo'' [(''withdrawAddress'', TAddress), (''amount'', TUint 256)] [],
     AbiEvent ''Upgraded'' [(''implementation'', TAddress, True)],
     AbiError ''ArrayLengthMismatch'' [],
     AbiError ''CreateFailed'' [],
     AbiError ''InvalidSignatureType'' [],
     AbiError ''NotAuthorized'' [(''caller'', TAddress)],
     AbiError ''UnauthorizedCallContext'' [],
     AbiError ''UpgradeFailed'' [],
     AbiError ''ZeroAddressNotAllowed'' []],
     MetaData_Bin = [] \<rparr>"

definition bindBaseLightAccount ::
  "('b, 's) bind_lib \<Rightarrow> eth_address \<Rightarrow> 'b option \<Rightarrow> 'b option \<Rightarrow> 'b option \<Rightarrow> 'b BoundContract go" where
  "bindBaseLightAccount lib address caller transactor filterer = go_bind (GetAbi lib BaseLightAccountMetaData) (\<lambda>parsed.
     Inr (NewBoundContract address parsed caller transactor filterer))"

definition NewBaseLightAccount :: "('b, 's) bind_lib \<Rightarrow> eth_address \<Rightarrow> 'b \<Rightarrow> 'b Binding go" where
  "NewBaseLightAccount lib address backend =
     go_bind (bindBaseLightAccount lib address (Some backend) (Some backend) (Some backend)) (\<lambda>contract. Inr (whole_binding contract))"

definition NewBaseLightAccountCaller :: "('b, 's) bind_lib \<Rightarrow> eth_address \<Rightarrow> 'b \<Rightarrow> 'b BoundContract go" where
  "NewBaseLightAccountCaller lib address caller = bindBaseLightAccount lib address (Some caller) None None"

definition NewBaseLightAccountTransactor :: "('b, 's) bind_lib \<Rightarrow> eth_address \<Rightarrow> 'b \<Rightarrow> 'b BoundContract go" where
  "NewBaseLightAccountTransactor lib address transactor = bindBaseLightAccount lib address None (Some transactor) None"

definition NewBaseLightAccountFilterer :: "('b, 's) bind_lib \<Rightarrow> eth_address \<Rightarrow> 'b \<Rightarrow> 'b BoundContract go" where
  "NewBaseLightAccountFilterer lib address filterer = bindBaseLightAccount lib address None None (Some filterer)"

record BaseLightAccount_Eip712Domain =
  BaseLightAccount_Eip712Domain_Fields :: bytes
  BaseLightAccount_Eip712Domain_Name :: string
  BaseLightAccount_Eip712Domain_Version :: string
  BaseLightAccount_Eip712Domain_ChainId :: int
  BaseLightAccount_Eip712Domain_VerifyingContract :: eth_address
  BaseLightAccount_Eip712Domain_Salt :: bytes
  BaseLightAccount_Eip712Domain_Extensions :: "int list"

definition BaseLightAccountCaller_Eip712Domain :: "('b, 's, BaseLightAccount_Eip712Domain go res) call" where [binding_defs]:
  "BaseLightAccountCaller_Eip712Domain lib c opts =
     read_call lib c opts ''eip712Domain'' [] (\<lambda>out.
     res_bind (out_at (as_bytesN 1) out 0) (\<lambda>x0.
     res_bind (out_at as_string out 1) (\<lambda>x1.
     res_bind (out_at as_string out 2) (\<lambda>x2.
     res_bind (out_at as_bigInt out 3) (\<lambda>x3.
     res_bind (out_at as_address out 4) (\<lambda>x4.
     res_bind (out_at as_bytes32 out 5) (\<lambda>x5.
     res_bind (out_at as_bigInts out 6) (\<lambda>x6.
     Ret \<lparr> BaseLightAccount_Eip712Domain_Fields = x0, BaseLightAccount_Eip712Domain_Name = x1, BaseLightAccount_Eip712Domain_Version = x2, BaseLightAccount_Eip712Domain_ChainId = x3, BaseLightAccount_Eip712Domain_VerifyingContract = x4, BaseLightAccount_Eip712Domain_Salt = x5, BaseLightAccount_Eip712Domain_Extensions = x6 \<rparr>))))))))"

definition BaseLightAccountSession_Eip712Domain :: "('b, 's, BaseLightAccount_Eip712Domain go res) in_session" where
  "BaseLightAccountSession_Eip712Domain lib s =
     BaseLightAccountCaller_Eip712Domain lib (Caller (se_Contract s)) (se_CallOpts s)"

definition BaseLightAccountCallerSession_Eip712Domain :: "('b, 's, BaseLightAccount_Eip712Domain go res) in_caller_session" where
  "BaseLightAccountCallerSession_Eip712Domain lib s =
     BaseLightAccountCaller_Eip712Domain lib (cs_Contract s) (cs_CallOpts s)"

definition BaseLightAccountCaller_EntryPoint :: "('b, 's, eth_address go res) call" where [binding_defs]:
  "BaseLightAccountCaller_EntryPoint lib c opts =
     read_call lib c opts ''entryPoint'' [] (\<lambda>out. out_at as_address out 0)"

definition BaseLightAccountSession_EntryPoint :: "('b, 's, eth_address go res) in_session" where
  "BaseLightAccountSession_EntryPoint lib s =
     BaseLightAccountCaller_EntryPoint lib (Caller (se_Contract s)) (se_CallOpts s)"

definition BaseLightAccountCallerSession_EntryPoint :: "('b, 's, eth_address go res) in_caller_session" where
  "BaseLightAccountCallerSession_EntryPoint lib s =
     BaseLightAccountCaller_EntryPoint lib (cs_Contract s) (cs_CallOpts s)"

definition BaseLightAccountCaller_GetDeposit :: "('b, 's, int go res) call" where [binding_defs]:
  "BaseLightAccountCaller_GetDeposit lib c opts =
     read_call lib c opts ''getDeposit'' [] (\<lambda>out. out_at as_bigInt out 0)"

definition BaseLightAccountSession_GetDeposit :: "('b, 's, int go res) in_session" where
  "BaseLightAccountSession_GetDeposit lib s =
     BaseLightAccountCaller_GetDeposit lib (Caller (se_Contract s)) (se_CallOpts s)"

definition BaseLightAccountCallerSession_GetDeposit :: "('b, 's, int go res) in_caller_session" where
  "BaseLightAccountCallerSession_GetDeposit lib s =
     BaseLightAccountCaller_GetDeposit lib (cs_Contract s) (cs_CallOpts s)"

definition BaseLightAccountCaller_GetMessageHash :: "('b, 's, bytes \<Rightarrow> bytes go res) call" where [binding_defs]:
  "BaseLightAccountCaller_GetMessageHash lib c opts message =
     read_call lib c opts ''getMessageHash'' [AbiBytes message] (\<lambda>out. out_at as_bytes32 out 0)"

definition BaseLightAccountSession_GetMessageHash :: "('b, 's, bytes \<Rightarrow> bytes go res) in_session" where
  "BaseLightAccountSession_GetMessageHash lib s message =
     BaseLightAccountCaller_GetMessageHash lib (Caller (se_Contract s)) (se_CallOpts s) message"

definition BaseLightAccountCallerSession_GetMessageHash :: "('b, 's, bytes \<Rightarrow> bytes go res) in_caller_session" where
  "BaseLightAccountCallerSession_GetMessageHash lib s message =
     BaseLightAccountCaller_GetMessageHash lib (cs_Contract s) (cs_CallOpts s) message"

definition BaseLightAccountCaller_GetNonce :: "('b, 's, int go res) call" where [binding_defs]:
  "BaseLightAccountCaller_GetNonce lib c opts =
     read_call lib c opts ''getNonce'' [] (\<lambda>out. out_at as_bigInt out 0)"

definition BaseLightAccountSession_GetNonce :: "('b, 's, int go res) in_session" where
  "BaseLightAccountSession_GetNonce lib s =
     BaseLightAccountCaller_GetNonce lib (Caller (se_Contract s)) (se_CallOpts s)"

definition BaseLightAccountCallerSession_GetNonce :: "('b, 's, int go res) in_caller_session" where
  "BaseLightAccountCallerSession_GetNonce lib s =
     BaseLightAccountCaller_GetNonce lib (cs_Contract s) (cs_CallOpts s)"

definition BaseLightAccountCaller_IsValidSignature :: "('b, 's, bytes \<Rightarrow> bytes \<Rightarrow> bytes go res) call" where [binding_defs]:
  "BaseLightAccountCaller_IsValidSignature lib c opts hash signature =
     read_call lib c opts ''isValidSignature'' [AbiBytes32 hash, AbiBytes signature] (\<lambda>out. out_at (as_bytesN 4) out 0)"

definition BaseLightAccountSession_IsValidSignature :: "('b, 's, bytes \<Rightarrow> bytes \<Rightarrow> bytes go res) in_session" where
  "BaseLightAccountSession_IsValidSignature lib s hash signature =
     BaseLightAccountCaller_IsValidSignature lib (Caller (se_Contract s)) (se_CallOpts s) hash signature"

definition BaseLightAccountCallerSession_IsValidSignature :: "('b, 's, bytes \<Rightarrow> bytes \<Rightarrow> bytes go res) in_caller_session" where
  "BaseLightAccountCallerSession_IsValidSignature lib s hash signature =
     BaseLightAccountCaller_IsValidSignature lib (cs_Contract s) (cs_CallOpts s) hash signature"

definition BaseLightAccountCaller_OnERC1155BatchReceived :: "('b, 's, eth_address \<Rightarrow> eth_address \<Rightarrow> int list \<Rightarrow> int list \<Rightarrow> bytes \<Rightarrow> bytes go res) call" where [binding_defs]:
  "BaseLightAccountCaller_OnERC1155BatchReceived lib c opts arg0 arg1 arg2 arg3 arg4 =
     read_call lib c opts ''onERC1155BatchReceived'' [AbiAddress arg0, AbiAddress arg1, AbiUint256s arg2, AbiUint256s arg3, AbiBytes arg4] (\<lambda>out. out_at (as_bytesN 4) out 0)"

definition BaseLightAccountSession_OnERC1155BatchReceived :: "('b, 's, eth_address \<Rightarrow> eth_address \<Rightarrow> int list \<Rightarrow> int list \<Rightarrow> bytes \<Rightarrow> bytes go res) in_session" where
  "BaseLightAccountSession_OnERC1155BatchReceived lib s arg0 arg1 arg2 arg3 arg4 =
     BaseLightAccountCaller_OnERC1155BatchReceived lib (Caller (se_Contract s)) (se_CallOpts s) arg0 arg1 arg2 arg3 arg4"

definition BaseLightAccountCallerSession_OnERC1155BatchReceived :: "('b, 's, eth_address \<Rightarrow> eth_address \<Rightarrow> int list \<Rightarrow> int list \<Rightarrow> bytes \<Rightarrow> bytes go res) in_caller_session" where
  "BaseLightAccountCallerSession_OnERC1155BatchReceived lib s arg0 arg1 arg2 arg3 arg4 =
     BaseLightAccountCaller_OnERC1155BatchReceived lib (cs_Contract s) (cs_CallOpts s) arg0 arg1 arg2 arg3 arg4"

definition BaseLightAccountCaller_OnERC1155Received :: "('b, 's, eth_address \<Rightarrow> eth_address \<Rightarrow> int \<Rightarrow> int \<Rightarrow> bytes \<Rightarrow> bytes go res) call" where [binding_defs]:
  "BaseLightAccountCaller_OnERC1155Received lib c opts arg0 arg1 arg2 arg3 arg4 =
     read_call lib c opts ''onERC1155Received'' [AbiAddress arg0, AbiAddress arg1, AbiUint256 arg2, AbiUint256 arg3, AbiBytes arg4] (\<lambda>out. out_at (as_bytesN 4) out 0)"

definition BaseLightAccountSession_OnERC1155Received :: "('b, 's, eth_address \<Rightarrow> eth_address \<Rightarrow> int \<Rightarrow> int \<Rightarrow> bytes \<Rightarrow> bytes go res) in_session" where
  "BaseLightAccountSession_OnERC1155Received lib s arg0 arg1 arg2 arg3 arg4 =
     BaseLightAccountCaller_OnERC1155Received lib (Caller (se_Contract s)) (se_CallOpts s) arg0 arg1 arg2 arg3 arg4"

definition BaseLightAccountCallerSession_OnERC1155Received :: "('b, 's, eth_address \<Rightarrow> eth_address \<Rightarrow> int \<Rightarrow> int \<Rightarrow> bytes \<Rightarrow> bytes go res) in_caller_session" where
  "BaseLightAccountCallerSession_OnERC1155Received lib s arg0 arg1 arg2 arg3 arg4 =
     BaseLightAccountCaller_OnERC1155Received lib (cs_Contract s) (cs_CallOpts s) arg0 arg1 arg2 arg3 arg4"

definition BaseLightAccountCaller_OnERC721Received :: "('b, 's, eth_address \<Rightarrow> eth_address \<Rightarrow> int \<Rightarrow> bytes \<Rightarrow> bytes go res) call" where [binding_defs]:
  "BaseLightAccountCaller_OnERC721Received lib c opts arg0 arg1 arg2 arg3 =
     read_call lib c opts ''onERC721Received'' [AbiAddress arg0, AbiAddress arg1, AbiUint256 arg2, AbiBytes arg3] (\<lambda>out. out_at (as_bytesN 4) out 0)"

definition BaseLightAccountSession_OnERC721Received :: "('b, 's, eth_address \<Rightarrow> eth_address \<Rightarrow> int \<Rightarrow> bytes \<Rightarrow> bytes go res) in_session" where
  "BaseLightAccountSession_OnERC721Received lib s arg0 arg1 arg2 arg3 =
     BaseLightAccountCaller_OnERC721Received lib (Caller (se_Contract s)) (se_CallOpts s) arg0 arg1 arg2 arg3"

definition BaseLightAccountCallerSession_OnERC721Received :: "('b, 's, eth_address \<Rightarrow> eth_address \<Rightarrow> int \<Rightarrow> bytes \<Rightarrow> bytes go res) in_caller_session" where
  "BaseLightAccountCallerSession_OnERC721Received lib s arg0 arg1 arg2 arg3 =
     BaseLightAccountCaller_OnERC721Received lib (cs_Contract s) (cs_CallOpts s) arg0 arg1 arg2 arg3"

definition BaseLightAccountCaller_ProxiableUUID :: "('b, 's, bytes go res) call" where [binding_defs]:
  "BaseLightAccountCaller_ProxiableUUID lib c opts =
     read_call lib c opts ''proxiableUUID'' [] (\<lambda>out. out_at as_bytes32 out 0)"

definition BaseLightAccountSession_ProxiableUUID :: "('b, 's, bytes go res) in_session" where
  "BaseLightAccountSession_ProxiableUUID lib s =
     BaseLightAccountCaller_ProxiableUUID lib (Caller (se_Contract s)) (se_CallOpts s)"

definition BaseLightAccountCallerSession_ProxiableUUID :: "('b, 's, bytes go res) in_caller_session" where
  "BaseLightAccountCallerSession_ProxiableUUID lib s =
     BaseLightAccountCaller_ProxiableUUID lib (cs_Contract s) (cs_CallOpts s)"

definition BaseLightAccountCaller_SupportsInterface :: "('b, 's, bytes \<Rightarrow> bool go res) call" where [binding_defs]:
  "BaseLightAccountCaller_SupportsInterface lib c opts interfaceId =
     read_call lib c opts ''supportsInterface'' [AbiBytesN 4 interfaceId] (\<lambda>out. out_at as_bool out 0)"

definition BaseLightAccountSession_SupportsInterface :: "('b, 's, bytes \<Rightarrow> bool go res) in_session" where
  "BaseLightAccountSession_SupportsInterface lib s interfaceId =
     BaseLightAccountCaller_SupportsInterface lib (Caller (se_Contract s)) (se_CallOpts s) interfaceId"

definition BaseLightAccountCallerSession_SupportsInterface :: "('b, 's, bytes \<Rightarrow> bool go res) in_caller_session" where
  "BaseLightAccountCallerSession_SupportsInterface lib s interfaceId =
     BaseLightAccountCaller_SupportsInterface lib (cs_Contract s) (cs_CallOpts s) interfaceId"

definition BaseLightAccountTransactor_AddDeposit :: "('b, 's, 's go) transact" where [binding_defs]:
  "BaseLightAccountTransactor_AddDeposit lib c opts =
     bound_Transact lib c opts ''addDeposit'' []"

definition BaseLightAccountSession_AddDeposit :: "('b, 's, 's go) in_session" where
  "BaseLightAccountSession_AddDeposit lib s =
     BaseLightAccountTransactor_AddDeposit lib (Transactor (se_Contract s)) (se_TransactOpts s)"

definition BaseLightAccountTransactorSession_AddDeposit :: "('b, 's, 's go) in_transactor_session" where
  "BaseLightAccountTransactorSession_AddDeposit lib s =
     BaseLightAccountTransactor_AddDeposit lib (ts_Contract s) (ts_TransactOpts s)"

definition BaseLightAccountTransactor_Execute :: "('b, 's, eth_address \<Rightarrow> int \<Rightarrow> bytes \<Rightarrow> 's go) transact" where [binding_defs]:
  "BaseLightAccountTransactor_Execute lib c opts dest value arg2 =
     bound_Transact lib c opts ''execute'' [AbiAddress dest, AbiUint256 value, AbiBytes arg2]"

definition BaseLightAccountSession_Execute :: "('b, 's, eth_address \<Rightarrow> int \<Rightarrow> bytes \<Rightarrow> 's go) in_session" where
  "BaseLightAccountSession_Execute lib s dest value arg2 =
     BaseLightAccountTransactor_Execute lib (Transactor (se_Contract s)) (se_TransactOpts s) dest value arg2"

definition BaseLightAccountTransactorSession_Execute :: "('b, 's, eth_address \<Rightarrow> int \<Rightarrow> bytes \<Rightarrow> 's go) in_transactor_session" where
  "BaseLightAccountTransactorSession_Execute lib s dest value arg2 =
     BaseLightAccountTransactor_Execute lib (ts_Contract s) (ts_TransactOpts s) dest value arg2"

definition BaseLightAccountTransactor_ExecuteBatch :: "('b, 's, eth_address list \<Rightarrow> bytes list \<Rightarrow> 's go) transact" where [binding_defs]:
  "BaseLightAccountTransactor_ExecuteBatch lib c opts dest arg1 =
     bound_Transact lib c opts ''executeBatch'' [AbiAddresses dest, AbiBytess arg1]"

definition BaseLightAccountSession_ExecuteBatch :: "('b, 's, eth_address list \<Rightarrow> bytes list \<Rightarrow> 's go) in_session" where
  "BaseLightAccountSession_ExecuteBatch lib s dest arg1 =
     BaseLightAccountTransactor_ExecuteBatch lib (Transactor (se_Contract s)) (se_TransactOpts s) dest arg1"

definition BaseLightAccountTransactorSession_ExecuteBatch :: "('b, 's, eth_address list \<Rightarrow> bytes list \<Rightarrow> 's go) in_transactor_session" where
  "BaseLightAccountTransactorSession_ExecuteBatch lib s dest arg1 =
     BaseLightAccountTransactor_ExecuteBatch lib (ts_Contract s) (ts_TransactOpts s) dest arg1"

definition BaseLightAccountTransactor_ExecuteBatch0 :: "('b, 's, eth_address list \<Rightarrow> int list \<Rightarrow> bytes list \<Rightarrow> 's go) transact" where [binding_defs]:
  "BaseLightAccountTransactor_ExecuteBatch0 lib c opts dest value arg2 =
     bound_Transact lib c opts ''executeBatch0'' [AbiAddresses dest, AbiUint256s value, AbiBytess arg2]"

definition BaseLightAccountSession_ExecuteBatch0 :: "('b, 's, eth_address list \<Rightarrow> int list \<Rightarrow> bytes list \<Rightarrow> 's go) in_session" where
  "BaseLightAccountSession_ExecuteBatch0 lib s dest value arg2 =
     BaseLightAccountTransactor_ExecuteBatch0 lib (Transactor (se_Contract s)) (se_TransactOpts s) dest value arg2"

definition BaseLightAccountTransactorSession_ExecuteBatch0 :: "('b, 's, eth_address list \<Rightarrow> int list \<Rightarrow> bytes list \<Rightarrow> 's go) in_transactor_session" where
  "BaseLightAccountTransactorSession_ExecuteBatch0 lib s dest value arg2 =
     BaseLightAccountTransactor_ExecuteBatch0 lib (ts_Contract s) (ts_TransactOpts s) dest value arg2"

definition BaseLightAccountTransactor_PerformCreate :: "('b, 's, int \<Rightarrow> bytes \<Rightarrow> 's go) transact" where [binding_defs]:
  "BaseLightAccountTransactor_PerformCreate lib c opts value initCode =
     bound_Transact lib c opts ''performCreate'' [AbiUint256 value, AbiBytes initCode]"

definition BaseLightAccountSession_PerformCreate :: "('b, 's, int \<Rightarrow> bytes \<Rightarrow> 's go) in_session" where
  "BaseLightAccountSession_PerformCreate lib s value initCode =
     BaseLightAccountTransactor_PerformCreate lib (Transactor (se_Contract s)) (se_TransactOpts s) value initCode"

definition BaseLightAccountTransactorSession_PerformCreate :: "('b, 's, int \<Rightarrow> bytes \<Rightarrow> 's go) in_transactor_session" where
  "BaseLightAccountTransactorSession_PerformCreate lib s value initCode =
     BaseLightAccountTransactor_PerformCreate lib (ts_Contract s) (ts_TransactOpts s) value initCode"

definition BaseLightAccountTransactor_PerformCreate2 :: "('b, 's, int \<Rightarrow> bytes \<Rightarrow> bytes \<Rightarrow> 's go) transact" where [binding_defs]:
  "BaseLightAccountTransactor_PerformCreate2 lib c opts value initCode salt =
     bound_Transact lib c opts ''performCreate2'' [AbiUint256 value, AbiBytes initCode, AbiBytes32 salt]"

definition BaseLightAccountSession_PerformCreate2 :: "('b, 's, int \<Rightarrow> bytes \<Rightarrow> bytes \<Rightarrow> 's go) in_session" where
  "BaseLightAccountSession_PerformCreate2 lib s value initCode salt =
     BaseLightAccountTransactor_PerformCreate2 lib (Transactor (se_Contract s)) (se_TransactOpts s) value initCode salt"

definition BaseLightAccountTransactorSession_PerformCreate2 :: "('b, 's, int \<Rightarrow> bytes \<Rightarrow> bytes \<Rightarrow> 's go) in_transactor_session" where
  "BaseLightAccountTransactorSession_PerformCreate2 lib s value initCode salt =
     BaseLightAccountTransactor_PerformCreate2 lib (ts_Contract s) (ts_TransactOpts s) value initCode salt"

definition BaseLightAccountTransactor_UpgradeToAndCall :: "('b, 's, eth_address \<Rightarrow> bytes \<Rightarrow> 's go) transact" where [binding_defs]:
  "BaseLightAccountTransactor_UpgradeToAndCall lib c opts newImplementation data =
     bound_Transact lib c opts ''upgradeToAndCall'' [AbiAddress newImplementation, AbiBytes data]"

definition BaseLightAccountSession_UpgradeToAndCall :: "('b, 's, eth_address \<Rightarrow> bytes \<Rightarrow> 's go) in_session" where
  "BaseLightAccountSession_UpgradeToAndCall lib s newImplementation data =
     BaseLightAccountTransactor_UpgradeToAndCall lib (Transactor (se_Contract s)) (se_TransactOpts s) newImplementation data"

definition BaseLightAccountTransactorSession_UpgradeToAndCall :: "('b, 's, eth_address \<Rightarrow> bytes \<Rightarrow> 's go) in_transactor_session" where
  "BaseLightAccountTransactorSession_UpgradeToAndCall lib s newImplementation data =
     BaseLightAccountTransactor_UpgradeToAndCall lib (ts_Contract s) (ts_TransactOpts s) newImplementation data"

definition BaseLightAccountTransactor_ValidateUserOp :: "('b, 's, PackedUserOperation \<Rightarrow> bytes \<Rightarrow> int \<Rightarrow> 's go) transact" where [binding_defs]:
  "BaseLightAccountTransactor_ValidateUserOp lib c opts userOp userOpHash missingAccountFunds =
     bound_Transact lib c opts ''validateUserOp'' [AbiOp userOp, AbiBytes32 userOpHash, AbiUint256 missingAccountFunds]"

definition BaseLightAccountSession_ValidateUserOp :: "('b, 's, PackedUserOperation \<Rightarrow> bytes \<Rightarrow> int \<Rightarrow> 's go) in_session" where
  "BaseLightAccountSession_ValidateUserOp lib s userOp userOpHash missingAccountFunds =
     BaseLightAccountTransactor_ValidateUserOp lib (Transactor (se_Contract s)) (se_TransactOpts s) userOp userOpHash missingAccountFunds"

definition BaseLightAccountTransactorSession_ValidateUserOp :: "('b, 's, PackedUserOperation \<Rightarrow> bytes \<Rightarrow> int \<Rightarrow> 's go) in_transactor_session" where
  "BaseLightAccountTransactorSession_ValidateUserOp lib s userOp userOpHash missingAccountFunds =
     BaseLightAccountTransactor_ValidateUserOp lib (ts_Contract s) (ts_TransactOpts s) userOp userOpHash missingAccountFunds"

definition BaseLightAccountTransactor_WithdrawDepositTo :: "('b, 's, eth_address \<Rightarrow> int \<Rightarrow> 's go) transact" where [binding_defs]:
  "BaseLightAccountTransactor_WithdrawDepositTo lib c opts withdrawAddress amount =
     bound_Transact lib c opts ''withdrawDepositTo'' [AbiAddress withdrawAddress, AbiUint256 amount]"

definition BaseLightAccountSession_WithdrawDepositTo :: "('b, 's, eth_address \<Rightarrow> int \<Rightarrow> 's go) in_session" where
  "BaseLightAccountSession_WithdrawDepositTo lib s withdrawAddress amount =
     BaseLightAccountTransactor_WithdrawDepositTo lib (Transactor (se_Contract s)) (se_TransactOpts s) withdrawAddress amount"

definition BaseLightAccountTransactorSession_WithdrawDepositTo :: "('b, 's, eth_address \<Rightarrow> int \<Rightarrow> 's go) in_transactor_session" where
  "BaseLightAccountTransactorSession_WithdrawDepositTo lib s withdrawAddress amount =
     BaseLightAccountTransactor_WithdrawDepositTo lib (ts_Contract s) (ts_TransactOpts s) withdrawAddress amount"

definition BaseLightAccountTransactor_Receive :: "('b, 's, 's go) transact" where [binding_defs]:
  "BaseLightAccountTransactor_Receive lib c opts =
     bound_RawTransact lib c opts []"

definition BaseLightAccountSession_Receive :: "('b, 's, 's go) in_session" where
  "BaseLightAccountSession_Receive lib s =
     BaseLightAccountTransactor_Receive lib (Transactor (se_Contract s)) (se_TransactOpts s)"

definition BaseLightAccountTransactorSession_Receive :: "('b, 's, 's go) in_transactor_session" where
  "BaseLightAccountTransactorSession_Receive lib s =
     BaseLightAccountTransactor_Receive lib (ts_Contract s) (ts_TransactOpts s)"

record BaseLightAccountUpgraded =
  BaseLightAccountUpgraded_Implementation :: eth_address
  BaseLightAccountUpgraded_Raw :: Log

definition into_BaseLightAccountUpgraded :: "BaseLightAccountUpgraded into" where [event_structs]:
  "into_BaseLightAccountUpgraded vs log = (case vs of [v0] \<Rightarrow>
        Option.bind (as_address v0) (\<lambda>x0.
        Some \<lparr> BaseLightAccountUpgraded_Implementation = x0, BaseLightAccountUpgraded_Raw = log \<rparr>)
      | _ \<Rightarrow> None)"

definition BaseLightAccountUpgradedIterator_Next :: "('b, 's) bind_lib \<Rightarrow> bool \<Rightarrow> ('b, BaseLightAccountUpgraded) Iterator \<Rightarrow> bool \<times> ('b, BaseLightAccountUpgraded) Iterator" where
  "BaseLightAccountUpgradedIterator_Next lib = Iterator_Next lib into_BaseLightAccountUpgraded"

definition BaseLightAccountFilterer_FilterUpgraded ::
  "('b, 's) bind_lib \<Rightarrow> 'b BoundContract \<Rightarrow> FilterOpts \<Rightarrow> eth_address list \<Rightarrow> ('b, BaseLightAccountUpgraded) Iterator go" where
  "BaseLightAccountFilterer_FilterUpgraded lib c opts implementation =
     go_bind (FilterLogs lib c opts ''Upgraded'' [map AbiAddress implementation]) (\<lambda>sub.
     Inr (new_iterator c ''Upgraded'' sub))"

definition BaseLightAccountFilterer_WatchUpgraded ::
  "('b, 's) bind_lib \<Rightarrow> 'b BoundContract \<Rightarrow> WatchOpts \<Rightarrow> eth_address list \<Rightarrow> BaseLightAccountUpgraded watcher go" where
  "BaseLightAccountFilterer_WatchUpgraded lib c opts implementation =
     go_bind (WatchLogs lib c opts ''Upgraded'' [map AbiAddress implementation]) (\<lambda>_.
     Inr (watch_step (unpack_event lib into_BaseLightAccountUpgraded c ''Upgraded''), watch_start))"

definition BaseLightAccountFilterer_ParseUpgraded :: "('b, 's) bind_lib \<Rightarrow> 'b BoundContract \<Rightarrow> Log \<Rightarrow> BaseLightAccountUpgraded go" where
  "BaseLightAccountFilterer_ParseUpgraded lib c log = unpack_event lib into_BaseLightAccountUpgraded c ''Upgraded'' log"

subsection \<open>The binding fits the interface\<close>

lemma BaseLightAccount_methods:
  "abi_methods BaseLightAccountMetaData = [
     (''addDeposit'', [], []),
     (''eip712Domain'', [], [TFixed 1, TString, TString, TUint 256, TAddress, TFixed 32, TArray (TUint 256)]),
     (''entryPoint'', [], [TAddress]),
     (''execute'', [TAddress, TUint 256, TBytes], []),
     (''executeBatch'', [TArray TAddress, TArray TBytes], []),
     (''executeBatch0'', [TArray TAddress, TArray (TUint 256), TArray TBytes], []),
     (''getDeposit'', [], [TUint 256]),
     (''getMessageHash'', [TBytes], [TFixed 32]),
     (''getNonce'', [], [TUint 256]),
     (''isValidSignature'', [TFixed 32, TBytes], [TFixed 4]),
     (''onERC1155BatchReceived'', [TAddress, TAddress, TArray (TUint 256), TArray (TUint 256), TBytes], [TFixed 4]),
     (''onERC1155Received'', [TAddress, TAddress, TUint 256, TUint 256, TBytes], [TFixed 4]),
     (''onERC721Received'', [TAddress, TAddress, TUint 256, TBytes], [TFixed 4]),
     (''performCreate'', [TUint 256, TBytes], [TAddress]),
     (''performCreate2'', [TUint 256, TBytes, TFixed 32], [TAddress]),
     (''proxiableUUID'', [], [TFixed 32]),
     (''supportsInterface'', [TFixed 4], [TBool]),
     (''upgradeToAndCall'', [TAddress, TBytes], []),
     (''validateUserOp'', [packed_op_type, TFixed 32, TUint 256], [TUint 256]),
     (''withdrawDepositTo'', [TAddress, TUint 256], [])]"
  by code_simp

text \<open>No read-only method can panic: the conversions are those of the types of the interface.\<close>

lemma BaseLightAccount_calls_answered:
  assumes "serves refused lib BaseLightAccountMetaData" and "bound_to lib BaseLightAccountMetaData c"
  shows "answered refused (BaseLightAccountCaller_Eip712Domain lib c opts)"
    "answered refused (BaseLightAccountCaller_EntryPoint lib c opts)"
    "answered refused (BaseLightAccountCaller_GetDeposit lib c opts)"
    "answered refused (BaseLightAccountCaller_GetMessageHash lib c opts message)"
    "answered refused (BaseLightAccountCaller_GetNonce lib c opts)"
    "answered refused (BaseLightAccountCaller_IsValidSignature lib c opts hash signature)"
    "answered refused (BaseLightAccountCaller_OnERC1155BatchReceived lib c opts arg0 arg1 arg2 arg3 arg4)"
    "answered refused (BaseLightAccountCaller_OnERC1155Received lib c opts arg0 arg1 arg2' arg3' arg4)"
    "answered refused (BaseLightAccountCaller_OnERC721Received lib c opts arg0 arg1 arg2' arg3'')"
    "answered refused (BaseLightAccountCaller_ProxiableUUID lib c opts)"
    "answered refused (BaseLightAccountCaller_SupportsInterface lib c opts interfaceId)"
  unfolding binding_defs
  by (rule read_call_answered [OF assms];
      auto simp: accepts_def returns_def BaseLightAccount_methods all_typed_Cons out_at_def as_defs)+

lemma BaseLightAccount_transactions_sent:
  assumes "serves refused lib BaseLightAccountMetaData" and "bound_to lib BaseLightAccountMetaData c"
  shows "sent_or_refused refused (BaseLightAccountTransactor_AddDeposit lib c opts)"
    "sent_or_refused refused (BaseLightAccountTransactor_Execute lib c opts dest value arg2'')"
    "sent_or_refused refused (BaseLightAccountTransactor_ExecuteBatch lib c opts dest' arg1')"
    "sent_or_refused refused (BaseLightAccountTransactor_ExecuteBatch0 lib c opts dest' value' arg2''')"
    "sent_or_refused refused (BaseLightAccountTransactor_PerformCreate lib c opts value initCode)"
    "sent_or_refused refused (BaseLightAccountTransactor_PerformCreate2 lib c opts value initCode salt)"
    "sent_or_refused refused (BaseLightAccountTransactor_UpgradeToAndCall lib c opts newImplementation data)"
    "sent_or_refused refused (BaseLightAccountTransactor_ValidateUserOp lib c opts userOp userOpHash missingAccountFunds)"
    "sent_or_refused refused (BaseLightAccountTransactor_WithdrawDepositTo lib c opts withdrawAddress amount)"
  unfolding binding_defs
  by (rule transact_answered [OF assms]; simp add: accepts_def BaseLightAccount_methods)+

text \<open>The values of an event always fit its struct.\<close>

lemma BaseLightAccount_events_fit:
  "fits BaseLightAccountMetaData ''Upgraded'' into_BaseLightAccountUpgraded"
  by (auto simp: fits_def BaseLightAccountMetaData_def all_typed_Cons as_defs event_structs)

end
