(* ===== verification/Json_Rpc.thy ===== *)
theory Json_Rpc
  imports Go_Float "HOL-Library.Multiset"
begin

text \<open>
  The JSON-RPC client, \<^verbatim>\<open>eth/jsonrpc/jsonrpc.go\<close>. Marshalling, the decoding of bodies and the HTTP
  transport are parameters (\<open>rpc_lib\<close>); a Go value that is passed as a parameter of a call is its type
  and its content. Requests and responses are pointers in the source: requests are addresses into a
  store, because a batch call writes into them, and responses may be nil. What the client prints to its
  logger is not modelled.
\<close>

subsection \<open>Parameters of a call\<close>

text \<open>
  A type as reflection sees it: pointers to it, and its kind (the kinds that the source does not name
  are one).
\<close>

datatype go_kind = KStruct | KArray | KSlice | KInterface | KMap | OtherKind
datatype go_type = PtrTo go_type | Plain go_kind
datatype 'v any = NilAny | Val go_type 'v

datatype 'v json_params = NoParams | Direct "'v any" | Wrapped "'v any list"

fun elem_kind :: "go_type \<Rightarrow> go_kind" where
  "elem_kind (PtrTo t) = elem_kind t"
| "elem_kind (Plain k) = k"

definition Params :: "'v any list \<Rightarrow> 'v json_params" where
  "Params params = (case params of
     [] \<Rightarrow> NoParams
   | [p] \<Rightarrow> (case p of NilAny \<Rightarrow> Wrapped params
       | Val t v \<Rightarrow> (case elem_kind t of KStruct \<Rightarrow> Direct p | KArray \<Rightarrow> Direct p | KSlice \<Rightarrow> Direct p
           | KInterface \<Rightarrow> Direct p | KMap \<Rightarrow> Direct p | OtherKind \<Rightarrow> Wrapped params))
   | _ \<Rightarrow> Wrapped params)"

subsection \<open>Requests and responses\<close>

definition jsonrpcVersion :: string where
  "jsonrpcVersion = ''2.0''"

record 'v RPCRequest =
  rq_Method :: string
  rq_Params :: "'v json_params"
  rq_ID :: int
  rq_JSONRPC :: string

definition NewRequest :: "string \<Rightarrow> 'v any list \<Rightarrow> 'v RPCRequest" where
  "NewRequest m params = \<lparr> rq_Method = m, rq_Params = Params params, rq_ID = 0, rq_JSONRPC = jsonrpcVersion \<rparr>"

definition NewRequestWithID :: "int \<Rightarrow> string \<Rightarrow> 'v any list \<Rightarrow> 'v RPCRequest" where
  "NewRequestWithID i m params = \<lparr> rq_Method = m, rq_Params = Params params, rq_ID = i, rq_JSONRPC = jsonrpcVersion \<rparr>"

text \<open>A decoded JSON value; the decoder keeps numbers as their text.\<close>

datatype json = JNull | JNumber string | JBool bool | JString string | JArray "json list" | JObject "(string \<times> json) list"

record RPCError =
  re_Code :: int
  re_Message :: string
  re_Data :: json

record RPCResponse =
  rp_JSONRPC :: string
  rp_Result :: json
  rp_Error :: "RPCError option"
  rp_ID :: int

definition RPCError_Error :: "RPCError \<Rightarrow> string" where
  "RPCError_Error e = itoa (re_Code e) @ '': '' @ re_Message e"

text \<open>The errors of a call: one of another package, an HTTP status with its message, an error of the remote side.\<close>

datatype rpc_error = OtherError go_error | HTTPError int go_error | RemoteError RPCError

fun rpc_error_text :: "rpc_error \<Rightarrow> string" where
  "rpc_error_text (OtherError e) = error_text e"
| "rpc_error_text (HTTPError c e) = error_text e"
| "rpc_error_text (RemoteError e) = RPCError_Error e"

type_synonym RPCResponses = "RPCResponse option list"

definition nil_deref :: "'a res" where
  "nil_deref = Panic (Msg ''runtime error: invalid memory address or nil pointer dereference'')"

fun AsMap_loop :: "RPCResponses \<Rightarrow> (int \<rightharpoonup> RPCResponse) \<Rightarrow> (int \<rightharpoonup> RPCResponse) res" where
  "AsMap_loop [] m = Ret m"
| "AsMap_loop (None # rs) m = nil_deref"
| "AsMap_loop (Some r # rs) m = AsMap_loop rs (m(rp_ID r \<mapsto> r))"

definition AsMap :: "RPCResponses \<Rightarrow> (int \<rightharpoonup> RPCResponse) res" where
  "AsMap rs = AsMap_loop rs Map.empty"

fun GetByID :: "RPCResponses \<Rightarrow> int \<Rightarrow> RPCResponse option res" where
  "GetByID [] i = Ret None"
| "GetByID (None # rs) i = nil_deref"
| "GetByID (Some r # rs) i = (if rp_ID r = i then Ret (Some r) else GetByID rs i)"

fun HasError :: "RPCResponses \<Rightarrow> bool res" where
  "HasError [] = Ret False"
| "HasError (None # rs) = nil_deref"
| "HasError (Some r # rs) = (if rp_Error r \<noteq> None then Ret True else HasError rs)"

subsection \<open>The client\<close>

text \<open>
  A header name in its canonical form (\<^verbatim>\<open>textproto.CanonicalMIMEHeaderKey\<close>): the first letter and those
  after a hyphen in upper case, the others in lower case; a name with other characters than those of a
  token stays as it is. The custom headers are listed in the order in which the map is traversed.
\<close>

definition is_lower :: "char \<Rightarrow> bool" where
  "is_lower c \<longleftrightarrow> 97 \<le> (of_char c :: nat) \<and> (of_char c :: nat) \<le> 122"

definition is_upper :: "char \<Rightarrow> bool" where
  "is_upper c \<longleftrightarrow> 65 \<le> (of_char c :: nat) \<and> (of_char c :: nat) \<le> 90"

definition token_char :: "char \<Rightarrow> bool" where
  "token_char c \<longleftrightarrow> is_lower c \<or> is_upper c \<or> is_digit c \<or> List.member ''!#$%&*+-.^_|~'' c \<or> c = CHR 0x27 \<or> c = CHR 0x60"

fun canonical_chars :: "bool \<Rightarrow> string \<Rightarrow> string" where
  "canonical_chars up [] = []"
| "canonical_chars up (c # cs) =
     (if up \<and> is_lower c then char_of (of_char c - 32 :: nat) else if \<not> up \<and> is_upper c then char_of (of_char c + 32 :: nat) else c)
       # canonical_chars (c = CHR ''-'') cs"

definition canonical_key :: "string \<Rightarrow> string" where
  "canonical_key k = (if list_all token_char k then canonical_chars True k else k)"

record http_request =
  hr_URL :: string
  hr_Body :: bytes
  hr_Header :: "string \<rightharpoonup> string"
  hr_Host :: "string option"

record http_response =
  hs_StatusCode :: int
  hs_Body :: "bytes go"

datatype 'v rpc_body = Single "'v RPCRequest" | Batch "'v RPCRequest option list"

record ('v, 'h, 'w) rpc_lib =
  json_Marshal :: "'v rpc_body \<Rightarrow> bytes go"
  NewRequestWithContext :: "string \<Rightarrow> unit go"
  Redacted :: "string \<Rightarrow> string"
  http_Do :: "'h \<Rightarrow> http_request \<Rightarrow> 'w \<Rightarrow> http_response go \<times> 'w"
  Decode_response :: "bool \<Rightarrow> bytes \<Rightarrow> RPCResponse option go"
  Decode_responses :: "bool \<Rightarrow> bytes go \<Rightarrow> RPCResponses go"
  Marshal_value :: "json \<Rightarrow> bytes go"
  Sprint_value :: "json \<Rightarrow> string"

record 'h rpcClient =
  rc_endpoint :: string
  rc_httpClient :: 'h
  rc_customHeaders :: "(string \<times> string) list"
  rc_allowUnknownFields :: bool
  rc_defaultRequestID :: int
  rc_logEverything :: bool
  rc_hasLogger :: bool

record 'h RPCClientOpts =
  op_HTTPClient :: "'h option"
  op_CustomHeaders :: "(string \<times> string) list"
  op_AllowUnknownFields :: bool
  op_DefaultRequestID :: int
  op_hasLogger :: bool
  op_LogEverything :: bool

definition NewClientWithOpts :: "'h \<Rightarrow> string \<Rightarrow> 'h RPCClientOpts option \<Rightarrow> 'h rpcClient" where
  "NewClientWithOpts defaultHTTP endpoint opts =
     (let c0 = \<lparr> rc_endpoint = endpoint, rc_httpClient = defaultHTTP, rc_customHeaders = [], rc_allowUnknownFields = False,
            rc_defaultRequestID = 0, rc_logEverything = False, rc_hasLogger = False \<rparr>
      in case opts of None \<Rightarrow> c0
       | Some opt \<Rightarrow>
           (let c1 = (case op_HTTPClient opt of Some h \<Rightarrow> c0\<lparr>rc_httpClient := h\<rparr> | None \<Rightarrow> c0);
                c2 = c1\<lparr>rc_customHeaders := op_CustomHeaders opt\<rparr>;
                c3 = (if op_AllowUnknownFields opt then c2\<lparr>rc_allowUnknownFields := True\<rparr> else c2);
                c4 = (if op_LogEverything opt then c3\<lparr>rc_logEverything := True\<rparr> else c3);
                c5 = (if op_hasLogger opt then c4\<lparr>rc_hasLogger := True\<rparr> else c4)
            in c5\<lparr>rc_defaultRequestID := op_DefaultRequestID opt\<rparr>))"

definition NewClient :: "'h \<Rightarrow> string \<Rightarrow> 'h rpcClient" where
  "NewClient defaultHTTP endpoint = NewClientWithOpts defaultHTTP endpoint None"

fun custom_headers :: "(string \<times> string) list \<Rightarrow> http_request \<Rightarrow> http_request" where
  "custom_headers [] r = r"
| "custom_headers ((k, v) # hs) r = custom_headers hs
     (if k = ''Host'' then r\<lparr>hr_Host := Some v\<rparr> else r\<lparr>hr_Header := (hr_Header r)(canonical_key k \<mapsto> v)\<rparr>)"

definition newRequest :: "('v, 'h, 'w) rpc_lib \<Rightarrow> 'h rpcClient \<Rightarrow> 'v rpc_body \<Rightarrow> http_request go" where
  "newRequest lib client req =
     (case json_Marshal lib req of Inl err \<Rightarrow> Inl err
      | Inr body \<Rightarrow> (case NewRequestWithContext lib (rc_endpoint client) of Inl err \<Rightarrow> Inl err
          | Inr _ \<Rightarrow> Inr (custom_headers (rc_customHeaders client)
              \<lparr> hr_URL = rc_endpoint client, hr_Body = body,
                hr_Header = [''Content-Type'' \<mapsto> ''application/json'', ''Accept'' \<mapsto> ''application/json''], hr_Host = None \<rparr>)))"

definition status_error :: "int \<Rightarrow> go_error \<Rightarrow> rpc_error" where
  "status_error code err = (if code \<ge> 400 then HTTPError code err else OtherError err)"

definition status_text :: "string \<Rightarrow> int \<Rightarrow> string \<Rightarrow> string" where
  "status_text call code what = call @ '' status code: '' @ itoa code @ ''. '' @ what"

definition doCall ::
  "('v, 'h, 'w) rpc_lib \<Rightarrow> 'h rpcClient \<Rightarrow> 'v RPCRequest \<Rightarrow> 'w \<Rightarrow> (RPCResponse option \<times> rpc_error option) \<times> 'w" where
  "doCall lib client req w =
     (let on = (\<lambda>url. ''rpc call '' @ rq_Method req @ ''() on '' @ url) in
      case newRequest lib client (Single req) of
        Inl err \<Rightarrow> ((None, Some (OtherError (Wrap (on (rc_endpoint client)) err))), w)
      | Inr httpRequest \<Rightarrow>
          (let call = on (Redacted lib (hr_URL httpRequest)) in
           case http_Do lib (rc_httpClient client) httpRequest w of
             (Inl err, w1) \<Rightarrow> ((None, Some (OtherError (Wrap call err))), w1)
           | (Inr resp, w1) \<Rightarrow>
               (case hs_Body resp of
                  Inl err \<Rightarrow> ((None, Some (OtherError (Wrap call err))), w1)
                | Inr body \<Rightarrow>
                    (let code = hs_StatusCode resp in
                     case Decode_response lib (rc_allowUnknownFields client) (take (1024 * 1024 * 1024) body) of
                       Inl err \<Rightarrow> ((None, Some (status_error code (Wrap (status_text call code ''could not decode body to rpc response'') err))), w1)
                     | Inr None \<Rightarrow> ((None, Some (status_error code (Msg (status_text call code ''rpc response missing'')))), w1)
                     | Inr (Some rpcResponse) \<Rightarrow>
                         if code \<ge> 400 then
                           (case rp_Error rpcResponse of
                              Some e \<Rightarrow> ((Some rpcResponse, Some (HTTPError code (Msg (status_text call code (''rpc response error: '' @ RPCError_Error e))))), w1)
                            | None \<Rightarrow> ((Some rpcResponse, Some (HTTPError code (Msg (status_text call code ''no rpc error available'')))), w1))
                         else ((Some rpcResponse, None), w1)))))"

definition Call ::
  "('v, 'h, 'w) rpc_lib \<Rightarrow> 'h rpcClient \<Rightarrow> string \<Rightarrow> 'v any list \<Rightarrow> 'w \<Rightarrow> (RPCResponse option \<times> rpc_error option) \<times> 'w" where
  "Call lib client m params = doCall lib client
     \<lparr> rq_Method = m, rq_Params = Params params, rq_ID = rc_defaultRequestID client, rq_JSONRPC = jsonrpcVersion \<rparr>"

definition CallRaw ::
  "('v, 'h, 'w) rpc_lib \<Rightarrow> 'h rpcClient \<Rightarrow> 'v RPCRequest \<Rightarrow> 'w \<Rightarrow> (RPCResponse option \<times> rpc_error option) \<times> 'w" where
  "CallRaw lib client request = doCall lib client request"

definition GetObject :: "('v, 'h, 'w) rpc_lib \<Rightarrow> (bytes \<Rightarrow> 'o go) \<Rightarrow> RPCResponse \<Rightarrow> 'o go" where
  "GetObject lib unmarshal r = (case Marshal_value lib (rp_Result r) of Inl err \<Rightarrow> Inl err
     | Inr js \<Rightarrow> (case unmarshal js of Inl err \<Rightarrow> Inl err | Inr x \<Rightarrow> Inr x))"

definition CallFor ::
  "('v, 'h, 'w) rpc_lib \<Rightarrow> 'h rpcClient \<Rightarrow> (bytes \<Rightarrow> 'o go) \<Rightarrow> string \<Rightarrow> 'v any list \<Rightarrow> 'w \<Rightarrow> (rpc_error + 'o) res \<times> 'w" where
  "CallFor lib client unmarshal m params w =
     (case Call lib client m params w of
        ((_, Some err), w1) \<Rightarrow> (Ret (Inl err), w1)
      | ((None, None), w1) \<Rightarrow> (nil_deref, w1)
      | ((Some r, None), w1) \<Rightarrow> (case rp_Error r of Some e \<Rightarrow> (Ret (Inl (RemoteError e)), w1)
          | None \<Rightarrow> (case GetObject lib unmarshal r of Inl e \<Rightarrow> (Ret (Inl (OtherError e)), w1) | Inr x \<Rightarrow> (Ret (Inr x), w1))))"

subsection \<open>Batches\<close>

text \<open>A store of requests; address nil is outside it. A nil request in a batch is marshalled as null.\<close>

type_synonym 'v store = "nat \<rightharpoonup> 'v RPCRequest"

definition doBatchCall ::
  "('v, 'h, 'w) rpc_lib \<Rightarrow> 'h rpcClient \<Rightarrow> 'v RPCRequest option list \<Rightarrow> 'w \<Rightarrow> (RPCResponses \<times> rpc_error option) \<times> 'w" where
  "doBatchCall lib client reqs w =
     (case newRequest lib client (Batch reqs) of
        Inl err \<Rightarrow> (([], Some (OtherError (Wrap (''rpc batch call on '' @ rc_endpoint client) err))), w)
      | Inr httpRequest \<Rightarrow>
          (let call = ''rpc batch call on '' @ Redacted lib (hr_URL httpRequest) in
           case http_Do lib (rc_httpClient client) httpRequest w of
             (Inl err, w1) \<Rightarrow> (([], Some (OtherError (Wrap call err))), w1)
           | (Inr resp, w1) \<Rightarrow>
               (let code = hs_StatusCode resp in
                case Decode_responses lib (rc_allowUnknownFields client) (hs_Body resp) of
                  Inl err \<Rightarrow> (([], Some (status_error code (Wrap (status_text call code ''could not decode body to rpc response'') err))), w1)
                | Inr rs \<Rightarrow>
                    if rs = [] then (([], Some (status_error code (Msg (status_text call code ''rpc response missing'')))), w1)
                    else if code \<ge> 400 then ((rs, Some (HTTPError code (Msg (status_text call code
                      ''check rpc responses for potential rpc error'')))), w1)
                    else ((rs, None), w1))))"

fun number_requests :: "int \<Rightarrow> nat list \<Rightarrow> 'v store \<Rightarrow> 'v store res" where
  "number_requests i [] st = Ret st"
| "number_requests i (p # ps) st = (case st p of None \<Rightarrow> nil_deref
     | Some r \<Rightarrow> number_requests (i + 1) ps (st(p \<mapsto> r\<lparr>rq_ID := i, rq_JSONRPC := jsonrpcVersion\<rparr>)))"

definition empty_list_error :: rpc_error where
  "empty_list_error = OtherError (Msg ''empty request list'')"

definition CallBatch ::
  "('v, 'h, 'w) rpc_lib \<Rightarrow> 'h rpcClient \<Rightarrow> nat list \<Rightarrow> 'v store \<Rightarrow> 'w \<Rightarrow> (RPCResponses \<times> rpc_error option) res \<times> 'v store \<times> 'w" where
  "CallBatch lib client requests st w =
     (if requests = [] then (Ret ([], Some empty_list_error), st, w)
      else case number_requests 0 requests st of
             Panic e \<Rightarrow> (Panic e, st, w)
           | Ret st1 \<Rightarrow> (case doBatchCall lib client (map st1 requests) w of (r, w1) \<Rightarrow> (Ret r, st1, w1)))"

definition CallBatchRaw ::
  "('v, 'h, 'w) rpc_lib \<Rightarrow> 'h rpcClient \<Rightarrow> nat list \<Rightarrow> 'v store \<Rightarrow> 'w \<Rightarrow> (RPCResponses \<times> rpc_error option) \<times> 'w" where
  "CallBatchRaw lib client requests st w =
     (if requests = [] then (([], Some empty_list_error), w) else doBatchCall lib client (map st requests) w)"

subsection \<open>Results\<close>

definition parse_int64 :: "string \<Rightarrow> int go" where
  "parse_int64 s =
     (let neg = (s \<noteq> [] \<and> hd s = CHR ''-''); d = (if s \<noteq> [] \<and> (hd s = CHR ''-'' \<or> hd s = CHR ''+'') then tl s else s) in
      if d = [] \<or> \<not> list_all is_digit d then Inl (Msg (''strconv.ParseInt: parsing '' @ s @ '': invalid syntax''))
      else let v = (if neg then - int (digits_val d) else int (digits_val d)) in
        if int_range v then Inr v else Inl (Msg (''strconv.ParseInt: parsing '' @ s @ '': value out of range'')))"

definition GetInt :: "('v, 'h, 'w) rpc_lib \<Rightarrow> RPCResponse \<Rightarrow> int go" where
  "GetInt lib r = (case rp_Result r of JNumber s \<Rightarrow> (case parse_int64 s of Inl err \<Rightarrow> Inl err | Inr i \<Rightarrow> Inr i)
     | v \<Rightarrow> Inl (Msg (''could not parse int64 from '' @ Sprint_value lib v)))"

definition GetFloat :: "(string \<Rightarrow> float64 go) \<Rightarrow> ('v, 'h, 'w) rpc_lib \<Rightarrow> RPCResponse \<Rightarrow> float64 go" where
  "GetFloat parse_float lib r = (case rp_Result r of JNumber s \<Rightarrow> (case parse_float s of Inl err \<Rightarrow> Inl err | Inr f \<Rightarrow> Inr f)
     | v \<Rightarrow> Inl (Msg (''could not parse float64 from '' @ Sprint_value lib v)))"

definition GetBool :: "('v, 'h, 'w) rpc_lib \<Rightarrow> RPCResponse \<Rightarrow> bool go" where
  "GetBool lib r = (case rp_Result r of JBool b \<Rightarrow> Inr b | v \<Rightarrow> Inl (Msg (''could not parse bool from '' @ Sprint_value lib v)))"

definition GetString :: "('v, 'h, 'w) rpc_lib \<Rightarrow> RPCResponse \<Rightarrow> string go" where
  "GetString lib r = (case rp_Result r of JString s \<Rightarrow> Inr s | v \<Rightarrow> Inl (Msg (''could not parse string from '' @ Sprint_value lib v)))"

subsection \<open>Properties of the client\<close>

text \<open>A request never carries a bare primitive value: the parameters are omitted exactly when there are none; a
  single value is sent as it is exactly when it is, behind any pointers, a struct, array, slice, interface or
  map; everything else is sent as the list of the parameters.\<close>

theorem params_shape:
  "(Params ps = NoParams \<longleftrightarrow> ps = []) \<and>
   (Params ps = Direct p \<longleftrightarrow> (\<exists>t v. ps = [p] \<and> p = Val t v \<and> elem_kind t \<noteq> OtherKind)) \<and>
   (Params ps = Wrapped qs \<longleftrightarrow> qs = ps \<and> ps \<noteq> [] \<and> (\<nexists>t v. ps = [Val t v] \<and> elem_kind t \<noteq> OtherKind))"
  by (auto simp: Params_def split: list.splits any.splits go_kind.splits)

lemma AsMap_loop_ok:
  "AsMap_loop (map Some rs) m = Ret (m ++ map_of (rev (map (\<lambda>r. (rp_ID r, r)) rs)))"
  by (induction rs arbitrary: m) (auto simp: map_add_def fun_eq_iff split: option.split)

lemma GetByID_ok: "GetByID (map Some rs) i = Ret (map_of (map (\<lambda>r. (rp_ID r, r)) rs) i)"
  by (induction rs) auto

text \<open>The two ways to find a response of a batch agree: when no two responses share an id, the map from ids has
  for every id the response that the search returns. (With a repeated id the search finds the first and the
  map holds the last.)\<close>

theorem response_lookup_equivalent:
  assumes "distinct (map rp_ID rs)"
  shows "\<exists>m. AsMap (map Some rs) = Ret m \<and> (\<forall>i. GetByID (map Some rs) i = Ret (m i))"
  using assms map_of_rev_distinct [of "map (\<lambda>r. (rp_ID r, r)) rs"]
  by (simp add: AsMap_def AsMap_loop_ok GetByID_ok comp_def)

definition numbered :: "int \<Rightarrow> 'v RPCRequest \<Rightarrow> 'v RPCRequest" where
  "numbered i r = r\<lparr>rq_ID := i, rq_JSONRPC := jsonrpcVersion\<rparr>"

lemma number_requests_ok:
  assumes "distinct ps" and "\<forall>p \<in> set ps. st p \<noteq> None"
  shows "\<exists>st'. number_requests k ps st = Ret st' \<and> (\<forall>j < length ps. st' (ps ! j) = Some (numbered (k + int j) (the (st (ps ! j))))) \<and>
    (\<forall>p. p \<notin> set ps \<longrightarrow> st' p = st p)"
  using assms
proof (induction ps arbitrary: k st)
  case (Cons p ps)
  then obtain r where r: "st p = Some r" by auto
  let ?st = "st(p \<mapsto> r\<lparr>rq_ID := k, rq_JSONRPC := jsonrpcVersion\<rparr>)"
  have others: "?st q = st q" if "q \<in> set ps" for q using that Cons.prems(1) by auto
  have "distinct ps" and "\<forall>q \<in> set ps. ?st q \<noteq> None" using Cons.prems by auto
  from Cons.IH [OF this, of "k + 1"] obtain st' where st': "number_requests (k + 1) ps ?st = Ret st'"
      "\<forall>j < length ps. st' (ps ! j) = Some (numbered (k + 1 + int j) (the (?st (ps ! j))))" "\<forall>q. q \<notin> set ps \<longrightarrow> st' q = ?st q"
    by blast
  have "st' ((p # ps) ! j) = Some (numbered (k + int j) (the (st ((p # ps) ! j))))" if "j < length (p # ps)" for j
  proof (cases j)
    case 0
    then show ?thesis using st'(3) Cons.prems(1) r by (simp add: numbered_def)
  next
    case (Suc i)
    then show ?thesis using st'(2) others [of "ps ! i"] that by (simp add: algebra_simps)
  qed
  with st'(1,3) r show ?case by auto
qed simp

text \<open>
  A server that answers a batch: it takes every batch numbered from zero, replies with a good status, and answers each request of the batch once, under the id of the request, in any order.
\<close>

definition batch_server :: "('v, 'h, 'w) rpc_lib \<Rightarrow> 'h rpcClient \<Rightarrow> ('v RPCRequest \<Rightarrow> RPCResponse) \<Rightarrow> bool" where
  "batch_server lib client answer \<longleftrightarrow> (\<forall>r. rp_ID (answer r) = rq_ID r) \<and>
     (\<forall>reqs w. map rq_ID reqs = map int [0..<length reqs] \<longrightarrow> (\<exists>http resp rs w'. newRequest lib client (Batch (map Some reqs)) = Inr http \<and>
        http_Do lib (rc_httpClient client) http w = (Inr resp, w') \<and> hs_StatusCode resp < 400 \<and>
        Decode_responses lib (rc_allowUnknownFields client) (hs_Body resp) = Inr (map Some rs) \<and> mset rs = mset (map answer reqs)))"

lemma doBatchCall_server:
  assumes "batch_server lib client answer" and "reqs \<noteq> []" and "map rq_ID reqs = map int [0..<length reqs]"
  shows "\<exists>rs w'. doBatchCall lib client (map Some reqs) w = ((map Some rs, None), w') \<and> mset rs = mset (map answer reqs)"
proof -
  obtain http resp rs w' where b: "newRequest lib client (Batch (map Some reqs)) = Inr http"
      "http_Do lib (rc_httpClient client) http w = (Inr resp, w')" "hs_StatusCode resp < 400"
      "Decode_responses lib (rc_allowUnknownFields client) (hs_Body resp) = Inr (map Some rs)" "mset rs = mset (map answer reqs)"
    using assms(1,3) unfolding batch_server_def by blast
  from b(5) assms(2) have "rs \<noteq> []" by auto
  with b show ?thesis by (simp add: doBatchCall_def)
qed

text \<open>C23: Every request of a batch finds its own answer: the requests are numbered from zero in the order of the
  list, whatever ids they had, and looking up a position in the responses gives the answer to the request at
  that position, in whatever order the server replied; the requests must be different objects.\<close>

theorem batch_answers_found:
  assumes "batch_server lib client answer" and "distinct ps" and "\<forall>p \<in> set ps. st p \<noteq> None" and "i < length ps" and "st (ps ! i) = Some r"
  shows "\<exists>rs st1 w1. CallBatch lib client ps st w = (Ret (rs, None), st1, w1) \<and>
    GetByID rs (int i) = Ret (Some (answer (numbered (int i) r)))"
proof -
  from number_requests_ok [OF assms(2,3), of 0] obtain st1 where st1: "number_requests 0 ps st = Ret st1"
      "\<forall>j < length ps. st1 (ps ! j) = Some (numbered (int j) (the (st (ps ! j))))" by auto
  define reqs where "reqs = map (\<lambda>j. numbered (int j) (the (st (ps ! j)))) [0..<length ps]"
  have reqs: "map st1 ps = map Some reqs"
    using st1(2) by (intro nth_equalityI) (simp_all add: reqs_def)
  have "ps \<noteq> []" "reqs \<noteq> []" "map rq_ID reqs = map int [0..<length reqs]"
    using assms(4) by (auto simp: reqs_def numbered_def)
  then obtain rs w1 where rs: "doBatchCall lib client (map Some reqs) w = ((map Some rs, None), w1)" "mset rs = mset (map answer reqs)"
    using doBatchCall_server [OF assms(1)] by blast
  have ids: "map (\<lambda>q. rp_ID (answer q)) reqs = map int [0..<length ps]"
    using assms(1) by (simp add: batch_server_def reqs_def numbered_def)
  have "mset (map rp_ID rs) = mset (map int [0..<length ps])"
    using rs(2) ids [unfolded comp_def] by (metis (no_types, lifting) map_map comp_def map_eq_conv mset_map)
  then have dist: "distinct (map rp_ID rs)"
    using mset_eq_imp_distinct_iff by (metis distinct_map distinct_upt inj_on_of_nat)
  have "answer (numbered (int i) r) \<in> set (map answer reqs)"
    using assms(4,5) by (force simp: reqs_def)
  then have mem: "answer (numbered (int i) r) \<in> set rs" using mset_eq_setD [OF rs(2)] by simp
  have "rp_ID (answer (numbered (int i) r)) = int i" using assms(1) by (simp add: batch_server_def numbered_def)
  with mem have "(int i, answer (numbered (int i) r)) \<in> set (map (\<lambda>r. (rp_ID r, r)) rs)" by force
  then have "map_of (map (\<lambda>r. (rp_ID r, r)) rs) (int i) = Some (answer (numbered (int i) r))"
    using dist by (intro map_of_is_SomeI) (simp_all add: comp_def)
  with rs(1) st1(1) reqs \<open>ps \<noteq> []\<close> show ?thesis by (simp add: CallBatch_def GetByID_ok)
qed

text \<open>A bad status never passes for success: when the server replied, the call reports the HTTP status exactly when
  it is 400 or above, it returns the decoded response also then, and it reports no error exactly when the
  status is below 400 and a response was decoded.\<close>

theorem call_reports_status:
  assumes "newRequest lib client (Single req) = Inr http" and "http_Do lib (rc_httpClient client) http w = (Inr resp, w1)"
    and "hs_Body resp = Inr body"
  shows "\<exists>e. doCall lib client req w =
      ((case Decode_response lib (rc_allowUnknownFields client) (take (1024 * 1024 * 1024) body) of Inl _ \<Rightarrow> None | Inr r \<Rightarrow> r, e), w1) \<and>
    ((\<exists>err. e = Some (HTTPError (hs_StatusCode resp) err)) \<longleftrightarrow> 400 \<le> hs_StatusCode resp) \<and>
    (e = None \<longleftrightarrow> hs_StatusCode resp < 400 \<and>
      (\<exists>r. Decode_response lib (rc_allowUnknownFields client) (take (1024 * 1024 * 1024) body) = Inr (Some r)))"
  using assms by (auto simp: doCall_def status_error_def Let_def split: sum.split option.split)

lemma Call_response: "Call lib client m ps w = ((r, e), w') \<Longrightarrow> r \<noteq> None \<or> e \<noteq> None"
  by (auto simp: Call_def doCall_def Let_def split: sum.splits option.splits prod.splits if_splits)

text \<open>\<^verbatim>\<open>CallFor\<close> always returns: it never reads a response that is missing.\<close>

theorem call_for_returns: "\<exists>x. fst (CallFor lib client unmarshal m ps w) = Ret x"
  using Call_response [of lib client m ps w]
  by (auto simp: CallFor_def split: prod.split option.split sum.split)

subsection \<open>A worked instance\<close>

text \<open>A server that answers with the id of each request, in reverse order.\<close>

definition echo_response :: "int \<Rightarrow> RPCResponse" where
  "echo_response i = \<lparr> rp_JSONRPC = jsonrpcVersion, rp_Result = JNumber (itoa i), rp_Error = None, rp_ID = i \<rparr>"

definition echo_lib :: "(nat, unit, nat) rpc_lib" where
  "echo_lib = \<lparr> json_Marshal = (\<lambda>b. case b of Single r \<Rightarrow> Inr [word_of_int (rq_ID r)] | Batch rs \<Rightarrow> Inr (replicate (length rs) 1)),
     NewRequestWithContext = (\<lambda>_. Inr ()), Redacted = id,
     http_Do = (\<lambda>_ r w. (Inr \<lparr> hs_StatusCode = (if hr_Body r = [9] then 503 else 200), hs_Body = Inr (hr_Body r) \<rparr>, w + 1)),
     Decode_response = (\<lambda>_ bs. Inr (case bs of b # _ \<Rightarrow> Some (echo_response (uint b)) | [] \<Rightarrow> None)),
     Decode_responses = (\<lambda>_ r. case r of Inl e \<Rightarrow> Inl e | Inr bs \<Rightarrow> Inr (map (\<lambda>i. Some (echo_response (int i))) (rev [0..<length bs]))),
     Marshal_value = (\<lambda>_. Inr []), Sprint_value = (\<lambda>_. []) \<rparr>"

definition echo_client :: "unit rpcClient" where
  "echo_client = NewClient () ''http://127.0.0.1:8545''"

lemma echo_newRequest: "newRequest echo_lib echo_client b = Inr \<lparr> hr_URL = ''http://127.0.0.1:8545'',
    hr_Body = (case b of Single r \<Rightarrow> [word_of_int (rq_ID r)] | Batch rs \<Rightarrow> replicate (length rs) 1),
    hr_Header = [''Content-Type'' \<mapsto> ''application/json'', ''Accept'' \<mapsto> ''application/json''], hr_Host = None \<rparr>"
  by (cases b) (simp_all add: newRequest_def echo_lib_def echo_client_def NewClient_def NewClientWithOpts_def)

lemma echo_batch_server: "batch_server echo_lib echo_client (\<lambda>r. echo_response (rq_ID r))"
proof -
  have "mset (map (\<lambda>i. echo_response (int i)) (rev [0..<length reqs])) = mset (map (\<lambda>r. echo_response (rq_ID r)) reqs)"
    if "map rq_ID reqs = map int [0..<length reqs]" for reqs :: "nat RPCRequest list"
  proof -
    have "map (\<lambda>r. echo_response (rq_ID r)) reqs = map echo_response (map rq_ID reqs)" by simp
    also have "\<dots> = map (\<lambda>i. echo_response (int i)) [0..<length reqs]" unfolding that by simp
    finally show ?thesis by (simp flip: rev_map)
  qed
  moreover have "replicate n (1 :: byte) \<noteq> [9]" for n by (cases n) auto
  ultimately show ?thesis
    unfolding batch_server_def echo_newRequest
    by (auto simp: echo_lib_def echo_response_def [of "rq_ID _"] comp_def intro!: exI [of _ "map (\<lambda>i. echo_response (int i)) (rev [0..<length _])"])
qed

theorem response_lookup_equivalent_witness:
  "\<exists>m. AsMap [Some (echo_response 1), Some (echo_response 0)] = Ret m \<and> GetByID [Some (echo_response 1), Some (echo_response 0)] 0 = Ret (m 0) \<and>
    m 0 = Some (echo_response 0)"
proof -
  obtain m where m: "AsMap (map Some [echo_response 1, echo_response 0]) = Ret m"
      "\<forall>i. GetByID (map Some [echo_response 1, echo_response 0]) i = Ret (m i)"
    using response_lookup_equivalent [of "[echo_response 1, echo_response 0]"] by (auto simp: echo_response_def)
  from m(2) [rule_format, of 0] have "m 0 = Some (echo_response 0)" by (simp add: echo_response_def)
  with m m(2) [rule_format, of 0] show ?thesis by auto
qed

theorem batch_answers_found_witness:
  "\<exists>rs st1 w1. CallBatch echo_lib echo_client [4, 2] [2 \<mapsto> NewRequest ''b'' [], 4 \<mapsto> NewRequest ''a'' []] 0 = (Ret (rs, None), st1, w1) \<and>
    GetByID rs 1 = Ret (Some (echo_response 1))"
  using batch_answers_found [OF echo_batch_server, of "[4, 2]" "[2 \<mapsto> NewRequest ''b'' [], 4 \<mapsto> NewRequest ''a'' []]" 1 "NewRequest ''b'' []" 0]
  by (simp add: numbered_def)

theorem call_reports_status_witness:
  "\<exists>err. doCall echo_lib echo_client (NewRequestWithID 9 ''m'' []) 0 = ((Some (echo_response 9), Some (HTTPError 503 err)), 1)"
  using call_reports_status [OF echo_newRequest, of "NewRequestWithID 9 ''m'' []" 0 "\<lparr> hs_StatusCode = 503, hs_Body = Inr [9] \<rparr>" 1 "[9]"]
  by (auto simp: echo_lib_def NewRequestWithID_def)

end
