(* ===== verification/Pace.thy ===== *)
theory Pace
  imports Go_Float
begin

text \<open>
  The reporter of rates, \<^verbatim>\<open>NewPaceReporter\<close> of \<^verbatim>\<open>helpers.go\<close>: a closure with two variables that turns the
  counts of the pace library into log lines. Durations and times are nanoseconds (Go integers); the
  clock is an argument of every call. A line is what is printed and its arguments; formatting a float
  with three places and a duration are the log's.
\<close>

datatype pace_line =
    Stalled string int
  | PerUnit string float64 string int
  | PerSecond float64 string int float64

record pace_state =
  pc_previous :: float64
  pc_stalled :: "int option"

definition pace_start :: pace_state where
  "pace_start = \<lparr> pc_previous = fzero, pc_stalled = None \<rparr>"

definition Millisecond :: int where "Millisecond = 1000000"
definition Second :: int where "Second = 1000 * Millisecond"
definition Minute :: int where "Minute = 60 * Second"
definition Hour :: int where "Hour = 60 * Minute"

text \<open>The conversion \<^verbatim>\<open>float64(timeframe)\<close> and the division of integers, truncated towards zero.\<close>

definition f64_of_int :: "int \<Rightarrow> float64" where
  "f64_of_int i = fround (of_int i)"

definition int_quot :: "int \<Rightarrow> int \<Rightarrow> int" where
  "int_quot a b = (if (a < 0) = (b < 0) then \<bar>a\<bar> div \<bar>b\<bar> else - (\<bar>a\<bar> div \<bar>b\<bar>))"

definition stall_duration :: "int \<Rightarrow> int \<Rightarrow> int res" where
  "stall_duration elapsed timeframe =
     (if timeframe = 0 then Panic (Msg ''runtime error: integer divide by zero'')
      else let n = wrap_int (int_quot elapsed timeframe) in
        Ret (if wrap_int (elapsed - wrap_int (n * timeframe)) < 10 * Millisecond then wrap_int (n * timeframe) else elapsed))"

definition report_line :: "string \<Rightarrow> int \<Rightarrow> float64 \<Rightarrow> pace_line" where
  "report_line label timeframe value =
     (if timeframe = Second then PerUnit label value ''s'' timeframe
      else if timeframe = Minute then PerUnit label value ''m'' timeframe
      else if timeframe = Hour then PerUnit label value ''h'' timeframe
      else if timeframe = 24 * Hour then PerUnit label value ''day'' timeframe
      else PerSecond value label timeframe (fdiv value (fdiv (f64_of_int timeframe) (f64_of_int Second))))"

definition pace_report :: "int \<Rightarrow> string \<Rightarrow> int \<Rightarrow> float64 \<Rightarrow> pace_state \<Rightarrow> (pace_line option \<times> pace_state) res" where
  "pace_report now label timeframe value s =
     (if feq value fzero \<and> feq (pc_previous s) fzero then Ret (None, s)
      else if feq value fzero \<and> \<not> feq (pc_previous s) fzero then
        (case pc_stalled s of
           Some since \<Rightarrow> res_bind (stall_duration (now - since) timeframe) (\<lambda>dur. Ret (Some (Stalled label dur), s))
         | None \<Rightarrow> Ret (Some (Stalled label timeframe), s\<lparr>pc_stalled := Some (now - timeframe)\<rparr>))
      else Ret (Some (report_line label timeframe value), \<lparr> pc_previous = value, pc_stalled = None \<rparr>))"

subsection \<open>Stalls\<close>

lemma stall_duration_bounds:
  assumes "0 < timeframe" and "0 \<le> elapsed" and "elapsed < 2 ^ 63" and "timeframe < 2 ^ 63"
  shows "\<exists>d. stall_duration elapsed timeframe = Ret d \<and> elapsed - 10 * Millisecond < d \<and> d \<le> elapsed \<and>
    (elapsed mod timeframe < 10 * Millisecond \<longrightarrow> timeframe dvd d)"
proof -
  let ?n = "elapsed div timeframe"
  have mult: "?n * timeframe = elapsed - elapsed mod timeframe" by (simp add: minus_mod_eq_div_mult)
  have m: "0 \<le> elapsed mod timeframe" "elapsed mod timeframe \<le> elapsed"
    using assms by (simp_all add: zmod_le_nonneg_dividend)
  have n: "0 \<le> ?n" "?n \<le> elapsed" using assms by (simp_all add: pos_imp_zdiv_nonneg_iff) (metis assms(1,2) div_by_1 int_one_le_iff_zero_less zdiv_mono2 zero_less_one)
  have q: "int_quot elapsed timeframe = ?n" using assms(1,2) by (simp add: int_quot_def)
  have "int_range ?n" "int_range (?n * timeframe)" "int_range (elapsed - ?n * timeframe)"
    unfolding int_range_def mult using assms(3) m n by linarith+
  then have "wrap_int ?n = ?n" "wrap_int (?n * timeframe) = ?n * timeframe" "wrap_int (elapsed - ?n * timeframe) = elapsed mod timeframe"
    by (simp_all add: mult)
  then show ?thesis using assms(1) m by (auto simp: stall_duration_def q Let_def Millisecond_def mult)
qed

text \<open>A run of reports: each at a time, with a value.\<close>

fun pace_run :: "string \<Rightarrow> int \<Rightarrow> (int \<times> float64) list \<Rightarrow> pace_state \<Rightarrow> pace_line option list res" where
  "pace_run label timeframe [] s = Ret []"
| "pace_run label timeframe ((now, v) # rs) s =
     res_bind (pace_report now label timeframe v s) (\<lambda>(l, s'). res_bind (pace_run label timeframe rs s') (\<lambda>ls. Ret (l # ls)))"

lemma pace_quiet: "\<forall>(t, v) \<in> set rs. feq v fzero \<Longrightarrow> pace_run label timeframe rs pace_start = Ret (replicate (length rs) None)"
  by (induction rs) (auto simp: pace_report_def pace_start_def feq_def)

lemma pace_stall_run:
  assumes "\<forall>(t, v) \<in> set rs. feq v fzero \<and> since \<le> t \<and> t - since < 2 ^ 63" and "0 < timeframe" and "timeframe < 2 ^ 63"
    and "\<not> feq (pc_previous s) fzero" and "pc_stalled s = Some since"
  shows "\<exists>ds. pace_run label timeframe rs s = Ret (map (\<lambda>d. Some (Stalled label d)) ds) \<and>
    list_all2 (\<lambda>(t, v) d. t - since - 10 * Millisecond < d \<and> d \<le> t - since) rs ds"
  using assms
proof (induction rs)
  case (Cons r rs)
  obtain t v where r: "r = (t, v)" by (cases r)
  with Cons.prems obtain d where d: "stall_duration (t - since) timeframe = Ret d" "t - since - 10 * Millisecond < d" "d \<le> t - since"
    using stall_duration_bounds [of timeframe "t - since"] by auto
  from Cons obtain ds where "pace_run label timeframe rs s = Ret (map (\<lambda>d. Some (Stalled label d)) ds)"
      "list_all2 (\<lambda>(t, v) d. t - since - 10 * Millisecond < d \<and> d \<le> t - since) rs ds" by auto
  with Cons.prems r d show ?case by (intro exI [of _ "d # ds"]) (simp add: pace_report_def)
qed simp

text \<open>The reporter tells how long a stall lasts: after a frame with a rate, the first empty frame is reported as a
  stall of one frame, and every later one with the time since that frame began, less than ten milliseconds
  short of it and never above it.\<close>

theorem pace_reports_stalls:
  assumes "0 < timeframe" and "timeframe < 2 ^ 63" and "\<not> feq v fzero" and "feq z fzero"
    and "\<forall>(t, u) \<in> set rs. feq u fzero \<and> t1 - timeframe \<le> t \<and> t - (t1 - timeframe) < 2 ^ 63"
  shows "\<exists>ds. pace_run label timeframe ((t0, v) # (t1, z) # rs) pace_start =
      Ret (Some (report_line label timeframe v) # Some (Stalled label timeframe) # map (\<lambda>d. Some (Stalled label d)) ds) \<and>
    list_all2 (\<lambda>(t, u) d. t - (t1 - timeframe) - 10 * Millisecond < d \<and> d \<le> t - (t1 - timeframe)) rs ds"
  using pace_stall_run [of rs "t1 - timeframe" timeframe "\<lparr> pc_previous = v, pc_stalled = Some (t1 - timeframe) \<rparr>" label] assms
  by (auto simp: pace_report_def)

theorem pace_reports_stalls_witness:
  "\<exists>ds. pace_run ''sent tx'' (10 * Second) [(0, Fin 3), (10 * Second, Fin 0), (20 * Second + 1, Fin 0)] pace_start =
      Ret (Some (report_line ''sent tx'' (10 * Second) (Fin 3)) # Some (Stalled ''sent tx'' (10 * Second)) # map (\<lambda>d. Some (Stalled ''sent tx'' d)) ds) \<and>
    list_all2 (\<lambda>(t, u) d. t - 10 * Millisecond < d \<and> d \<le> t) [(20 * Second + 1, Fin 0)] ds"
  using pace_reports_stalls [of "10 * Second" "Fin 3" "Fin 0" "[(20 * Second + 1, Fin 0)]" "10 * Second" "''sent tx''" 0]
  by (simp add: feq_def Second_def Millisecond_def)

end
