(* ===== verification/Spec2Isabelle.thy ===== *)
theory Spec2Isabelle
  imports Command_Line Evm_Run Replay_Run Generated_Files Keystore Bundler Binding_Base_Account Json_Rpc Eth_Client Pace
begin

text \<open>
  A verification development of chain-stresser, a Go program that generates test networks of an
  Injective chain and loads a chain with transactions.

  \<^bold>\<open>The program.\<close> \<^verbatim>\<open>cmd/chain-stresser/main.go\<close> has three kinds of commands. \<^verbatim>\<open>generate\<close> writes the files of
  a network (\<^verbatim>\<open>generator.go\<close> with \<^verbatim>\<open>chain/genesis.go\<close>, \<^verbatim>\<open>config_node.go\<close>, \<^verbatim>\<open>config_app.go\<close>, \<^verbatim>\<open>docker.go\<close>). The
  \<^verbatim>\<open>tx-...\<close> commands make a payload provider (\<^verbatim>\<open>payload/\<close>, for user operations with \<^verbatim>\<open>eth/aa/\<close>) and run
  \<^verbatim>\<open>Stress\<close> of \<^verbatim>\<open>stresser.go\<close>: the initial transactions are broadcast, workers fetch account sequences and
  generate transactions, signers sign them, a collector fills a matrix with one row per account, and then
  one goroutine per account broadcasts its row, through the rate limiter (\<^verbatim>\<open>pkg/ratelimit\<close>) and the chain
  client (\<^verbatim>\<open>chain/client.go\<close>). \<^verbatim>\<open>tx-replay\<close> downloads the blocks of another chain (\<^verbatim>\<open>replay/sniffer.go\<close>),
  optionally changes gas limits (\<^verbatim>\<open>replay/fuzzer.go\<close>) and broadcasts them (\<^verbatim>\<open>StressReplay\<close>).

  \<^bold>\<open>The theories\<close>, each with the part of the source it models.

  \<^item> \<open>Prelude\<close>: Go integers (\<open>wrap_int\<close>, words), errors as values (\<open>go_error\<close>, \<open>go\<close>), panics (\<open>res\<close>), the
  string functions of the standard library that the source calls, and the lemmas on them.
  \<^item> \<open>Go_Float\<close>: \<^verbatim>\<open>float64\<close> as rationals rounded to 53 bits, with infinities and NaN.
  \<^item> \<open>Rate_Limit\<close>: \<^verbatim>\<open>pkg/ratelimit\<close>. The interface \<^verbatim>\<open>Limiter\<close> is the locale \<open>limiter_iface\<close>, interpreted on the
  wrapper of the library's token bucket.
  \<^item> \<open>Chain_Types\<close>, \<open>Chain_Client\<close>: \<^verbatim>\<open>chain/types.go\<close>, \<^verbatim>\<open>init.go\<close>, \<^verbatim>\<open>key.go\<close>, \<^verbatim>\<open>client.go\<close>: building, signing,
  broadcasting with retries, waiting for inclusion, and reading the expected sequence from an error.
  \<^item> \<open>Payload_Base\<close>: \<^verbatim>\<open>payload/payload.go\<close>. The interfaces \<^verbatim>\<open>Tx\<close> and \<^verbatim>\<open>TxProvider\<close> are the locales \<open>tx_interface\<close>
  and \<open>tx_provider\<close>; every provider interprets the second.
  \<^item> \<open>Pipeline\<close>: the preparation of \<^verbatim>\<open>Stress\<close> as a step relation over all interleavings of its goroutines.
  \<^item> \<open>Stresser\<close>: initial transactions, the broadcast function, the account loops, and \<^verbatim>\<open>Stress\<close> as a whole; the
  locale \<open>plain_provider\<close> extends \<open>tx_provider\<close> for the providers that keep no state.
  \<^item> \<open>Stress_Run\<close>: whole runs of \<^verbatim>\<open>Stress\<close>, for any provider and with bank transfers; \<open>Evm_Run\<close>: runs with contract
  calls, whose initial transaction deploys the contract.
  \<^item> \<open>Fuzzer\<close>, \<open>Replay\<close>, \<open>Replay_Run\<close>: \<^verbatim>\<open>replay/fuzzer.go\<close>, \<^verbatim>\<open>replay/sniffer.go\<close>, \<^verbatim>\<open>payload/txns_replay_stress.go\<close> and
  \<^verbatim>\<open>StressReplay\<close>.
  \<^item> \<open>Payload_Native\<close>, \<open>Payload_Eth\<close>, \<open>Mixed_Payload\<close>: the providers of \<^verbatim>\<open>payload/\<close>.
  \<^item> \<open>User_Op\<close>, \<open>Light_Account\<close>, \<open>Bundler\<close>: \<^verbatim>\<open>eth/aa/\<close>: user operations, their packing, hashing and signing, the
  smart accounts, the entry point and the bundler client.
  \<^item> \<open>Contract_Abi\<close>, \<open>Contract_Binding\<close>, \<open>Event_Logs\<close>: what the generated bindings under \<^verbatim>\<open>eth/solidity\<close> share: interfaces
  with the types of their methods, bound contracts, sessions and raw methods, the conversion of results, the iterator
  over logs and the goroutine that forwards events. \<open>Binding_Counter\<close>, \<open>Binding_Benchmark\<close>, \<open>Binding_Entry_Point\<close>,
  \<open>Binding_Factory\<close>, \<open>Binding_Account\<close>, \<open>Binding_Base_Account\<close> have one definition per generated constructor, method, event and
  session; the structs and raw methods that the generator copies per contract are modelled once.
  \<^item> \<open>Keystore\<close>: new keys and the in-memory keyring of \<^verbatim>\<open>chain/key.go\<close>.
  \<^item> \<open>Node_Config\<close>, \<open>Genesis\<close>, \<open>Generator\<close>: the files of a node, the genesis document, the generator. The
  locale \<open>file_store\<close> has the laws of writing and reading files; \<open>Generated_Files\<close> follows the generator with
  them and says what its files hold at the end.
  \<^item> \<open>Json_Rpc\<close>, \<open>Eth_Client\<close>, \<open>Pace\<close>: \<^verbatim>\<open>eth/jsonrpc\<close>, \<^verbatim>\<open>eth/client\<close>, the reporter of \<^verbatim>\<open>helpers.go\<close>.
  \<^item> \<open>Command_Line\<close>: \<^verbatim>\<open>main.go\<close>.

  \<^bold>\<open>How the source is read.\<close> A struct is a record with the fields of the source (prefixed where two structs
  share a name), an operation is a function that returns the changed record; a function that returns an
  error has result type \<open>'a go\<close>, one that may also panic \<open>'a go res\<close>. Goroutines that interact are
  \<open>inductive\<close> step relations; a theorem about a reachable state holds for every schedule. Code outside the
  repository (the SDK, go-ethereum, CometBFT, the retry and rate libraries, the file system, the node) is
  a record of functions that the definitions take as an argument; what the program relies on is a named
  predicate on it (\<open>retries_until_succeeded\<close>, \<open>sdk_arith\<close>, \<open>abi_encodes_static\<close>, \<open>coins_additive\<close>,
  \<open>batch_server\<close>), and every theorem that assumes one has a witness with a concrete instance.

  \<^bold>\<open>What is shown.\<close>

  \<^item> Preparation and broadcast: the filled matrix holds, in row \<open>i\<close> and column \<open>j\<close>, the transaction signed
  for account \<open>i\<close> at its sequence plus \<open>j\<close>, under every interleaving; the preparation cannot get stuck
  and ends; over a chain that keeps account sequences every interleaving of the account loops delivers
  all of them. \<open>Stress_Run\<close> puts configuration, initial phase, preparation, client and rate limiter together:
  every run of \<^verbatim>\<open>Stress\<close> ends with all transactions on the chain, and there is one. \<open>Evm_Run\<close> does so for contract
  calls: the deployment is in a block before the first call is signed.
  \<^item> Client: a full mempool is retried until the node takes the transaction; rejections for a sequence carry
  the expected one, also through the text of the log; awaited success means inclusion; a signature is over
  the transaction it is in.
  \<^item> Rate limiter: an accepted transaction consumes exactly its tokens, oversized ones in pieces; waiting
  ends; errors name the metric.
  \<^item> Replay: the sniffer, its buffer and the provider refine a stream of consecutive blocks; a run over a
  finite range can always come to an end that has broadcast every transaction of the range in order; counters stay
  within bounds; fuzzed gas limits stay within the multipliers.
  \<^item> Payloads: transfers balance, calls reach the deployed contract, EVM signatures cover their content, the
  user operations of an account are numbered without gaps, the mixed provider follows its frequencies.
  \<^item> User operations: packing and printing lose nothing, the signed hash binds every field, signed operations
  are well formed, an account is deployed once. Accounts never panic on their contracts.
  \<^item> Bindings: every method passes arguments of the types its interface has and converts results of those
  types, and every event makes its struct; iterating over a query delivers its events in order and once, and a
  watching goroutine forwards them without a gap.
  \<^item> Generator: the network has distinct addresses and ports and complete peers, generation ends, the supply
  equals the balances, a saved genesis is final. Across the file system: the accounts file of an instance
  gives a stress command accounts that are funded in the genesis of every validator (in this theory).
  \<^item> JSON-RPC and Ethereum client: every request of a batch finds its answer, a bad status never passes for
  success, what is reported as sent was requested.
  \<^item> Commands: flags win over the YAML file and the file over defaults, field by field; the stresser starts
  with the requested accounts.

  \<^bold>\<open>Loops.\<close> Loops over lists are structural recursion. Retries and the wait for inclusion may run forever and
  are partial functions into \<open>option\<close>; the theorems give the value for a node that answers. The pieces of
  an oversized transaction are counted down by a measure, so waiting is a total function. The search for
  the last code of a contract is a partial function as well, with a theorem that it ends on a finite list
  of pages. No definition uses fuel.

  \<^bold>\<open>Not modelled.\<close> The templates, the parsing of flags, what is printed to logs, and the package comment of the
  rate limiter. go-ethereum's bind package, below the generated bindings, is the parameter \<open>bind_lib\<close>.
  Data races (the mixed provider's random source, the maps of the user operation provider) are outside
  the models of these providers, which are used one call at a time. Whole runs are shown for transfers and for contract
  calls; the rounding of the mixed frequencies against their sum is not bounded.
\<close>

subsection \<open>From the generator to a stress run\<close>

text \<open>Reading and parsing the file at a path gives back the keys that were marshalled into it.\<close>

definition reads_accounts :: "('b, 't) cmd_env \<Rightarrow> Genesis fs \<Rightarrow> string \<Rightarrow> bool" where
  "reads_accounts C fs path \<longleftrightarrow> (\<forall>keys. fs (clean_path path) = Some (AccountsFile keys) \<longrightarrow>
     (\<exists>raw. ce_readFile C path = Inr raw \<and> ce_unmarshalKeys C raw = Inr keys))"

lemma stress_RunE_accounts:
  assumes "stress_RunE C stress f cfg cmd = CmdDone (cfg', p)" and "reads_accounts C fs (cf_accountFile f)"
    and "fs (clean_path (cf_accountFile f)) = Some (AccountsFile keys)"
  shows "sc_Accounts cfg' = take (nat (cf_numOfAccounts f)) keys"
  using assms
  by (auto simp: stress_RunE_def reads_accounts_def run_stress_done readAccounts_ok split: prod.split_asm option.split_asm res.split_asm)

text \<open>C7: A stress command that is given the accounts file of a generated instance, by any spelling of its path,
  runs with the first accounts of that instance, and every one of them has its account and its initial
  balance in the genesis file that the generator left for each validator: whatever was written in
  between, no file was overwritten and no account forgotten.\<close>

theorem stress_accounts_funded:
  assumes "GenerateConfigs G fs0 = Ret s" and "sanitize_permutes (ge_gen G)"
    and "0 \<le> i" "i < gv_NumOfInstances (ge_env G)" and "0 \<le> v" "v < gv_NumOfValidators (ge_env G)"
    and "clean_path (cf_accountFile f) = clean_path (accounts_path G i)" and "reads_accounts C (gs_fs s) (cf_accountFile f)"
    and "stress_RunE C stress f cfg cmd = CmdDone (cfg', p)"
  shows "sc_Accounts cfg' = take (nat (cf_numOfAccounts f)) (instance_keys G i) \<and>
    (\<exists>doc. gs_fs s (clean_path (genesis_path G v)) = Some (GenesisFile doc) \<and>
      (\<forall>key \<in> set (sc_Accounts cfg'). funded (ge_gen G) (ge_keys G) initialBalanceAccount doc key))"
proof -
  have d: "delivered G {0..gv_NumOfInstances (ge_env G) - 1} {0..gv_NumOfValidators (ge_env G) - 1} s"
    by (rule generated_files [OF assms(1,2)])
  have iv: "i \<in> {0..gv_NumOfInstances (ge_env G) - 1}" "v \<in> {0..gv_NumOfValidators (ge_env G) - 1}"
    using assms(3-6) by simp_all
  have "gs_fs s (clean_path (cf_accountFile f)) = Some (AccountsFile (instance_keys G i))"
    using d iv(1) assms(7) by (simp add: delivered_def)
  from stress_RunE_accounts [OF assms(9,8) this] have "sc_Accounts cfg' = take (nat (cf_numOfAccounts f)) (instance_keys G i)" .
  moreover obtain doc where "gs_fs s (clean_path (genesis_path G v)) = Some (GenesisFile doc)"
      "\<forall>key \<in> set (instance_keys G i). funded (ge_gen G) (ge_keys G) initialBalanceAccount doc key"
    using d iv unfolding delivered_def by blast
  ultimately show ?thesis by (auto dest: in_set_takeD)
qed

text \<open>The example network, generated in the current directory, and a run with two of its accounts.\<close>

definition deploy_cmd :: "(bytes \<times> SignatureV2 option, bytes \<times> SignatureV2 option) cmd_env" where
  "deploy_cmd = example_cmd\<lparr>ce_unmarshalKeys := (\<lambda>_. Inr [[3, 0, 0], [3, 0, 1], [3, 0, 2]])\<rparr>"

definition deploy_flags :: cmd_flags where
  "deploy_flags = default_flags\<lparr>cf_numOfAccounts := 2, cf_accountFile := ''chain-stresser-deploy/instances/0/accounts.json''\<rparr>"

lemma deploy_run:
  "stress_RunE deploy_cmd (\<lambda>_ _. None) deploy_flags (default_StressConfig\<lparr>sc_MinGasPrice := ''7inj''\<rparr>) TxWasmStoreCode =
    CmdDone (default_StressConfig\<lparr>sc_MinGasPrice := ''7inj'', sc_Accounts := [[3, 0, 0], [3, 0, 1]]\<rparr>,
      Mixable (PWasmStore \<lparr> ws_minGasPrice = (''inj'', 7), ws_maxGasLimit = defaultMaxGasLimit, ws_memoAttach = [] \<rparr>))"
  by (simp add: stress_RunE_def readAccounts_def deploy_cmd_def deploy_flags_def example_cmd_def default_flags_def queries_chain_def
    run_stress_def example_mixed_env_def NewWasmStoreCodeProvider_def parse_coin_def example_sdk_def default_StressConfig_def numeral_2_eq_2)

lemma deploy_keys: "instance_keys (example_gen False 1) 0 = [[3, 0, 0], [3, 0, 1], [3, 0, 2]]"
  by (simp add: instance_keys_def example_gen_def upto_rec1)

lemma deploy_path: "clean_path (cf_accountFile deploy_flags) = clean_path (accounts_path (example_gen False 1) 0)"
  by (simp add: clean_path_iff deploy_flags_def accounts_path_def rootOutDir_def example_gen_def rooted_def) code_simp

theorem stress_accounts_funded_witness:
  "\<exists>s doc. GenerateConfigs (example_gen False 1) Map.empty = Ret s \<and>
    gs_fs s (clean_path (genesis_path (example_gen False 1) 1)) = Some (GenesisFile doc) \<and>
    funded example_genesis example_keys initialBalanceAccount doc [3, 0, 1]"
proof -
  obtain s where s: "GenerateConfigs (example_gen False 1) Map.empty = Ret s" using example_gen_generates by fastforce
  have perm: "sanitize_permutes (ge_gen (example_gen False 1))"
    by (simp add: sanitize_permutes_def example_gen_def example_genesis_def)
  have "delivered (example_gen False 1) {0..0} {0..1} s"
    using generated_files [OF s perm] by (simp add: example_gen_def)
  then have "reads_accounts deploy_cmd (gs_fs s) (cf_accountFile deploy_flags)"
    using deploy_keys by (simp add: reads_accounts_def deploy_path delivered_def deploy_cmd_def example_cmd_def)
  from stress_accounts_funded [OF s perm _ _ _ _ deploy_path this deploy_run, of 1]
  obtain doc where "gs_fs s (clean_path (genesis_path (example_gen False 1) 1)) = Some (GenesisFile doc)"
      "\<forall>key \<in> {[3, 0, 0], [3, 0, 1]}. funded (ge_gen (example_gen False 1)) (ge_keys (example_gen False 1)) initialBalanceAccount doc key"
    by (auto simp: example_gen_def)
  with s show ?thesis by (auto simp: example_gen_def)
qed

end
